(* ===== verification/Rust_Prelude.thy ===== *)
theory Rust_Prelude
  imports Main "HOL-Library.Word"
begin

text \<open>
  What the components share of Rust and of its standard library: the unsigned integer types as
  words, the result of a function that may return \<open>Ok\<close>, return \<open>Err\<close> or panic, the checked and
  saturating integer methods, \<open>slice::get\<close>, and the run of a list of calls over a state. The
  theory also declares the collections of rewrite rules the component theories fill.
\<close>

subsection \<open>Integers\<close>

type_synonym u8 = "8 word"
type_synonym u16 = "16 word"
type_synonym u32 = "32 word"
type_synonym u64 = "64 word"
type_synonym u128 = "128 word"

definition checked_add :: "'w::len word \<Rightarrow> 'w word \<Rightarrow> 'w word option" where
  "checked_add a b = (if unat a + unat b < 2 ^ LENGTH('w) then Some (a + b) else None)"

definition saturating_add :: "'w::len word \<Rightarrow> 'w word \<Rightarrow> 'w word" where
  "saturating_add a b = (if unat a + unat b < 2 ^ LENGTH('w) then a + b else - 1)"

definition saturating_mul :: "'w::len word \<Rightarrow> 'w word \<Rightarrow> 'w word" where
  "saturating_mul a b = (if unat a * unat b < 2 ^ LENGTH('w) then a * b else - 1)"

subsection \<open>Results and panics\<close>

text \<open>
  A call on a state returns \<open>Ok\<close>, returns \<open>Err\<close>, or panics; the state it leaves behind comes
  with the result.
\<close>

datatype ('e, 'a) outcome = Ok 'a | Err 'e | Panicked

primrec is_Ok :: "('e, 'a) outcome \<Rightarrow> bool" where
  "is_Ok (Ok a) = True"
| "is_Ok (Err e) = False"
| "is_Ok Panicked = False"

primrec is_Err :: "('e, 'a) outcome \<Rightarrow> bool" where
  "is_Err (Ok a) = False"
| "is_Err (Err e) = True"
| "is_Err Panicked = False"

type_synonym ('s, 'e, 'a) exec = "'s \<Rightarrow> ('e, 'a) outcome \<times> 's"

definition slice_get :: "'a list \<Rightarrow> nat \<Rightarrow> 'a option" where
  "slice_get xs i = (if i < length xs then Some (xs ! i) else None)"

subsection \<open>Runs\<close>

text \<open>A list of calls applied one after the other: the results, in order, and the last state.\<close>

primrec run_calls :: "('c \<Rightarrow> ('s, 'e, 'a) exec) \<Rightarrow> 'c list \<Rightarrow> 's \<Rightarrow> ('e, 'a) outcome list \<times> 's" where
  "run_calls step [] s = ([], s)"
| "run_calls step (c # cs) s =
     (let (r, s') = step c s; (rs, s'') = run_calls step cs s' in (r # rs, s''))"

subsection \<open>Collections\<close>

named_theorems exec_defs \<open>definitions of the operations of a component\<close>
named_theorems const_defs \<open>definitions of the constants of the runtime\<close>

subsection \<open>Lemmas\<close>

lemma slice_get_0 [simp]:
  "slice_get [] 0 = None"
  "slice_get (x # xs) 0 = Some x"
  by (simp_all add: slice_get_def)

lemma slice_get_None_iff: "slice_get xs i = None \<longleftrightarrow> length xs \<le> i"
  by (simp add: slice_get_def)

lemma slice_get_Some_iff: "slice_get xs i = Some x \<longleftrightarrow> i < length xs \<and> xs ! i = x"
  by (auto simp: slice_get_def)

lemma map_filter_append [simp]:
  "List.map_filter f (xs @ ys) = List.map_filter f xs @ List.map_filter f ys"
  by (simp add: List.map_filter_def)

lemma is_Ok_iff: "is_Ok r \<longleftrightarrow> (\<exists>a. r = Ok a)"
  by (cases r) auto

lemma unat_add_less:
  fixes a b :: "'w::len word"
  assumes "unat a + unat b < 2 ^ LENGTH('w)"
  shows "unat (a + b) = unat a + unat b"
  using assms by (simp add: unat_word_ariths)

lemma unat_mult_less:
  fixes a b :: "'w::len word"
  assumes "unat a * unat b < 2 ^ LENGTH('w)"
  shows "unat (a * b) = unat a * unat b"
  using assms by (simp add: unat_word_ariths)

lemma unat_le_max:
  fixes a :: "'w::len word"
  shows "unat a \<le> 2 ^ LENGTH('w) - 1"
proof -
  have "unat a < 2 ^ LENGTH('w)" by (rule unsigned_less)
  then show ?thesis by linarith
qed

lemma unat_ucast_up:
  assumes "LENGTH('a::len) \<le> LENGTH('b::len)"
  shows "unat (ucast (x :: 'a word) :: 'b word) = unat x"
proof -
  have "unat x < 2 ^ LENGTH('a)" by (rule unsigned_less)
  also have "(2::nat) ^ LENGTH('a) \<le> 2 ^ LENGTH('b)" using assms by simp
  finally show ?thesis by (simp add: unsigned_ucast_eq take_bit_nat_eq_self)
qed

lemma checked_add_SomeD:
  assumes "checked_add a b = Some c"
  shows "unat c = unat a + unat b"
  using assms by (auto simp: checked_add_def unat_add_less split: if_splits)

lemma checked_add_None_iff:
  fixes a b :: "'w::len word"
  shows "checked_add a b = None \<longleftrightarrow> 2 ^ LENGTH('w) \<le> unat a + unat b"
  by (auto simp: checked_add_def)

lemma unat_min: "unat (min a b) = min (unat a) (unat b)"
  by (simp add: min_def word_le_nat_alt)

lemma unat_minus_one_word: "unat (- 1 :: 'w::len word) = 2 ^ LENGTH('w) - 1"
  by (simp add: unsigned_minus_1_eq_mask mask_eq_exp_minus_1)

lemma unat_saturating_add:
  fixes a b :: "'w::len word"
  shows "unat (saturating_add a b) = min (unat a + unat b) (2 ^ LENGTH('w) - 1)"
  by (auto simp: saturating_add_def unat_add_less unat_minus_one_word min_def)

lemma unat_saturating_mul:
  fixes a b :: "'w::len word"
  shows "unat (saturating_mul a b) = min (unat a * unat b) (2 ^ LENGTH('w) - 1)"
proof (cases "unat a * unat b < 2 ^ LENGTH('w)")
  case True
  then have "unat a * unat b \<le> 2 ^ LENGTH('w) - 1" by linarith
  with True show ?thesis by (simp add: saturating_mul_def unat_mult_less)
next
  case False
  then have "2 ^ LENGTH('w) - 1 \<le> unat a * unat b" by linarith
  with False show ?thesis by (simp add: saturating_mul_def unat_minus_one_word)
qed

lemma run_calls_append:
  "run_calls step (cs @ ds) s =
     (let (rs, s') = run_calls step cs s; (qs, s'') = run_calls step ds s' in (rs @ qs, s''))"
  by (induction cs arbitrary: s) (auto simp: split_beta Let_def)

lemma run_calls_length [simp]: "length (fst (run_calls step cs s)) = length cs"
  by (induction cs arbitrary: s) (auto simp: split_beta Let_def)

lemma snd_run_calls_Cons [simp]:
  "snd (run_calls step (c # cs) s) = snd (run_calls step cs (snd (step c s)))"
  by (simp add: split_beta Let_def)

lemma fst_run_calls_Cons [simp]:
  "fst (run_calls step (c # cs) s) = fst (step c s) # fst (run_calls step cs (snd (step c s)))"
  by (simp add: split_beta Let_def)

declare run_calls.simps(2) [simp del]

text \<open>A predicate that every call keeps is kept by every run.\<close>

lemma run_calls_inv:
  assumes "\<And>c s. c \<in> set cs \<Longrightarrow> I s \<Longrightarrow> I (snd (step c s))" and "I s"
  shows "I (snd (run_calls step cs s))"
  using assms by (induction cs arbitrary: s) auto

text \<open>A relation to an abstract machine that every call keeps is kept by every run.\<close>

lemma run_calls_simulation:
  assumes "\<And>c s. view (snd (step c s)) = snd (astep c (view s))"
    and "\<And>c s. fst (step c s) = fst (astep c (view s))"
  shows "fst (run_calls step cs s) = fst (run_calls astep cs (view s))"
    and "view (snd (run_calls step cs s)) = snd (run_calls astep cs (view s))"
  using assms by (induction cs arbitrary: s) auto

text \<open>The results of those calls of a run that \<open>sel\<close> selects.\<close>

definition selected_results :: "('c \<Rightarrow> 'd option) \<Rightarrow> 'c list \<Rightarrow> 'r list \<Rightarrow> 'r list" where
  "selected_results sel cs rs = map snd (filter (\<lambda>(c, r). sel c \<noteq> None) (zip cs rs))"

lemma selected_results_simps [simp]:
  "selected_results sel [] rs = []"
  "selected_results sel (c # cs) (r # rs) = (if sel c = None then [] else [r]) @ selected_results sel cs rs"
  by (auto simp: selected_results_def)

lemma run_calls_map: "run_calls step (map f cs) s = run_calls (\<lambda>c. step (f c)) cs s"
  by (induction cs arbitrary: s) (simp_all add: prod_eq_iff)

text \<open>
  A component of a larger machine: \<open>sel\<close> selects the calls that are its own. A call of the larger
  machine may also make calls of the component inside of it. The trace of a run lists all calls of the
  component, marked whether they are calls of the run themselves; \<open>inner c s\<close> are those the call \<open>c\<close> makes in the state
  \<open>s\<close>, of which nothing remains if the call returns an error.
\<close>

primrec call_trace ::
  "('c \<Rightarrow> 'd option) \<Rightarrow> ('c \<Rightarrow> 's \<Rightarrow> 'd list) \<Rightarrow> ('c \<Rightarrow> 's \<Rightarrow> ('e, 'a) outcome \<times> 's) \<Rightarrow> 'c list \<Rightarrow> 's \<Rightarrow> (bool \<times> 'd) list" where
  "call_trace sel inner step [] s = []"
| "call_trace sel inner step (c # cs) s =
     (case sel c of
        Some d \<Rightarrow> [(True, d)]
      | None \<Rightarrow> if is_Err (fst (step c s)) then [] else map (Pair False) (inner c s)) @
     call_trace sel inner step cs (snd (step c s))"

text \<open>The results, in a run of the component on the trace, of the calls that are calls of the run.\<close>

definition direct_results :: "(bool \<times> 'd) list \<Rightarrow> 'r list \<Rightarrow> 'r list" where
  "direct_results tr rs = map snd (filter (\<lambda>((direct, _), _). direct) (zip tr rs))"

lemma direct_results_Nil [simp]: "direct_results [] rs = []"
  by (simp add: direct_results_def)

lemma direct_results_Cons [simp]:
  "direct_results ((b, d) # tr) (r # rs) = (if b then [r] else []) @ direct_results tr rs"
  by (simp add: direct_results_def)

lemma direct_results_inner:
  "length rs = length ds \<Longrightarrow> direct_results (map (Pair False) ds @ tr) (rs @ qs) = direct_results tr qs"
  by (induction rs ds rule: list_induct2) simp_all

text \<open>
  If the selected calls act on a view of the state as an abstract machine does and the others act on it by the calls
  inside of them only, then in every run the view and the results of the selected calls are those of the
  abstract machine run on the trace.
\<close>

lemma run_calls_trace:
  assumes other: "\<And>c s. c \<in> set cs \<Longrightarrow> sel c = None \<Longrightarrow>
      view (snd (step c s)) = snd (run_calls astep (if is_Err (fst (step c s)) then [] else inner c s) (view s))"
    and self: "\<And>c d s. c \<in> set cs \<Longrightarrow> sel c = Some d \<Longrightarrow> view (snd (step c s)) = snd (astep d (view s))"
      "\<And>c d s. c \<in> set cs \<Longrightarrow> sel c = Some d \<Longrightarrow> fst (step c s) = lift (fst (astep d (view s)))"
    and trace: "tr = call_trace sel inner step cs s"
    and own: "own = run_calls astep (map snd tr) (view s)"
  shows "view (snd (run_calls step cs s)) = snd own \<and>
    selected_results sel cs (fst (run_calls step cs s)) = map lift (direct_results tr (fst own))"
  unfolding own trace using other self
proof (induction cs arbitrary: s)
  case (Cons c cs)
  note IH = Cons.IH [of "snd (step c s)"]
  show ?case
  proof (cases "sel c")
    case (Some d)
    with Cons.prems IH show ?thesis by simp
  next
    case None
    let ?in = "if is_Err (fst (step c s)) then [] else inner c s"
    have step: "view (snd (step c s)) = snd (run_calls astep ?in (view s))"
      using Cons.prems(1) [of c s] None by simp
    have tr: "call_trace sel inner step (c # cs) s = map (Pair False) ?in @ call_trace sel inner step cs (snd (step c s))"
      using None by simp
    show ?thesis
      using IH Cons.prems None step unfolding tr
      by (simp add: run_calls_append split_beta Let_def direct_results_inner comp_def)
  qed
qed simp

text \<open>If no call makes calls of the component inside of it, the trace is the selection from the run.\<close>

lemma call_trace_direct: "call_trace sel (\<lambda>c s. []) step cs s = map (Pair True) (List.map_filter sel cs)"
  by (induction cs arbitrary: s) (auto simp: List.map_filter_def split: option.split)

lemma direct_results_all: "length rs = length ds \<Longrightarrow> direct_results (map (Pair True) ds) rs = rs"
  by (induction rs ds rule: list_induct2) simp_all

text \<open>The first answer in a list of functions that may have none, as the SDK evaluates its tuples.\<close>

fun first_some :: "('c \<Rightarrow> 'r option) \<Rightarrow> 'c list \<Rightarrow> 'r option" where
  "first_some f [] = None"
| "first_some f (c # cs) = (case f c of None \<Rightarrow> first_some f cs | Some r \<Rightarrow> Some r)"

lemma map_filterI: "x \<in> set xs \<Longrightarrow> f x = Some y \<Longrightarrow> y \<in> set (List.map_filter f xs)"
  by (force simp: List.map_filter_def)

end
