(* ===== verification/Weight_Interface.thy ===== *)
theory Weight_Interface
  imports Rust_Prelude
begin

text \<open>
  The types of the SDK the weight and fee code of the runtime is written over: \<open>Weight\<close>,
  \<open>RuntimeDbWeight\<close> and \<open>Perbill\<close>, again as records of functions with locales for their documented
  behaviour, and an instance in which a weight is a pair of numbers.
\<close>

subsection \<open>Interface\<close>

text \<open>The fields of \<open>RuntimeDbWeight\<close>, which the runtime's weight files fill in.\<close>

record db_weight =
  read_weight :: u64
  write_weight :: u64

record 'w weight_api =
  from_parts :: "u64 \<Rightarrow> u64 \<Rightarrow> 'w"
  ref_time :: "'w \<Rightarrow> u64"
  proof_size :: "'w \<Rightarrow> u64"
  weight_add :: "'w \<Rightarrow> 'w \<Rightarrow> 'w"
  weight_sub :: "'w \<Rightarrow> 'w \<Rightarrow> 'w"
  weight_saturating_add :: "'w \<Rightarrow> 'w \<Rightarrow> 'w"
  weight_saturating_div :: "'w \<Rightarrow> u64 \<Rightarrow> 'w"
  db_reads :: "db_weight \<Rightarrow> u64 \<Rightarrow> 'w"
  db_writes :: "db_weight \<Rightarrow> u64 \<Rightarrow> 'w"
  db_reads_writes :: "db_weight \<Rightarrow> u64 \<Rightarrow> u64 \<Rightarrow> 'w"
  WEIGHT_REF_TIME_PER_SECOND :: u64
  WEIGHT_REF_TIME_PER_MILLIS :: u64
  WEIGHT_REF_TIME_PER_MICROS :: u64
  WEIGHT_REF_TIME_PER_NANOS :: u64

text \<open>\<open>Perbill\<close>: parts of a billion; \<open>perbill_mul\<close> is its product with a weight.\<close>

record ('p, 'w) perbill_api =
  from_percent :: "u32 \<Rightarrow> 'p"
  from_rational :: "u128 \<Rightarrow> u128 \<Rightarrow> 'p"
  parts :: "'p \<Rightarrow> nat"
  perbill_mul :: "'p \<Rightarrow> 'w \<Rightarrow> 'w"

text \<open>
  Whether a number is \<open>p\<close> parts of a billion of another, rounded to a nearest integer.
\<close>

definition rounded_share :: "nat \<Rightarrow> nat \<Rightarrow> nat \<Rightarrow> bool" where
  "rounded_share p x y \<longleftrightarrow> 2 * 1000000000 * y \<le> 2 * (p * x) + 1000000000 \<and> 2 * (p * x) \<le> 2 * 1000000000 * y + 1000000000"

text \<open>
  The approximation of a fraction by parts of a billion: numerator and denominator are first divided by the least
  factor that brings the denominator down to a billion, and everything is rounded down.
\<close>

definition reduced_parts :: "nat \<Rightarrow> nat \<Rightarrow> nat" where
  "reduced_parts p q = (let f = max 1 ((q + 999999999) div 1000000000) in p div f * 1000000000 div (q div f))"

subsection \<open>Documented behaviour\<close>

locale weight_laws =
  fixes W :: "'w weight_api"
  assumes ref_time_from_parts [simp]: "ref_time W (from_parts W a b) = a"
    and proof_size_from_parts [simp]: "proof_size W (from_parts W a b) = b"
    and weight_eqI: "ref_time W x = ref_time W y \<Longrightarrow> proof_size W x = proof_size W y \<Longrightarrow> x = y"
    and ref_time_saturating_add [simp]: "ref_time W (weight_saturating_add W x y) = saturating_add (ref_time W x) (ref_time W y)"
    and proof_size_saturating_add [simp]: "proof_size W (weight_saturating_add W x y) = saturating_add (proof_size W x) (proof_size W y)"
    and ref_time_add: "unat (ref_time W x) + unat (ref_time W y) < 2 ^ 64 \<Longrightarrow> ref_time W (weight_add W x y) = ref_time W x + ref_time W y"
    and proof_size_add: "unat (proof_size W x) + unat (proof_size W y) < 2 ^ 64 \<Longrightarrow> proof_size W (weight_add W x y) = proof_size W x + proof_size W y"
    and ref_time_sub: "unat (ref_time W y) \<le> unat (ref_time W x) \<Longrightarrow> ref_time W (weight_sub W x y) = ref_time W x - ref_time W y"
    and proof_size_sub: "unat (proof_size W y) \<le> unat (proof_size W x) \<Longrightarrow> proof_size W (weight_sub W x y) = proof_size W x - proof_size W y"
    and ref_time_div: "d \<noteq> 0 \<Longrightarrow> ref_time W (weight_saturating_div W x d) = ref_time W x div d"
    and proof_size_div: "d \<noteq> 0 \<Longrightarrow> proof_size W (weight_saturating_div W x d) = proof_size W x div d"
    and db_reads: "db_reads W db n = from_parts W (saturating_mul (read_weight db) n) 0"
    and db_writes: "db_writes W db n = from_parts W (saturating_mul (write_weight db) n) 0"
    and db_reads_writes: "db_reads_writes W db n m = from_parts W (saturating_add (saturating_mul (read_weight db) n) (saturating_mul (write_weight db) m)) 0"
    and per_second: "WEIGHT_REF_TIME_PER_SECOND W = 1000000000000"
    and per_millis: "WEIGHT_REF_TIME_PER_MILLIS W = 1000000000"
    and per_micros: "WEIGHT_REF_TIME_PER_MICROS W = 1000000"
    and per_nanos: "WEIGHT_REF_TIME_PER_NANOS W = 1000"

locale perbill_laws = weight_laws W for W :: "'w weight_api" +
  fixes P :: "('p, 'w) perbill_api"
  assumes parts_percent: "unat n \<le> 100 \<Longrightarrow> parts P (from_percent P n) = unat n * 10000000"
    and parts_rational: "b \<noteq> 0 \<Longrightarrow> unat a \<le> unat b \<Longrightarrow> parts P (from_rational P a b) = reduced_parts (unat a) (unat b)"
    and ref_time_share: "parts P p \<le> 1000000000 \<Longrightarrow> rounded_share (parts P p) (unat (ref_time W x)) (unat (ref_time W (perbill_mul P p x)))"
    and proof_size_share: "parts P p \<le> 1000000000 \<Longrightarrow> rounded_share (parts P p) (unat (proof_size W x)) (unat (proof_size W (perbill_mul P p x)))"

subsection \<open>Lemmas\<close>

lemma rounded_share_le:
  assumes "rounded_share p x y" and "p \<le> 1000000000"
  shows "y \<le> x"
proof -
  have "p * x \<le> 1000000000 * x" using assms(2) by (rule mult_le_mono1)
  with assms(1) have "2 * 1000000000 * y \<le> 2 * 1000000000 * x + 1000000000"
    unfolding rounded_share_def by linarith
  then show ?thesis by simp
qed

lemma rounded_share_exact:
  assumes "rounded_share p x y" and "p * x = 1000000000 * z"
  shows "y = z"
  using assms by (simp add: rounded_share_def)

text \<open>Two shares that make up the whole lose at most one unit between them.\<close>

lemma rounded_share_split:
  assumes "rounded_share p x y" and "rounded_share q x z" and "p + q = 1000000000"
  shows "y + z \<le> x + 1" and "x \<le> y + z + 1"
proof -
  have "p * x + q * x = 1000000000 * x"
    using assms(3) by (metis distrib_right)
  with assms(1,2) show "y + z \<le> x + 1" and "x \<le> y + z + 1"
    by (simp_all add: rounded_share_def)
qed

lemma saturating_mul_1 [simp]: "saturating_mul a (1 :: 'w::len word) = a"
  using unsigned_less [of a] by (simp add: saturating_mul_def)

lemma saturating_add_0 [simp]:
  "saturating_add a (0 :: 'w::len word) = a"
  "saturating_add (0 :: 'w::len word) a = a"
  using unsigned_less [of a] by (simp_all add: saturating_add_def)

context weight_laws
begin

lemmas per_unit = per_second per_millis per_micros per_nanos

lemma db_one [simp]:
  "ref_time W (db_reads W db 1) = read_weight db"
  "ref_time W (db_writes W db 1) = write_weight db"
  "proof_size W (db_reads W db 1) = 0"
  "proof_size W (db_writes W db 1) = 0"
  by (simp_all add: db_reads db_writes)

end

context perbill_laws
begin

lemma share_le:
  assumes "parts P p \<le> 1000000000"
  shows "unat (ref_time W (perbill_mul P p x)) \<le> unat (ref_time W x)"
    and "unat (proof_size W (perbill_mul P p x)) \<le> unat (proof_size W x)"
  using rounded_share_le [OF ref_time_share] rounded_share_le [OF proof_size_share] assms by blast+

lemma ref_time_share_exact:
  assumes "parts P p \<le> 1000000000" and "parts P p * unat (ref_time W x) = 1000000000 * z"
  shows "unat (ref_time W (perbill_mul P p x)) = z"
  using rounded_share_exact [OF ref_time_share assms(2)] assms(1) by blast

end

subsection \<open>Weights as pairs\<close>

record pair_weight =
  pw_time :: u64
  pw_size :: u64

definition div_nearest :: "nat \<Rightarrow> nat \<Rightarrow> nat" where
  "div_nearest n d = (2 * n + d - 1) div (2 * d)"

definition pair_weights :: "pair_weight weight_api" where
  "pair_weights =
     \<lparr>from_parts = (\<lambda>a b. \<lparr>pw_time = a, pw_size = b\<rparr>),
      ref_time = pw_time,
      proof_size = pw_size,
      weight_add = (\<lambda>x y. \<lparr>pw_time = pw_time x + pw_time y, pw_size = pw_size x + pw_size y\<rparr>),
      weight_sub = (\<lambda>x y. \<lparr>pw_time = pw_time x - pw_time y, pw_size = pw_size x - pw_size y\<rparr>),
      weight_saturating_add = (\<lambda>x y. \<lparr>pw_time = saturating_add (pw_time x) (pw_time y), pw_size = saturating_add (pw_size x) (pw_size y)\<rparr>),
      weight_saturating_div = (\<lambda>x d. \<lparr>pw_time = pw_time x div d, pw_size = pw_size x div d\<rparr>),
      db_reads = (\<lambda>db n. \<lparr>pw_time = saturating_mul (read_weight db) n, pw_size = 0\<rparr>),
      db_writes = (\<lambda>db n. \<lparr>pw_time = saturating_mul (write_weight db) n, pw_size = 0\<rparr>),
      db_reads_writes = (\<lambda>db n m. \<lparr>pw_time = saturating_add (saturating_mul (read_weight db) n) (saturating_mul (write_weight db) m), pw_size = 0\<rparr>),
      WEIGHT_REF_TIME_PER_SECOND = 1000000000000,
      WEIGHT_REF_TIME_PER_MILLIS = 1000000000,
      WEIGHT_REF_TIME_PER_MICROS = 1000000,
      WEIGHT_REF_TIME_PER_NANOS = 1000\<rparr>"

definition nat_perbill :: "(nat, pair_weight) perbill_api" where
  "nat_perbill =
     \<lparr>from_percent = (\<lambda>n. min (unat n) 100 * 10000000),
      from_rational = (\<lambda>p q. reduced_parts (min (unat p) (unat q)) (unat q)),
      parts = (\<lambda>p. p),
      perbill_mul = (\<lambda>p x. \<lparr>pw_time = of_nat (div_nearest (p * unat (pw_time x)) (1000000000)),
                         pw_size = of_nat (div_nearest (p * unat (pw_size x)) (1000000000))\<rparr>)\<rparr>"

lemma div_nearest_share: "rounded_share p x (div_nearest (p * x) 1000000000)"
proof -
  define n where "n = 2 * (p * x) + 1000000000 - 1"
  define y where "y = n div 2000000000"
  have "n = 2000000000 * y + n mod 2000000000" unfolding y_def by simp
  moreover have "n mod 2000000000 < 2000000000" by simp
  moreover have "div_nearest (p * x) 1000000000 = y" by (simp add: div_nearest_def n_def y_def)
  ultimately show ?thesis unfolding rounded_share_def n_def by linarith
qed

lemma div_nearest_word:
  fixes x :: u64
  assumes "p \<le> 1000000000"
  shows "rounded_share p (unat x) (unat (of_nat (div_nearest (p * unat x) 1000000000) :: u64))"
proof -
  have "div_nearest (p * unat x) 1000000000 \<le> unat x"
    using div_nearest_share assms by (rule rounded_share_le)
  also have "unat x < 2 ^ 64" using unsigned_less [of x] by simp
  finally have "unat (of_nat (div_nearest (p * unat x) 1000000000) :: u64) = div_nearest (p * unat x) 1000000000"
    by (simp add: unat_of_nat)
  with div_nearest_share show ?thesis by simp
qed

interpretation pair: weight_laws pair_weights
  by unfold_locales (simp_all add: pair_weights_def)

interpretation pair: perbill_laws pair_weights nat_perbill
  by unfold_locales (simp_all add: pair_weights_def nat_perbill_def div_nearest_word)

end
