(* ===== verification/Runtime_Weights.thy ===== *)
theory Runtime_Weights
  imports Weight_Interface
begin

text \<open>
  The weight constants of runtime/src/weights (block_weights.rs, extrinsic_weights.rs,
  rocksdb_weights.rs, paritydb_weights.rs) and the sanity tests those files carry, as the
  conditions they assert. The lemmas give the numbers and show that the tests pass.
\<close>

subsection \<open>Definitions\<close>

definition BlockExecutionWeight :: "'w weight_api \<Rightarrow> 'w" where
  "BlockExecutionWeight W = from_parts W (saturating_mul (WEIGHT_REF_TIME_PER_NANOS W) 5000000) 0"

definition ExtrinsicBaseWeight :: "'w weight_api \<Rightarrow> 'w" where
  "ExtrinsicBaseWeight W = from_parts W (saturating_mul (WEIGHT_REF_TIME_PER_NANOS W) 125000) 0"

definition RocksDbWeight :: "'w weight_api \<Rightarrow> db_weight" where
  "RocksDbWeight W =
     \<lparr>read_weight = 25000 * WEIGHT_REF_TIME_PER_NANOS W,
      write_weight = 100000 * WEIGHT_REF_TIME_PER_NANOS W\<rparr>"

definition ParityDbWeight :: "'w weight_api \<Rightarrow> db_weight" where
  "ParityDbWeight W =
     \<lparr>read_weight = 8000 * WEIGHT_REF_TIME_PER_NANOS W,
      write_weight = 50000 * WEIGHT_REF_TIME_PER_NANOS W\<rparr>"

definition block_weight_sane :: "'w weight_api \<Rightarrow> bool" where
  "block_weight_sane W =
     (let w = BlockExecutionWeight W in
      100 * WEIGHT_REF_TIME_PER_MICROS W \<le> ref_time W w \<and>
      ref_time W w \<le> 50 * WEIGHT_REF_TIME_PER_MILLIS W)"

definition extrinsic_weight_sane :: "'w weight_api \<Rightarrow> bool" where
  "extrinsic_weight_sane W =
     (let w = ExtrinsicBaseWeight W in
      10 * WEIGHT_REF_TIME_PER_MICROS W \<le> ref_time W w \<and>
      ref_time W w \<le> WEIGHT_REF_TIME_PER_MILLIS W)"

definition rocksdb_weight_sane :: "'w weight_api \<Rightarrow> bool" where
  "rocksdb_weight_sane W =
     (WEIGHT_REF_TIME_PER_MICROS W \<le> ref_time W (db_reads W (RocksDbWeight W) 1) \<and>
      WEIGHT_REF_TIME_PER_MICROS W \<le> ref_time W (db_writes W (RocksDbWeight W) 1) \<and>
      ref_time W (db_reads W (RocksDbWeight W) 1) \<le> WEIGHT_REF_TIME_PER_MILLIS W \<and>
      ref_time W (db_writes W (RocksDbWeight W) 1) \<le> WEIGHT_REF_TIME_PER_MILLIS W)"

definition paritydb_weight_sane :: "'w weight_api \<Rightarrow> bool" where
  "paritydb_weight_sane W =
     (WEIGHT_REF_TIME_PER_MICROS W \<le> ref_time W (db_reads W (ParityDbWeight W) 1) \<and>
      WEIGHT_REF_TIME_PER_MICROS W \<le> ref_time W (db_writes W (ParityDbWeight W) 1) \<and>
      ref_time W (db_reads W (ParityDbWeight W) 1) \<le> WEIGHT_REF_TIME_PER_MILLIS W \<and>
      ref_time W (db_writes W (ParityDbWeight W) 1) \<le> WEIGHT_REF_TIME_PER_MILLIS W)"

lemmas weight_const_defs [const_defs] = BlockExecutionWeight_def ExtrinsicBaseWeight_def
  RocksDbWeight_def ParityDbWeight_def

subsection \<open>Lemmas\<close>

context weight_laws
begin

lemma block_execution_time: "ref_time W (BlockExecutionWeight W) = 5000000000"
  by (simp add: BlockExecutionWeight_def per_unit saturating_mul_def)

lemma extrinsic_base_time: "ref_time W (ExtrinsicBaseWeight W) = 125000000"
  by (simp add: ExtrinsicBaseWeight_def per_unit saturating_mul_def)

lemma db_weights:
  "RocksDbWeight W = \<lparr>read_weight = 25000000, write_weight = 100000000\<rparr>"
  "ParityDbWeight W = \<lparr>read_weight = 8000000, write_weight = 50000000\<rparr>"
  by (simp_all add: RocksDbWeight_def ParityDbWeight_def per_unit)

lemma all_sane:
  "block_weight_sane W" "extrinsic_weight_sane W" "rocksdb_weight_sane W" "paritydb_weight_sane W"
  by (simp_all add: block_weight_sane_def extrinsic_weight_sane_def rocksdb_weight_sane_def
      paritydb_weight_sane_def block_execution_time extrinsic_base_time db_weights per_unit word_le_nat_alt)

end

subsection \<open>Properties\<close>

text \<open>
  The sanity tests of the four weight files pass, and no multiplication in the constants
  saturates or wraps: executing an empty block costs 5 ms, an empty extrinsic 125 us, a RocksDB
  read and write 25 us and 100 us, and a ParityDB read and write less than half of the time RocksDB needs.
\<close>

lemma weights_sane:
  assumes "weight_laws W"
  shows "block_weight_sane W \<and> extrinsic_weight_sane W \<and> rocksdb_weight_sane W \<and> paritydb_weight_sane W \<and>
    unat (ref_time W (BlockExecutionWeight W)) = 5 * unat (WEIGHT_REF_TIME_PER_MILLIS W) \<and>
    unat (ref_time W (ExtrinsicBaseWeight W)) = 125 * unat (WEIGHT_REF_TIME_PER_MICROS W) \<and>
    unat (read_weight (RocksDbWeight W)) = 25 * unat (WEIGHT_REF_TIME_PER_MICROS W) \<and>
    unat (write_weight (RocksDbWeight W)) = 100 * unat (WEIGHT_REF_TIME_PER_MICROS W) \<and>
    2 * unat (read_weight (ParityDbWeight W)) < unat (read_weight (RocksDbWeight W)) \<and>
    2 * unat (write_weight (ParityDbWeight W)) \<le> unat (write_weight (RocksDbWeight W))"
  using weight_laws.all_sane [OF assms]
  by (simp add: weight_laws.block_execution_time [OF assms] weight_laws.extrinsic_base_time [OF assms]
      weight_laws.db_weights [OF assms] weight_laws.per_unit [OF assms])

lemma weights_sane_example:
  "block_weight_sane pair_weights \<and> extrinsic_weight_sane pair_weights \<and>
   unat (ref_time pair_weights (ExtrinsicBaseWeight pair_weights)) = 125000000"
  using weights_sane [OF pair.weight_laws_axioms] pair.per_micros by simp

end
