(* ===== verification/Runtime_Core.thy ===== *)
theory Runtime_Core
  imports Runtime_Weights
begin

text \<open>
  runtime/src/lib.rs: the time and balance units, the block weight and its ratios, the polynomial
  that turns weights into fees, the version record, the parameters of asynchronous backing, the
  transaction extensions and the pallets of the runtime with their indices.
\<close>

subsection \<open>Types and units\<close>

type_synonym balance = u128
type_synonym nonce = u32
type_synonym block_number_t = u32

definition MILLI_SECS_PER_BLOCK :: u64 where
  "MILLI_SECS_PER_BLOCK = 6000"

definition SLOT_DURATION :: u64 where
  "SLOT_DURATION = MILLI_SECS_PER_BLOCK"

definition MINUTES :: block_number_t where
  "MINUTES = 60000 div ucast MILLI_SECS_PER_BLOCK"

definition HOURS :: block_number_t where
  "HOURS = MINUTES * 60"

definition DAYS :: block_number_t where
  "DAYS = HOURS * 24"

definition UNIT :: balance where
  "UNIT = 1000000000000"

definition MILLI_UNIT :: balance where
  "MILLI_UNIT = 1000000000"

definition MICRO_UNIT :: balance where
  "MICRO_UNIT = 1000000"

definition EXISTENTIAL_DEPOSIT :: balance where
  "EXISTENTIAL_DEPOSIT = MILLI_UNIT"

definition AVERAGE_ON_INITIALIZE_RATIO :: "('p, 'w) perbill_api \<Rightarrow> 'p" where
  "AVERAGE_ON_INITIALIZE_RATIO P = from_percent P 5"

definition NORMAL_DISPATCH_RATIO :: "('p, 'w) perbill_api \<Rightarrow> 'p" where
  "NORMAL_DISPATCH_RATIO P = from_percent P 75"

text \<open>\<open>max_pov\<close> is the relay chain's \<open>MAX_POV_SIZE\<close>.\<close>

definition MAXIMUM_BLOCK_WEIGHT :: "'w weight_api \<Rightarrow> u32 \<Rightarrow> 'w" where
  "MAXIMUM_BLOCK_WEIGHT W max_pov =
     from_parts W (saturating_mul (WEIGHT_REF_TIME_PER_SECOND W) 2) (ucast max_pov)"

subsection \<open>Fees\<close>

record 'p weight_to_fee_coefficient =
  degree :: u8
  negative :: bool
  coeff_frac :: 'p
  coeff_integer :: balance

text \<open>The divisions panic for a divisor of zero.\<close>

definition WeightToFee_polynomial ::
  "'w weight_api \<Rightarrow> ('p, 'w) perbill_api \<Rightarrow> (unit, 'p weight_to_fee_coefficient list) outcome" where
  "WeightToFee_polynomial W P =
     (let p = MILLI_UNIT div 10;
          q = 100 * ucast (ref_time W (ExtrinsicBaseWeight W))
      in if q = 0 then Panicked
         else Ok [\<lparr>degree = 1, negative = False, coeff_frac = from_rational P (p mod q) q,
                   coeff_integer = p div q\<rparr>])"

subsection \<open>Version\<close>

record 'api runtime_version =
  spec_name :: string
  impl_name :: string
  authoring_version :: u32
  spec_version :: u32
  impl_version :: u32
  version_apis :: 'api
  transaction_version :: u32
  system_version :: u8

definition VERSION :: "'api \<Rightarrow> 'api runtime_version" where
  "VERSION runtime_api_versions =
     \<lparr>spec_name = ''parachain-template-runtime'', impl_name = ''parachain-template-runtime'',
      authoring_version = 1, spec_version = 1, impl_version = 0, version_apis = runtime_api_versions,
      transaction_version = 1, system_version = 1\<rparr>"

record 'api native_version_t =
  nv_runtime_version :: "'api runtime_version"
  nv_can_author_with :: "u32 set"

definition native_version :: "'api \<Rightarrow> 'api native_version_t" where
  "native_version runtime_api_versions =
     \<lparr>nv_runtime_version = VERSION runtime_api_versions, nv_can_author_with = {}\<rparr>"

subsection \<open>Asynchronous backing\<close>

definition UNINCLUDED_SEGMENT_CAPACITY :: u32 where
  "UNINCLUDED_SEGMENT_CAPACITY = 3"

definition BLOCK_PROCESSING_VELOCITY :: u32 where
  "BLOCK_PROCESSING_VELOCITY = 1"

definition RELAY_CHAIN_SLOT_DURATION_MILLIS :: u32 where
  "RELAY_CHAIN_SLOT_DURATION_MILLIS = 6000"

text \<open>The consensus hook is \<open>FixedVelocityConsensusHook\<close> at these three parameters.\<close>

definition ConsensusHook :: "(u32 \<Rightarrow> u32 \<Rightarrow> u32 \<Rightarrow> 'hook) \<Rightarrow> 'hook" where
  "ConsensusHook fixed_velocity_hook =
     fixed_velocity_hook RELAY_CHAIN_SLOT_DURATION_MILLIS BLOCK_PROCESSING_VELOCITY UNINCLUDED_SEGMENT_CAPACITY"

subsection \<open>Transaction extensions and pallets\<close>

datatype tx_extension =
    CheckNonZeroSender | CheckSpecVersion | CheckTxVersion | CheckGenesis | CheckEra | CheckNonce
  | CheckWeight | ChargeTransactionPayment | CheckMetadataHash
  | StorageWeightReclaim "tx_extension list"

definition TxExtension :: tx_extension where
  "TxExtension =
     StorageWeightReclaim
       [CheckNonZeroSender, CheckSpecVersion, CheckTxVersion, CheckGenesis, CheckEra, CheckNonce,
        CheckWeight, ChargeTransactionPayment, CheckMetadataHash]"

record 'aura session_keys =
  sk_aura :: 'aura

datatype runtime_pallet =
    System | ParachainSystem | Timestamp | ParachainInfo | WeightReclaim
  | Balances | TransactionPayment
  | Sudo
  | Authorship | CollatorSelection | Session | Aura | AuraExt
  | XcmpQueue | PolkadotXcm | CumulusXcm | MessageQueue
  | TemplatePallet | SwarmRobotPallet

primrec pallet_index :: "runtime_pallet \<Rightarrow> u8" where
  "pallet_index System = 0"
| "pallet_index ParachainSystem = 1"
| "pallet_index Timestamp = 2"
| "pallet_index ParachainInfo = 3"
| "pallet_index WeightReclaim = 4"
| "pallet_index Balances = 10"
| "pallet_index TransactionPayment = 11"
| "pallet_index Sudo = 15"
| "pallet_index Authorship = 20"
| "pallet_index CollatorSelection = 21"
| "pallet_index Session = 22"
| "pallet_index Aura = 23"
| "pallet_index AuraExt = 24"
| "pallet_index XcmpQueue = 30"
| "pallet_index PolkadotXcm = 31"
| "pallet_index CumulusXcm = 32"
| "pallet_index MessageQueue = 33"
| "pallet_index TemplatePallet = 50"
| "pallet_index SwarmRobotPallet = 51"

text \<open>The pallets in the order of their declaration.\<close>

definition all_pallets :: "runtime_pallet list" where
  "all_pallets =
     [System, ParachainSystem, Timestamp, ParachainInfo, WeightReclaim, Balances, TransactionPayment, Sudo,
      Authorship, CollatorSelection, Session, Aura, AuraExt, XcmpQueue, PolkadotXcm, CumulusXcm,
      MessageQueue, TemplatePallet, SwarmRobotPallet]"

lemmas core_const_defs [const_defs] = MILLI_SECS_PER_BLOCK_def SLOT_DURATION_def MINUTES_def HOURS_def
  DAYS_def UNIT_def MILLI_UNIT_def MICRO_UNIT_def EXISTENTIAL_DEPOSIT_def
  AVERAGE_ON_INITIALIZE_RATIO_def NORMAL_DISPATCH_RATIO_def MAXIMUM_BLOCK_WEIGHT_def
  UNINCLUDED_SEGMENT_CAPACITY_def BLOCK_PROCESSING_VELOCITY_def RELAY_CHAIN_SLOT_DURATION_MILLIS_def

subsection \<open>Lemmas\<close>

lemma time_units: "MINUTES = 10" "HOURS = 600" "DAYS = 14400"
  by (simp_all add: const_defs)

lemma all_pallets_complete: "set all_pallets = UNIV"
proof -
  have "p \<in> set all_pallets" for p by (cases p) (simp_all add: all_pallets_def)
  then show ?thesis by blast
qed

lemma pallet_index_sorted: "sorted_wrt (\<lambda>p q. unat (pallet_index p) < unat (pallet_index q)) all_pallets"
  by (simp add: all_pallets_def)

context perbill_laws
begin

lemma normal_parts: "parts P (NORMAL_DISPATCH_RATIO P) = 750000000"
  by (simp add: NORMAL_DISPATCH_RATIO_def parts_percent)

lemma max_block_time: "ref_time W (MAXIMUM_BLOCK_WEIGHT W m) = 2000000000000"
  by (simp add: MAXIMUM_BLOCK_WEIGHT_def per_unit saturating_mul_def)

lemma max_block_size: "unat (proof_size W (MAXIMUM_BLOCK_WEIGHT W m)) = unat m"
  by (simp add: MAXIMUM_BLOCK_WEIGHT_def unat_ucast_up)

lemma fee_polynomial:
  "WeightToFee_polynomial W P =
     Ok [\<lparr>degree = 1, negative = False, coeff_frac = from_rational P 100000000 12500000000, coeff_integer = 0\<rparr>]"
  by (simp add: WeightToFee_polynomial_def extrinsic_base_time MILLI_UNIT_def Let_def)

lemma fee_parts: "parts P (from_rational P 100000000 12500000000) = 7999999"
  by (simp add: parts_rational reduced_parts_def Let_def)

end

subsection \<open>Properties\<close>

text \<open>
  The fee polynomial is computed without a division by zero. It has one term, of degree one,
  with no integer part and a fraction of 8 parts in a thousand, which the approximation makes 7999999 parts in a
  billion. The base weight of an extrinsic therefore costs, rounded, a thousandth of \<open>MILLI_UNIT\<close>,
  and a full block 2000 units of balance less than 16 \<open>MILLI_UNIT\<close>.
\<close>

lemma fee_of_base_extrinsic:
  assumes "perbill_laws W P"
  shows "\<exists>c. WeightToFee_polynomial W P = Ok [c] \<and> degree c = 1 \<and> \<not> negative c \<and> coeff_integer c = 0 \<and>
    parts P (coeff_frac c) = 7999999 \<and>
    (rounded_share (parts P (coeff_frac c)) (unat (ref_time W (ExtrinsicBaseWeight W))) y \<longleftrightarrow> 1000 * y = unat MILLI_UNIT) \<and>
    parts P (coeff_frac c) * unat (ref_time W (MAXIMUM_BLOCK_WEIGHT W m)) = 1000000000 * (16 * unat MILLI_UNIT - 2000)"
proof -
  note laws = perbill_laws.axioms(1) [OF assms]
  show ?thesis
    by (auto simp: perbill_laws.fee_polynomial [OF assms] perbill_laws.fee_parts [OF assms]
        weight_laws.extrinsic_base_time [OF laws] perbill_laws.max_block_time [OF assms] MILLI_UNIT_def rounded_share_def)
qed

lemma fee_of_base_extrinsic_example:
  "\<exists>c. WeightToFee_polynomial pair_weights nat_perbill = Ok [c] \<and> parts nat_perbill (coeff_frac c) = 7999999"
  using fee_of_base_extrinsic [OF pair.perbill_laws_axioms, of 0] by blast

text \<open>
  The units fit together and none of the \<open>u32\<close> and \<open>u64\<close> computations truncates or wraps: at the
  slot duration, \<open>MINUTES\<close>, \<open>HOURS\<close> and \<open>DAYS\<close> blocks take exactly a minute, an hour and a day; a
  parachain slot is a relay chain slot; the balance units are powers of a thousand apart.
\<close>

lemma units_consistent:
  "unat MINUTES * unat SLOT_DURATION = 60 * 1000 \<and>
   unat HOURS * unat SLOT_DURATION = 60 * 60 * 1000 \<and>
   unat DAYS * unat SLOT_DURATION = 24 * 60 * 60 * 1000 \<and>
   unat SLOT_DURATION = unat BLOCK_PROCESSING_VELOCITY * unat RELAY_CHAIN_SLOT_DURATION_MILLIS \<and>
   unat UNIT = 1000 * unat MILLI_UNIT \<and> unat MILLI_UNIT = 1000 * unat MICRO_UNIT \<and>
   0 < unat EXISTENTIAL_DEPOSIT"
  by (simp add: time_units const_defs)

text \<open>
  The pallet indices are distinct, so that the index of an encoded call or event determines its
  pallet, and they grow in the order in which the runtime declares its pallets, which lists every
  pallet once.
\<close>

lemma pallet_indices_unique:
  "inj pallet_index \<and> distinct all_pallets \<and> set all_pallets = UNIV \<and>
   sorted_wrt (\<lambda>p q. unat (pallet_index p) < unat (pallet_index q)) all_pallets"
proof (intro conjI)
  show "distinct all_pallets" by (simp add: all_pallets_def)
  show "set all_pallets = UNIV" by (rule all_pallets_complete)
  show "sorted_wrt (\<lambda>p q. unat (pallet_index p) < unat (pallet_index q)) all_pallets"
    by (rule pallet_index_sorted)
  have "distinct (map pallet_index all_pallets)" by (simp add: all_pallets_def)
  then show "inj pallet_index" by (simp add: distinct_map all_pallets_complete)
qed

end
