(* ===== verification/Frame_Interface.thy ===== *)
theory Frame_Interface
  imports Rust_Prelude
begin

text \<open>
  The interface through which the pallets use the Polkadot SDK. The SDK is not part of the
  repository: each of its types that a pallet uses is a record of functions, which the pallets'
  definitions take as an argument, and the locales state the documented behaviour of those
  functions. \<open>'s\<close> is the state of the chain's storage.

  The locale \<open>dispatchable\<close> is the contract of the pallets towards the runtime: what a
  dispatchable call does for an origin that is not signed, and what it leaves behind on error.
\<close>

subsection \<open>Storage items, bounded vectors, errors\<close>

text \<open>
  \<open>StorageValue\<close> with the query kinds \<open>ValueQuery\<close> and \<open>OptionQuery\<close>, and the part of \<open>StorageMap\<close>
  the pallets use.
\<close>

record ('s, 'v) storage_value =
  sv_get :: "'s \<Rightarrow> 'v"
  sv_put :: "'v \<Rightarrow> 's \<Rightarrow> 's"

record ('s, 'v) storage_option =
  so_get :: "'s \<Rightarrow> 'v option"
  so_put :: "'v \<Rightarrow> 's \<Rightarrow> 's"

record ('s, 'k, 'v) storage_map =
  sm_contains_key :: "'k \<Rightarrow> 's \<Rightarrow> bool"
  sm_insert :: "'k \<Rightarrow> 'v \<Rightarrow> 's \<Rightarrow> 's"

text \<open>
  \<open>BoundedVec\<close>: the slice it dereferences to, \<open>try_push\<close> (\<open>Inl\<close> the rejected element when the
  vector is full, \<open>Inr\<close> the vector after the push) and \<open>remove\<close> (None where it panics).
\<close>

record ('q, 'c) bounded_vec =
  bv_slice :: "'q \<Rightarrow> 'c list"
  bv_try_push :: "'q \<Rightarrow> 'c \<Rightarrow> 'c + 'q"
  bv_remove :: "'q \<Rightarrow> nat \<Rightarrow> ('c \<times> 'q) option"

text \<open>
  \<open>DispatchError\<close>, as far as the pallets return it: the conversion of \<open>BadOrigin\<close> by \<open>?\<close>, and the
  conversion of an error of the pallet.
\<close>

datatype 'm dispatch_error = BadOrigin | ModuleError 'm

text \<open>
  The storage layer that surrounds every dispatched call: the writes of a call that returns an
  error are discarded.
\<close>

definition with_storage_layer :: "('s, 'e, 'a) exec \<Rightarrow> ('s, 'e, 'a) exec" where
  "with_storage_layer f s =
     (case f s of (Err e, _) \<Rightarrow> (Err e, s) | (Ok a, s') \<Rightarrow> (Ok a, s') | (Panicked, s') \<Rightarrow> (Panicked, s'))"

subsection \<open>Documented behaviour\<close>

locale storage_value_laws =
  fixes V :: "('s, 'v) storage_value"
  assumes get_put [simp]: "sv_get V (sv_put V v s) = v"

locale storage_option_laws =
  fixes V :: "('s, 'v) storage_option"
  assumes get_put [simp]: "so_get V (so_put V v s) = Some v"

locale storage_map_laws =
  fixes M :: "('s, 'k, 'v) storage_map"
  assumes contains_insert [simp]: "sm_contains_key M k (sm_insert M k' v s) \<longleftrightarrow> k = k' \<or> sm_contains_key M k s"

locale bounded_vec_laws =
  fixes B :: "('q, 'c) bounded_vec" and bound :: nat
  assumes try_push_full: "bound \<le> length (bv_slice B q) \<Longrightarrow> bv_try_push B q c = Inl c"
    and try_push_room: "length (bv_slice B q) < bound \<Longrightarrow> \<exists>q'. bv_try_push B q c = Inr q' \<and> bv_slice B q' = bv_slice B q @ [c]"
    and remove_in: "i < length (bv_slice B q) \<Longrightarrow> \<exists>q'. bv_remove B q i = Some (bv_slice B q ! i, q') \<and> bv_slice B q' = take i (bv_slice B q) @ drop (Suc i) (bv_slice B q)"
    and remove_out: "length (bv_slice B q) \<le> i \<Longrightarrow> bv_remove B q i = None"
begin

lemma remove_head:
  assumes "bv_slice B q = c # cs"
  obtains q' where "bv_remove B q 0 = Some (c, q')" and "bv_slice B q' = cs"
  using remove_in [of 0 q] assms by auto

lemma try_push_cases:
  obtains (full) "bound \<le> length (bv_slice B q)" and "bv_try_push B q c = Inl c"
  | (room) q' where "length (bv_slice B q) < bound" and "bv_try_push B q c = Inr q'" and "bv_slice B q' = bv_slice B q @ [c]"
proof (cases "bound \<le> length (bv_slice B q)")
  case True
  with that(1) try_push_full show ?thesis by blast
next
  case False
  with try_push_room [of q c] that(2) show ?thesis by auto
qed

end

subsection \<open>The contract of the dispatchables\<close>

locale dispatchable =
  fixes dispatch :: "'o \<Rightarrow> 'c \<Rightarrow> ('s, 'e, 'a) exec"
    and signed :: "'o \<Rightarrow> bool"
    and bad_origin :: 'e
  assumes unsigned_rejected: "\<not> signed origin \<Longrightarrow> dispatch origin c s = (Err bad_origin, s)"
    and error_unchanged: "fst (dispatch origin c s) = Err e \<Longrightarrow> snd (dispatch origin c s) = s"
    and no_panic: "fst (dispatch origin c s) \<noteq> Panicked"
begin

text \<open>The writes of a failing call never have to be discarded: there are none.\<close>

lemma storage_layer_idle: "with_storage_layer (dispatch origin c) s = dispatch origin c s"
  using error_unchanged [of origin c s]
  by (auto simp: with_storage_layer_def split: outcome.splits prod.splits)

lemma not_Ok_unchanged: "\<not> is_Ok (fst (dispatch origin c s)) \<Longrightarrow> snd (dispatch origin c s) = s"
  using error_unchanged [of origin c s] no_panic [of origin c s]
  by (cases "fst (dispatch origin c s)") auto

lemma run_no_panic:
  "Panicked \<notin> set (fst (run_calls (\<lambda>(origin, c). dispatch origin c) cs s))"
  by (induction cs arbitrary: s) (auto simp: split_beta no_panic no_panic [symmetric])

text \<open>The calls of a run that carry no signature can be left out.\<close>

lemma run_signed_only:
  "snd (run_calls (\<lambda>(origin, c). dispatch origin c) (filter (\<lambda>(origin, c). signed origin) cs) s) =
   snd (run_calls (\<lambda>(origin, c). dispatch origin c) cs s)"
  by (induction cs arbitrary: s) (auto simp: unsigned_rejected split_beta)

end

end
