(* ===== verification/Frame_Reference.thy ===== *)
theory Frame_Reference
  imports Frame_Interface
begin

text \<open>
  A storage in memory that behaves as the SDK documents: lists for the bounded vector and for the
  key set of the map, an optional value, and the log of the events. The interpretations show that
  the laws of the interface hold of it; the component theories run the pallets on it.
\<close>

subsection \<open>Definitions\<close>

text \<open>\<open>RawOrigin\<close> of frame-system.\<close>

datatype 'acc raw_origin = Root | Signed 'acc | NoOrigin

primrec mem_ensure_signed :: "'acc raw_origin \<Rightarrow> 'acc option" where
  "mem_ensure_signed Root = None"
| "mem_ensure_signed (Signed a) = Some a"
| "mem_ensure_signed NoOrigin = None"

definition list_vec :: "nat \<Rightarrow> ('c list, 'c) bounded_vec" where
  "list_vec cap =
     \<lparr>bv_slice = (\<lambda>q. q),
      bv_try_push = (\<lambda>q c. if length q < cap then Inr (q @ [c]) else Inl c),
      bv_remove = (\<lambda>q i. if i < length q then Some (q ! i, take i q @ drop (Suc i) q) else None)\<rparr>"

record ('k, 'c, 'v, 'e) mem_storage =
  mem_keys :: "'k list"
  mem_queue :: "'c list"
  mem_value :: "'v option"
  mem_events :: "'e list"

definition mem_empty :: "('k, 'c, 'v, 'e) mem_storage" where
  "mem_empty = \<lparr>mem_keys = [], mem_queue = [], mem_value = None, mem_events = []\<rparr>"

definition mem_keys_map :: "(('k, 'c, 'v, 'e) mem_storage, 'k, unit) storage_map" where
  "mem_keys_map =
     \<lparr>sm_contains_key = (\<lambda>k s. k \<in> set (mem_keys s)),
      sm_insert = (\<lambda>k _ s. s\<lparr>mem_keys := List.insert k (mem_keys s)\<rparr>)\<rparr>"

definition mem_queue_value :: "(('k, 'c, 'v, 'e) mem_storage, 'c list) storage_value" where
  "mem_queue_value = \<lparr>sv_get = mem_queue, sv_put = (\<lambda>q s. s\<lparr>mem_queue := q\<rparr>)\<rparr>"

definition mem_option_value :: "(('k, 'c, 'v, 'e) mem_storage, 'v) storage_option" where
  "mem_option_value = \<lparr>so_get = mem_value, so_put = (\<lambda>v s. s\<lparr>mem_value := Some v\<rparr>)\<rparr>"

definition mem_deposit :: "'e \<Rightarrow> ('k, 'c, 'v, 'e) mem_storage \<Rightarrow> ('k, 'c, 'v, 'e) mem_storage" where
  "mem_deposit e s = s\<lparr>mem_events := mem_events s @ [e]\<rparr>"

lemmas mem_defs = list_vec_def mem_keys_map_def mem_queue_value_def mem_option_value_def
  mem_deposit_def mem_empty_def

subsection \<open>The laws of the interface\<close>

interpretation mem_vec: bounded_vec_laws "list_vec cap" cap for cap
  by unfold_locales (auto simp: list_vec_def)

interpretation mem_map: storage_map_laws mem_keys_map
  by unfold_locales (auto simp: mem_keys_map_def)

interpretation mem_qv: storage_value_laws mem_queue_value
  by unfold_locales (simp add: mem_queue_value_def)

interpretation mem_ov: storage_option_laws mem_option_value
  by unfold_locales (simp add: mem_option_value_def)

end
