(* ===== verification/Swarm_Pallet.thy ===== *)
theory Swarm_Pallet
  imports Frame_Reference
begin

text \<open>
  The pallet of pallets/swarm-robot-pallet/src/lib.rs: the robot registry and the global command
  queue. The definitions follow the file: the data types, the configuration trait (with the SDK
  operations the pallet is generic in), the three dispatchables and the call enum the
  \<open>pallet::call\<close> attribute makes of them.

  The second half states what the pallet promises: an abstract machine over a set of robots and a
  list of commands which the dispatchables refine, the facts of every branch, and the invariants
  of every run (order and number of the deliveries, capacity, who can pull).
\<close>

subsection \<open>Data\<close>

record coordinate =
  coord_x :: u32
  coord_y :: u32

datatype ('loc, 'task) command =
    GoToLocation 'loc
  | PerformTask 'task
  | Halt
  | WaitForCommand

datatype swarm_error = InvalidRobotId | QueueFull | QueueEmpty

datatype ('rid, 'loc, 'task) swarm_event =
    CommandEnqueued "('loc, 'task) command"
  | CommandPulled 'rid "('loc, 'task) command" "'loc option"

text \<open>
  The configuration trait. Beside the constant \<open>MaxGlobalCommands\<close> the record holds the SDK
  operations on the storage items the pallet declares: the origin check, the two storage items,
  the operations of \<open>BoundedVec\<close> and the deposit of an event.
\<close>

record ('s, 'o, 'acc, 'rid, 'loc, 'task, 'q) swarm_config =
  ensure_signed :: "'o \<Rightarrow> 'acc option"
  RegisteredRobots :: "('s, 'rid, unit) storage_map"
  GlobalCommandQueue :: "('s, 'q) storage_value"
  QueueVec :: "('q, ('loc, 'task) command) bounded_vec"
  deposit_event :: "('rid, 'loc, 'task) swarm_event \<Rightarrow> 's \<Rightarrow> 's"
  MaxGlobalCommands :: u32

type_synonym swarm_result = "(swarm_error dispatch_error, unit) outcome"

subsection \<open>Dispatchables\<close>

definition register_robot ::
  "('s, 'o, 'acc, 'rid, 'loc, 'task, 'q) swarm_config \<Rightarrow> 'o \<Rightarrow> 'rid \<Rightarrow> 's \<Rightarrow> swarm_result \<times> 's" where
  "register_robot T origin robot_id s =
     (case ensure_signed T origin of
        None \<Rightarrow> (Err BadOrigin, s)
      | Some who \<Rightarrow> (Ok (), sm_insert (RegisteredRobots T) robot_id () s))"

definition enqueue_command ::
  "('s, 'o, 'acc, 'rid, 'loc, 'task, 'q) swarm_config \<Rightarrow> 'o \<Rightarrow> ('loc, 'task) command \<Rightarrow> 's
     \<Rightarrow> swarm_result \<times> 's" where
  "enqueue_command T origin command s =
     (case ensure_signed T origin of
        None \<Rightarrow> (Err BadOrigin, s)
      | Some who \<Rightarrow>
          let queue = sv_get (GlobalCommandQueue T) s in
          (case bv_try_push (QueueVec T) queue command of
             Inl _ \<Rightarrow> (Err (ModuleError QueueFull), s)
           | Inr queue' \<Rightarrow>
               let s1 = sv_put (GlobalCommandQueue T) queue' s;
                   s2 = deposit_event T (CommandEnqueued command) s1
               in (Ok (), s2)))"

definition pull_next ::
  "('s, 'o, 'acc, 'rid, 'loc, 'task, 'q) swarm_config \<Rightarrow> 'o \<Rightarrow> 'rid \<Rightarrow> 's \<Rightarrow> swarm_result \<times> 's" where
  "pull_next T origin robot_id s =
     (case ensure_signed T origin of
        None \<Rightarrow> (Err BadOrigin, s)
      | Some who \<Rightarrow>
          if \<not> sm_contains_key (RegisteredRobots T) robot_id s
          then (Err (ModuleError InvalidRobotId), s)
          else
            let queue = sv_get (GlobalCommandQueue T) s in
            (case slice_get (bv_slice (QueueVec T) queue) 0 of
               None \<Rightarrow> (Err (ModuleError QueueEmpty), s)
             | Some cmd \<Rightarrow>
                 (case bv_remove (QueueVec T) queue 0 of
                    None \<Rightarrow> (Panicked, s)
                  | Some (_, queue') \<Rightarrow>
                      let s1 = sv_put (GlobalCommandQueue T) queue' s;
                          coord = (case cmd of GoToLocation c \<Rightarrow> Some c | _ \<Rightarrow> None);
                          s2 = deposit_event T (CommandPulled robot_id cmd coord) s1
                      in (Ok (), s2))))"

text \<open>The call enum, one constructor per dispatchable, and its dispatch.\<close>

datatype ('rid, 'loc, 'task) swarm_call =
    RegisterRobot 'rid
  | EnqueueCommand "('loc, 'task) command"
  | PullNext 'rid

primrec swarm_dispatch ::
  "('s, 'o, 'acc, 'rid, 'loc, 'task, 'q) swarm_config \<Rightarrow> 'o \<Rightarrow> ('rid, 'loc, 'task) swarm_call \<Rightarrow> 's
     \<Rightarrow> swarm_result \<times> 's" where
  "swarm_dispatch T origin (RegisterRobot robot_id) s = register_robot T origin robot_id s"
| "swarm_dispatch T origin (EnqueueCommand command) s = enqueue_command T origin command s"
| "swarm_dispatch T origin (PullNext robot_id) s = pull_next T origin robot_id s"

text \<open>The weights the \<open>pallet::weight\<close> attributes declare, and the weight of a call.\<close>

definition register_robot_weight :: u64 where
  "register_robot_weight = 10000"

definition enqueue_command_weight :: u64 where
  "enqueue_command_weight = 10000"

definition pull_next_weight :: u64 where
  "pull_next_weight = 10000"

primrec swarm_call_weight :: "('rid, 'loc, 'task) swarm_call \<Rightarrow> u64" where
  "swarm_call_weight (RegisterRobot robot_id) = register_robot_weight"
| "swarm_call_weight (EnqueueCommand command) = enqueue_command_weight"
| "swarm_call_weight (PullNext robot_id) = pull_next_weight"

lemmas swarm_weight_defs = register_robot_weight_def enqueue_command_weight_def pull_next_weight_def

subsection \<open>The abstract machine\<close>

text \<open>
  What the pallet promises, over a set of registered robots, the waiting commands in order and the
  log of the deposited events. A call is made by a signed account or not.
\<close>

record ('rid, 'loc, 'task) swarm_spec =
  robots :: "'rid set"
  waiting :: "('loc, 'task) command list"
  log :: "('rid, 'loc, 'task) swarm_event list"

definition target :: "('loc, 'task) command \<Rightarrow> 'loc option" where
  "target cmd = (case cmd of GoToLocation c \<Rightarrow> Some c | _ \<Rightarrow> None)"

primrec spec_step ::
  "nat \<Rightarrow> ('rid, 'loc, 'task) swarm_call \<Rightarrow> ('rid, 'loc, 'task) swarm_spec
     \<Rightarrow> swarm_result \<times> ('rid, 'loc, 'task) swarm_spec" where
  "spec_step cap (RegisterRobot r) a = (Ok (), a\<lparr>robots := insert r (robots a)\<rparr>)"
| "spec_step cap (EnqueueCommand c) a =
     (if length (waiting a) < cap
      then (Ok (), a\<lparr>waiting := waiting a @ [c], log := log a @ [CommandEnqueued c]\<rparr>)
      else (Err (ModuleError QueueFull), a))"
| "spec_step cap (PullNext r) a =
     (if r \<notin> robots a then (Err (ModuleError InvalidRobotId), a)
      else (case waiting a of
              [] \<Rightarrow> (Err (ModuleError QueueEmpty), a)
            | c # cs \<Rightarrow> (Ok (), a\<lparr>waiting := cs, log := log a @ [CommandPulled r c (target c)]\<rparr>)))"

definition spec_dispatch ::
  "nat \<Rightarrow> bool \<times> ('rid, 'loc, 'task) swarm_call \<Rightarrow> ('rid, 'loc, 'task) swarm_spec
     \<Rightarrow> swarm_result \<times> ('rid, 'loc, 'task) swarm_spec" where
  "spec_dispatch cap sc a = (if fst sc then spec_step cap (snd sc) a else (Err BadOrigin, a))"

text \<open>The commands a log says were enqueued and pulled, and the robots that pulled.\<close>

fun enqueued_of :: "('rid, 'loc, 'task) swarm_event list \<Rightarrow> ('loc, 'task) command list" where
  "enqueued_of [] = []"
| "enqueued_of (CommandEnqueued c # es) = c # enqueued_of es"
| "enqueued_of (CommandPulled r c k # es) = enqueued_of es"

fun pulled_of :: "('rid, 'loc, 'task) swarm_event list \<Rightarrow> ('loc, 'task) command list" where
  "pulled_of [] = []"
| "pulled_of (CommandEnqueued c # es) = pulled_of es"
| "pulled_of (CommandPulled r c k # es) = c # pulled_of es"

fun pullers_of :: "('rid, 'loc, 'task) swarm_event list \<Rightarrow> 'rid set" where
  "pullers_of [] = {}"
| "pullers_of (CommandEnqueued c # es) = pullers_of es"
| "pullers_of (CommandPulled r c k # es) = insert r (pullers_of es)"

fun event_consistent :: "('rid, 'loc, 'task) swarm_event \<Rightarrow> bool" where
  "event_consistent (CommandEnqueued c) = True"
| "event_consistent (CommandPulled r c k) = (k = target c)"

text \<open>The robots the signed calls of a run register.\<close>

fun registered_by :: "(bool \<times> ('rid, 'loc, 'task) swarm_call) list \<Rightarrow> 'rid set" where
  "registered_by [] = {}"
| "registered_by ((True, RegisterRobot r) # cs) = insert r (registered_by cs)"
| "registered_by (c # cs) = registered_by cs"

subsection \<open>Lemmas of the abstract machine\<close>

lemma enqueued_of_append [simp]: "enqueued_of (es @ fs) = enqueued_of es @ enqueued_of fs"
  by (induction es rule: enqueued_of.induct) auto

lemma pulled_of_append [simp]: "pulled_of (es @ fs) = pulled_of es @ pulled_of fs"
  by (induction es rule: pulled_of.induct) auto

lemma pullers_of_append [simp]: "pullers_of (es @ fs) = pullers_of es \<union> pullers_of fs"
  by (induction es rule: pullers_of.induct) auto

text \<open>The invariant of the abstract machine.\<close>

definition spec_inv :: "nat \<Rightarrow> ('rid, 'loc, 'task) swarm_spec \<Rightarrow> bool" where
  "spec_inv cap a \<longleftrightarrow>
     enqueued_of (log a) = pulled_of (log a) @ waiting a \<and>
     length (waiting a) \<le> cap \<and>
     pullers_of (log a) \<subseteq> robots a \<and>
     list_all event_consistent (log a)"

definition spec_init :: "('rid, 'loc, 'task) swarm_spec" where
  "spec_init = \<lparr>robots = {}, waiting = [], log = []\<rparr>"

lemma spec_inv_init: "spec_inv cap spec_init"
  by (simp add: spec_inv_def spec_init_def)

lemma spec_step_inv: "spec_inv cap a \<Longrightarrow> spec_inv cap (snd (spec_step cap c a))"
  by (cases c) (auto simp: spec_inv_def split: list.splits)

lemma spec_dispatch_inv: "spec_inv cap a \<Longrightarrow> spec_inv cap (snd (spec_dispatch cap c a))"
  by (simp add: spec_dispatch_def spec_step_inv)

lemma spec_run_inv: "spec_inv cap a \<Longrightarrow> spec_inv cap (snd (run_calls (spec_dispatch cap) cs a))"
  by (rule run_calls_inv [where I = "spec_inv cap"]) (simp_all add: spec_dispatch_inv)

lemma spec_dispatch_no_panic: "fst (spec_dispatch cap c a) \<noteq> Panicked"
  by (cases "snd c") (auto simp: spec_dispatch_def split: list.split)

lemma spec_run_no_panic: "Panicked \<notin> set (fst (run_calls (spec_dispatch cap) cs a))"
  by (induction cs arbitrary: a) (auto simp: spec_dispatch_no_panic [symmetric])

lemma spec_dispatch_robots:
  "robots (snd (spec_dispatch cap c a)) = robots a \<union> registered_by [c]"
proof (cases c)
  case (Pair b k)
  then show ?thesis
    by (cases b; cases k) (auto simp: spec_dispatch_def split: list.splits)
qed

lemma registered_by_Cons: "registered_by (c # cs) = registered_by [c] \<union> registered_by cs"
  by (cases c; cases "fst c"; cases "snd c") auto

lemma spec_run_robots:
  "robots (snd (run_calls (spec_dispatch cap) cs a)) = robots a \<union> registered_by cs"
proof (induction cs arbitrary: a)
  case (Cons c cs)
  with registered_by_Cons [of c cs] show ?case
    by (simp add: spec_dispatch_robots Un_assoc)
qed simp

subsection \<open>The pallet over a storage that obeys the laws\<close>

text \<open>
  What the pallet relies on: the laws of its two storage items and of the bounded vector, that a
  deposited event is appended to the log, and that the storage items and the log are separate.
\<close>

locale swarm_frame =
  map: storage_map_laws "RegisteredRobots T" +
  val: storage_value_laws "GlobalCommandQueue T" +
  vec: bounded_vec_laws "QueueVec T" "unat (MaxGlobalCommands T)"
  for T :: "('s, 'o, 'acc, 'rid, 'loc, 'task, 'q) swarm_config" +
  fixes read_events :: "'s \<Rightarrow> ('rid, 'loc, 'task) swarm_event list"
  assumes events_deposit [simp]: "read_events (deposit_event T e s) = read_events s @ [e]"
    and map_deposit [simp]: "sm_contains_key (RegisteredRobots T) r (deposit_event T e s) = sm_contains_key (RegisteredRobots T) r s"
    and val_deposit [simp]: "sv_get (GlobalCommandQueue T) (deposit_event T e s) = sv_get (GlobalCommandQueue T) s"
    and val_insert [simp]: "sv_get (GlobalCommandQueue T) (sm_insert (RegisteredRobots T) r u s) = sv_get (GlobalCommandQueue T) s"
    and events_insert [simp]: "read_events (sm_insert (RegisteredRobots T) r u s) = read_events s"
    and map_put [simp]: "sm_contains_key (RegisteredRobots T) r (sv_put (GlobalCommandQueue T) q s) = sm_contains_key (RegisteredRobots T) r s"
    and events_put [simp]: "read_events (sv_put (GlobalCommandQueue T) q s) = read_events s"

text \<open>The waiting commands of a state, and the abstraction to the abstract machine.\<close>

definition queue_of :: "('s, 'o, 'acc, 'rid, 'loc, 'task, 'q) swarm_config \<Rightarrow> 's \<Rightarrow> ('loc, 'task) command list" where
  "queue_of T s = bv_slice (QueueVec T) (sv_get (GlobalCommandQueue T) s)"

definition swarm_view ::
  "('s, 'o, 'acc, 'rid, 'loc, 'task, 'q) swarm_config \<Rightarrow> ('s \<Rightarrow> ('rid, 'loc, 'task) swarm_event list) \<Rightarrow> 's
     \<Rightarrow> ('rid, 'loc, 'task) swarm_spec" where
  "swarm_view T read_events s =
     \<lparr>robots = {r. sm_contains_key (RegisteredRobots T) r s}, waiting = queue_of T s, log = read_events s\<rparr>"

definition is_signed :: "('s, 'o, 'acc, 'rid, 'loc, 'task, 'q) swarm_config \<Rightarrow> 'o \<Rightarrow> bool" where
  "is_signed T origin \<longleftrightarrow> ensure_signed T origin \<noteq> None"

text \<open>Calls with their origins, as a block applies them.\<close>

definition swarm_apply ::
  "('s, 'o, 'acc, 'rid, 'loc, 'task, 'q) swarm_config \<Rightarrow> 'o \<times> ('rid, 'loc, 'task) swarm_call \<Rightarrow> 's
     \<Rightarrow> swarm_result \<times> 's" where
  "swarm_apply T = (\<lambda>(origin, c). swarm_dispatch T origin c)"

definition spec_calls ::
  "('s, 'o, 'acc, 'rid, 'loc, 'task, 'q) swarm_config \<Rightarrow> ('o \<times> ('rid, 'loc, 'task) swarm_call) list
     \<Rightarrow> (bool \<times> ('rid, 'loc, 'task) swarm_call) list" where
  "spec_calls T cs = map (\<lambda>oc. (is_signed T (fst oc), snd oc)) cs"

definition storage_empty ::
  "('s, 'o, 'acc, 'rid, 'loc, 'task, 'q) swarm_config \<Rightarrow> ('s \<Rightarrow> ('rid, 'loc, 'task) swarm_event list) \<Rightarrow> 's
     \<Rightarrow> bool" where
  "storage_empty T read_events s \<longleftrightarrow>
     (\<forall>r. \<not> sm_contains_key (RegisteredRobots T) r s) \<and> queue_of T s = [] \<and> read_events s = []"

text \<open>The pallet on the storage in memory.\<close>

type_synonym ('rid, 'loc, 'task, 'v, 'e) swarm_mem =
  "('rid, ('loc, 'task) command, 'v, ('rid, 'loc, 'task) swarm_event + 'e) mem_storage"

definition mem_swarm_config ::
  "u32 \<Rightarrow> (('rid, 'loc, 'task, 'v, 'e) swarm_mem, 'acc raw_origin, 'acc, 'rid, 'loc, 'task,
     ('loc, 'task) command list) swarm_config" where
  "mem_swarm_config limit =
     \<lparr>ensure_signed = mem_ensure_signed,
      RegisteredRobots = mem_keys_map,
      GlobalCommandQueue = mem_queue_value,
      QueueVec = list_vec (unat limit),
      deposit_event = (\<lambda>e. mem_deposit (Inl e)),
      MaxGlobalCommands = limit\<rparr>"

definition mem_swarm_events :: "('rid, 'loc, 'task, 'v, 'e) swarm_mem \<Rightarrow> ('rid, 'loc, 'task) swarm_event list" where
  "mem_swarm_events s = List.map_filter (\<lambda>e. case e of Inl x \<Rightarrow> Some x | Inr y \<Rightarrow> None) (mem_events s)"

lemma spec_calls_simps [simp]:
  "spec_calls T [] = []"
  "spec_calls T (oc # cs) = (is_signed T (fst oc), snd oc) # spec_calls T cs"
  by (simp_all add: spec_calls_def)

lemma view_empty: "storage_empty T read_events s \<longleftrightarrow> swarm_view T read_events s = spec_init"
  by (auto simp: storage_empty_def swarm_view_def spec_init_def)

lemma swarm_view_sel [simp]:
  "robots (swarm_view T read_events s) = {r. sm_contains_key (RegisteredRobots T) r s}"
  "waiting (swarm_view T read_events s) = queue_of T s"
  "log (swarm_view T read_events s) = read_events s"
  by (simp_all add: swarm_view_def)

lemma swarm_view_eqD:
  assumes "swarm_view T read_events s' = a"
  shows "sm_contains_key (RegisteredRobots T) r s' \<longleftrightarrow> r \<in> robots a" "queue_of T s' = waiting a"
    "read_events s' = log a"
  using assms by auto

lemmas swarm_ops [exec_defs] = register_robot_def enqueue_command_def pull_next_def

context swarm_frame
begin

abbreviation "cap \<equiv> unat (MaxGlobalCommands T)"
abbreviation "view \<equiv> swarm_view T read_events"

text \<open>Each dispatchable refines its step of the abstract machine, on every branch.\<close>

lemma register_refines:
  assumes "register_robot T origin r s = (res, s')"
  shows "spec_dispatch cap (is_signed T origin, RegisterRobot r) (view s) = (res, view s')"
  using assms
  by (auto simp: register_robot_def spec_dispatch_def is_signed_def swarm_view_def queue_of_def
      split: option.splits)

lemma enqueue_refines:
  assumes "enqueue_command T origin c s = (res, s')"
  shows "spec_dispatch cap (is_signed T origin, EnqueueCommand c) (view s) = (res, view s')"
  using assms
  by (cases rule: vec.try_push_cases [of "sv_get (GlobalCommandQueue T) s" c])
     (auto simp: enqueue_command_def spec_dispatch_def is_signed_def swarm_view_def queue_of_def
       split: option.splits)

lemma pull_refines:
  assumes "pull_next T origin r s = (res, s')"
  shows "spec_dispatch cap (is_signed T origin, PullNext r) (view s) = (res, view s')"
proof (cases "queue_of T s")
  case Nil
  with assms show ?thesis
    by (auto simp: pull_next_def spec_dispatch_def is_signed_def swarm_view_def queue_of_def
        split: option.splits if_splits)
next
  case (Cons c cs)
  then obtain q' where q': "bv_remove (QueueVec T) (sv_get (GlobalCommandQueue T) s) 0 = Some (c, q')"
      "bv_slice (QueueVec T) q' = cs"
    unfolding queue_of_def by (rule vec.remove_head)
  from assms Cons q' show ?thesis
    by (auto simp: pull_next_def spec_dispatch_def is_signed_def swarm_view_def queue_of_def target_def
        Let_def split: option.splits if_splits)
qed

lemma dispatch_refines:
  assumes "swarm_dispatch T origin c s = (res, s')"
  shows "spec_dispatch cap (is_signed T origin, c) (view s) = (res, view s')"
  using assms register_refines enqueue_refines pull_refines by (cases c) simp_all

lemma apply_refines:
  "spec_dispatch cap (is_signed T (fst oc), snd oc) (view s) =
     (fst (swarm_apply T oc s), view (snd (swarm_apply T oc s)))"
  by (rule dispatch_refines) (simp add: swarm_apply_def split_beta)

lemma run_refines:
  "run_calls (spec_dispatch cap) (spec_calls T cs) (view s) =
     (fst (run_calls (swarm_apply T) cs s), view (snd (run_calls (swarm_apply T) cs s)))"
proof (induction cs arbitrary: s)
  case (Cons oc cs)
  show ?case
    by (rule prod_eqI) (simp_all add: apply_refines Cons.IH)
qed simp

text \<open>Every run from an empty storage keeps the invariant of the abstract machine.\<close>

lemma run_invariant:
  assumes "storage_empty T read_events s"
  shows "spec_inv cap (view (snd (run_calls (swarm_apply T) cs s)))"
  using spec_run_inv [OF spec_inv_init, of cap "spec_calls T cs"] run_refines [of cs s] assms
  by (simp add: view_empty)

lemma run_robots:
  "robots (view (snd (run_calls (swarm_apply T) cs s))) = robots (view s) \<union> registered_by (spec_calls T cs)"
  using spec_run_robots [of cap "spec_calls T cs" "view s"] run_refines [of cs s] by simp

end

text \<open>A registered robot empties the queue, in order, by pulling as often as commands wait.\<close>

lemma spec_drain:
  assumes "r \<in> robots a"
  shows "run_calls (spec_dispatch n) (replicate (length (waiting a)) (True, PullNext r)) a =
    (replicate (length (waiting a)) (Ok ()),
     a\<lparr>waiting := [], log := log a @ map (\<lambda>c. CommandPulled r c (target c)) (waiting a)\<rparr>)"
  using assms
proof (induction "waiting a" arbitrary: a)
  case Nil
  then show ?case by simp
next
  case (Cons c cs)
  let ?a = "a\<lparr>waiting := cs, log := log a @ [CommandPulled r c (target c)]\<rparr>"
  have "spec_dispatch n (True, PullNext r) a = (Ok (), ?a)"
    using Cons.hyps(2) [symmetric] Cons.prems by (simp add: spec_dispatch_def)
  with Cons.hyps(1) [of ?a] Cons.prems Cons.hyps(2) [symmetric] show ?case
    by (simp add: run_calls.simps(2))
qed

text \<open>Commands that are enqueued one after the other fill the queue up to its capacity.\<close>

lemma spec_fill:
  assumes "waiting a = w" and "length w \<le> n"
    and "run_calls (spec_dispatch n) (map (\<lambda>c. (True, EnqueueCommand c)) cs) a = (rs, a')"
  shows "rs = replicate (min (length cs) (n - length w)) (Ok ()) @
           replicate (length cs - (n - length w)) (Err (ModuleError QueueFull)) \<and>
         waiting a' = take n (w @ cs)"
  using assms
proof (induction cs arbitrary: a w rs)
  case Nil
  then show ?case by simp
next
  case (Cons c cs)
  obtain r a1 qs where step: "spec_dispatch n (True, EnqueueCommand c) a = (r, a1)"
    and rest: "run_calls (spec_dispatch n) (map (\<lambda>c. (True, EnqueueCommand c)) cs) a1 = (qs, a')" and "rs = r # qs"
    using Cons.prems(3) by (auto simp: run_calls.simps(2) split: prod.splits)
  show ?case
  proof (cases "length w < n")
    case True
    with step Cons.prems(1) have "r = Ok ()" and "waiting a1 = w @ [c]"
      by (auto simp: spec_dispatch_def)
    moreover have "n - length w = Suc (n - Suc (length w))" using True by simp
    ultimately show ?thesis
      using Cons.IH [OF _ _ rest, of "w @ [c]"] True \<open>rs = r # qs\<close> by simp
  next
    case False
    with step Cons.prems(1) have "r = Err (ModuleError QueueFull)" and "waiting a1 = w"
      by (auto simp: spec_dispatch_def)
    with Cons.IH [OF _ Cons.prems(2) rest] False \<open>rs = r # qs\<close> Cons.prems(2) show ?thesis by simp
  qed
qed

text \<open>The pallet meets the contract of the dispatchables.\<close>

sublocale swarm_frame \<subseteq> call: dispatchable "swarm_dispatch T" "is_signed T" BadOrigin
proof
  fix origin c s e
  show "\<not> is_signed T origin \<Longrightarrow> swarm_dispatch T origin c s = (Err BadOrigin, s)"
    by (cases c) (simp_all add: swarm_ops is_signed_def)
  show "fst (swarm_dispatch T origin c s) = Err e \<Longrightarrow> snd (swarm_dispatch T origin c s) = s"
    by (cases c) (auto simp: swarm_ops Let_def split: option.splits sum.splits if_splits)
  show "fst (swarm_dispatch T origin c s) \<noteq> Panicked"
  proof -
    have "fst (spec_dispatch cap (is_signed T origin, c) (view s)) \<noteq> Panicked"
      by (cases c) (auto simp: spec_dispatch_def split: list.splits)
    then show ?thesis
      using dispatch_refines [of origin c s] by (metis fst_conv prod.collapse)
  qed
qed

context swarm_frame
begin

lemma fill:
  assumes "is_signed T origin" and "queue_of T s = []"
    and "run_calls (swarm_apply T) (map (\<lambda>c. (origin, EnqueueCommand c)) cs) s = (rs, s')"
  shows "rs = replicate (min (length cs) cap) (Ok ()) @ replicate (length cs - cap) (Err (ModuleError QueueFull)) \<and>
         queue_of T s' = take cap cs"
proof -
  have "spec_calls T (map (\<lambda>c. (origin, EnqueueCommand c)) cs) = map (\<lambda>c. (True, EnqueueCommand c)) cs"
    using assms(1) by (simp add: spec_calls_def)
  with run_refines [of "map (\<lambda>c. (origin, EnqueueCommand c)) cs" s] assms(3)
  have "run_calls (spec_dispatch cap) (map (\<lambda>c. (True, EnqueueCommand c)) cs) (view s) = (rs, view s')"
    by simp
  from spec_fill [OF _ _ this] assms(2) show ?thesis by simp
qed

lemmas call_no_panic = call.no_panic
lemmas call_not_Ok_unchanged = call.not_Ok_unchanged
lemmas call_storage_layer_idle = call.storage_layer_idle
lemmas call_run_signed_only = call.run_signed_only

end

interpretation mem_swarm: swarm_frame "mem_swarm_config limit" mem_swarm_events for limit
  by unfold_locales
     (auto simp: mem_swarm_config_def mem_swarm_events_def mem_defs)

text \<open>
  A run on the storage in memory with room for two commands: a robot registers, four commands are
  enqueued of which one is not signed and one finds the queue full, and the robot pulls one.
\<close>

definition demo_config ::
  "((u32, coordinate, u32, unit, unit) swarm_mem, nat raw_origin, nat, u32, coordinate, u32,
     (coordinate, u32) command list) swarm_config" where
  "demo_config = mem_swarm_config 2"

definition demo_move :: "(coordinate, u32) command" where
  "demo_move = GoToLocation \<lparr>coord_x = 10, coord_y = 20\<rparr>"

definition demo_calls :: "(nat raw_origin \<times> (u32, coordinate, u32) swarm_call) list" where
  "demo_calls =
     [(Signed 1, RegisterRobot 7), (Signed 2, EnqueueCommand demo_move), (Root, EnqueueCommand Halt),
      (Signed 2, EnqueueCommand (PerformTask 5)), (Signed 2, EnqueueCommand WaitForCommand),
      (Signed 3, PullNext 7)]"

definition demo_state :: "(u32, coordinate, u32, unit, unit) swarm_mem" where
  "demo_state =
     \<lparr>mem_keys = [7], mem_queue = [PerformTask 5], mem_value = None,
      mem_events = [Inl (CommandEnqueued demo_move), Inl (CommandEnqueued (PerformTask 5)),
        Inl (CommandPulled 7 demo_move (Some \<lparr>coord_x = 10, coord_y = 20\<rparr>))]\<rparr>"

lemmas demo_defs = demo_config_def demo_calls_def demo_move_def demo_state_def mem_swarm_config_def
  mem_swarm_events_def mem_defs swarm_ops swarm_apply_def queue_of_def is_signed_def slice_get_def

lemma demo_frame: "swarm_frame demo_config mem_swarm_events"
  unfolding demo_config_def by (rule mem_swarm.swarm_frame_axioms)

lemma demo_empty: "storage_empty demo_config mem_swarm_events mem_empty"
  by (simp add: storage_empty_def demo_defs)

lemma demo_run:
  "run_calls (swarm_apply demo_config) demo_calls mem_empty =
     ([Ok (), Ok (), Err BadOrigin, Ok (), Err (ModuleError QueueFull), Ok ()], demo_state)"
  by (simp add: demo_defs run_calls.simps Let_def)

lemma demo_view:
  "mem_swarm_events demo_state = [CommandEnqueued demo_move, CommandEnqueued (PerformTask 5),
     CommandPulled 7 demo_move (Some \<lparr>coord_x = 10, coord_y = 20\<rparr>)]"
  "queue_of demo_config demo_state = [PerformTask 5]"
  "sm_contains_key (RegisteredRobots demo_config) 7 demo_state"
  "MaxGlobalCommands demo_config = 2"
  by (simp_all add: demo_defs)

subsection \<open>Properties\<close>

text \<open>
  C1: Every run of calls of the pallet returns the results of the abstract machine and leaves a
  storage that abstracts to its state: robot registry, queue and event log are those of a set, a
  first-in first-out list of bounded length and a log.
\<close>

theorem swarm_refines_spec:
  assumes "swarm_frame T read_events"
  shows "run_calls (spec_dispatch (unat (MaxGlobalCommands T))) (spec_calls T cs) (swarm_view T read_events s) =
    (fst (run_calls (swarm_apply T) cs s), swarm_view T read_events (snd (run_calls (swarm_apply T) cs s)))"
  by (rule swarm_frame.run_refines [OF assms])

theorem swarm_refines_spec_witness:
  "run_calls (spec_dispatch 2) (spec_calls demo_config demo_calls) (swarm_view demo_config mem_swarm_events mem_empty) =
     ([Ok (), Ok (), Err BadOrigin, Ok (), Err (ModuleError QueueFull), Ok ()],
      swarm_view demo_config mem_swarm_events demo_state)"
  using swarm_refines_spec [OF demo_frame, of demo_calls mem_empty] by (simp add: demo_run demo_view)

text \<open>
  C2: Whatever calls are made, by whichever accounts and in whichever order, the commands that were
  enqueued are exactly the commands that were pulled, in the same order, followed by the commands
  that still wait: no command is lost, delivered twice or overtaken.
\<close>

theorem swarm_exactly_once_in_order:
  assumes "swarm_frame T read_events" and "storage_empty T read_events s"
    and "s' = snd (run_calls (swarm_apply T) cs s)"
  shows "enqueued_of (read_events s') = pulled_of (read_events s') @ queue_of T s'"
  using swarm_frame.run_invariant [OF assms(1,2), of cs] assms(3)
  by (simp add: spec_inv_def swarm_view_def)

theorem swarm_exactly_once_in_order_witness:
  "enqueued_of (mem_swarm_events demo_state) = [demo_move, PerformTask 5] \<and>
   enqueued_of (mem_swarm_events demo_state) =
     pulled_of (mem_swarm_events demo_state) @ queue_of demo_config demo_state"
  using swarm_exactly_once_in_order [OF demo_frame demo_empty, of demo_state demo_calls]
  by (simp add: demo_run demo_view)

text \<open>The queue never holds more than \<open>MaxGlobalCommands\<close> commands.\<close>

lemma swarm_queue_bounded:
  assumes "swarm_frame T read_events" and "storage_empty T read_events s"
  shows "length (queue_of T (snd (run_calls (swarm_apply T) cs s))) \<le> unat (MaxGlobalCommands T)"
  using swarm_frame.run_invariant [OF assms, of cs]
  by (simp add: spec_inv_def swarm_view_def)

lemma swarm_queue_bounded_example:
  "length (queue_of demo_config (snd (run_calls (swarm_apply demo_config) demo_calls mem_empty))) \<le> 2"
  using swarm_queue_bounded [OF demo_frame demo_empty, of demo_calls] by (simp add: demo_view)

text \<open>
  A robot for which a command was pulled was registered by a signed \<open>register_robot\<close> call of
  the same run.
\<close>

lemma swarm_pullers_registered:
  assumes "swarm_frame T read_events" and "storage_empty T read_events s"
  shows "pullers_of (read_events (snd (run_calls (swarm_apply T) cs s))) \<subseteq> registered_by (spec_calls T cs)"
  using swarm_frame.run_invariant [OF assms, of cs] swarm_frame.run_robots [OF assms(1), of cs s]
    assms(2)
  by (auto simp: spec_inv_def swarm_view_def storage_empty_def)

lemma swarm_pullers_registered_example:
  "pullers_of (mem_swarm_events demo_state) = {7} \<and>
   pullers_of (mem_swarm_events demo_state) \<subseteq> registered_by (spec_calls demo_config demo_calls)"
  using swarm_pullers_registered [OF demo_frame demo_empty, of demo_calls]
  by (simp add: demo_run demo_view)

text \<open>
  Every \<open>CommandPulled\<close> event carries the coordinate of its command exactly when the command is
  \<open>GoToLocation\<close>.
\<close>

lemma swarm_event_coordinate:
  assumes "swarm_frame T read_events" and "storage_empty T read_events s"
    and "CommandPulled r c k \<in> set (read_events (snd (run_calls (swarm_apply T) cs s)))"
  shows "k = Some l \<longleftrightarrow> c = GoToLocation l"
proof -
  have "list_all event_consistent (read_events (snd (run_calls (swarm_apply T) cs s)))"
    using swarm_frame.run_invariant [OF assms(1,2), of cs] by (simp add: spec_inv_def swarm_view_def)
  with assms(3) have "event_consistent (CommandPulled r c k)"
    by (auto simp: list_all_iff)
  then show ?thesis
    by (cases c) (auto simp: target_def)
qed

lemma swarm_event_coordinate_example:
  "Some \<lparr>coord_x = 10, coord_y = 20\<rparr> = Some \<lparr>coord_x = 10, coord_y = (20::u32)\<rparr> \<longleftrightarrow>
   demo_move = GoToLocation \<lparr>coord_x = 10, coord_y = 20\<rparr>"
proof -
  have "CommandPulled 7 demo_move (Some \<lparr>coord_x = 10, coord_y = 20\<rparr>) \<in>
      set (mem_swarm_events (snd (run_calls (swarm_apply demo_config) demo_calls mem_empty)))"
    by (simp add: demo_run demo_view)
  then show ?thesis by (rule swarm_event_coordinate [OF demo_frame demo_empty])
qed

text \<open>
  C19: \<open>pull_next\<close> on every branch. The origin is checked before the registry and the registry before
  the queue; on success the oldest command leaves the queue, is reported with its coordinate, and
  the registry stays as it is; on error nothing changes.
\<close>

theorem pull_next_behaviour:
  assumes "swarm_frame T read_events" and "pull_next T origin r s = (res, s')"
  shows "res = (if \<not> is_signed T origin then Err BadOrigin
                else if \<not> sm_contains_key (RegisteredRobots T) r s then Err (ModuleError InvalidRobotId)
                else if queue_of T s = [] then Err (ModuleError QueueEmpty)
                else Ok ()) \<and>
         (if res = Ok ()
          then queue_of T s = hd (queue_of T s) # queue_of T s' \<and>
               read_events s' = read_events s @ [CommandPulled r (hd (queue_of T s)) (target (hd (queue_of T s)))] \<and>
               (\<forall>r'. sm_contains_key (RegisteredRobots T) r' s' = sm_contains_key (RegisteredRobots T) r' s)
          else s' = s)"
proof -
  let ?a = "spec_dispatch (unat (MaxGlobalCommands T)) (is_signed T origin, PullNext r) (swarm_view T read_events s)"
  from swarm_frame.pull_refines [OF assms] have res: "res = fst ?a" and v: "swarm_view T read_events s' = snd ?a"
    by simp_all
  have same: "\<not> is_Ok res \<Longrightarrow> s' = s"
    using swarm_frame.call_not_Ok_unchanged [OF assms(1), of origin "PullNext r" s] assms(2) by simp
  note eqs = swarm_view_eqD [OF v]
  show ?thesis
    using same unfolding res eqs by (simp add: spec_dispatch_def split: list.split)
qed

theorem pull_next_behaviour_witness:
  "fst (pull_next demo_config (Signed 3) 7 demo_state) = Ok () \<and>
   queue_of demo_config (snd (pull_next demo_config (Signed 3) 7 demo_state)) = [] \<and>
   fst (pull_next demo_config (Signed 3) 8 demo_state) = Err (ModuleError InvalidRobotId)"
proof -
  have b: "is_signed demo_config (Signed 3)" "\<not> sm_contains_key (RegisteredRobots demo_config) 8 demo_state"
    by (simp_all add: demo_defs)
  show ?thesis
    using pull_next_behaviour [OF demo_frame surjective_pairing, of "Signed 3" 7 demo_state]
      pull_next_behaviour [OF demo_frame surjective_pairing, of "Signed 3" 8 demo_state]
    by (auto simp: b demo_view)
qed

text \<open>
  C20: \<open>enqueue_command\<close> on every branch. A signed call succeeds exactly while fewer than
  \<open>MaxGlobalCommands\<close> commands wait; the command is then the last of the queue and is reported, and
  the registry stays as it is; on error nothing changes.
\<close>

theorem enqueue_command_behaviour:
  assumes "swarm_frame T read_events" and "enqueue_command T origin c s = (res, s')"
  shows "res = (if \<not> is_signed T origin then Err BadOrigin
                else if length (queue_of T s) < unat (MaxGlobalCommands T) then Ok ()
                else Err (ModuleError QueueFull)) \<and>
         (if res = Ok ()
          then queue_of T s' = queue_of T s @ [c] \<and>
               read_events s' = read_events s @ [CommandEnqueued c] \<and>
               (\<forall>r'. sm_contains_key (RegisteredRobots T) r' s' = sm_contains_key (RegisteredRobots T) r' s)
          else s' = s)"
proof -
  let ?a = "spec_dispatch (unat (MaxGlobalCommands T)) (is_signed T origin, EnqueueCommand c) (swarm_view T read_events s)"
  from swarm_frame.enqueue_refines [OF assms] have res: "res = fst ?a" and v: "swarm_view T read_events s' = snd ?a"
    by simp_all
  have same: "\<not> is_Ok res \<Longrightarrow> s' = s"
    using swarm_frame.call_not_Ok_unchanged [OF assms(1), of origin "EnqueueCommand c" s] assms(2) by simp
  note eqs = swarm_view_eqD [OF v]
  show ?thesis
    using same unfolding res eqs by (simp add: spec_dispatch_def split: list.split)
qed

theorem enqueue_command_behaviour_witness:
  "fst (enqueue_command demo_config (Signed 3) Halt demo_state) = Ok () \<and>
   queue_of demo_config (snd (enqueue_command demo_config (Signed 3) Halt demo_state)) = [PerformTask 5, Halt]"
proof -
  have "is_signed demo_config (Signed 3)" by (simp add: demo_defs)
  then show ?thesis
    using enqueue_command_behaviour [OF demo_frame surjective_pairing, of "Signed 3" Halt demo_state]
    by (simp add: demo_view)
qed

text \<open>
  C18: No call of the pallet panics, in particular \<open>queue.remove(0)\<close> in \<open>pull_next\<close> does not, and the
  storage layer around the calls has nothing to discard: a call that returns an error has
  written nothing.
\<close>

theorem swarm_calls_atomic:
  assumes "swarm_frame T read_events"
  shows "fst (swarm_dispatch T origin c s) \<noteq> Panicked \<and>
    with_storage_layer (swarm_dispatch T origin c) s = swarm_dispatch T origin c s"
  using swarm_frame.call_no_panic [OF assms] swarm_frame.call_storage_layer_idle [OF assms] by blast

theorem swarm_calls_atomic_witness:
  "fst (swarm_dispatch demo_config (Signed 3) (PullNext 7) mem_empty) \<noteq> Panicked \<and>
   with_storage_layer (swarm_dispatch demo_config (Signed 3) (PullNext 7)) mem_empty =
     swarm_dispatch demo_config (Signed 3) (PullNext 7) mem_empty"
  by (rule swarm_calls_atomic [OF demo_frame])

text \<open>
  C17: A registered robot that pulls as often as commands wait receives all of them, in order, each
  pull succeeding, and leaves an empty queue.
\<close>

theorem swarm_drain:
  assumes "swarm_frame T read_events" and "is_signed T origin"
    and "sm_contains_key (RegisteredRobots T) r s"
    and "run_calls (swarm_apply T) (replicate (length (queue_of T s)) (origin, PullNext r)) s = (rs, s')"
  shows "rs = replicate (length (queue_of T s)) (Ok ()) \<and> queue_of T s' = [] \<and>
    read_events s' = read_events s @ map (\<lambda>c. CommandPulled r c (target c)) (queue_of T s)"
proof -
  have calls: "spec_calls T (replicate n (origin, PullNext r)) = replicate n (True, PullNext r)" for n
    using assms(2) by (induction n) simp_all
  show ?thesis
    using spec_drain [of r "swarm_view T read_events s" "unat (MaxGlobalCommands T)"] assms(3,4)
      swarm_frame.run_refines [OF assms(1), of "replicate (length (queue_of T s)) (origin, PullNext r)" s]
    by (auto simp: swarm_view_def calls)
qed

theorem swarm_drain_witness:
  "fst (run_calls (swarm_apply demo_config) [(Signed 4, PullNext 7)] demo_state) = [Ok ()] \<and>
   queue_of demo_config (snd (run_calls (swarm_apply demo_config) [(Signed 4, PullNext 7)] demo_state)) = []"
proof -
  have signed: "is_signed demo_config (Signed 4)" by (simp add: demo_defs)
  show ?thesis
    using swarm_drain [OF demo_frame signed demo_view(3) surjective_pairing]
    by (simp add: demo_view)
qed

text \<open>
  C21: A signed \<open>register_robot\<close> always succeeds and adds exactly the robot it names, so a second
  registration changes nothing; it leaves the queue as it is and deposits no event.
\<close>

theorem register_robot_behaviour:
  assumes "swarm_frame T read_events" and "is_signed T origin"
    and "register_robot T origin r s = (res, s')"
  shows "res = Ok () \<and> swarm_view T read_events s' =
    (swarm_view T read_events s)\<lparr>robots := insert r (robots (swarm_view T read_events s))\<rparr>"
  using swarm_frame.register_refines [OF assms(1,3)] assms(2)
  by (auto simp: spec_dispatch_def)

theorem register_robot_behaviour_witness:
  "fst (register_robot demo_config (Signed 1) 7 mem_empty) = Ok () \<and>
   robots (swarm_view demo_config mem_swarm_events (snd (register_robot demo_config (Signed 1) 7 mem_empty))) = {7}"
proof -
  have signed: "is_signed demo_config (Signed 1)" by (simp add: demo_defs)
  show ?thesis
    using register_robot_behaviour [OF demo_frame signed surjective_pairing, of 7 mem_empty] demo_empty
    by (simp add: storage_empty_def del: swarm_view_sel) (simp add: swarm_view_def)
qed

text \<open>Leaving out the calls of a run that are not signed does not change the state it reaches.\<close>

lemma swarm_unsigned_calls_inert:
  assumes "swarm_frame T read_events"
  shows "snd (run_calls (swarm_apply T) (filter (\<lambda>(origin, c). is_signed T origin) cs) s) =
    snd (run_calls (swarm_apply T) cs s)"
  using swarm_frame.call_run_signed_only [OF assms, of cs s] by (simp add: swarm_apply_def)

lemma swarm_unsigned_calls_inert_example:
  "snd (run_calls (swarm_apply demo_config) (filter (\<lambda>(origin, c). is_signed demo_config origin) demo_calls) mem_empty) =
   demo_state"
  using swarm_unsigned_calls_inert [OF demo_frame, of demo_calls mem_empty] by (simp add: demo_run)


end
