(* ===== verification/Template_Pallet.thy ===== *)
theory Template_Pallet
  imports Frame_Reference Weight_Interface
begin

text \<open>
  The pallet of pallets/template/src: one optional block number in storage, a call that sets it and
  a call that increments it with a checked addition (lib.rs), the weights of the calls (lib.rs and
  weights.rs), the benchmarks with their assertions (benchmarking.rs) and the tests (tests.rs).

  The lemmas give every branch of the calls, count what repeated increments do up to the largest
  block number, and compare the weights the calls declare with the weights of weights.rs.
\<close>

subsection \<open>Data and configuration\<close>

record 'bn composite_struct =
  block_number :: 'bn

datatype ('bn, 'acc) template_event = SomethingStored 'bn 'acc

datatype template_error = NoneValue | StorageOverflow

text \<open>
  The configuration: the SDK operations on the storage item, the block number type of the chain
  (its conversion from \<open>u32\<close>, its \<open>checked_add\<close> and its \<open>one\<close>), the database weights and the implementation of
  the trait \<open>WeightInfo\<close>, of which weights.rs has two.
\<close>

datatype weight_info = SubstrateWeight | UnitWeight

record ('s, 'o, 'acc, 'bn) template_config =
  tpl_ensure_signed :: "'o \<Rightarrow> 'acc option"
  Something :: "('s, 'bn composite_struct) storage_option"
  tpl_deposit_event :: "('bn, 'acc) template_event \<Rightarrow> 's \<Rightarrow> 's"
  bn_from_u32 :: "u32 \<Rightarrow> 'bn"
  bn_checked_add :: "'bn \<Rightarrow> 'bn \<Rightarrow> 'bn option"
  bn_one :: 'bn
  tpl_DbWeight :: db_weight
  tpl_WeightInfo :: weight_info

type_synonym template_result = "(template_error dispatch_error, unit) outcome"

subsection \<open>Dispatchables\<close>

definition do_something ::
  "('s, 'o, 'acc, 'bn) template_config \<Rightarrow> 'o \<Rightarrow> u32 \<Rightarrow> 's \<Rightarrow> template_result \<times> 's" where
  "do_something T origin bn s =
     (case tpl_ensure_signed T origin of
        None \<Rightarrow> (Err BadOrigin, s)
      | Some who \<Rightarrow>
          let n = bn_from_u32 T bn;
              s1 = so_put (Something T) \<lparr>block_number = n\<rparr> s;
              s2 = tpl_deposit_event T (SomethingStored n who) s1
          in (Ok (), s2))"

definition cause_error ::
  "('s, 'o, 'acc, 'bn) template_config \<Rightarrow> 'o \<Rightarrow> 's \<Rightarrow> template_result \<times> 's" where
  "cause_error T origin s =
     (case tpl_ensure_signed T origin of
        None \<Rightarrow> (Err BadOrigin, s)
      | Some who \<Rightarrow>
          (case so_get (Something T) s of
             None \<Rightarrow> (Err (ModuleError NoneValue), s)
           | Some old \<Rightarrow>
               (case bn_checked_add T (block_number old) (bn_one T) of
                  None \<Rightarrow> (Err (ModuleError StorageOverflow), s)
                | Some n \<Rightarrow> (Ok (), so_put (Something T) (old\<lparr>block_number := n\<rparr>) s))))"

datatype template_call = DoSomething u32 | CauseError

primrec template_call_index :: "template_call \<Rightarrow> u8" where
  "template_call_index (DoSomething bn) = 0"
| "template_call_index CauseError = 1"

primrec template_dispatch ::
  "('s, 'o, 'acc, 'bn) template_config \<Rightarrow> 'o \<Rightarrow> template_call \<Rightarrow> 's \<Rightarrow> template_result \<times> 's" where
  "template_dispatch T origin (DoSomething bn) s = do_something T origin bn s"
| "template_dispatch T origin CauseError s = cause_error T origin s"

subsection \<open>Weights\<close>

text \<open>The weights the \<open>pallet::weight\<close> attributes of the calls declare, and the weight of a call.\<close>

definition do_something_weight :: "'w weight_api \<Rightarrow> ('s, 'o, 'acc, 'bn) template_config \<Rightarrow> 'w" where
  "do_something_weight W T = weight_add W (from_parts W 10000 0) (db_writes W (tpl_DbWeight T) 1)"

definition cause_error_weight :: "'w weight_api \<Rightarrow> ('s, 'o, 'acc, 'bn) template_config \<Rightarrow> 'w" where
  "cause_error_weight W T = weight_add W (from_parts W 10000 0) (db_reads_writes W (tpl_DbWeight T) 1 1)"

primrec template_call_weight ::
  "'w weight_api \<Rightarrow> ('s, 'o, 'acc, 'bn) template_config \<Rightarrow> template_call \<Rightarrow> 'w" where
  "template_call_weight W T (DoSomething bn) = do_something_weight W T"
| "template_call_weight W T CauseError = cause_error_weight W T"

text \<open>The benchmarked weights of weights.rs, for \<open>SubstrateWeight<T>\<close> and for \<open>()\<close>.\<close>

definition substrate_weight_do_something :: "'w weight_api \<Rightarrow> ('s, 'o, 'acc, 'bn) template_config \<Rightarrow> 'w" where
  "substrate_weight_do_something W T =
     weight_saturating_add W (from_parts W 9000000 0) (db_writes W (tpl_DbWeight T) 1)"

definition substrate_weight_cause_error :: "'w weight_api \<Rightarrow> ('s, 'o, 'acc, 'bn) template_config \<Rightarrow> 'w" where
  "substrate_weight_cause_error W T =
     weight_saturating_add W
       (weight_saturating_add W (from_parts W 6000000 1489) (db_reads W (tpl_DbWeight T) 1))
       (db_writes W (tpl_DbWeight T) 1)"

definition unit_weight_do_something :: "'w weight_api \<Rightarrow> db_weight \<Rightarrow> 'w" where
  "unit_weight_do_something W rocks_db =
     weight_saturating_add W (from_parts W 9000000 0) (db_writes W rocks_db 1)"

definition unit_weight_cause_error :: "'w weight_api \<Rightarrow> db_weight \<Rightarrow> 'w" where
  "unit_weight_cause_error W rocks_db =
     weight_saturating_add W
       (weight_saturating_add W (from_parts W 6000000 1489) (db_reads W rocks_db 1))
       (db_writes W rocks_db 1)"

text \<open>The functions of the trait, for the implementation a configuration names.\<close>

definition WeightInfo_do_something :: "'w weight_api \<Rightarrow> db_weight \<Rightarrow> ('s, 'o, 'acc, 'bn) template_config \<Rightarrow> 'w" where
  "WeightInfo_do_something W rocks_db T =
     (case tpl_WeightInfo T of
        SubstrateWeight \<Rightarrow> substrate_weight_do_something W T
      | UnitWeight \<Rightarrow> unit_weight_do_something W rocks_db)"

definition WeightInfo_cause_error :: "'w weight_api \<Rightarrow> db_weight \<Rightarrow> ('s, 'o, 'acc, 'bn) template_config \<Rightarrow> 'w" where
  "WeightInfo_cause_error W rocks_db T =
     (case tpl_WeightInfo T of
        SubstrateWeight \<Rightarrow> substrate_weight_cause_error W T
      | UnitWeight \<Rightarrow> unit_weight_cause_error W rocks_db)"

text \<open>With the database weights of RocksDB the two implementations agree.\<close>

lemma weight_info_agree:
  assumes "tpl_DbWeight T = rocks_db"
  shows "WeightInfo_do_something W rocks_db T = substrate_weight_do_something W T"
    and "WeightInfo_cause_error W rocks_db T = substrate_weight_cause_error W T"
  by (simp_all add: WeightInfo_do_something_def WeightInfo_cause_error_def assms [symmetric]
      substrate_weight_do_something_def unit_weight_do_something_def substrate_weight_cause_error_def
      unit_weight_cause_error_def split: weight_info.split)

subsection \<open>Benchmarks and tests\<close>

text \<open>
  The benchmarks and tests as the conditions they assert. \<open>mk_signed\<close> makes a signed origin of an
  account (\<open>RawOrigin::Signed\<close>), \<open>caller\<close> is the whitelisted caller and \<open>s\<close> the state they start in.
\<close>

definition benchmark_do_something ::
  "('s, 'o, 'acc, 'bn) template_config \<Rightarrow> ('acc \<Rightarrow> 'o) \<Rightarrow> 'acc \<Rightarrow> 's \<Rightarrow> bool" where
  "benchmark_do_something T mk_signed caller s =
     (case do_something T (mk_signed caller) 100 s of
        (Ok _, s') \<Rightarrow> map_option block_number (so_get (Something T) s') = Some (bn_from_u32 T 100)
      | _ \<Rightarrow> False)"

definition benchmark_cause_error ::
  "('s, 'o, 'acc, 'bn) template_config \<Rightarrow> ('acc \<Rightarrow> 'o) \<Rightarrow> 'acc \<Rightarrow> 's \<Rightarrow> bool" where
  "benchmark_cause_error T mk_signed caller s =
     (case cause_error T (mk_signed caller) (so_put (Something T) \<lparr>block_number = bn_from_u32 T 100\<rparr> s) of
        (Ok _, s') \<Rightarrow> map_option block_number (so_get (Something T) s') = Some (bn_from_u32 T 101)
      | _ \<Rightarrow> False)"

definition it_works_for_default_value ::
  "('s, 'o, 'acc, 'bn) template_config \<Rightarrow> ('acc \<Rightarrow> 'o) \<Rightarrow> 'acc \<Rightarrow> 's \<Rightarrow> bool" where
  "it_works_for_default_value T mk_signed account_1 s =
     (case do_something T (mk_signed account_1) 42 s of
        (Ok _, s') \<Rightarrow> map_option block_number (so_get (Something T) s') = Some (bn_from_u32 T 42)
      | _ \<Rightarrow> False)"

definition correct_error_for_none_value ::
  "('s, 'o, 'acc, 'bn) template_config \<Rightarrow> ('acc \<Rightarrow> 'o) \<Rightarrow> 'acc \<Rightarrow> 's \<Rightarrow> bool" where
  "correct_error_for_none_value T mk_signed account_1 s =
     (cause_error T (mk_signed account_1) s = (Err (ModuleError NoneValue), s))"

lemmas template_ops [exec_defs] = do_something_def cause_error_def

subsection \<open>The pallet over a storage that obeys the laws\<close>

text \<open>
  What the pallet relies on. \<open>bn_val\<close> reads a block number as a natural number and \<open>bn_max\<close> is the
  largest one.
\<close>

locale template_frame =
  opt: storage_option_laws "Something T"
  for T :: "('s, 'o, 'acc, 'bn) template_config" +
  fixes read_events :: "'s \<Rightarrow> ('bn, 'acc) template_event list"
    and bn_val :: "'bn \<Rightarrow> nat" and bn_max :: nat
  assumes events_deposit [simp]: "read_events (tpl_deposit_event T e s) = read_events s @ [e]"
    and opt_deposit [simp]: "so_get (Something T) (tpl_deposit_event T e s) = so_get (Something T) s"
    and events_put [simp]: "read_events (so_put (Something T) v s) = read_events s"
    and bn_val_inj: "bn_val a = bn_val b \<Longrightarrow> a = b"
    and bn_val_max: "bn_val a \<le> bn_max"
    and bn_val_u32: "bn_val (bn_from_u32 T n) = unat n"
    and bn_val_one: "bn_val (bn_one T) = 1"
    and checked_add_fits: "bn_val a + bn_val b \<le> bn_max \<Longrightarrow> \<exists>c. bn_checked_add T a b = Some c \<and> bn_val c = bn_val a + bn_val b"
    and checked_add_overflow: "bn_max < bn_val a + bn_val b \<Longrightarrow> bn_checked_add T a b = None"

definition stored :: "('s, 'o, 'acc, 'bn) template_config \<Rightarrow> 's \<Rightarrow> 'bn option" where
  "stored T s = map_option block_number (so_get (Something T) s)"

definition tpl_is_signed :: "('s, 'o, 'acc, 'bn) template_config \<Rightarrow> 'o \<Rightarrow> bool" where
  "tpl_is_signed T origin \<longleftrightarrow> tpl_ensure_signed T origin \<noteq> None"

text \<open>The pallet on the storage in memory, for a chain whose block numbers are words.\<close>

type_synonym ('w, 'acc, 'k, 'c, 'e) template_mem =
  "('k, 'c, 'w word composite_struct, 'e + ('w word, 'acc) template_event) mem_storage"

definition mem_template_config ::
  "weight_info \<Rightarrow> db_weight \<Rightarrow> (('w::len, 'acc, 'k, 'c, 'e) template_mem, 'acc raw_origin, 'acc, 'w word) template_config" where
  "mem_template_config wi db =
     \<lparr>tpl_ensure_signed = mem_ensure_signed,
      Something = mem_option_value,
      tpl_deposit_event = (\<lambda>e. mem_deposit (Inr e)),
      bn_from_u32 = (\<lambda>n. ucast n),
      bn_checked_add = checked_add,
      bn_one = 1,
      tpl_DbWeight = db,
      tpl_WeightInfo = wi\<rparr>"

definition mem_template_events :: "('w::len, 'acc, 'k, 'c, 'e) template_mem \<Rightarrow> ('w word, 'acc) template_event list" where
  "mem_template_events s = List.map_filter (\<lambda>e. case e of Inl x \<Rightarrow> None | Inr y \<Rightarrow> Some y) (mem_events s)"

context template_frame
begin

lemma add_one:
  "bn_checked_add T a (bn_one T) = None \<longleftrightarrow> bn_val a = bn_max"
  "bn_checked_add T a (bn_one T) = Some c \<Longrightarrow> bn_val c = Suc (bn_val a)"
  using checked_add_fits [of a "bn_one T"] checked_add_overflow [of a "bn_one T"] bn_val_max [of a]
  by (cases "bn_val a < bn_max"; force simp: bn_val_one)+

lemma cause_error_step:
  assumes "tpl_is_signed T origin" and "stored T s = Some n"
  shows "bn_val n < bn_max \<Longrightarrow> \<exists>m s'. cause_error T origin s = (Ok (), s') \<and> stored T s' = Some m \<and>
      bn_val m = Suc (bn_val n) \<and> read_events s' = read_events s"
    and "bn_val n = bn_max \<Longrightarrow> cause_error T origin s = (Err (ModuleError StorageOverflow), s)"
  using assms add_one [of n]
  by (auto simp: cause_error_def tpl_is_signed_def stored_def split: option.splits)

text \<open>Repeated increments: the value grows by one per call up to the largest block number.\<close>

lemma cause_error_run:
  assumes "tpl_is_signed T origin" and "stored T s = Some n"
    and "run_calls (template_dispatch T origin) (replicate k CauseError) s = (rs, s')"
  shows "rs = replicate (min k (bn_max - bn_val n)) (Ok ()) @
           replicate (k - (bn_max - bn_val n)) (Err (ModuleError StorageOverflow)) \<and>
         map_option bn_val (stored T s') = Some (min (bn_val n + k) bn_max) \<and>
         read_events s' = read_events s"
  using assms(2,3)
proof (induction k arbitrary: s n rs)
  case 0
  then show ?case using bn_val_max [of n] by simp
next
  case (Suc k)
  show ?case
  proof (cases "bn_val n = bn_max")
    case True
    from cause_error_step(2) [OF assms(1) Suc.prems(1) True]
    obtain qs where "run_calls (template_dispatch T origin) (replicate k CauseError) s = (qs, s')"
      and "rs = Err (ModuleError StorageOverflow) # qs"
      using Suc.prems(2) by (auto simp: run_calls.simps split: prod.splits)
    with Suc.IH [OF Suc.prems(1)] True show ?thesis by simp
  next
    case False
    with bn_val_max [of n] have lt: "bn_val n < bn_max" by simp
    from cause_error_step(1) [OF assms(1) Suc.prems(1) lt] obtain m s1 where
      m: "cause_error T origin s = (Ok (), s1)" "stored T s1 = Some m" "bn_val m = Suc (bn_val n)"
        "read_events s1 = read_events s" by blast
    then obtain qs where "run_calls (template_dispatch T origin) (replicate k CauseError) s1 = (qs, s')"
      and "rs = Ok () # qs"
      using Suc.prems(2) by (auto simp: run_calls.simps split: prod.splits)
    with Suc.IH [OF m(2)] m lt show ?thesis
      by (auto simp: Suc_diff_Suc min_def simp flip: replicate_Suc)
  qed
qed

end

sublocale template_frame \<subseteq> call: dispatchable "template_dispatch T" "tpl_is_signed T" BadOrigin
proof
  fix origin c s e
  show "\<not> tpl_is_signed T origin \<Longrightarrow> template_dispatch T origin c s = (Err BadOrigin, s)"
    by (cases c) (simp_all add: template_ops tpl_is_signed_def)
  show "fst (template_dispatch T origin c s) = Err e \<Longrightarrow> snd (template_dispatch T origin c s) = s"
    by (cases c) (auto simp: template_ops Let_def split: option.splits)
  show "fst (template_dispatch T origin c s) \<noteq> Panicked"
    by (cases c) (auto simp: template_ops Let_def split: option.splits)
qed

context template_frame
begin

lemmas call_no_panic = call.no_panic
lemmas call_storage_layer_idle = call.storage_layer_idle

lemma do_something_cases:
  assumes "do_something T origin bn s = (res, s')"
  shows "case tpl_ensure_signed T origin of
      None \<Rightarrow> res = Err BadOrigin \<and> s' = s
    | Some who \<Rightarrow> res = Ok () \<and> map_option bn_val (stored T s') = Some (unat bn) \<and>
        read_events s' = read_events s @ [SomethingStored (bn_from_u32 T bn) who]"
  using assms by (auto simp: do_something_def stored_def bn_val_u32 Let_def split: option.splits)

lemma cause_error_cases:
  assumes "cause_error T origin s = (res, s')"
  shows "res = (if \<not> tpl_is_signed T origin then Err BadOrigin
                else case stored T s of
                  None \<Rightarrow> Err (ModuleError NoneValue)
                | Some n \<Rightarrow> if bn_val n = bn_max then Err (ModuleError StorageOverflow) else Ok ()) \<and>
         (if res = Ok () then map_option bn_val (stored T s') = map_option (Suc \<circ> bn_val) (stored T s)
          else s' = s) \<and>
         read_events s' = read_events s"
  using assms
  by (auto simp: cause_error_def tpl_is_signed_def stored_def simp flip: add_one(1) dest: add_one(2)
      split: option.splits)

text \<open>A signed origin stores and reads back what the benchmarks and tests assert.\<close>

lemma stores_number:
  assumes "tpl_ensure_signed T origin = Some who"
  shows "\<exists>s'. do_something T origin n s = (Ok (), s') \<and> stored T s' = Some (bn_from_u32 T n)"
  using assms by (auto simp: do_something_def stored_def Let_def)

lemma increments_100:
  assumes "tpl_ensure_signed T origin = Some who" and "stored T s = Some (bn_from_u32 T 100)"
  shows "\<exists>s'. cause_error T origin s = (Ok (), s') \<and> stored T s' = Some (bn_from_u32 T 101)"
proof -
  have "bn_val (bn_from_u32 T 100) < bn_max"
    using bn_val_max [of "bn_from_u32 T 101"] by (simp add: bn_val_u32)
  moreover have "tpl_is_signed T origin" using assms(1) by (simp add: tpl_is_signed_def)
  ultimately obtain m s' where
    "cause_error T origin s = (Ok (), s')" "stored T s' = Some m" "bn_val m = Suc (bn_val (bn_from_u32 T 100))"
    using cause_error_step(1) [OF _ assms(2)] by blast
  moreover from this have "m = bn_from_u32 T 101" by (intro bn_val_inj) (simp add: bn_val_u32)
  ultimately show ?thesis by blast
qed

lemma benchmarks_hold:
  assumes "\<And>a. tpl_ensure_signed T (mk_signed a) = Some a"
  shows "benchmark_do_something T mk_signed caller s" and "benchmark_cause_error T mk_signed caller s"
proof -
  show "benchmark_do_something T mk_signed caller s"
    using stores_number [OF assms, of caller 100 s]
    by (auto simp: benchmark_do_something_def stored_def)
  have "stored T (so_put (Something T) \<lparr>block_number = bn_from_u32 T 100\<rparr> s) = Some (bn_from_u32 T 100)"
    by (simp add: stored_def)
  from increments_100 [OF assms [of caller] this] show "benchmark_cause_error T mk_signed caller s"
    by (auto simp: benchmark_cause_error_def stored_def)
qed

lemma tests_hold:
  assumes "\<And>a. tpl_ensure_signed T (mk_signed a) = Some a"
  shows "it_works_for_default_value T mk_signed a s"
    and "stored T s = None \<Longrightarrow> correct_error_for_none_value T mk_signed a s"
  using stores_number [OF assms, of a 42 s]
  by (auto simp: it_works_for_default_value_def correct_error_for_none_value_def cause_error_def stored_def
      assms)

end

text \<open>
  The runtime counts blocks in \<open>u32\<close> and the mock runtime of the tests in \<open>u64\<close>; both fulfil what
  the pallet relies on.
\<close>

lemma mem_template_words:
  assumes "32 \<le> LENGTH('w::len)"
  shows "template_frame (mem_template_config wi db :: (('w, 'acc, 'k, 'c, 'e) template_mem, _, _, _) template_config)
    mem_template_events unat (2 ^ LENGTH('w) - 1)"
proof
  fix a b :: "'w word"
  assume "unat a + unat b \<le> 2 ^ LENGTH('w) - 1"
  then have "unat a + unat b < 2 ^ LENGTH('w)" by (simp add: le_diff_conv2 Suc_le_eq [symmetric])
  then show "\<exists>c. bn_checked_add (mem_template_config wi db) a b = Some c \<and> unat c = unat a + unat b"
    by (simp add: mem_template_config_def checked_add_def unat_add_less)
next
  fix a b :: "'w word"
  show "unat a = unat b \<Longrightarrow> a = b" by (rule unsigned_word_eqI)
  show "unat a \<le> 2 ^ LENGTH('w) - 1" by (rule unat_le_max)
qed (use assms in \<open>auto simp: mem_template_config_def mem_template_events_def mem_defs checked_add_def
       unat_ucast_up Suc_le_eq [symmetric]\<close>)

interpretation tpl32: template_frame
  "mem_template_config wi db :: ((32, 'acc, 'k, 'c, 'e) template_mem, 'acc raw_origin, 'acc, u32) template_config"
  mem_template_events unat "2 ^ 32 - 1" for wi db
  using mem_template_words [where 'w = 32] by simp

interpretation tpl64: template_frame
  "mem_template_config wi db :: ((64, 'acc, 'k, 'c, 'e) template_mem, 'acc raw_origin, 'acc, u64) template_config"
  mem_template_events unat "2 ^ 64 - 1" for wi db
  using mem_template_words [where 'w = 64] by simp

text \<open>The pallet with block numbers in \<open>u32\<close>, for examples.\<close>

definition demo_template :: "((32, nat, unit, unit, unit) template_mem, nat raw_origin, nat, u32) template_config" where
  "demo_template = mem_template_config UnitWeight \<lparr>read_weight = 25000000, write_weight = 100000000\<rparr>"

definition demo_full :: "(32, nat, unit, unit, unit) template_mem" where
  "demo_full = mem_empty\<lparr>mem_value := Some \<lparr>block_number = 4294967294\<rparr>\<rparr>"

lemma demo_template_frame: "template_frame demo_template mem_template_events unat (2 ^ 32 - 1)"
  unfolding demo_template_def by (rule tpl32.template_frame_axioms)

lemmas demo_template_defs = demo_template_def demo_full_def mem_template_config_def
  mem_template_events_def mem_defs template_ops stored_def tpl_is_signed_def

subsection \<open>Properties\<close>

text \<open>
  \<open>do_something\<close> rejects an origin that is not signed without a write, and for a signed origin
  always succeeds, stores exactly the given number, whatever was stored before, and deposits one
  event with the number and the signer.
\<close>

lemma do_something_behaviour:
  assumes "template_frame T read_events bn_val bn_max" and "do_something T origin bn s = (res, s')"
  shows "case tpl_ensure_signed T origin of
      None \<Rightarrow> res = Err BadOrigin \<and> s' = s
    | Some who \<Rightarrow> res = Ok () \<and> map_option bn_val (stored T s') = Some (unat bn) \<and>
        read_events s' = read_events s @ [SomethingStored (bn_from_u32 T bn) who]"
  by (rule template_frame.do_something_cases [OF assms])

lemma do_something_behaviour_example:
  "fst (do_something demo_template (Signed 5) 42 demo_full) = Ok () \<and>
   map_option unat (stored demo_template (snd (do_something demo_template (Signed 5) 42 demo_full))) = Some 42"
  using do_something_behaviour [OF demo_template_frame surjective_pairing, of "Signed 5" 42 demo_full]
  by (simp add: demo_template_def mem_template_config_def)

text \<open>
  C28: \<open>cause_error\<close> on every branch: bad origin, then no stored value, then overflow, else the stored
  number grows by one. Overflow is reported exactly at the largest block number, errors write
  nothing, and no branch deposits an event.
\<close>

theorem cause_error_behaviour:
  assumes "template_frame T read_events bn_val bn_max" and "cause_error T origin s = (res, s')"
  shows "res = (if \<not> tpl_is_signed T origin then Err BadOrigin
                else case stored T s of
                  None \<Rightarrow> Err (ModuleError NoneValue)
                | Some n \<Rightarrow> if bn_val n = bn_max then Err (ModuleError StorageOverflow) else Ok ()) \<and>
         (if res = Ok () then map_option bn_val (stored T s') = map_option (Suc \<circ> bn_val) (stored T s)
          else s' = s) \<and>
         read_events s' = read_events s"
  by (rule template_frame.cause_error_cases [OF assms])

theorem cause_error_behaviour_witness:
  "fst (cause_error demo_template (Signed 5) demo_full) = Ok () \<and>
   map_option unat (stored demo_template (snd (cause_error demo_template (Signed 5) demo_full))) = Some 4294967295"
proof -
  have "tpl_is_signed demo_template (Signed 5)" "stored demo_template demo_full = Some 4294967294"
    by (simp_all add: demo_template_defs)
  then show ?thesis
    using cause_error_behaviour [OF demo_template_frame surjective_pairing, of "Signed 5" demo_full]
    by auto
qed

text \<open>
  C29: After \<open>k\<close> signed calls of \<open>cause_error\<close> the stored number has grown by \<open>k\<close>, but never past the
  largest block number: the calls succeed as long as there is room and all later ones return
  \<open>StorageOverflow\<close>. The number never wraps around.
\<close>

theorem cause_error_never_wraps:
  assumes "template_frame T read_events bn_val bn_max" and "tpl_is_signed T origin"
    and "stored T s = Some n"
    and "run_calls (template_dispatch T origin) (replicate k CauseError) s = (rs, s')"
  shows "rs = replicate (min k (bn_max - bn_val n)) (Ok ()) @
           replicate (k - (bn_max - bn_val n)) (Err (ModuleError StorageOverflow)) \<and>
         map_option bn_val (stored T s') = Some (min (bn_val n + k) bn_max) \<and>
         read_events s' = read_events s"
  by (rule template_frame.cause_error_run [OF assms])

theorem cause_error_never_wraps_witness:
  "fst (run_calls (template_dispatch demo_template (Signed 5)) (replicate 3 CauseError) demo_full) =
     [Ok (), Err (ModuleError StorageOverflow), Err (ModuleError StorageOverflow)]"
proof -
  have "tpl_is_signed demo_template (Signed 5)" "stored demo_template demo_full = Some 4294967294"
    by (simp_all add: demo_template_defs)
  moreover have "replicate 2 x = [x, x]" for x :: template_result by (simp add: numeral_2_eq_2)
  ultimately show ?thesis
    using cause_error_never_wraps [OF demo_template_frame _ _ surjective_pairing, of "Signed 5" demo_full 4294967294 3]
    by simp
qed

text \<open>
  No call of the pallet panics, and a call that returns an error has written nothing, so the
  storage layer around it has nothing to discard.
\<close>

lemma template_calls_atomic:
  assumes "template_frame T read_events bn_val bn_max"
  shows "fst (template_dispatch T origin c s) \<noteq> Panicked \<and>
    with_storage_layer (template_dispatch T origin c) s = template_dispatch T origin c s"
  using template_frame.call_no_panic [OF assms] template_frame.call_storage_layer_idle [OF assms] by blast

lemma template_calls_atomic_example:
  "fst (template_dispatch demo_template Root CauseError demo_full) \<noteq> Panicked \<and>
   with_storage_layer (template_dispatch demo_template Root CauseError) demo_full =
     template_dispatch demo_template Root CauseError demo_full"
  by (rule template_calls_atomic [OF demo_template_frame])

text \<open>
  The assertions of the two benchmarks hold from every state and for every caller, and so do
  those of the two tests, the second from a state with nothing stored, for every block number type
  that satisfies the laws.
\<close>

lemma benchmarks_and_tests_hold:
  assumes "template_frame T read_events bn_val bn_max"
    and "\<And>a. tpl_ensure_signed T (mk_signed a) = Some a"
  shows "benchmark_do_something T mk_signed caller s \<and> benchmark_cause_error T mk_signed caller s \<and>
    it_works_for_default_value T mk_signed account_1 s \<and>
    (stored T s = None \<longrightarrow> correct_error_for_none_value T mk_signed account_1 s)"
  using template_frame.benchmarks_hold [OF assms] template_frame.tests_hold [OF assms] by blast

lemma benchmarks_and_tests_hold_example:
  "benchmark_cause_error demo_template Signed 9 mem_empty \<and>
   correct_error_for_none_value demo_template Signed 1 mem_empty"
proof -
  have signed: "\<And>a. tpl_ensure_signed demo_template (Signed a) = Some a"
    and empty: "stored demo_template mem_empty = None"
    by (simp_all add: demo_template_defs)
  show ?thesis
    using benchmarks_and_tests_hold [OF demo_template_frame signed, of 9 mem_empty 1] empty by simp
qed

text \<open>
  C30: The weights the calls declare fall short of the benchmarked weights of weights.rs, which the
  configuration carries and the calls do not use: by 8990000 of reference time for \<open>do_something\<close>, and
  by 5990000 of reference time and the whole proof size of 1489 for \<open>cause_error\<close>.
\<close>

theorem declared_weights_below_benchmarks:
  assumes "weight_laws W"
    and "unat (read_weight (tpl_DbWeight T)) + unat (write_weight (tpl_DbWeight T)) + 9000000 < 2 ^ 64"
  shows "unat (ref_time W (substrate_weight_do_something W T)) =
           unat (ref_time W (template_call_weight W T (DoSomething bn))) + 8990000 \<and>
         unat (ref_time W (substrate_weight_cause_error W T)) =
           unat (ref_time W (template_call_weight W T CauseError)) + 5990000 \<and>
         proof_size W (substrate_weight_cause_error W T) = 1489 \<and>
         proof_size W (template_call_weight W T CauseError) = 0"
proof -
  let ?r = "read_weight (tpl_DbWeight T)" and ?w = "write_weight (tpl_DbWeight T)"
  note laws = weight_laws.ref_time_from_parts [OF assms(1)] weight_laws.proof_size_from_parts [OF assms(1)]
    weight_laws.ref_time_saturating_add [OF assms(1)] weight_laws.proof_size_saturating_add [OF assms(1)]
    weight_laws.db_reads [OF assms(1)] weight_laws.db_writes [OF assms(1)]
    weight_laws.db_reads_writes [OF assms(1)]
  note add = weight_laws.ref_time_add [OF assms(1)] weight_laws.proof_size_add [OF assms(1)]
  have rw: "unat (saturating_add ?r ?w) = unat ?r + unat ?w"
    using assms(2) by (simp add: unat_saturating_add)
  have "unat (ref_time W (template_call_weight W T (DoSomething bn))) = 10000 + unat ?w"
    using assms(2) by (simp add: do_something_weight_def laws add unat_add_less)
  moreover have "unat (ref_time W (template_call_weight W T CauseError)) = 10000 + (unat ?r + unat ?w)"
    using assms(2) rw by (simp add: cause_error_weight_def laws add unat_add_less)
  moreover have "unat (ref_time W (substrate_weight_do_something W T)) = 9000000 + unat ?w"
    using assms(2) by (simp add: substrate_weight_do_something_def laws unat_saturating_add)
  moreover have "unat (ref_time W (substrate_weight_cause_error W T)) = 6000000 + unat ?r + unat ?w"
    using assms(2) by (simp add: substrate_weight_cause_error_def laws unat_saturating_add)
  moreover have "proof_size W (substrate_weight_cause_error W T) = 1489"
    by (simp add: substrate_weight_cause_error_def laws)
  moreover have "proof_size W (template_call_weight W T CauseError) = 0"
    by (simp add: cause_error_weight_def laws add)
  ultimately show ?thesis by simp
qed

theorem declared_weights_below_benchmarks_witness:
  "unat (ref_time pair_weights (substrate_weight_do_something pair_weights demo_template)) =
     unat (ref_time pair_weights (template_call_weight pair_weights demo_template (DoSomething 0))) + 8990000 \<and>
   proof_size pair_weights (substrate_weight_cause_error pair_weights demo_template) = 1489"
proof -
  have "unat (read_weight (tpl_DbWeight demo_template)) + unat (write_weight (tpl_DbWeight demo_template)) + 9000000
      < 2 ^ 64"
    by (simp add: demo_template_def mem_template_config_def)
  from declared_weights_below_benchmarks [OF pair.weight_laws_axioms this, of 0] show ?thesis by blast
qed

end
