(* ===== verification/Runtime_Config.thy ===== *)
theory Runtime_Config
  imports Runtime_Core Swarm_Pallet Template_Pallet
begin

text \<open>
  runtime/src/configs/mod.rs: the parameter types and the pallet configurations of the runtime. The
  builder of the block weights belongs to the SDK and is a parameter; each configuration is a record
  of the constants it sets, of the runtime's own pallets it names and of the types of the SDK it chooses.

  The lemmas check that the constants fit together: the split of a block between normal and
  operational extrinsics, the weight reserved for messages, the session length, and the capacity
  of the swarm pallet at this runtime's configuration.
\<close>

subsection \<open>Block limits\<close>

datatype dispatch_class = Normal | Operational | Mandatory

record 'w weights_per_class =
  base_extrinsic :: 'w
  max_extrinsic :: "'w option"
  max_total :: "'w option"
  reserved :: "'w option"

text \<open>The builder of \<open>BlockWeights\<close>; \<open>build_or_panic\<close> is None where it panics.\<close>

record ('b, 'p, 'w, 'bw) block_weights_api =
  bw_builder :: 'b
  bw_base_block :: "'w \<Rightarrow> 'b \<Rightarrow> 'b"
  bw_for_class :: "dispatch_class list \<Rightarrow> ('w weights_per_class \<Rightarrow> 'w weights_per_class) \<Rightarrow> 'b \<Rightarrow> 'b"
  bw_avg_block_initialization :: "'p \<Rightarrow> 'b \<Rightarrow> 'b"
  bw_build_or_panic :: "'b \<Rightarrow> 'bw option"
  bw_class_all :: "dispatch_class list"
  bw_max_block :: "'bw \<Rightarrow> 'w"

definition RuntimeBlockLength :: "(u32 \<Rightarrow> 'p \<Rightarrow> 'len) \<Rightarrow> ('p, 'w) perbill_api \<Rightarrow> 'len" where
  "RuntimeBlockLength max_with_normal_ratio P =
     max_with_normal_ratio (5 * 1024 * 1024) (NORMAL_DISPATCH_RATIO P)"

definition block_weights_classes ::
  "'w weight_api \<Rightarrow> ('p, 'w) perbill_api \<Rightarrow> ('b, 'p, 'w, 'bw) block_weights_api \<Rightarrow> u32 \<Rightarrow> 'b" where
  "block_weights_classes W P B max_pov =
     (let b0 = bw_base_block B (BlockExecutionWeight W) (bw_builder B);
          b1 = bw_for_class B (bw_class_all B) (\<lambda>weights. weights\<lparr>base_extrinsic := ExtrinsicBaseWeight W\<rparr>) b0;
          b2 = bw_for_class B [Normal] (\<lambda>weights. weights\<lparr>max_total :=
                 Some (perbill_mul P (NORMAL_DISPATCH_RATIO P) (MAXIMUM_BLOCK_WEIGHT W max_pov))\<rparr>) b1;
          b3 = bw_for_class B [Operational] (\<lambda>weights. weights\<lparr>
                 max_total := Some (MAXIMUM_BLOCK_WEIGHT W max_pov),
                 reserved := Some (weight_sub W (MAXIMUM_BLOCK_WEIGHT W max_pov)
                   (perbill_mul P (NORMAL_DISPATCH_RATIO P) (MAXIMUM_BLOCK_WEIGHT W max_pov)))\<rparr>) b2
      in b3)"

definition RuntimeBlockWeights ::
  "'w weight_api \<Rightarrow> ('p, 'w) perbill_api \<Rightarrow> ('b, 'p, 'w, 'bw) block_weights_api \<Rightarrow> u32 \<Rightarrow> 'bw option" where
  "RuntimeBlockWeights W P B max_pov =
     bw_build_or_panic B
       (bw_avg_block_initialization B (AVERAGE_ON_INITIALIZE_RATIO P) (block_weights_classes W P B max_pov))"

definition SS58Prefix :: u16 where
  "SS58Prefix = 42"

subsection \<open>Parameter types\<close>

definition TransactionByteFee :: balance where
  "TransactionByteFee = 10 * MICRO_UNIT"

definition ReservedXcmpWeight :: "'w weight_api \<Rightarrow> u32 \<Rightarrow> 'w" where
  "ReservedXcmpWeight W max_pov = weight_saturating_div W (MAXIMUM_BLOCK_WEIGHT W max_pov) 4"

definition ReservedDmpWeight :: "'w weight_api \<Rightarrow> u32 \<Rightarrow> 'w" where
  "ReservedDmpWeight W max_pov = weight_saturating_div W (MAXIMUM_BLOCK_WEIGHT W max_pov) 4"

definition MessageQueueServiceWeight ::
  "('p, 'w) perbill_api \<Rightarrow> ('b, 'p, 'w, 'bw) block_weights_api \<Rightarrow> 'bw \<Rightarrow> 'w" where
  "MessageQueueServiceWeight P B block_weights =
     perbill_mul P (from_percent P 35) (bw_max_block B block_weights)"

definition Period :: u32 where
  "Period = 6 * HOURS"

definition Offset :: u32 where
  "Offset = 0"

definition SessionLength :: block_number_t where
  "SessionLength = 6 * HOURS"

definition PotId :: string where
  "PotId = ''PotStake''"

definition runtime_MaxGlobalCommands :: u32 where
  "runtime_MaxGlobalCommands = 64"

subsection \<open>Pallet configurations\<close>

text \<open>
  What a configuration chooses among the types of the SDK: the type \<open>()\<close>, which turns a feature off, or a type by its
  name. Items that only repeat a type generated for the runtime, such as \<open>RuntimeEvent\<close>, are left out.
\<close>

datatype sdk_type = Unit_Type | Sdk_Type string

text \<open>Nonces, block numbers and balances have the widths of \<open>nonce\<close>, \<open>block_number_t\<close> and \<open>balance\<close>.\<close>

record system_config =
  cfg_BlockHashCount :: sdk_type
  cfg_AccountData :: sdk_type
  cfg_DbWeight :: db_weight
  cfg_SS58Prefix :: u16
  cfg_OnSetCode :: "sdk_type \<times> runtime_pallet"
  cfg_MaxConsumers :: u32

definition runtime_system_config :: "'w weight_api \<Rightarrow> system_config" where
  "runtime_system_config W =
     \<lparr>cfg_BlockHashCount = Sdk_Type ''BlockHashCount'',
      cfg_AccountData = Sdk_Type ''pallet_balances::AccountData'',
      cfg_DbWeight = RocksDbWeight W, cfg_SS58Prefix = SS58Prefix,
      cfg_OnSetCode = (Sdk_Type ''ParachainSetCode'', ParachainSystem),
      cfg_MaxConsumers = 16\<rparr>"

text \<open>The version and the two limits of the block that the same configuration names.\<close>

definition Version :: "'api \<Rightarrow> 'api runtime_version" where
  "Version runtime_api_versions = VERSION runtime_api_versions"

definition cfg_BlockWeights ::
  "'w weight_api \<Rightarrow> ('p, 'w) perbill_api \<Rightarrow> ('b, 'p, 'w, 'bw) block_weights_api \<Rightarrow> u32 \<Rightarrow> 'bw option" where
  "cfg_BlockWeights W P B max_pov = RuntimeBlockWeights W P B max_pov"

definition cfg_BlockLength :: "(u32 \<Rightarrow> 'p \<Rightarrow> 'len) \<Rightarrow> ('p, 'w) perbill_api \<Rightarrow> 'len" where
  "cfg_BlockLength max_with_normal_ratio P = RuntimeBlockLength max_with_normal_ratio P"

text \<open>Pallets that are configured by the weights of their calls alone.\<close>

definition weight_reclaim_WeightInfo :: sdk_type where
  "weight_reclaim_WeightInfo = Unit_Type"

definition sudo_WeightInfo :: sdk_type where
  "sudo_WeightInfo = Unit_Type"

record timestamp_config =
  OnTimestampSet :: runtime_pallet
  MinimumPeriod :: u64
  timestamp_WeightInfo :: sdk_type

definition runtime_timestamp_config :: timestamp_config where
  "runtime_timestamp_config = \<lparr>OnTimestampSet = Aura, MinimumPeriod = 0, timestamp_WeightInfo = Unit_Type\<rparr>"

record authorship_config =
  FindAuthor :: sdk_type
  FindAuthorFrom :: runtime_pallet
  EventHandler :: "runtime_pallet list"

definition runtime_authorship_config :: authorship_config where
  "runtime_authorship_config = \<lparr>FindAuthor = Sdk_Type ''pallet_session::FindAccountFromAuthorIndex'', FindAuthorFrom = Aura, EventHandler = [CollatorSelection]\<rparr>"

record balances_config =
  MaxLocks :: u32
  DustRemoval :: sdk_type
  ExistentialDeposit :: balance
  AccountStore :: runtime_pallet
  balances_WeightInfo :: sdk_type
  MaxReserves :: u32
  ReserveIdentifier_bytes :: nat
  MaxFreezes_count_of :: sdk_type
  DoneSlashHandler :: sdk_type

definition runtime_balances_config :: balances_config where
  "runtime_balances_config =
     \<lparr>MaxLocks = 50, DustRemoval = Unit_Type, ExistentialDeposit = EXISTENTIAL_DEPOSIT, AccountStore = System,
      balances_WeightInfo = Sdk_Type ''pallet_balances::weights::SubstrateWeight'', MaxReserves = 50,
      ReserveIdentifier_bytes = 8, MaxFreezes_count_of = Sdk_Type ''RuntimeFreezeReason'',
      DoneSlashHandler = Unit_Type\<rparr>"

record payment_config =
  OnChargeTransaction :: sdk_type
  ChargeCurrency :: runtime_pallet
  OnUnbalanced :: sdk_type
  LengthToFee :: balance
  FeeMultiplierUpdate :: sdk_type
  OperationalFeeMultiplier :: u8
  payment_WeightInfo :: sdk_type

definition runtime_payment_config :: payment_config where
  "runtime_payment_config =
     \<lparr>OnChargeTransaction = Sdk_Type ''pallet_transaction_payment::FungibleAdapter'', ChargeCurrency = Balances,
      OnUnbalanced = Unit_Type, LengthToFee = TransactionByteFee,
      FeeMultiplierUpdate = Sdk_Type ''SlowAdjustingFeeUpdate'', OperationalFeeMultiplier = 5,
      payment_WeightInfo = Unit_Type\<rparr>"

record 'w parachain_system_config =
  parachain_system_WeightInfo :: sdk_type
  OnSystemEvent :: sdk_type
  SelfParaId :: runtime_pallet
  OutboundXcmpMessageSource :: runtime_pallet
  DmpQueue :: runtime_pallet
  cfg_ReservedDmpWeight :: 'w
  XcmpMessageHandler :: runtime_pallet
  cfg_ReservedXcmpWeight :: 'w
  CheckAssociatedRelayNumber :: sdk_type
  SelectCore :: sdk_type

definition runtime_parachain_system_config :: "'w weight_api \<Rightarrow> u32 \<Rightarrow> 'w parachain_system_config" where
  "runtime_parachain_system_config W max_pov =
     \<lparr>parachain_system_WeightInfo = Unit_Type, OnSystemEvent = Unit_Type, SelfParaId = ParachainInfo, OutboundXcmpMessageSource = XcmpQueue, DmpQueue = MessageQueue,
      cfg_ReservedDmpWeight = ReservedDmpWeight W max_pov, XcmpMessageHandler = XcmpQueue,
      cfg_ReservedXcmpWeight = ReservedXcmpWeight W max_pov,
      CheckAssociatedRelayNumber = Sdk_Type ''RelayNumberMonotonicallyIncreases'',
      SelectCore = Sdk_Type ''cumulus_pallet_parachain_system::DefaultCoreSelector''\<rparr>"

text \<open>A build for benchmarks replaces the processor of messages by one that does nothing.\<close>

text \<open>\<open>NarrowOriginToSibling\<close> hands a pallet only those origins that are siblings.\<close>

datatype queue_handler = NarrowOriginToSibling runtime_pallet

record 'w message_queue_config =
  message_queue_WeightInfo :: sdk_type
  MessageProcessor :: sdk_type
  QueueChangeHandler :: queue_handler
  QueuePausedQuery :: queue_handler
  HeapSize :: u32
  MaxStale :: u32
  ServiceWeight :: 'w
  IdleMaxServiceWeight :: sdk_type

definition runtime_message_queue_config ::
  "('p, 'w) perbill_api \<Rightarrow> ('b, 'p, 'w, 'bw) block_weights_api \<Rightarrow> 'bw \<Rightarrow> bool \<Rightarrow> 'w message_queue_config" where
  "runtime_message_queue_config P B block_weights feature_runtime_benchmarks =
     \<lparr>message_queue_WeightInfo = Unit_Type,
      MessageProcessor =
        (if feature_runtime_benchmarks then Sdk_Type ''pallet_message_queue::mock_helpers::NoopMessageProcessor''
         else Sdk_Type ''xcm_builder::ProcessXcmMessage''),
      QueueChangeHandler = NarrowOriginToSibling XcmpQueue, QueuePausedQuery = NarrowOriginToSibling XcmpQueue,
      HeapSize = 103 * 1024, MaxStale = 8, ServiceWeight = MessageQueueServiceWeight P B block_weights,
      IdleMaxServiceWeight = Unit_Type\<rparr>"

record xcmp_queue_config =
  ChannelInfo :: runtime_pallet
  VersionWrapper :: sdk_type
  XcmpEnqueue :: runtime_pallet
  MaxInboundSuspended :: u32
  MaxActiveOutboundChannels :: u32
  MaxPageSize :: u32
  xcmp_queue_WeightInfo :: sdk_type
  PriceForSiblingDelivery :: sdk_type

definition runtime_xcmp_queue_config :: xcmp_queue_config where
  "runtime_xcmp_queue_config =
     \<lparr>ChannelInfo = ParachainSystem, VersionWrapper = Unit_Type, XcmpEnqueue = MessageQueue, MaxInboundSuspended = 1000,
      MaxActiveOutboundChannels = 128, MaxPageSize = push_bit 16 1,
      xcmp_queue_WeightInfo = Unit_Type, PriceForSiblingDelivery = Sdk_Type ''NoPriceForMessageDelivery''\<rparr>"

record session_config =
  session_ValidatorIdOf :: sdk_type
  SessionPeriod :: u32
  SessionOffset :: u32
  SessionManager :: runtime_pallet
  DisablingStrategy :: sdk_type
  session_WeightInfo :: sdk_type

definition runtime_session_config :: session_config where
  "runtime_session_config =
     \<lparr>session_ValidatorIdOf = Sdk_Type ''pallet_collator_selection::IdentityCollator'',
      SessionPeriod = Period, SessionOffset = Offset, SessionManager = CollatorSelection,
      DisablingStrategy = Unit_Type, session_WeightInfo = Unit_Type\<rparr>"

record aura_config =
  DisabledValidators :: sdk_type
  MaxAuthorities :: u32
  AllowMultipleBlocksPerSlot :: bool
  SlotDuration :: u64

definition runtime_aura_config :: aura_config where
  "runtime_aura_config =
     \<lparr>DisabledValidators = Unit_Type, MaxAuthorities = 100000, AllowMultipleBlocksPerSlot = True, SlotDuration = SLOT_DURATION\<rparr>"

record collator_selection_config =
  Currency :: runtime_pallet
  cfg_PotId :: string
  MaxCandidates :: u32
  MinEligibleCollators :: u32
  MaxInvulnerables :: u32
  KickThreshold :: u32
  collator_ValidatorIdOf :: sdk_type
  ValidatorRegistration :: runtime_pallet
  collator_selection_WeightInfo :: sdk_type

definition runtime_collator_selection_config :: collator_selection_config where
  "runtime_collator_selection_config =
     \<lparr>Currency = Balances, cfg_PotId = PotId, MaxCandidates = 100, MinEligibleCollators = 4,
      MaxInvulnerables = 20, KickThreshold = Period,
      collator_ValidatorIdOf = Sdk_Type ''pallet_collator_selection::IdentityCollator'',
      ValidatorRegistration = Session, collator_selection_WeightInfo = Unit_Type\<rparr>"

text \<open>
  The two pallets of the repository at the runtime: the types and constants their configurations
  set, over the SDK operations the runtime provides.
\<close>

type_synonym rt_command = "(coordinate, u32) command"
type_synonym rt_swarm_event = "(u32, coordinate, u32) swarm_event"

definition runtime_swarm_config ::
  "('o \<Rightarrow> 'acc option) \<Rightarrow> ('s, u32, unit) storage_map \<Rightarrow> ('s, 'q) storage_value \<Rightarrow>
   (u32 \<Rightarrow> ('q, rt_command) bounded_vec) \<Rightarrow> (rt_swarm_event \<Rightarrow> 's \<Rightarrow> 's) \<Rightarrow>
   ('s, 'o, 'acc, u32, coordinate, u32, 'q) swarm_config" where
  "runtime_swarm_config signed_check registered queue vec_of deposit =
     \<lparr>ensure_signed = signed_check,
      RegisteredRobots = registered,
      GlobalCommandQueue = queue,
      QueueVec = vec_of runtime_MaxGlobalCommands,
      deposit_event = deposit,
      MaxGlobalCommands = runtime_MaxGlobalCommands\<rparr>"

definition runtime_template_config ::
  "'w weight_api \<Rightarrow> ('o \<Rightarrow> 'acc option) \<Rightarrow> ('s, block_number_t composite_struct) storage_option \<Rightarrow>
   ((block_number_t, 'acc) template_event \<Rightarrow> 's \<Rightarrow> 's) \<Rightarrow> ('s, 'o, 'acc, block_number_t) template_config" where
  "runtime_template_config W signed_check something deposit =
     \<lparr>tpl_ensure_signed = signed_check,
      Something = something,
      tpl_deposit_event = deposit,
      bn_from_u32 = (\<lambda>n. n),
      bn_checked_add = checked_add,
      bn_one = 1,
      tpl_DbWeight = cfg_DbWeight (runtime_system_config W),
      tpl_WeightInfo = SubstrateWeight\<rparr>"

lemmas config_const_defs [const_defs] = SS58Prefix_def TransactionByteFee_def Period_def Offset_def
  SessionLength_def PotId_def runtime_MaxGlobalCommands_def

lemmas runtime_config_defs = runtime_system_config_def runtime_timestamp_config_def
  runtime_authorship_config_def runtime_balances_config_def runtime_payment_config_def
  runtime_parachain_system_config_def runtime_message_queue_config_def runtime_xcmp_queue_config_def
  runtime_session_config_def runtime_aura_config_def runtime_collator_selection_config_def

subsection \<open>The block weights builder\<close>

text \<open>
  What the runtime relies on of the builder: \<open>for_class\<close> applies its closure to the classes it is
  given and to no other, and the remaining calls leave the classes alone.
\<close>

locale block_weights_laws =
  perbill_laws W P for W :: "'w weight_api" and P :: "('p, 'w) perbill_api" +
  fixes B :: "('b, 'p, 'w, 'bw) block_weights_api" and class_of :: "'b \<Rightarrow> dispatch_class \<Rightarrow> 'w weights_per_class"
  assumes class_for_class [simp]: "class_of (bw_for_class B cs f b) c = (if c \<in> set cs then f (class_of b c) else class_of b c)"
    and class_all [simp]: "set (bw_class_all B) = UNIV"
begin

abbreviation "limit m \<equiv> MAXIMUM_BLOCK_WEIGHT W m"
abbreviation "classes m \<equiv> block_weights_classes W P B m"

lemma class_limits:
  "base_extrinsic (class_of (classes m) c) = ExtrinsicBaseWeight W"
  "max_total (class_of (classes m) Normal) = Some (perbill_mul P (NORMAL_DISPATCH_RATIO P) (limit m))"
  "max_total (class_of (classes m) Operational) = Some (limit m)"
  "reserved (class_of (classes m) Operational) =
     Some (weight_sub W (limit m) (perbill_mul P (NORMAL_DISPATCH_RATIO P) (limit m)))"
  by (cases c) (simp_all add: block_weights_classes_def Let_def)

lemma normal_le_limit:
  "unat (ref_time W (perbill_mul P (NORMAL_DISPATCH_RATIO P) x)) \<le> unat (ref_time W x)"
  "unat (proof_size W (perbill_mul P (NORMAL_DISPATCH_RATIO P) x)) \<le> unat (proof_size W x)"
  using share_le [of "NORMAL_DISPATCH_RATIO P" x] by (simp_all add: normal_parts)

lemma normal_time: "unat (ref_time W (perbill_mul P (NORMAL_DISPATCH_RATIO P) (limit m))) = 1500000000000"
  by (rule ref_time_share_exact) (simp_all add: normal_parts max_block_time)

lemma split_of_block:
  assumes "n = perbill_mul P (NORMAL_DISPATCH_RATIO P) (limit m)" and "r = weight_sub W (limit m) n"
  shows "unat (ref_time W n) + unat (ref_time W r) = unat (ref_time W (limit m))"
    and "unat (proof_size W n) + unat (proof_size W r) = unat (proof_size W (limit m))"
  using normal_le_limit [of "limit m"] assms
  by (simp_all add: ref_time_sub proof_size_sub unat_sub_if')

end

text \<open>A builder that keeps the classes in a table, and the swarm pallet of the runtime in memory.\<close>

definition table_builder ::
  "(dispatch_class \<Rightarrow> pair_weight weights_per_class, nat, pair_weight, dispatch_class \<Rightarrow> pair_weight weights_per_class)
     block_weights_api" where
  "table_builder =
     \<lparr>bw_builder = (\<lambda>_. \<lparr>base_extrinsic = from_parts pair_weights 0 0, max_extrinsic = None, max_total = None, reserved = None\<rparr>),
      bw_base_block = (\<lambda>_ b. b),
      bw_for_class = (\<lambda>cs f b c. if c \<in> set cs then f (b c) else b c),
      bw_avg_block_initialization = (\<lambda>_ b. b),
      bw_build_or_panic = Some,
      bw_class_all = [Normal, Operational, Mandatory],
      bw_max_block = (\<lambda>b. case max_total (b Operational) of None \<Rightarrow> from_parts pair_weights 0 0 | Some w \<Rightarrow> w)\<rparr>"

lemma dispatch_class_UNIV: "UNIV = {Normal, Operational, Mandatory}"
  using dispatch_class.exhaust by blast

interpretation table: block_weights_laws pair_weights nat_perbill table_builder "\<lambda>b. b"
  by unfold_locales (auto simp: table_builder_def dispatch_class_UNIV)

definition mem_runtime_swarm ::
  "((u32, coordinate, u32, unit, unit) swarm_mem, nat raw_origin, nat, u32, coordinate, u32, rt_command list)
     swarm_config" where
  "mem_runtime_swarm =
     runtime_swarm_config mem_ensure_signed mem_keys_map mem_queue_value (\<lambda>n. list_vec (unat n))
       (\<lambda>e. mem_deposit (Inl e))"

lemma mem_runtime_swarm_eq: "mem_runtime_swarm = mem_swarm_config runtime_MaxGlobalCommands"
  by (simp add: mem_runtime_swarm_def runtime_swarm_config_def mem_swarm_config_def)

interpretation rt_swarm: swarm_frame mem_runtime_swarm mem_swarm_events
  unfolding mem_runtime_swarm_eq by (rule mem_swarm.swarm_frame_axioms)

definition mem_runtime_template ::
  "((32, nat, unit, unit, unit) template_mem, nat raw_origin, nat, u32) template_config" where
  "mem_runtime_template =
     runtime_template_config pair_weights mem_ensure_signed mem_option_value (\<lambda>e. mem_deposit (Inr e))"

lemma mem_runtime_template_eq: "mem_runtime_template = mem_template_config SubstrateWeight (RocksDbWeight pair_weights)"
  by (simp add: mem_runtime_template_def runtime_template_config_def mem_template_config_def
      runtime_system_config_def fun_eq_iff)

interpretation rt_template: template_frame mem_runtime_template mem_template_events unat "2 ^ 32 - 1"
  unfolding mem_runtime_template_eq by (rule tpl32.template_frame_axioms)

subsection \<open>Properties\<close>

text \<open>
  The limits handed to the block weights builder: every class has the base extrinsic weight;
  normal extrinsics get three quarters of the block, 1.5 of its 2 seconds; and the weight reserved for
  operational extrinsics is exactly the rest, in time and in proof size, with no underflow in the
  subtraction.
\<close>

lemma block_weights_split:
  assumes "block_weights_laws W P B class_of" and "b = block_weights_classes W P B max_pov"
  shows "(\<forall>c. base_extrinsic (class_of b c) = ExtrinsicBaseWeight W) \<and>
    max_total (class_of b Operational) = Some (MAXIMUM_BLOCK_WEIGHT W max_pov) \<and>
    (\<exists>n r. max_total (class_of b Normal) = Some n \<and> reserved (class_of b Operational) = Some r \<and>
       unat (ref_time W n) = 1500000000000 \<and>
       unat (ref_time W n) + unat (ref_time W r) = unat (ref_time W (MAXIMUM_BLOCK_WEIGHT W max_pov)) \<and>
       unat (proof_size W n) + unat (proof_size W r) = unat max_pov)"
  using block_weights_laws.class_limits [OF assms(1), of max_pov]
    block_weights_laws.normal_time [OF assms(1), of max_pov]
    block_weights_laws.split_of_block [OF assms(1) refl refl, of max_pov]
    perbill_laws.max_block_size [OF block_weights_laws.axioms(1) [OF assms(1)], of max_pov]
  by (simp add: assms(2))

lemma block_weights_split_example:
  "max_total (block_weights_classes pair_weights nat_perbill table_builder 5242880 Operational) =
     Some (MAXIMUM_BLOCK_WEIGHT pair_weights 5242880)"
  using block_weights_split [OF table.block_weights_laws_axioms refl, of 5242880] by blast

text \<open>
  The weights reserved for downward and horizontal messages are a quarter of the block each,
  half a second of its two seconds, and together never more than half of the block.
\<close>

lemma message_reserves:
  assumes "perbill_laws W P"
  shows "unat (ref_time W (ReservedDmpWeight W max_pov)) = 500000000000 \<and>
    unat (ref_time W (ReservedXcmpWeight W max_pov)) = 500000000000 \<and>
    2 * (unat (ref_time W (ReservedDmpWeight W max_pov)) + unat (ref_time W (ReservedXcmpWeight W max_pov))) =
      unat (ref_time W (MAXIMUM_BLOCK_WEIGHT W max_pov)) \<and>
    2 * (unat (proof_size W (ReservedDmpWeight W max_pov)) + unat (proof_size W (ReservedXcmpWeight W max_pov)))
      \<le> unat max_pov"
proof -
  note laws = perbill_laws.axioms(1) [OF assms]
  have "unat (proof_size W (weight_saturating_div W (MAXIMUM_BLOCK_WEIGHT W max_pov) 4)) = unat max_pov div 4"
    by (simp add: weight_laws.proof_size_div [OF laws] unat_div perbill_laws.max_block_size [OF assms])
  moreover have "ref_time W (weight_saturating_div W (MAXIMUM_BLOCK_WEIGHT W max_pov) 4) = 500000000000"
    by (simp add: weight_laws.ref_time_div [OF laws] perbill_laws.max_block_time [OF assms])
  ultimately show ?thesis
    by (simp add: ReservedDmpWeight_def ReservedXcmpWeight_def perbill_laws.max_block_time [OF assms])
qed

lemma message_reserves_example:
  "unat (ref_time pair_weights (ReservedDmpWeight pair_weights 5242880)) = 500000000000"
  using message_reserves [OF pair.perbill_laws_axioms, of 5242880] by blast

text \<open>
  The configurations agree with each other: the kick threshold of the collator selection is a
  multiple of the session length, as its comment requires, and a session is six hours of blocks; all
  candidates and invulnerables fit among the Aura authorities and there are enough of them for
  the minimum; the Aura slot is the block time; a message page fits into the message queue's heap.
\<close>

lemma runtime_config_consistent:
  "unat (SessionPeriod runtime_session_config) dvd unat (KickThreshold runtime_collator_selection_config) \<and>
   SessionLength = SessionPeriod runtime_session_config \<and>
   unat (SessionPeriod runtime_session_config) * unat (SlotDuration runtime_aura_config) = 6 * 60 * 60 * 1000 \<and>
   unat (MaxCandidates runtime_collator_selection_config) + unat (MaxInvulnerables runtime_collator_selection_config)
     \<le> unat (MaxAuthorities runtime_aura_config) \<and>
   unat (MinEligibleCollators runtime_collator_selection_config)
     \<le> unat (MaxInvulnerables runtime_collator_selection_config) \<and>
   unat (MinimumPeriod runtime_timestamp_config) \<le> unat (SlotDuration runtime_aura_config) \<and>
   SlotDuration runtime_aura_config = MILLI_SECS_PER_BLOCK \<and>
   unat (MaxPageSize runtime_xcmp_queue_config) \<le> unat (HeapSize (runtime_message_queue_config P B block_weights feature_runtime_benchmarks))"
  by (simp add: runtime_config_defs const_defs)

text \<open>
  The swarm pallet of the runtime holds 64 commands: of any number of commands that a signed
  account enqueues into an empty queue exactly the first 64 are accepted and wait in order, and
  every later one is refused with \<open>QueueFull\<close>.
\<close>

lemma runtime_queue_capacity:
  assumes "swarm_frame T read_events"
    and "T = runtime_swarm_config signed_check registered queue vec_of deposit"
    and "is_signed T origin" and "queue_of T s = []"
    and "run_calls (swarm_apply T) (map (\<lambda>c. (origin, EnqueueCommand c)) cs) s = (rs, s')"
  shows "rs = replicate (min (length cs) 64) (Ok ()) @ replicate (length cs - 64) (Err (ModuleError QueueFull)) \<and>
    queue_of T s' = take 64 cs"
proof -
  have "unat (MaxGlobalCommands T) = 64"
    by (simp add: assms(2) runtime_swarm_config_def runtime_MaxGlobalCommands_def)
  with swarm_frame.fill [OF assms(1,3,4,5)] show ?thesis by simp
qed

lemma runtime_queue_capacity_example:
  "fst (run_calls (swarm_apply mem_runtime_swarm)
      (map (\<lambda>c. (Signed 1, EnqueueCommand c)) (replicate 65 Halt)) mem_empty) =
     replicate 64 (Ok ()) @ [Err (ModuleError QueueFull)]"
proof -
  have "is_signed mem_runtime_swarm (Signed 1)" "queue_of mem_runtime_swarm mem_empty = []"
    by (simp_all add: mem_runtime_swarm_def runtime_swarm_config_def is_signed_def queue_of_def mem_defs)
  from runtime_queue_capacity [OF rt_swarm.swarm_frame_axioms mem_runtime_swarm_def this surjective_pairing,
      of "replicate 65 Halt"] show ?thesis
    by simp
qed

end
