(* ===== verification/Genesis_Presets.thy ===== *)
theory Genesis_Presets
  imports Runtime_Config
begin

text \<open>
  runtime/src/genesis_config_presets.rs: the genesis configuration of the test networks and the
  presets served by name. The keyring, the names of the presets, the XCM version and the JSON
  serialisation come from the SDK and are parameters.
\<close>

subsection \<open>Definitions\<close>

definition PARACHAIN_ID :: u32 where
  "PARACHAIN_ID = 1000"

definition template_session_keys :: "'aura \<Rightarrow> 'aura session_keys" where
  "template_session_keys keys = \<lparr>sk_aura = keys\<rparr>"

text \<open>The fields of \<open>RuntimeGenesisConfig\<close> the presets set.\<close>

record ('acc, 'aura) genesis_config =
  gc_balances :: "('acc \<times> balance) list"
  gc_parachain_id :: u32
  gc_invulnerables :: "'acc list"
  gc_candidacy_bond :: balance
  gc_session_keys :: "('acc \<times> 'acc \<times> 'aura session_keys) list"
  gc_safe_xcm_version :: "u32 option"
  gc_sudo_key :: "'acc option"

text \<open>
  What the presets use of the SDK: the keyring with its accounts and public keys, the two preset
  names, the XCM version and the serialisation, which is None where it fails.
\<close>

record ('k, 'acc, 'aura) genesis_api =
  key_alice :: 'k
  key_bob :: 'k
  key_well_known :: "'k list"
  to_account_id :: "'k \<Rightarrow> 'acc"
  public_key :: "'k \<Rightarrow> 'aura"
  LOCAL_TESTNET_RUNTIME_PRESET :: string
  DEV_RUNTIME_PRESET :: string
  XCM_VERSION :: u32
  to_json :: "('acc, 'aura) genesis_config \<Rightarrow> u8 list option"

definition testnet_genesis ::
  "('k, 'acc, 'aura) genesis_api \<Rightarrow> ('acc \<times> 'aura) list \<Rightarrow> 'acc list \<Rightarrow> 'acc \<Rightarrow> u32 \<Rightarrow> ('acc, 'aura) genesis_config" where
  "testnet_genesis G invulnerables endowed_accounts root para_id =
     \<lparr>gc_balances = map (\<lambda>k. (k, push_bit 60 1)) endowed_accounts,
      gc_parachain_id = para_id,
      gc_invulnerables = map (\<lambda>(acc, _). acc) invulnerables,
      gc_candidacy_bond = EXISTENTIAL_DEPOSIT * 16,
      gc_session_keys = map (\<lambda>(acc, aura). (acc, acc, template_session_keys aura)) invulnerables,
      gc_safe_xcm_version = Some (XCM_VERSION G),
      gc_sudo_key = Some root\<rparr>"

definition local_testnet_genesis :: "('k, 'acc, 'aura) genesis_api \<Rightarrow> ('acc, 'aura) genesis_config" where
  "local_testnet_genesis G =
     testnet_genesis G
       [(to_account_id G (key_alice G), public_key G (key_alice G)),
        (to_account_id G (key_bob G), public_key G (key_bob G))]
       (map (to_account_id G) (key_well_known G))
       (to_account_id G (key_alice G))
       PARACHAIN_ID"

definition development_config_genesis :: "('k, 'acc, 'aura) genesis_api \<Rightarrow> ('acc, 'aura) genesis_config" where
  "development_config_genesis G =
     testnet_genesis G
       [(to_account_id G (key_alice G), public_key G (key_alice G)),
        (to_account_id G (key_bob G), public_key G (key_bob G))]
       (map (to_account_id G) (key_well_known G))
       (to_account_id G (key_alice G))
       PARACHAIN_ID"

text \<open>A failing serialisation panics at \<open>expect\<close>.\<close>

definition get_preset :: "('k, 'acc, 'aura) genesis_api \<Rightarrow> string \<Rightarrow> (unit, u8 list option) outcome" where
  "get_preset G preset_id =
     (let serialise = (\<lambda>patch. case to_json G patch of None \<Rightarrow> Panicked | Some bytes \<Rightarrow> Ok (Some bytes))
      in if preset_id = LOCAL_TESTNET_RUNTIME_PRESET G then serialise (local_testnet_genesis G)
         else if preset_id = DEV_RUNTIME_PRESET G then serialise (development_config_genesis G)
         else Ok None)"

definition preset_names :: "('k, 'acc, 'aura) genesis_api \<Rightarrow> string list" where
  "preset_names G = [DEV_RUNTIME_PRESET G, LOCAL_TESTNET_RUNTIME_PRESET G]"

subsection \<open>Lemmas\<close>

text \<open>The total issuance of a genesis configuration, as the balances add up in \<open>u128\<close>.\<close>

definition total_issuance :: "('acc, 'aura) genesis_config \<Rightarrow> balance" where
  "total_issuance g = sum_list (map snd (gc_balances g))"

lemma endowment: "unat (push_bit 60 1 :: balance) = 2 ^ 60"
  by simp

lemma unat_sum_replicate:
  fixes x :: "'w::len word"
  assumes "n * unat x < 2 ^ LENGTH('w)"
  shows "unat (sum_list (replicate n x)) = n * unat x"
  using assms
proof (induction n)
  case (Suc n)
  then have "unat (sum_list (replicate n x)) = n * unat x" by simp
  with Suc.prems show ?case by (simp add: unat_add_less)
qed simp

lemma issuance_of_testnet:
  assumes "length endowed < 2 ^ 68"
  shows "unat (total_issuance (testnet_genesis G invs endowed root para_id)) = length endowed * 2 ^ 60"
proof -
  have "length endowed * unat (push_bit 60 1 :: balance) < 2 ^ LENGTH(128)"
    using assms by simp
  from unat_sum_replicate [OF this] show ?thesis
    by (simp add: total_issuance_def testnet_genesis_def comp_def map_replicate_const)
qed

text \<open>
  \<open>get_preset\<close> serves exactly the presets that \<open>preset_names\<close> lists, and does not panic as long as the
  serialisation succeeds.
\<close>

lemma get_preset_served:
  assumes "\<And>g. to_json G g \<noteq> None"
  shows "get_preset G preset_id =
    (if preset_id \<in> set (preset_names G) then Ok (to_json G (local_testnet_genesis G)) else Ok None)"
proof -
  obtain bytes where "to_json G (local_testnet_genesis G) = Some bytes"
    using assms by blast
  moreover have "development_config_genesis G = local_testnet_genesis G"
    by (simp add: development_config_genesis_def local_testnet_genesis_def)
  ultimately show ?thesis
    by (simp add: get_preset_def preset_names_def)
qed

text \<open>A keyring and a serialisation for examples: keys are numbers and the accounts their doubles.\<close>

definition demo_genesis_api :: "(nat, nat, nat) genesis_api" where
  "demo_genesis_api =
     \<lparr>key_alice = 0, key_bob = 1, key_well_known = [0, 1, 2, 3, 4, 5], to_account_id = (\<lambda>k. 2 * k),
      public_key = (\<lambda>k. 2 * k + 1), LOCAL_TESTNET_RUNTIME_PRESET = ''local_testnet'',
      DEV_RUNTIME_PRESET = ''development'', XCM_VERSION = 5, to_json = (\<lambda>g. Some [of_nat (length (gc_balances g))])\<rparr>"

subsection \<open>Properties\<close>

text \<open>
  A genesis configuration endows every listed account once with \<open>2^60\<close>, well above the
  existential deposit and the candidacy bond of 16 existential deposits; the total issuance is the
  sum without wrap-around for any realistic number of accounts; and every invulnerable collator has
  session keys registered for its own account, in the same order.
\<close>

lemma testnet_genesis_wellformed:
  assumes "length endowed < 2 ^ 68" and "g = testnet_genesis G invulnerables endowed root para_id"
  shows "map fst (gc_balances g) = endowed \<and>
    list_all (\<lambda>(a, b). unat EXISTENTIAL_DEPOSIT < unat b \<and> unat (gc_candidacy_bond g) < unat b) (gc_balances g) \<and>
    unat (gc_candidacy_bond g) = 16 * unat EXISTENTIAL_DEPOSIT \<and>
    unat (total_issuance g) = length endowed * 2 ^ 60 \<and>
    map fst (gc_session_keys g) = gc_invulnerables g \<and>
    list_all (\<lambda>(acc, validator, keys). validator = acc \<and> (acc, sk_aura keys) \<in> set invulnerables) (gc_session_keys g)"
  using issuance_of_testnet [OF assms(1)]
  by (auto simp: assms(2) testnet_genesis_def template_session_keys_def list_all_iff comp_def split_beta
      EXISTENTIAL_DEPOSIT_def MILLI_UNIT_def)

lemma testnet_genesis_wellformed_example:
  "unat (total_issuance (testnet_genesis demo_genesis_api [(1 :: nat, 2 :: nat)] [7, 8 :: nat] 7 1000)) = 2 * 2 ^ 60"
proof -
  have "length [7, 8 :: nat] < 2 ^ 68" by simp
  from testnet_genesis_wellformed [OF this refl, of demo_genesis_api "[(1, 2)]" 7 1000] show ?thesis by simp
qed



end
