(* ===== verification/Node_Chain_Spec.thy ===== *)
theory Node_Chain_Spec
  imports Genesis_Presets
begin

text \<open>
  node/src/chain_spec.rs and \<open>load_spec\<close> of node/src/command.rs: the two chain specifications built
  into the node and the choice of a specification by its identifier. The compiled runtime, the
  constants of the SDK and the reading of a specification from a file are parameters.
\<close>

subsection \<open>Definitions\<close>

definition RELAY_CHAIN :: string where
  "RELAY_CHAIN = ''rococo-local''"

record extensions =
  relay_chain :: string
  para_id :: u32

datatype chain_type = Development | Local

datatype property_value = PString string | PNumber nat

text \<open>What the calls of the builder of \<open>GenericChainSpec\<close> set.\<close>

record chain_spec =
  spec_code :: "u8 list"
  spec_extensions :: extensions
  chain_name :: string
  chain_id_of :: string
  chain_type_of :: chain_type
  preset_name :: string
  protocol_id :: "string option"
  chain_properties :: "string \<rightharpoonup> property_value"

text \<open>
  A specification as the node loads it: one of the above, or one read from a file, of which only
  its extension and what the SDK makes of it matter.
\<close>

datatype 'f loaded_spec = BuiltIn chain_spec | FromFile 'f

record ('k, 'acc, 'aura, 'f) spec_api =
  genesis :: "('k, 'acc, 'aura) genesis_api"
  WASM_BINARY :: "u8 list option"
  sc_LOCAL_TESTNET_RUNTIME_PRESET :: string
  from_json_file :: "string \<Rightarrow> string + 'f"
  file_extension :: "'f \<Rightarrow> extensions option"

definition token_properties :: "string \<rightharpoonup> property_value" where
  "token_properties =
     [''tokenSymbol'' \<mapsto> PString ''UNIT'', ''tokenDecimals'' \<mapsto> PNumber 12, ''ss58Format'' \<mapsto> PNumber 42]"

text \<open>
  runtime/build.rs: how the runtime is compiled, by the features \<open>std\<close> and \<open>metadata-hash\<close>. The hash of the
  metadata covers the symbol and the decimals of the token.
\<close>

datatype runtime_build = BuildWithMetadataHash string nat | BuildUsingDefaults | NoBuild

definition runtime_build_main :: "bool \<Rightarrow> bool \<Rightarrow> runtime_build" where
  "runtime_build_main std metadata_hash =
     (if std \<and> metadata_hash then BuildWithMetadataHash ''UNIT'' 12
      else if std then BuildUsingDefaults
      else NoBuild)"

text \<open>A node built without the runtime panics at \<open>expect\<close>.\<close>

definition development_chain_spec :: "('k, 'acc, 'aura, 'f) spec_api \<Rightarrow> (string, chain_spec) outcome" where
  "development_chain_spec S =
     (case WASM_BINARY S of
        None \<Rightarrow> Panicked
      | Some code \<Rightarrow> Ok
          \<lparr>spec_code = code,
           spec_extensions = \<lparr>relay_chain = RELAY_CHAIN, para_id = PARACHAIN_ID\<rparr>,
           chain_name = ''Development'',
           chain_id_of = ''dev'',
           chain_type_of = Development,
           preset_name = DEV_RUNTIME_PRESET (genesis S),
           protocol_id = None,
           chain_properties = token_properties\<rparr>)"

definition local_chain_spec :: "('k, 'acc, 'aura, 'f) spec_api \<Rightarrow> (string, chain_spec) outcome" where
  "local_chain_spec S =
     (case WASM_BINARY S of
        None \<Rightarrow> Panicked
      | Some code \<Rightarrow> Ok
          \<lparr>spec_code = code,
           spec_extensions = \<lparr>relay_chain = RELAY_CHAIN, para_id = PARACHAIN_ID\<rparr>,
           chain_name = ''Local Testnet'',
           chain_id_of = ''local_testnet'',
           chain_type_of = Local,
           preset_name = sc_LOCAL_TESTNET_RUNTIME_PRESET S,
           protocol_id = Some ''template-local'',
           chain_properties = token_properties\<rparr>)"

text \<open>\<open>Extensions::try_get\<close>.\<close>

primrec extensions_try_get :: "('k, 'acc, 'aura, 'f) spec_api \<Rightarrow> 'f loaded_spec \<Rightarrow> extensions option" where
  "extensions_try_get S (BuiltIn c) = Some (spec_extensions c)"
| "extensions_try_get S (FromFile f) = file_extension S f"

primrec box_spec :: "(string, chain_spec) outcome \<Rightarrow> (string, 'f loaded_spec) outcome" where
  "box_spec (Ok c) = Ok (BuiltIn c)"
| "box_spec (Err e) = Err e"
| "box_spec Panicked = Panicked"

definition load_spec :: "('k, 'acc, 'aura, 'f) spec_api \<Rightarrow> string \<Rightarrow> (string, 'f loaded_spec) outcome" where
  "load_spec S spec_id =
     (if spec_id = ''dev'' then box_spec (development_chain_spec S)
      else if spec_id = ''template-rococo'' then box_spec (local_chain_spec S)
      else if spec_id = '''' \<or> spec_id = ''local'' then box_spec (local_chain_spec S)
      else (case from_json_file S spec_id of Inl e \<Rightarrow> Err e | Inr f \<Rightarrow> Ok (FromFile f)))"

lemmas chain_spec_defs = development_chain_spec_def local_chain_spec_def RELAY_CHAIN_def

subsection \<open>Lemmas\<close>

text \<open>The node's chain specifications for examples.\<close>

definition demo_spec_api :: "(nat, nat, nat, extensions) spec_api" where
  "demo_spec_api =
     \<lparr>genesis = demo_genesis_api, WASM_BINARY = Some [1, 2], sc_LOCAL_TESTNET_RUNTIME_PRESET = ''local_testnet'',
      from_json_file = (\<lambda>p. if p = ''spec.json'' then Inr \<lparr>relay_chain = ''westend'', para_id = 2000\<rparr> else Inl ''no such file''),
      file_extension = Some\<rparr>"

lemma load_spec_builtin:
  assumes "load_spec S spec_id = Ok (BuiltIn c)"
  shows "development_chain_spec S = Ok c \<or> local_chain_spec S = Ok c"
proof (cases "development_chain_spec S"; cases "local_chain_spec S")
qed (use assms in \<open>auto simp: load_spec_def split: if_splits sum.splits\<close>)

subsection \<open>Properties\<close>

text \<open>
  \<open>load_spec\<close> on every identifier: \<open>dev\<close> is the development specification; the empty identifier,
  \<open>local\<close> and \<open>template-rococo\<close> are the local one; anything else is a path, and a file that cannot be
  read is an error. With the runtime compiled in, the built-in specifications never panic.
\<close>

lemma load_spec_behaviour:
  assumes "WASM_BINARY S = Some code"
  shows "\<exists>dev local. development_chain_spec S = Ok dev \<and> local_chain_spec S = Ok local \<and>
    chain_id_of dev = ''dev'' \<and> chain_id_of local = ''local_testnet'' \<and>
    (\<forall>spec_id. load_spec S spec_id =
       (if spec_id = ''dev'' then Ok (BuiltIn dev)
        else if spec_id \<in> {'''', ''local'', ''template-rococo''} then Ok (BuiltIn local)
        else case from_json_file S spec_id of Inl e \<Rightarrow> Err e | Inr f \<Rightarrow> Ok (FromFile f)))"
  using assms by (simp add: chain_spec_defs load_spec_def)

lemma load_spec_behaviour_example:
  "(\<exists>c. load_spec demo_spec_api '''' = Ok (BuiltIn c) \<and> chain_id_of c = ''local_testnet'') \<and>
   load_spec demo_spec_api ''x'' = Err ''no such file''"
proof -
  have "WASM_BINARY demo_spec_api = Some [1, 2]" "from_json_file demo_spec_api ''x'' = Inl ''no such file''"
    by (simp_all add: demo_spec_api_def)
  then show ?thesis using load_spec_behaviour [of demo_spec_api "[1, 2]"] by auto
qed

text \<open>
  C31: The built-in specifications agree with the runtime they ship: the preset they name is served
  by \<open>get_preset\<close>, the parachain identifier of the extension is the one of the genesis configuration of
  that preset, the token decimals are those of \<open>UNIT\<close>, the address format is \<open>SS58Prefix\<close>, and symbol
  and decimals are those the metadata hash is built with.
\<close>

theorem chain_specs_match_runtime:
  assumes "load_spec S spec_id = Ok (BuiltIn c)"
    and "sc_LOCAL_TESTNET_RUNTIME_PRESET S = LOCAL_TESTNET_RUNTIME_PRESET (genesis S)"
    and "\<And>g. to_json (genesis S) g \<noteq> None"
  shows "get_preset (genesis S) (preset_name c) = Ok (to_json (genesis S) (local_testnet_genesis (genesis S))) \<and>
    para_id (spec_extensions c) = gc_parachain_id (local_testnet_genesis (genesis S)) \<and>
    relay_chain (spec_extensions c) = RELAY_CHAIN \<and>
    (\<exists>d. chain_properties c ''tokenDecimals'' = Some (PNumber d) \<and> unat UNIT = 10 ^ d) \<and>
    chain_properties c ''ss58Format'' = Some (PNumber (unat SS58Prefix)) \<and>
    (\<exists>symbol d. runtime_build_main True True = BuildWithMetadataHash symbol d \<and>
       chain_properties c ''tokenSymbol'' = Some (PString symbol) \<and> chain_properties c ''tokenDecimals'' = Some (PNumber d))"
proof -
  obtain bytes where json: "to_json (genesis S) (local_testnet_genesis (genesis S)) = Some bytes"
    using assms(3) by blast
  have dev: "development_config_genesis (genesis S) = local_testnet_genesis (genesis S)"
    by (simp add: development_config_genesis_def local_testnet_genesis_def)
  have "get_preset (genesis S) (preset_name c) = Ok (Some bytes)"
    using load_spec_builtin [OF assms(1)] assms(2) json
    by (auto simp: chain_spec_defs get_preset_def dev split: option.splits)
  moreover have "spec_extensions c = \<lparr>relay_chain = RELAY_CHAIN, para_id = PARACHAIN_ID\<rparr>"
    "chain_properties c = token_properties"
    using load_spec_builtin [OF assms(1)] by (auto simp: chain_spec_defs split: option.splits)
  moreover have "gc_parachain_id (local_testnet_genesis (genesis S)) = PARACHAIN_ID"
    by (simp add: local_testnet_genesis_def testnet_genesis_def)
  ultimately show ?thesis
    by (simp add: json token_properties_def UNIT_def SS58Prefix_def runtime_build_main_def)
qed

theorem chain_specs_match_runtime_witness:
  "\<exists>c. load_spec demo_spec_api ''dev'' = Ok (BuiltIn c) \<and> para_id (spec_extensions c) = 1000"
proof -
  have json: "\<And>g. to_json (genesis demo_spec_api) g \<noteq> None"
    by (simp add: demo_spec_api_def demo_genesis_api_def)
  obtain c where c: "load_spec demo_spec_api ''dev'' = Ok (BuiltIn c)"
    by (simp add: demo_spec_api_def load_spec_def chain_spec_defs)
  have "sc_LOCAL_TESTNET_RUNTIME_PRESET demo_spec_api = LOCAL_TESTNET_RUNTIME_PRESET (genesis demo_spec_api)"
    by (simp add: demo_spec_api_def demo_genesis_api_def)
  from chain_specs_match_runtime [OF c this json] c show ?thesis
    by (simp add: local_testnet_genesis_def testnet_genesis_def PARACHAIN_ID_def)
qed

end
