(* ===== verification/Effect_Plan.thy ===== *)
theory Effect_Plan
  imports Rust_Prelude
begin

text \<open>
  The node's start-up code is a sequence of calls into the SDK, each of which may fail and end the
  function by \<open>?\<close>. Such a function is modelled by its plan: the calls it makes, in order, as decided
  by the configuration, with the conversion each call's error undergoes. Executing a plan against an
  environment that says which calls fail gives the result and the calls that were really made. A call
  that cannot fail is a \<open>Do\<close>, one whose error ends the function a \<open>Step\<close>; \<open>Raise\<close> returns an error of the
  function's own and \<open>Abort\<close> panics.
\<close>

subsection \<open>Definitions\<close>

datatype ('st, 'e) instr =
    Step 'st "'e \<Rightarrow> 'e"
  | Do 'st
  | Raise 'e
  | Abort

primrec exec_plan :: "('st \<Rightarrow> 'e option) \<Rightarrow> ('st, 'e) instr list \<Rightarrow> ('st list, 'e, unit) exec" where
  "exec_plan fails [] log = (Ok (), log)"
| "exec_plan fails (i # is) log =
     (case i of
        Step st f \<Rightarrow> (case fails st of
            None \<Rightarrow> exec_plan fails is (log @ [st])
          | Some e \<Rightarrow> (Err (f e), log @ [st]))
      | Do st \<Rightarrow> exec_plan fails is (log @ [st])
      | Raise e \<Rightarrow> (Err e, log)
      | Abort \<Rightarrow> (Panicked, log))"

text \<open>A call whose error is passed on as it is.\<close>

definition call :: "'st \<Rightarrow> ('st, 'e) instr" where
  "call st = Step st (\<lambda>e. e)"

fun steps_of :: "('st, 'e) instr list \<Rightarrow> 'st list" where
  "steps_of [] = []"
| "steps_of (Step st f # is) = st # steps_of is"
| "steps_of (Do st # is) = st # steps_of is"
| "steps_of (i # is) = steps_of is"

fun passes :: "('st \<Rightarrow> 'e option) \<Rightarrow> ('st, 'e) instr \<Rightarrow> bool" where
  "passes fails (Step st f) = (fails st = None)"
| "passes fails (Do st) = True"
| "passes fails i = False"

text \<open>The calls whose error ends the function, and the plans that neither raise nor panic themselves.\<close>

fun fallible_steps :: "('st, 'e) instr list \<Rightarrow> 'st list" where
  "fallible_steps [] = []"
| "fallible_steps (Step st f # is) = st # fallible_steps is"
| "fallible_steps (i # is) = fallible_steps is"

fun only_calls :: "('st, 'e) instr list \<Rightarrow> bool" where
  "only_calls [] = True"
| "only_calls (Raise e # is) = False"
| "only_calls (Abort # is) = False"
| "only_calls (i # is) = only_calls is"

text \<open>The plan of a function called by another one, whose error the caller converts by \<open>conv\<close>.\<close>

primrec embed_instr :: "('s \<Rightarrow> 't) \<Rightarrow> ('e \<Rightarrow> 'e) \<Rightarrow> ('s, 'e) instr \<Rightarrow> ('t, 'e) instr" where
  "embed_instr lift conv (Step st f) = Step (lift st) (\<lambda>e. conv (f e))"
| "embed_instr lift conv (Do st) = Do (lift st)"
| "embed_instr lift conv (Raise e) = Raise (conv e)"
| "embed_instr lift conv Abort = Abort"

definition embed :: "('s \<Rightarrow> 't) \<Rightarrow> ('e \<Rightarrow> 'e) \<Rightarrow> ('s, 'e) instr list \<Rightarrow> ('t, 'e) instr list" where
  "embed lift conv plan = map (embed_instr lift conv) plan"

subsection \<open>Lemmas\<close>

lemma steps_of_embed [simp]: "steps_of (embed lift conv plan) = map lift (steps_of plan)"
  unfolding embed_def by (induction plan rule: steps_of.induct) simp_all

lemma passes_embed_instr [simp]: "passes fails (embed_instr lift conv i) = passes (\<lambda>st. fails (lift st)) i"
  by (cases i) simp_all

lemma list_all_passes_embed [simp]:
  "list_all (passes fails) (embed lift conv plan) = list_all (passes (\<lambda>st. fails (lift st))) plan"
  by (simp add: embed_def list_all_iff)

text \<open>The embedded plan makes the same calls and panics in the same cases.\<close>

lemma exec_plan_embed:
  "exec_plan fails (embed lift conv plan) (map lift log) =
     (case exec_plan (\<lambda>st. fails (lift st)) plan log of
        (Ok u, log') \<Rightarrow> (Ok u, map lift log')
      | (Err e, log') \<Rightarrow> (Err (conv e), map lift log')
      | (Panicked, log') \<Rightarrow> (Panicked, map lift log'))"
  unfolding embed_def
proof (induction plan arbitrary: log)
  case (Cons i plan)
  have IH: "exec_plan fails (map (embed_instr lift conv) plan) (map lift log @ [lift st]) =
     (case exec_plan (\<lambda>st. fails (lift st)) plan (log @ [st]) of
        (Ok u, log') \<Rightarrow> (Ok u, map lift log')
      | (Err e, log') \<Rightarrow> (Err (conv e), map lift log')
      | (Panicked, log') \<Rightarrow> (Panicked, map lift log'))" for st
    using Cons.IH [of "log @ [st]"] by simp
  show ?case by (cases i) (auto simp: IH split: option.splits)
qed simp


lemma steps_of_append [simp]: "steps_of (is @ js) = steps_of is @ steps_of js"
  by (induction "is" rule: steps_of.induct) auto

lemma steps_of_call [simp]: "steps_of (call st # is) = st # steps_of is"
  by (simp add: call_def)

lemma passes_call [simp]: "passes fails (call st) \<longleftrightarrow> fails st = None"
  by (simp add: call_def)

lemma fallible_steps_simps [simp]:
  "fallible_steps (is @ js) = fallible_steps is @ fallible_steps js"
  "fallible_steps (call st # is) = st # fallible_steps is"
  by (induction "is" rule: fallible_steps.induct) (simp_all add: call_def)

lemma only_calls_simps [simp]:
  "only_calls (is @ js) \<longleftrightarrow> only_calls is \<and> only_calls js"
  "only_calls (call st # is) = only_calls is"
  by (induction "is" rule: only_calls.induct) (simp_all add: call_def)

lemma list_all_passes_only_calls:
  "only_calls is \<Longrightarrow> list_all (passes fails) is \<longleftrightarrow> (\<forall>st \<in> set (fallible_steps is). fails st = None)"
  by (induction "is" rule: only_calls.induct) auto

lemma exec_plan_append:
  "exec_plan fails (is @ js) log =
     (case exec_plan fails is log of (Ok _, log') \<Rightarrow> exec_plan fails js log' | r \<Rightarrow> r)"
  by (induction "is" arbitrary: log) (auto split: instr.splits option.splits)

text \<open>A plan succeeds exactly if every call does; then all calls were made, in order.\<close>

lemma exec_plan_Ok_iff:
  "fst (exec_plan fails is log) = Ok () \<longleftrightarrow> list_all (passes fails) is"
  by (induction "is" arbitrary: log) (auto split: instr.splits option.splits)

lemma exec_plan_Ok_log:
  "list_all (passes fails) is \<Longrightarrow> exec_plan fails is log = (Ok (), log @ steps_of is)"
  by (induction "is" arbitrary: log) (auto split: instr.splits)

text \<open>Otherwise the calls made are a beginning of the plan.\<close>

lemma exec_plan_prefix:
  "\<exists>made rest. snd (exec_plan fails is log) = log @ made \<and> steps_of is = made @ rest"
proof (induction "is" arbitrary: log)
  case (Cons i "is")
  show ?case
  proof (cases i)
    case (Step st f)
    show ?thesis
    proof (cases "fails st")
      case None
      obtain made rest where "snd (exec_plan fails is (log @ [st])) = (log @ [st]) @ made" "steps_of is = made @ rest"
        using Cons.IH by blast
      with Step None show ?thesis by (intro exI [of _ "st # made"] exI [of _ rest]) simp
    next
      case (Some e)
      with Step show ?thesis by (intro exI [of _ "[st]"] exI [of _ "steps_of is"]) simp
    qed
  next
    case (Do st)
    obtain made rest where "snd (exec_plan fails is (log @ [st])) = (log @ [st]) @ made" "steps_of is = made @ rest"
      using Cons.IH by blast
    with Do show ?thesis by (intro exI [of _ "st # made"] exI [of _ rest]) simp
  qed auto
qed simp

lemma exec_plan_made:
  assumes "st \<in> set (snd (exec_plan fails is []))"
  shows "st \<in> set (steps_of is)"
  using exec_plan_prefix [of fails "is" "[]"] assms by auto

text \<open>A call of the plan is made if everything before it succeeds.\<close>

lemma exec_plan_reaches:
  assumes "is = before @ Step st f # later" and "list_all (passes fails) before"
  shows "st \<in> set (snd (exec_plan fails is log))"
proof -
  have "\<exists>made. snd (exec_plan fails later l) = l @ made" for l
    using exec_plan_prefix [of fails later l] by blast
  then obtain made where "snd (exec_plan fails later (log @ steps_of before @ [st])) = (log @ steps_of before @ [st]) @ made"
    by blast
  then show ?thesis
    by (auto simp: assms(1) exec_plan_append exec_plan_Ok_log [OF assms(2)] split: option.splits)
qed

lemma only_calls_no_panic: "only_calls is \<Longrightarrow> fst (exec_plan fails is log) \<noteq> Panicked"
  by (induction "is" arbitrary: log rule: only_calls.induct) (auto split: option.splits)

text \<open>A plan of calls that ends in a second one: the second is entered exactly if every call of the first succeeds.\<close>

lemma exec_plan_calls_append:
  assumes "only_calls is"
  shows "exec_plan fails (is @ js) log =
    (if \<forall>st \<in> set (fallible_steps is). fails st = None then exec_plan fails js (log @ steps_of is)
     else exec_plan fails is log)"
proof (cases "list_all (passes fails) is")
  case True
  then show ?thesis
    using list_all_passes_only_calls [OF assms, of fails]
    by (simp add: exec_plan_append exec_plan_Ok_log [OF True])
next
  case False
  then have "fst (exec_plan fails is log) \<noteq> Ok ()" using exec_plan_Ok_iff [of fails "is" log] by simp
  with False show ?thesis
    using list_all_passes_only_calls [OF assms, of fails]
    by (cases "exec_plan fails is log") (auto simp: exec_plan_append split: outcome.splits)
qed

text \<open>The marked calls that were made are a beginning of the marked calls of the plan.\<close>

lemma exec_plan_filter_prefix:
  "\<exists>rest. filter P (steps_of is) = filter P (snd (exec_plan fails is [])) @ rest"
  using exec_plan_prefix [of fails "is" "[]"] by auto

text \<open>The calls already made do not matter for the rest.\<close>

lemma exec_plan_log: "exec_plan fails is log = (fst (exec_plan fails is []), log @ snd (exec_plan fails is []))"
proof (induction "is" arbitrary: log)
  case (Cons i "is")
  have IH: "exec_plan fails is (log @ [st]) = (fst (exec_plan fails is [st]), log @ snd (exec_plan fails is [st]))" for st
    using Cons.IH [of "log @ [st]"] Cons.IH [of "[st]"] by simp
  show ?case by (cases i) (auto simp: IH split: option.splits)
qed simp

primrec map_outcome_err :: "('e \<Rightarrow> 'e) \<Rightarrow> ('e, 'a) outcome \<Rightarrow> ('e, 'a) outcome" where
  "map_outcome_err f (Ok a) = Ok a"
| "map_outcome_err f (Err e) = Err (f e)"
| "map_outcome_err f Panicked = Panicked"

lemma fst_exec_plan_embed:
  "fst (exec_plan fails (embed lift conv plan) log) =
     map_outcome_err conv (fst (exec_plan (\<lambda>st. fails (lift st)) plan []))"
  using exec_plan_log [of fails "embed lift conv plan" log] exec_plan_embed [of fails lift conv plan "[]"]
  by (cases "exec_plan (\<lambda>st. fails (lift st)) plan []") (auto split: outcome.splits)

subsection \<open>Erasure\<close>

text \<open>A plan with more steps than another one: \<open>f\<close> says which step of the other a step stands for, if any.\<close>

primrec erase_instr :: "('a \<Rightarrow> 'b option) \<Rightarrow> ('a, 'e) instr \<Rightarrow> ('b, 'e) instr list" where
  "erase_instr f (Step x conv) = (case f x of None \<Rightarrow> [] | Some y \<Rightarrow> [Step y conv])"
| "erase_instr f (Do x) = (case f x of None \<Rightarrow> [] | Some y \<Rightarrow> [Do y])"
| "erase_instr f (Raise e) = [Raise e]"
| "erase_instr f Abort = [Abort]"

definition erase_plan :: "('a \<Rightarrow> 'b option) \<Rightarrow> ('a, 'e) instr list \<Rightarrow> ('b, 'e) instr list" where
  "erase_plan f p = concat (map (erase_instr f) p)"

text \<open>If the steps fail that stand for failing ones, the result is the same and the calls made are those the steps stand for.\<close>

lemma exec_plan_erase:
  "exec_plan fails (erase_plan f p) (List.map_filter f made) =
     (case exec_plan (\<lambda>x. case f x of None \<Rightarrow> None | Some st \<Rightarrow> fails st) p made of
        (r, made') \<Rightarrow> (r, List.map_filter f made'))"
proof (induction p arbitrary: made)
  case (Cons i p)
  have step: "exec_plan fails (concat (map (erase_instr f) p)) (List.map_filter f made @ List.map_filter f [x]) =
     (case exec_plan (\<lambda>x. case f x of None \<Rightarrow> None | Some st \<Rightarrow> fails st) p (made @ [x]) of
        (r, made') \<Rightarrow> (r, List.map_filter f made'))" for x
    using Cons.IH [of "made @ [x]"] by (simp add: erase_plan_def List.map_filter_def)
  show ?case
  proof (cases i)
    case (Step x conv)
    then show ?thesis using step [of x]
      by (cases "f x"; cases "fails (the (f x))") (simp_all add: erase_plan_def List.map_filter_def)
  next
    case (Do x)
    then show ?thesis using step [of x] by (cases "f x") (simp_all add: erase_plan_def List.map_filter_def)
  qed (simp_all add: erase_plan_def)
qed (simp add: erase_plan_def)

end
