(* ===== verification/Node_Service.thy ===== *)
theory Node_Service
  imports Node_Chain_Spec Effect_Plan
begin

text \<open>
  node/src/service.rs and node/src/rpc.rs: assembling and starting a parachain node. Each function is
  the plan of its calls into the SDK (theory \<open>Effect_Plan\<close>), with the arguments that the configuration
  decides; calls the SDK makes on its own are inside its steps. What those calls return and the code
  branches on is a parameter, the record \<open>service_api\<close>.
\<close>

subsection \<open>Definitions\<close>

text \<open>Errors of the node: of the SDK, wrapped as the code wraps them, or made by the code.\<close>

datatype node_error =
    Sdk string
  | Telemetry node_error
  | Application node_error
  | Service node_error
  | Input string

text \<open>
  The part of \<open>sc_service::Configuration\<close> the node reads itself. \<open>'w\<close> is the type of the execution
  methods of the SDK; the registry of metrics is a number that identifies it.
\<close>

record ('f, 'w) configuration =
  cfg_chain_spec :: "'f loaded_spec"
  cfg_base_path :: string
  database_path :: "string option"
  telemetry_endpoints :: "string list option"
  is_authority :: bool
  offchain_worker_enabled :: bool
  wasm_method :: 'w
  default_heap_pages :: "u64 option"
  max_runtime_instances :: nat
  runtime_cache_size :: u8
  prometheus_registry :: "nat option"

datatype heap_alloc_strategy = Static u32 | Dynamic "u32 option"

record 'w executor =
  execution_method :: 'w
  onchain_heap_alloc_strategy :: heap_alloc_strategy
  offchain_heap_alloc_strategy :: heap_alloc_strategy
  executor_max_runtime_instances :: nat
  executor_runtime_cache_size :: u8

datatype collator_sybil_resistance = Resistant | Unresistant

datatype da_recovery_profile = Collator | FullNode

record 'key aura_params =
  aura_collator_key :: 'key
  aura_para_id :: u32
  aura_relay_chain_slot_duration :: u64
  authoring_duration :: u64
  reinitialize :: bool
  max_pov_percentage :: "u32 option"

text \<open>
  Calls into the SDK. \<open>Spawn\<close> has the kind of the handle (essential or not), the name and the group of
  the task. A telemetry handle is the list of its endpoints.
\<close>

datatype ('f, 'w, 'co, 'hw, 'key) service_step =
    TelemetryWorkerNew nat
  | NewTelemetry "string list"
  | NewFullParts "('f, 'w) configuration" "string list option" "'w executor" bool
  | Spawn bool string "string option"
  | BuildTransactionPool bool "('f, 'w) configuration"
  | NewBlockImport
  | FullyVerifyingImportQueue "string list option"
  | NewNetworkConfiguration "('f, 'w) configuration"
  | BuildRelayChainInterface "('f, 'w) configuration" "('f, 'w) configuration" bool 'co "'hw option"
  | BuildNetwork "('f, 'w) configuration" u32 collator_sybil_resistance
  | NewOffchainWorkers bool bool
  | SpawnTasks "('f, 'w) configuration" "string list option"
  | PrintHwbench 'hw
  | WarnHardware 'hw
  | GetOverseerHandle
  | StartRelayChainTasks u32 da_recovery_profile u64
  | NewProposer "string list option"
  | NewCollatorService
  | AuraRun "'key aura_params"

record ('f, 'w, 'co, 'hw, 'key) service_api =
  prepare_node_config :: "('f, 'w) configuration \<Rightarrow> ('f, 'w) configuration"
  DEFAULT_HEAP_ALLOC_STRATEGY :: heap_alloc_strategy
  built_collator_key :: "('f, 'w) configuration \<Rightarrow> ('f, 'w) configuration \<Rightarrow> 'co \<Rightarrow> 'key option"
  meets_reference_hardware :: "'hw \<Rightarrow> bool"

text \<open>Telemetry is started for a list of endpoints that is there and not empty.\<close>

definition telemetry_of :: "('f, 'w) configuration \<Rightarrow> string list option" where
  "telemetry_of config =
     (case telemetry_endpoints config of
        None \<Rightarrow> None
      | Some endpoints \<Rightarrow> if endpoints = [] then None else Some endpoints)"

text \<open>The number of pages is converted from 64 to 32 bits by \<open>as\<close>, which truncates.\<close>

definition heap_pages :: "('f, 'w, 'co, 'hw, 'key) service_api \<Rightarrow> ('f, 'w) configuration \<Rightarrow> heap_alloc_strategy" where
  "heap_pages E config =
     (case default_heap_pages config of None \<Rightarrow> DEFAULT_HEAP_ALLOC_STRATEGY E | Some h \<Rightarrow> Static (ucast h))"

definition build_executor :: "('f, 'w, 'co, 'hw, 'key) service_api \<Rightarrow> ('f, 'w) configuration \<Rightarrow> 'w executor" where
  "build_executor E config =
     \<lparr>execution_method = wasm_method config,
      onchain_heap_alloc_strategy = heap_pages E config,
      offchain_heap_alloc_strategy = heap_pages E config,
      executor_max_runtime_instances = max_runtime_instances config,
      executor_runtime_cache_size = runtime_cache_size config\<rparr>"

definition build_import_queue ::
  "string list option \<Rightarrow> (('f, 'w, 'co, 'hw, 'key) service_step, node_error) instr list" where
  "build_import_queue telemetry = [Do (FullyVerifyingImportQueue telemetry)]"

definition new_partial ::
  "('f, 'w, 'co, 'hw, 'key) service_api \<Rightarrow> ('f, 'w) configuration \<Rightarrow>
     (('f, 'w, 'co, 'hw, 'key) service_step, node_error) instr list" where
  "new_partial E config =
     (case telemetry_of config of
        None \<Rightarrow> []
      | Some endpoints \<Rightarrow> [Step (TelemetryWorkerNew 16) Telemetry, Do (NewTelemetry endpoints)]) @
     [call (NewFullParts config (telemetry_of config) (build_executor E config) True)] @
     (case telemetry_of config of
        None \<Rightarrow> []
      | Some _ \<Rightarrow> [Do (Spawn False ''telemetry'' None)]) @
     [Do (BuildTransactionPool (is_authority config) config),
      Do NewBlockImport] @
     build_import_queue (telemetry_of config)"

definition start_consensus ::
  "string list option \<Rightarrow> u64 \<Rightarrow> u32 \<Rightarrow> 'key \<Rightarrow>
     (('f, 'w, 'co, 'hw, 'key) service_step, node_error) instr list" where
  "start_consensus telemetry relay_chain_slot_duration para collator_key =
     [Do (NewProposer telemetry),
      Do NewCollatorService,
      Do (AuraRun
        \<lparr>aura_collator_key = collator_key,
         aura_para_id = para,
         aura_relay_chain_slot_duration = relay_chain_slot_duration,
         authoring_duration = 2000,
         reinitialize = False,
         max_pov_percentage = None\<rparr>),
      Do (Spawn True ''aura'' None)]"

text \<open>The branch for hardware benchmarks, which only reports.\<close>

definition report_hwbench ::
  "('f, 'w, 'co, 'hw, 'key) service_api \<Rightarrow> bool \<Rightarrow> string list option \<Rightarrow> 'hw option \<Rightarrow>
     (('f, 'w, 'co, 'hw, 'key) service_step, node_error) instr list" where
  "report_hwbench E validator telemetry hwbench =
     (case hwbench of
        None \<Rightarrow> []
      | Some hw \<Rightarrow>
          [Do (PrintHwbench hw)] @
          (if \<not> meets_reference_hardware E hw \<and> validator then [Do (WarnHardware hw)] else []) @
          (case telemetry of None \<Rightarrow> [] | Some _ \<Rightarrow> [Do (Spawn False ''telemetry_hwbench'' None)]))"

text \<open>Six seconds, in milliseconds.\<close>

definition relay_chain_slot_duration :: u64 where
  "relay_chain_slot_duration = 6 * 1000"

definition start_parachain_node ::
  "('f, 'w, 'co, 'hw, 'key) service_api \<Rightarrow> ('f, 'w) configuration \<Rightarrow> ('f, 'w) configuration \<Rightarrow> 'co \<Rightarrow> u32 \<Rightarrow>
     'hw option \<Rightarrow> (('f, 'w, 'co, 'hw, 'key) service_step, node_error) instr list" where
  "start_parachain_node E parachain_config0 polkadot_config collator_options para hwbench =
     (let parachain_config = prepare_node_config E parachain_config0;
          telemetry = telemetry_of parachain_config;
          validator = is_authority parachain_config
      in
       new_partial E parachain_config @
       [Do (NewNetworkConfiguration parachain_config),
        Step (BuildRelayChainInterface polkadot_config parachain_config (telemetry \<noteq> None) collator_options hwbench)
          Application,
        call (BuildNetwork parachain_config para Resistant)] @
       (if offchain_worker_enabled parachain_config
        then [call (NewOffchainWorkers (is_authority parachain_config) False),
              Do (Spawn False ''offchain-workers-runner'' (Some ''offchain-work''))]
        else []) @
       [call (SpawnTasks parachain_config telemetry)] @
       report_hwbench E validator telemetry hwbench @
       [Step GetOverseerHandle Application,
        call (StartRelayChainTasks para (if validator then Collator else FullNode) relay_chain_slot_duration)] @
       (if validator
        then case built_collator_key E polkadot_config parachain_config collator_options of
               None \<Rightarrow> [Abort]
             | Some key \<Rightarrow> start_consensus telemetry relay_chain_slot_duration para key
        else []))"

text \<open>
  rpc.rs: the modules of the SDK and their merge are parameters; \<open>client\<close> and \<open>pool\<close> are the dependencies.
\<close>

record ('m, 'c, 'p) rpc_api =
  new_module :: 'm
  merge_module :: "'m \<Rightarrow> 'm \<Rightarrow> node_error + 'm"
  system_rpc :: "'c \<Rightarrow> 'p \<Rightarrow> 'm"
  transaction_payment_rpc :: "'c \<Rightarrow> 'm"

record ('c, 'p) full_deps =
  deps_client :: 'c
  deps_pool :: 'p

definition create_full :: "('m, 'c, 'p) rpc_api \<Rightarrow> ('c, 'p) full_deps \<Rightarrow> (node_error, 'm) outcome" where
  "create_full R deps =
     (case merge_module R (new_module R) (system_rpc R (deps_client deps) (deps_pool deps)) of
        Inl e \<Rightarrow> Err e
      | Inr module1 \<Rightarrow>
          (case merge_module R module1 (transaction_payment_rpc R (deps_client deps)) of
             Inl e \<Rightarrow> Err e
           | Inr module2 \<Rightarrow> Ok module2))"

subsection \<open>The interface of RPC modules\<close>

text \<open>A module serves methods by name; merging two that share a name is an error.\<close>

locale rpc_laws =
  fixes R :: "('m, 'c, 'p) rpc_api" and methods :: "'m \<Rightarrow> string set"
  assumes methods_new: "methods (new_module R) = {}"
    and merge_disjoint: "methods m \<inter> methods n = {} \<Longrightarrow> \<exists>r. merge_module R m n = Inr r \<and> methods r = methods m \<union> methods n"
    and merge_shared: "methods m \<inter> methods n \<noteq> {} \<Longrightarrow> \<exists>e. merge_module R m n = Inl e"
begin

lemma create_full_cases:
  "if methods (system_rpc R (deps_client deps) (deps_pool deps)) \<inter> methods (transaction_payment_rpc R (deps_client deps)) = {}
   then \<exists>m. create_full R deps = Ok m \<and>
     methods m = methods (system_rpc R (deps_client deps) (deps_pool deps)) \<union> methods (transaction_payment_rpc R (deps_client deps))
   else \<exists>e. create_full R deps = Err e"
proof -
  let ?sys = "system_rpc R (deps_client deps) (deps_pool deps)"
  obtain m where m: "merge_module R (new_module R) ?sys = Inr m" "methods m = methods ?sys"
    using merge_disjoint [of "new_module R" ?sys] by (auto simp: methods_new)
  let ?pay = "transaction_payment_rpc R (deps_client deps)"
  show ?thesis
  proof (cases "methods ?sys \<inter> methods ?pay = {}")
    case True
    then show ?thesis using merge_disjoint [of m ?pay] by (auto simp: create_full_def m)
  next
    case False
    then obtain e where "merge_module R m ?pay = Inl e" using merge_shared [of m ?pay] by (auto simp: m)
    with False show ?thesis by (simp add: create_full_def m)
  qed
qed

end

text \<open>Modules as lists of method names.\<close>

definition name_rpc :: "string list \<Rightarrow> string list \<Rightarrow> (string list, unit, unit) rpc_api" where
  "name_rpc sys pay =
     \<lparr>new_module = [],
      merge_module = (\<lambda>m n. if set m \<inter> set n = {} then Inr (m @ n) else Inl (Sdk ''already registered'')),
      system_rpc = (\<lambda>_ _. sys), transaction_payment_rpc = (\<lambda>_. pay)\<rparr>"

interpretation names: rpc_laws "name_rpc sys pay" set
  by unfold_locales (auto simp: name_rpc_def)

subsection \<open>Lemmas\<close>

lemmas service_plan_defs = new_partial_def build_import_queue_def start_consensus_def report_hwbench_def

text \<open>What is started whatever the role, and what only an authority starts.\<close>

definition start_services ::
  "('f, 'w, 'co, 'hw, 'key) service_api \<Rightarrow> ('f, 'w) configuration \<Rightarrow> ('f, 'w) configuration \<Rightarrow> 'co \<Rightarrow> u32 \<Rightarrow>
     'hw option \<Rightarrow> (('f, 'w, 'co, 'hw, 'key) service_step, node_error) instr list" where
  "start_services E config relay co para hwbench =
     new_partial E config @
     [Do (NewNetworkConfiguration config),
      Step (BuildRelayChainInterface relay config (telemetry_of config \<noteq> None) co hwbench) Application,
      call (BuildNetwork config para Resistant)] @
     (if offchain_worker_enabled config
      then [call (NewOffchainWorkers (is_authority config) False),
            Do (Spawn False ''offchain-workers-runner'' (Some ''offchain-work''))]
      else []) @
     [call (SpawnTasks config (telemetry_of config))] @
     report_hwbench E (is_authority config) (telemetry_of config) hwbench @
     [Step GetOverseerHandle Application,
      call (StartRelayChainTasks para (if is_authority config then Collator else FullNode) relay_chain_slot_duration)]"

definition start_authority ::
  "('f, 'w, 'co, 'hw, 'key) service_api \<Rightarrow> ('f, 'w) configuration \<Rightarrow> ('f, 'w) configuration \<Rightarrow> 'co \<Rightarrow> u32 \<Rightarrow>
     (('f, 'w, 'co, 'hw, 'key) service_step, node_error) instr list" where
  "start_authority E config relay co para =
     (if is_authority config
      then case built_collator_key E relay config co of
             None \<Rightarrow> [Abort]
           | Some key \<Rightarrow> start_consensus (telemetry_of config) relay_chain_slot_duration para key
      else [])"

lemma start_parachain_node_split:
  "start_parachain_node E config relay co para hwbench =
     start_services E (prepare_node_config E config) relay co para hwbench @
     start_authority E (prepare_node_config E config) relay co para"
  by (simp add: start_parachain_node_def start_services_def start_authority_def Let_def)

lemma new_partial_only_calls [simp]: "only_calls (new_partial E config)"
  by (simp add: new_partial_def build_import_queue_def split: option.split)

lemma report_hwbench_simps [simp]:
  "only_calls (report_hwbench E validator telemetry hwbench)"
  "fallible_steps (report_hwbench E validator telemetry hwbench) = []"
  by (simp_all add: report_hwbench_def split: option.split)

lemma start_services_only_calls [simp]: "only_calls (start_services E config relay co para hwbench)"
  by (simp add: start_services_def)

text \<open>The calls of the SDK that can keep the node from starting.\<close>

definition start_requirements ::
  "('f, 'w, 'co, 'hw, 'key) service_api \<Rightarrow> ('f, 'w) configuration \<Rightarrow> ('f, 'w) configuration \<Rightarrow> 'co \<Rightarrow> u32 \<Rightarrow>
     'hw option \<Rightarrow> ('f, 'w, 'co, 'hw, 'key) service_step list" where
  "start_requirements E config relay co para hwbench =
     (if telemetry_of config = None then [] else [TelemetryWorkerNew 16]) @
     [NewFullParts config (telemetry_of config) (build_executor E config) True,
      BuildRelayChainInterface relay config (telemetry_of config \<noteq> None) co hwbench,
      BuildNetwork config para Resistant] @
     (if offchain_worker_enabled config then [NewOffchainWorkers (is_authority config) False] else []) @
     [SpawnTasks config (telemetry_of config), GetOverseerHandle,
      StartRelayChainTasks para (if is_authority config then Collator else FullNode) relay_chain_slot_duration]"

lemma fallible_start_services:
  "fallible_steps (start_services E config relay co para hwbench) = start_requirements E config relay co para hwbench"
  by (simp add: start_services_def start_requirements_def new_partial_def build_import_queue_def split: option.split)

text \<open>The result of starting a node, and the calls made when every requirement is met.\<close>

lemma exec_start_parachain_node:
  "exec_plan fails (start_parachain_node E config relay co para hwbench) [] =
     (if \<forall>st \<in> set (start_requirements E (prepare_node_config E config) relay co para hwbench). fails st = None
      then exec_plan fails (start_authority E (prepare_node_config E config) relay co para)
             (steps_of (start_services E (prepare_node_config E config) relay co para hwbench))
      else exec_plan fails (start_services E (prepare_node_config E config) relay co para hwbench) [])"
  by (simp add: start_parachain_node_split exec_plan_calls_append fallible_start_services)

lemma start_services_no_aura:
  "Spawn True n g \<notin> set (steps_of (start_services E config relay co para hwbench))"
  "AuraRun p \<notin> set (steps_of (start_services E config relay co para hwbench))"
  by (simp_all add: start_services_def service_plan_defs split: option.split)

lemma start_services_tasks:
  "StartRelayChainTasks para' profile d \<in> set (steps_of (start_services E config relay co para hwbench)) \<longleftrightarrow>
     para' = para \<and> profile = (if is_authority config then Collator else FullNode) \<and> d = relay_chain_slot_duration"
  by (simp add: start_services_def service_plan_defs split: option.split)

lemma exec_start_authority:
  "exec_plan fails (start_authority E config relay co para) made =
     (if is_authority config
      then case built_collator_key E relay config co of
             None \<Rightarrow> (Panicked, made)
           | Some key \<Rightarrow> (Ok (), made @ steps_of (start_consensus (telemetry_of config) relay_chain_slot_duration para key
               :: (('a, 'b, 'c, 'd, 'e) service_step, node_error) instr list))
      else (Ok (), made))"
  for fails :: "('a, 'b, 'c, 'd, 'e) service_step \<Rightarrow> node_error option"
  by (simp add: start_authority_def start_consensus_def split: option.split)

lemma start_parachain_node_aura:
  assumes "AuraRun p \<in> set (steps_of (start_parachain_node E config relay co para hwbench))"
  shows "aura_relay_chain_slot_duration p = relay_chain_slot_duration" and "authoring_duration p = 2000"
  using assms
  by (auto simp: start_parachain_node_split start_services_no_aura start_authority_def start_consensus_def
      split: option.splits if_splits)

lemma start_parachain_node_all_pass:
  assumes "is_authority (prepare_node_config E config) \<Longrightarrow>
      built_collator_key E relay (prepare_node_config E config) co \<noteq> None"
  shows "list_all (passes (\<lambda>_. None)) (start_parachain_node E config relay co para hwbench)"
  using assms unfolding exec_plan_Ok_iff [of "\<lambda>_. None" _ "[]", symmetric]
  by (auto simp: exec_start_parachain_node exec_start_authority split: option.split)

lemma exec_start_services_fails:
  assumes "\<not> (\<forall>st \<in> set (start_requirements E config relay co para hwbench). fails st = None)"
  shows "\<exists>e. fst (exec_plan fails (start_services E config relay co para hwbench) made) = Err e"
proof -
  have "fst (exec_plan fails (start_services E config relay co para hwbench) made) \<noteq> Ok ()"
    using assms by (simp add: exec_plan_Ok_iff list_all_passes_only_calls fallible_start_services)
  moreover have "fst (exec_plan fails (start_services E config relay co para hwbench) made) \<noteq> Panicked"
    by (simp add: only_calls_no_panic)
  ultimately show ?thesis by (cases "fst (exec_plan fails (start_services E config relay co para hwbench) made)") auto
qed





text \<open>A full node and a collator for examples.\<close>

definition demo_config :: "bool \<Rightarrow> (extensions, unit) configuration" where
  "demo_config authority =
     \<lparr>cfg_chain_spec = FromFile \<lparr>relay_chain = ''westend'', para_id = 2000\<rparr>, cfg_base_path = ''/data'',
      database_path = None, telemetry_endpoints = None, is_authority = authority, offchain_worker_enabled = True,
      wasm_method = (), default_heap_pages = Some 4294967300, max_runtime_instances = 8, runtime_cache_size = 2,
      prometheus_registry = Some 9615\<rparr>"

definition demo_service :: "nat option \<Rightarrow> (extensions, unit, unit, nat, nat) service_api" where
  "demo_service key =
     \<lparr>prepare_node_config = (\<lambda>c. c), DEFAULT_HEAP_ALLOC_STRATEGY = Dynamic None,
      built_collator_key = (\<lambda>_ _ _. key), meets_reference_hardware = (\<lambda>_. True)\<rparr>"

subsection \<open>Properties\<close>

text \<open>
  C33: Starting a node succeeds exactly if the calls of \<open>start_requirements\<close> succeed and an authority
  got its collator key; it panics exactly if an authority got none although all calls succeeded.
  A full node never panics.
\<close>

theorem node_start_outcome:
  fixes fails :: "('f, 'w, 'co, 'hw, 'key) service_step \<Rightarrow> node_error option"
  assumes config': "config' = prepare_node_config E config"
    and met: "met = list_all (\<lambda>st. fails st = None) (start_requirements E config' relay co para hwbench)"
    and result: "result = fst (exec_plan fails (start_parachain_node E config relay co para hwbench) [])"
  shows "(result = Ok () \<longleftrightarrow> met \<and> (is_authority config' \<longrightarrow> built_collator_key E relay config' co \<noteq> None)) \<and>
    (result = Panicked \<longleftrightarrow> met \<and> is_authority config' \<and> built_collator_key E relay config' co = None)"
proof (cases met)
  case True
  then have "\<forall>st \<in> set (start_requirements E (prepare_node_config E config) relay co para hwbench). fails st = None"
    by (simp add: met config' list_all_iff)
  with True show ?thesis
    by (simp add: result config' exec_start_parachain_node exec_start_authority split: option.split)
next
  case False
  then have "\<not> (\<forall>st \<in> set (start_requirements E config' relay co para hwbench). fails st = None)"
    by (simp add: met list_all_iff)
  with exec_start_services_fails [OF this, of "[]"] False show ?thesis
    by (auto simp: result config' exec_start_parachain_node)
qed

theorem node_start_outcome_witness:
  "fst (exec_plan (\<lambda>_. None) (start_parachain_node (demo_service (Some 7)) (demo_config True) (demo_config False) () 2000 None) []) = Ok () \<and>
   fst (exec_plan (\<lambda>_. None) (start_parachain_node (demo_service None) (demo_config True) (demo_config False) () 2000 None) []) = Panicked"
  using node_start_outcome [OF refl refl refl, of "\<lambda>_. None" "demo_service (Some 7)" "demo_config True" "demo_config False" "()" 2000 None]
    node_start_outcome [OF refl refl refl, of "\<lambda>_. None" "demo_service None" "demo_config True" "demo_config False" "()" 2000 None]
  by (simp add: demo_service_def demo_config_def list_all_iff)

text \<open>
  C34: Block production is started by a collator that has started completely, and by no other node:
  the Aura task runs exactly if the node is an authority and its start succeeded; then it runs with the
  key of the relay chain interface and the given parachain, and the relay chain tasks recover blocks as
  a collator's, while those of a full node recover them as a full node's.
\<close>

theorem node_start_consensus:
  fixes fails :: "('f, 'w, 'co, 'hw, 'key) service_step \<Rightarrow> node_error option"
  assumes config': "config' = prepare_node_config E config"
    and run0: "run = exec_plan fails (start_parachain_node E config relay co para hwbench) []"
  shows "(Spawn True ''aura'' None \<in> set (snd run) \<longleftrightarrow> is_authority config' \<and> fst run = Ok ()) \<and>
    (\<forall>p. AuraRun p \<in> set (snd run) \<longrightarrow>
       fst run = Ok () \<and> is_authority config' \<and> built_collator_key E relay config' co = Some (aura_collator_key p) \<and>
       aura_para_id p = para \<and> StartRelayChainTasks para Collator relay_chain_slot_duration \<in> set (snd run)) \<and>
    (\<forall>profile d. StartRelayChainTasks para profile d \<in> set (snd run) \<longrightarrow>
       (profile = Collator \<longleftrightarrow> is_authority config'))"
proof (cases "\<forall>st \<in> set (start_requirements E config' relay co para hwbench). fails st = None")
  case True
  then have run: "run = exec_plan fails (start_authority E config' relay co para)
      (steps_of (start_services E config' relay co para hwbench))"
    by (simp add: run0 config' exec_start_parachain_node)
  show ?thesis
    by (simp add: run exec_start_authority start_services_no_aura start_services_tasks start_consensus_def split: option.split)
next
  case False
  then have run: "run = exec_plan fails (start_services E config' relay co para hwbench) []"
    by (simp only: run0 config' exec_start_parachain_node if_False)
  obtain e where e: "fst run = Err e" using exec_start_services_fails [OF False, of "[]"] by (auto simp: run)
  have made: "st \<in> set (steps_of (start_services E config' relay co para hwbench))" if "st \<in> set (snd run)" for st
    using that by (auto simp: run dest: exec_plan_made)
  have "Spawn True ''aura'' None \<notin> set (snd run)"
    using made [of "Spawn True ''aura'' None"] by (auto simp: start_services_no_aura)
  moreover have "AuraRun p \<notin> set (snd run)" for p
    using made [of "AuraRun p"] by (auto simp: start_services_no_aura)
  moreover have "\<forall>profile d. StartRelayChainTasks para profile d \<in> set (snd run) \<longrightarrow>
      (profile = Collator \<longleftrightarrow> is_authority config')"
  proof (intro allI impI)
    fix profile d assume "StartRelayChainTasks para profile d \<in> set (snd run)"
    from made [OF this] show "profile = Collator \<longleftrightarrow> is_authority config'" by (simp add: start_services_tasks)
  qed
  ultimately show ?thesis using e by simp
qed

theorem node_start_consensus_witness:
  "Spawn True ''aura'' None \<in> set (snd (exec_plan (\<lambda>_. None)
     (start_parachain_node (demo_service (Some 7)) (demo_config True) (demo_config False) () 2000 None) [])) \<and>
   Spawn True ''aura'' None \<notin> set (snd (exec_plan (\<lambda>_. None)
     (start_parachain_node (demo_service (Some 7)) (demo_config False) (demo_config False) () 2000 None) []))"
proof -
  have "fst (exec_plan (\<lambda>_. None)
     (start_parachain_node (demo_service (Some 7)) (demo_config True) (demo_config False) () 2000 None) []) = Ok ()"
    by (simp add: exec_start_parachain_node exec_start_authority demo_service_def demo_config_def)
  then show ?thesis
    using node_start_consensus [OF refl refl, of "\<lambda>_. None" "demo_service (Some 7)" "demo_config True" "demo_config False" "()" 2000 None]
      node_start_consensus [OF refl refl, of "\<lambda>_. None" "demo_service (Some 7)" "demo_config False" "demo_config False" "()" 2000 None]
    by (simp add: demo_service_def demo_config_def)
qed



text \<open>
  C35: Both heaps of the executor get the configured number of pages modulo \<open>2 ^ 32\<close>: the configuration
  holds 64 bits and the executor 32, so the number is kept exactly if it is below \<open>2 ^ 32\<close>.
\<close>

theorem executor_heap_pages:
  assumes "default_heap_pages config = Some h"
  shows "\<exists>pages. onchain_heap_alloc_strategy (build_executor E config) = Static pages \<and>
    offchain_heap_alloc_strategy (build_executor E config) = Static pages \<and>
    unat pages = unat h mod 2 ^ 32 \<and> (unat pages = unat h \<longleftrightarrow> unat h < 2 ^ 32)"
proof -
  have "unat (ucast h :: u32) = unat h mod 2 ^ 32"
    by (simp add: unsigned_ucast_eq take_bit_eq_mod)
  moreover have "unat h mod 2 ^ 32 = unat h \<longleftrightarrow> unat h < 2 ^ 32"
    using mod_less_divisor [of "2 ^ 32" "unat h"] by (auto simp del: mod_less_divisor)
  ultimately show ?thesis using assms by (simp add: build_executor_def heap_pages_def)
qed

theorem executor_heap_pages_witness:
  "onchain_heap_alloc_strategy (build_executor (demo_service None) (demo_config True)) = Static 4"
proof -
  have "default_heap_pages (demo_config True) = Some 4294967300" by (simp add: demo_config_def)
  from executor_heap_pages [OF this, of "demo_service None"]
  obtain pages where "onchain_heap_alloc_strategy (build_executor (demo_service None) (demo_config True)) = Static pages"
    "unat pages = 4" by auto
  moreover have "pages = word_of_nat (unat pages)" by simp
  ultimately show ?thesis by simp
qed

text \<open>
  The telemetry worker is created and its task spawned exactly for a non-empty list of endpoints,
  and the client, the import queue and the common tasks get that telemetry or none.
\<close>

lemma new_partial_telemetry:
  "(TelemetryWorkerNew n \<in> set (steps_of (new_partial E config)) \<longleftrightarrow> n = 16 \<and> telemetry_of config \<noteq> None) \<and>
   (Spawn k name g \<in> set (steps_of (new_partial E config)) \<longleftrightarrow>
      telemetry_of config \<noteq> None \<and> k = False \<and> name = ''telemetry'' \<and> g = None) \<and>
   (FullyVerifyingImportQueue t \<in> set (steps_of (new_partial E config)) \<longleftrightarrow> t = telemetry_of config) \<and>
   (NewFullParts c t x r \<in> set (steps_of (new_partial E config)) \<longleftrightarrow>
      c = config \<and> t = telemetry_of config \<and> x = build_executor E config \<and> r) \<and>
   (telemetry_of config = Some es \<longleftrightarrow> telemetry_endpoints config = Some es \<and> es \<noteq> [])"
  by (auto simp: new_partial_def build_import_queue_def telemetry_of_def split: option.splits if_splits)

text \<open>
  The RPC extension serves the methods of the system and of the transaction payment module, and
  nothing else; it cannot be built if the two share a method.
\<close>

lemma create_full_methods:
  assumes "rpc_laws R methods"
  shows "if methods (system_rpc R (deps_client deps) (deps_pool deps)) \<inter> methods (transaction_payment_rpc R (deps_client deps)) = {}
   then \<exists>m. create_full R deps = Ok m \<and>
     methods m = methods (system_rpc R (deps_client deps) (deps_pool deps)) \<union> methods (transaction_payment_rpc R (deps_client deps))
   else \<exists>e. create_full R deps = Err e"
  by (rule rpc_laws.create_full_cases [OF assms])

lemma create_full_methods_example:
  "\<exists>m. create_full (name_rpc [''system_accountNextIndex''] [''payment_queryInfo'']) \<lparr>deps_client = (), deps_pool = ()\<rparr> = Ok m \<and>
     set m = {''system_accountNextIndex'', ''payment_queryInfo''}"
  using create_full_methods [OF names.rpc_laws_axioms [of "[''system_accountNextIndex'']" "[''payment_queryInfo'']"],
      of "\<lparr>deps_client = (), deps_pool = ()\<rparr>"]
  by (auto simp: name_rpc_def)

end
