(* ===== verification/Node_Cli.thy ===== *)
theory Node_Cli
  imports Node_Service
begin

text \<open>
  node/src/cli.rs and node/src/command.rs: the command line of the node, the command line it makes up
  for the relay chain node inside it, and \<open>run\<close>, which dispatches the subcommands. The parsers, the
  runner and the commands of the SDK are parameters; \<open>run\<close> is the plan of its calls.
\<close>

subsection \<open>Definitions\<close>

text \<open>
  Subcommands. \<open>'a\<close> holds the arguments of a command, which only the SDK reads; of
  \<open>ExportGenesisWasm\<close> the code reads the chain itself.
\<close>

datatype 'a benchmark_cmd = Pallet 'a | Block 'a | Storage 'a | Machine 'a | OtherBenchmark 'a

datatype 'a Subcommand =
    BuildSpec 'a
  | CheckBlock 'a
  | ExportBlocks 'a
  | ExportState 'a
  | ImportBlocks 'a
  | Revert 'a
  | PurgeChain 'a
  | ExportGenesisHead 'a
  | ExportGenesisWasm "string option" 'a
  | Benchmark "'a benchmark_cmd"

record ('a, 'r) Cli =
  subcommand :: "'a Subcommand option"
  run_cmd :: 'r
  no_hardware_benchmarks :: bool
  relay_chain_args :: "string list"

record 'b RelayChainCli =
  relay_base :: 'b
  relay_chain_id :: "string option"
  relay_base_path :: "string option"

text \<open>\<open>Path::join\<close> of the standard library on Unix: an absolute path replaces, a separator is added if there is none.\<close>

definition path_join :: "string \<Rightarrow> string \<Rightarrow> string" where
  "path_join p q =
     (if q \<noteq> [] \<and> hd q = CHR ''/'' then q
      else if p = [] \<or> last p = CHR ''/'' then p @ q
      else p @ ''/'' @ q)"

text \<open>
  The relay chain's command line. \<open>parse\<close> is the parser generated by clap for the relay chain's \<open>RunCmd\<close>;
  it ends the process on arguments it does not accept (\<open>None\<close>).
\<close>

definition RelayChainCli_new ::
  "('k, 'acc, 'aura, 'f) spec_api \<Rightarrow> (string list \<Rightarrow> 'b option) \<Rightarrow> ('f, 'w) configuration \<Rightarrow> string list \<Rightarrow>
     'b RelayChainCli option" where
  "RelayChainCli_new S parse para_config args =
     (let extension = extensions_try_get S (cfg_chain_spec para_config);
          chain_id = map_option relay_chain extension;
          base_path = path_join (cfg_base_path para_config) ''polkadot''
      in case parse args of
           None \<Rightarrow> None
         | Some base \<Rightarrow> Some \<lparr>relay_base = base, relay_chain_id = chain_id, relay_base_path = Some base_path\<rparr>)"

text \<open>\<open>SubstrateCli\<close> for both command lines; the version and the authors are set by the build.\<close>

definition impl_name :: string where
  "impl_name = ''Parachain Collator Template''"

definition description :: "string \<Rightarrow> string" where
  "description executable_name =
     ''Parachain Collator Template'' @ [CHR 0x0A, CHR 0x0A] @
     ''The command-line arguments provided first will be '' @
     ''passed to the parachain node, while the arguments provided after -- will be passed '' @
     ''to the relay chain node.'' @ [CHR 0x0A, CHR 0x0A] @
     executable_name @ '' <parachain-args> -- <relay-chain-args>''"

definition support_url :: string where
  "support_url = ''https://github.com/paritytech/polkadot-sdk/issues/new''"

definition copyright_start_year :: int where
  "copyright_start_year = 2020"

text \<open>
  The two implementations of \<open>SubstrateCli\<close>. What the build sets (\<open>SUBSTRATE_CLI_IMPL_VERSION\<close> and
  \<open>CARGO_PKG_AUTHORS\<close>), the name of the executable and the relay chain's own command line are the SDK's; the
  latter is parsed from the name of the executable alone before it loads a specification.
\<close>

record 'relay_spec build_api =
  substrate_cli_impl_version :: string
  cargo_pkg_authors :: string
  cli_executable_name :: string
  polkadot_cli_load_spec :: "string list \<Rightarrow> string \<Rightarrow> 'relay_spec"

record 'spec substrate_cli =
  cli_impl_name :: string
  cli_impl_version :: string
  cli_description :: string
  cli_author :: string
  cli_support_url :: string
  cli_copyright_start_year :: int
  cli_load_spec :: "string \<Rightarrow> 'spec"

definition substrate_cli_for_Cli ::
  "'relay_spec build_api \<Rightarrow> ('k, 'acc, 'aura, 'f) spec_api \<Rightarrow> (string, 'f loaded_spec) outcome substrate_cli" where
  "substrate_cli_for_Cli B S =
     \<lparr>cli_impl_name = impl_name, cli_impl_version = substrate_cli_impl_version B,
      cli_description = description (cli_executable_name B), cli_author = cargo_pkg_authors B,
      cli_support_url = support_url, cli_copyright_start_year = copyright_start_year,
      cli_load_spec = load_spec S\<rparr>"

definition substrate_cli_for_RelayChainCli :: "'relay_spec build_api \<Rightarrow> 'relay_spec substrate_cli" where
  "substrate_cli_for_RelayChainCli B =
     \<lparr>cli_impl_name = ''Parachain Collator Template'', cli_impl_version = substrate_cli_impl_version B,
      cli_description =
        ''Parachain Collator Template'' @ [CHR 0x0A, CHR 0x0A] @
        ''The command-line arguments provided first will be '' @
        ''passed to the parachain node, while the arguments provided after -- will be passed '' @
        ''to the relay chain node.'' @ [CHR 0x0A, CHR 0x0A] @
        cli_executable_name B @ '' <parachain-args> -- <relay-chain-args>'',
      cli_author = cargo_pkg_authors B,
      cli_support_url = ''https://github.com/paritytech/polkadot-sdk/issues/new'',
      cli_copyright_start_year = 2020,
      cli_load_spec = polkadot_cli_load_spec B [cli_executable_name B]\<rparr>"

text \<open>\<open>DefaultConfigurationValues\<close> of the relay chain node.\<close>

definition p2p_listen_port :: u16 where
  "p2p_listen_port = 30334"

definition rpc_listen_port :: u16 where
  "rpc_listen_port = 9945"

definition prometheus_listen_port :: u16 where
  "prometheus_listen_port = 9616"

text \<open>
  \<open>CliConfiguration\<close> of the relay chain command line: the methods it passes on to the relay chain's own
  \<open>RunCmd\<close>, whose answers of type \<open>'v\<close> are the SDK's, and the three it implements.
\<close>

datatype 'cs cli_query =
    SharedParams
  | ImportParams
  | NetworkParams
  | KeystoreParams
  | RpcAddr u16
  | PrometheusConfig u16 'cs
  | Role bool
  | TransactionPool bool
  | TrieCacheMaximumSize
  | RpcMethods
  | RpcMaxConnections
  | RpcCors bool
  | DefaultHeapPages
  | ForceAuthoring
  | DisableGrandpa
  | MaxRuntimeInstances
  | AnnounceBlock
  | TelemetryEndpoints 'cs
  | NodeName

record ('b, 'cs, 'v) run_cmd_api =
  cmd_query :: "'b \<Rightarrow> 'cs cli_query \<Rightarrow> node_error + 'v"
  cmd_base_path :: "'b \<Rightarrow> node_error + string option"
  cmd_chain_id :: "'b \<Rightarrow> bool \<Rightarrow> node_error + string"

definition relay_query :: "('b, 'cs, 'v) run_cmd_api \<Rightarrow> 'b RelayChainCli \<Rightarrow> 'cs cli_query \<Rightarrow> node_error + 'v" where
  "relay_query B cli q = cmd_query B (relay_base cli) q"

definition base_path :: "('b, 'cs, 'v) run_cmd_api \<Rightarrow> 'b RelayChainCli \<Rightarrow> node_error + string option" where
  "base_path B cli =
     (case cmd_base_path B (relay_base cli) of
        Inl e \<Rightarrow> Inl e
      | Inr (Some p) \<Rightarrow> Inr (Some p)
      | Inr None \<Rightarrow> Inr (relay_base_path cli))"

definition chain_id :: "('b, 'cs, 'v) run_cmd_api \<Rightarrow> 'b RelayChainCli \<Rightarrow> bool \<Rightarrow> node_error + string" where
  "chain_id B cli is_dev =
     (case cmd_chain_id B (relay_base cli) is_dev of
        Inl e \<Rightarrow> Inl e
      | Inr c \<Rightarrow> Inr (if c = [] then case relay_chain_id cli of None \<Rightarrow> [] | Some d \<Rightarrow> d else c))"

text \<open>The logger of the relay chain command line is never initialised.\<close>

definition init :: "'b RelayChainCli \<Rightarrow> (node_error, unit) outcome" where
  "init cli = Panicked"

subsection \<open>Definition of run\<close>

datatype ('a, 'b, 'f, 'w, 'co, 'hw, 'key) cli_step =
    CreateRunner "'a Subcommand option"
  | InService "('f, 'w, 'co, 'hw, 'key) service_step"
  | RunSubcommand "'a Subcommand"
  | RunWithSpec "'a Subcommand" "'f loaded_spec"
  | CreateRelayConfiguration "'b RelayChainCli"
  | CreateDirAll string
  | GatherHwbench string
  | LogIsCollating bool

record ('a, 'r, 'b, 'f, 'w, 'co, 'hw) run_api =
  runner_config :: "('a, 'r) Cli \<Rightarrow> ('f, 'w) configuration"
  executable_name :: string
  parse_run_cmd :: "string list \<Rightarrow> 'b option"
  relay_configuration :: "'b RelayChainCli \<Rightarrow> ('f, 'w) configuration"
  error_display :: "node_error \<Rightarrow> string"
  collator_options_of :: "'r \<Rightarrow> 'co"
  gathered_hwbench :: "string \<Rightarrow> 'hw"
  runtime_benchmarks :: bool

type_synonym ('a, 'b, 'f, 'w, 'co, 'hw, 'key) cli_plan =
  "(('a, 'b, 'f, 'w, 'co, 'hw, 'key) cli_step, node_error) instr list"

text \<open>\<open>new_partial(&config)?\<close> in a function that returns the errors of \<open>sc_cli\<close>.\<close>

definition cli_new_partial ::
  "('f, 'w, 'co, 'hw, 'key) service_api \<Rightarrow> ('f, 'w) configuration \<Rightarrow> ('a, 'b, 'f, 'w, 'co, 'hw, 'key) cli_plan" where
  "cli_new_partial E config = embed InService Service (new_partial E config)"

definition construct_async_run ::
  "('f, 'w, 'co, 'hw, 'key) service_api \<Rightarrow> ('a, 'r, 'b, 'f, 'w, 'co, 'hw) run_api \<Rightarrow> ('a, 'r) Cli \<Rightarrow> 'a Subcommand \<Rightarrow>
     ('a, 'b, 'f, 'w, 'co, 'hw, 'key) cli_plan" where
  "construct_async_run E N cli cmd =
     [call (CreateRunner (Some cmd))] @ cli_new_partial E (runner_config N cli) @ [call (RunSubcommand cmd)]"

definition relay_argument_error :: "('a, 'r, 'b, 'f, 'w, 'co, 'hw) run_api \<Rightarrow> node_error \<Rightarrow> node_error" where
  "relay_argument_error N err = Input (''Relay chain argument error: '' @ error_display N err)"

text \<open>The relay chain's command line and configuration, and what follows with it.\<close>

definition with_relay_config ::
  "('k, 'acc, 'aura, 'f) spec_api \<Rightarrow> ('a, 'r, 'b, 'f, 'w, 'co, 'hw) run_api \<Rightarrow> ('a, 'r) Cli \<Rightarrow> ('f, 'w) configuration \<Rightarrow>
     (('f, 'w) configuration \<Rightarrow> ('a, 'b, 'f, 'w, 'co, 'hw, 'key) cli_plan) \<Rightarrow>
     ('a, 'b, 'f, 'w, 'co, 'hw, 'key) cli_plan" where
  "with_relay_config S N cli config rest =
     (case RelayChainCli_new S (parse_run_cmd N) config (executable_name N # relay_chain_args cli) of
        None \<Rightarrow> [Abort]
      | Some polkadot_cli \<Rightarrow>
          Step (CreateRelayConfiguration polkadot_cli) (relay_argument_error N) #
          rest (relay_configuration N polkadot_cli))"

definition run_benchmark ::
  "('f, 'w, 'co, 'hw, 'key) service_api \<Rightarrow> ('a, 'r, 'b, 'f, 'w, 'co, 'hw) run_api \<Rightarrow> ('f, 'w) configuration \<Rightarrow>
     'a benchmark_cmd \<Rightarrow> ('a, 'b, 'f, 'w, 'co, 'hw, 'key) cli_plan" where
  "run_benchmark E N config cmd =
     (case cmd of
        Pallet _ \<Rightarrow>
          if runtime_benchmarks N then [call (RunSubcommand (Benchmark cmd))]
          else [Raise (Input (''Benchmarking wasn'' @ [CHR 0x27] @ ''t enabled when building the node. '' @
            ''You can enable it with `--features runtime-benchmarks`.''))]
      | Block _ \<Rightarrow> cli_new_partial E config @ [call (RunSubcommand (Benchmark cmd))]
      | Storage _ \<Rightarrow>
          if runtime_benchmarks N then cli_new_partial E config @ [call (RunSubcommand (Benchmark cmd))]
          else [Raise (Input ''Compile with --features=runtime-benchmarks to enable storage benchmarks.'')]
      | Machine _ \<Rightarrow> [call (RunSubcommand (Benchmark cmd))]
      | OtherBenchmark _ \<Rightarrow> [Raise (Input ''Benchmarking sub-command unsupported'')])"

text \<open>The closure of the node without a subcommand.\<close>

definition gather_hwbench ::
  "('a, 'r, 'b, 'f, 'w, 'co, 'hw) run_api \<Rightarrow> ('a, 'r) Cli \<Rightarrow> ('f, 'w) configuration \<Rightarrow>
     'hw option \<times> ('a, 'b, 'f, 'w, 'co, 'hw, 'key) cli_plan" where
  "gather_hwbench N cli config =
     (if no_hardware_benchmarks cli then (None, [])
      else case database_path config of
             None \<Rightarrow> (None, [])
           | Some path \<Rightarrow> (Some (gathered_hwbench N path), [Do (CreateDirAll path), Do (GatherHwbench path)]))"

definition run_node ::
  "('k, 'acc, 'aura, 'f) spec_api \<Rightarrow> ('f, 'w, 'co, 'hw, 'key) service_api \<Rightarrow> ('a, 'r, 'b, 'f, 'w, 'co, 'hw) run_api \<Rightarrow>
     ('a, 'r) Cli \<Rightarrow> ('f, 'w) configuration \<Rightarrow> ('a, 'b, 'f, 'w, 'co, 'hw, 'key) cli_plan" where
  "run_node S E N cli config =
     (let (hwbench, benchmarks) = gather_hwbench N cli config in
      benchmarks @
      (case map_option para_id (extensions_try_get S (cfg_chain_spec config)) of
         None \<Rightarrow> [Raise (Input ''Could not find parachain ID in chain-spec.'')]
       | Some para \<Rightarrow>
           with_relay_config S N cli config (\<lambda>polkadot_config.
             Do (LogIsCollating (is_authority config)) #
             embed InService Service
               (start_parachain_node E config polkadot_config (collator_options_of N (run_cmd cli)) para hwbench))))"

definition run ::
  "('k, 'acc, 'aura, 'f) spec_api \<Rightarrow> ('f, 'w, 'co, 'hw, 'key) service_api \<Rightarrow> ('a, 'r, 'b, 'f, 'w, 'co, 'hw) run_api \<Rightarrow>
     ('a, 'r) Cli \<Rightarrow> ('a, 'b, 'f, 'w, 'co, 'hw, 'key) cli_plan" where
  "run S E N cli =
     (let config = runner_config N cli in
      case subcommand cli of
        Some (BuildSpec a) \<Rightarrow> [call (CreateRunner (subcommand cli)), call (RunSubcommand (BuildSpec a))]
      | Some (CheckBlock a) \<Rightarrow> construct_async_run E N cli (CheckBlock a)
      | Some (ExportBlocks a) \<Rightarrow> construct_async_run E N cli (ExportBlocks a)
      | Some (ExportState a) \<Rightarrow> construct_async_run E N cli (ExportState a)
      | Some (ImportBlocks a) \<Rightarrow> construct_async_run E N cli (ImportBlocks a)
      | Some (Revert a) \<Rightarrow> construct_async_run E N cli (Revert a)
      | Some (PurgeChain a) \<Rightarrow>
          call (CreateRunner (subcommand cli)) #
          with_relay_config S N cli config (\<lambda>_. [call (RunSubcommand (PurgeChain a))])
      | Some (ExportGenesisHead a) \<Rightarrow>
          [call (CreateRunner (subcommand cli))] @ cli_new_partial E config @ [call (RunSubcommand (ExportGenesisHead a))]
      | Some (ExportGenesisWasm c a) \<Rightarrow>
          call (CreateRunner (subcommand cli)) #
          (case load_spec S (case c of None \<Rightarrow> '''' | Some spec_id \<Rightarrow> spec_id) of
             Ok spec \<Rightarrow> [call (RunWithSpec (ExportGenesisWasm c a) spec)]
           | Err e \<Rightarrow> [Raise (Input e)]
           | Panicked \<Rightarrow> [Abort])
      | Some (Benchmark cmd) \<Rightarrow> call (CreateRunner (subcommand cli)) # run_benchmark E N config cmd
      | None \<Rightarrow> call (CreateRunner None) # run_node S E N cli config)"

text \<open>node/src/main.rs and node/build.rs.\<close>

definition main ::
  "('k, 'acc, 'aura, 'f) spec_api \<Rightarrow> ('f, 'w, 'co, 'hw, 'key) service_api \<Rightarrow> ('a, 'r, 'b, 'f, 'w, 'co, 'hw) run_api \<Rightarrow>
     ('a, 'r) Cli \<Rightarrow> ('a, 'b, 'f, 'w, 'co, 'hw, 'key) cli_plan" where
  "main S E N cli = run S E N cli"

datatype build_step = GenerateCargoKeys | RerunIfGitHeadChanged

definition build_main :: "(build_step, node_error) instr list" where
  "build_main = [Do GenerateCargoKeys, Do RerunIfGitHeadChanged]"

subsection \<open>Lemmas\<close>

text \<open>\<open>run\<close> is the creation of the runner followed by the body of the subcommand.\<close>

definition run_body ::
  "('k, 'acc, 'aura, 'f) spec_api \<Rightarrow> ('f, 'w, 'co, 'hw, 'key) service_api \<Rightarrow> ('a, 'r, 'b, 'f, 'w, 'co, 'hw) run_api \<Rightarrow>
     ('a, 'r) Cli \<Rightarrow> ('a, 'b, 'f, 'w, 'co, 'hw, 'key) cli_plan" where
  "run_body S E N cli = tl (run S E N cli)"

lemmas run_defs = run_def construct_async_run_def run_benchmark_def with_relay_config_def Let_def

lemma run_split: "run S E N cli = call (CreateRunner (subcommand cli)) # run_body S E N cli"
  by (simp add: run_body_def run_defs split: option.split Subcommand.split)

text \<open>\<open>new_partial\<close> neither joins the network nor starts the relay chain.\<close>

fun starts_node :: "('f, 'w, 'co, 'hw, 'key) service_step \<Rightarrow> bool" where
  "starts_node (BuildRelayChainInterface _ _ _ _ _) = True"
| "starts_node (BuildNetwork _ _ _) = True"
| "starts_node (SpawnTasks _ _) = True"
| "starts_node (StartRelayChainTasks _ _ _) = True"
| "starts_node (AuraRun _) = True"
| "starts_node _ = False"

lemma new_partial_starts_nothing:
  assumes "st \<in> set (steps_of (new_partial E config))"
  shows "\<not> starts_node st"
  using assms by (auto simp: new_partial_def build_import_queue_def split: option.splits)

text \<open>What the body of a subcommand may do.\<close>

primrec only_of :: "'a Subcommand \<Rightarrow> ('a, 'b, 'f, 'w, 'co, 'hw, 'key) cli_step \<Rightarrow> bool" where
  "only_of cmd (CreateRunner _) = False"
| "only_of cmd (InService st) = (\<not> starts_node st)"
| "only_of cmd (RunSubcommand c) = (c = cmd)"
| "only_of cmd (RunWithSpec c _) = (c = cmd)"
| "only_of cmd (CreateRelayConfiguration _) = True"
| "only_of cmd (CreateDirAll _) = False"
| "only_of cmd (GatherHwbench _) = False"
| "only_of cmd (LogIsCollating _) = False"

lemma cli_new_partial_only_of:
  "\<forall>st \<in> set (steps_of (cli_new_partial E config)). only_of cmd st"
  by (auto simp: cli_new_partial_def dest: new_partial_starts_nothing)

lemma run_body_only_of:
  assumes "subcommand cli = Some cmd"
  shows "\<forall>st \<in> set (steps_of (run_body S E N cli)). only_of cmd st"
proof -
  note np = cli_new_partial_only_of [of E "runner_config N cli" cmd]
  show ?thesis
    using assms np
    by (cases cmd) (auto simp: run_body_def run_defs split: option.split outcome.split benchmark_cmd.split)
qed

lemma RelayChainCli_new_Some:
  assumes "RelayChainCli_new S parse config args = Some rc"
  shows "parse args = Some (relay_base rc)"
    and "relay_chain_id rc = map_option relay_chain (extensions_try_get S (cfg_chain_spec config))"
    and "relay_base_path rc = Some (path_join (cfg_base_path config) ''polkadot'')"
  using assms by (auto simp: RelayChainCli_new_def Let_def split: option.splits)

text \<open>The node without a subcommand, after its runner was created.\<close>

lemma exec_run_node:
  "fst (exec_plan fails (run_node S E N cli config) made) =
     (case extensions_try_get S (cfg_chain_spec config) of
        None \<Rightarrow> Err (Input ''Could not find parachain ID in chain-spec.'')
      | Some ext \<Rightarrow>
          (case RelayChainCli_new S (parse_run_cmd N) config (executable_name N # relay_chain_args cli) of
             None \<Rightarrow> Panicked
           | Some rc \<Rightarrow>
               (case fails (CreateRelayConfiguration rc) of
                  Some e \<Rightarrow> Err (relay_argument_error N e)
                | None \<Rightarrow> map_outcome_err Service
                    (fst (exec_plan (\<lambda>st. fails (InService st))
                      (start_parachain_node E config (relay_configuration N rc) (collator_options_of N (run_cmd cli))
                        (para_id ext) (fst (gather_hwbench N cli config
                          :: 'hw option \<times> ('a, 'b, 'f, 'w, 'co, 'hw, 'key) cli_plan))) [])))))"
  for fails :: "('a, 'b, 'f, 'w, 'co, 'hw, 'key) cli_step \<Rightarrow> node_error option"
  by (simp add: run_node_def with_relay_config_def fst_exec_plan_embed gather_hwbench_def split: option.split)

text \<open>A command line for examples: a collator whose relay chain arguments are not parsed further.\<close>

definition demo_run :: "(nat, unit, string list, extensions, unit, unit, nat) run_api" where
  "demo_run =
     \<lparr>runner_config = (\<lambda>_. demo_config True), executable_name = ''node'', parse_run_cmd = Some,
      relay_configuration = (\<lambda>_. demo_config False), error_display = (\<lambda>_. ''bad''),
      collator_options_of = (\<lambda>_. ()), gathered_hwbench = (\<lambda>_. 1), runtime_benchmarks = False\<rparr>"

definition demo_cli :: "nat Subcommand option \<Rightarrow> (nat, unit) Cli" where
  "demo_cli sub =
     \<lparr>subcommand = sub, run_cmd = (), no_hardware_benchmarks = False, relay_chain_args = [''--tmp'']\<rparr>"

definition demo_run_cmd :: "(string list, unit, unit) run_cmd_api" where
  "demo_run_cmd = \<lparr>cmd_query = (\<lambda>_ _. Inr ()), cmd_base_path = (\<lambda>_. Inr None), cmd_chain_id = (\<lambda>_ _. Inr '''')\<rparr>"

subsection \<open>Properties\<close>

text \<open>
  C36: The runner of the command comes first, and if it cannot be created nothing else is done. With a
  subcommand, whatever fails, that subcommand is the only one run, and the node neither joins the
  network nor starts its relay chain nor produces blocks.
\<close>

theorem run_subcommands_isolated:
  fixes fails :: "('a, 'b, 'f, 'w, 'co, 'hw, 'key) cli_step \<Rightarrow> node_error option"
  assumes "made = snd (exec_plan fails (run S E N cli) [])"
  shows "hd made = CreateRunner (subcommand cli) \<and>
    (\<forall>e. fails (CreateRunner (subcommand cli)) = Some e \<longrightarrow>
       exec_plan fails (run S E N cli) [] = (Err e, [CreateRunner (subcommand cli)])) \<and>
    (\<forall>cmd. subcommand cli = Some cmd \<longrightarrow>
       (\<forall>st \<in> set made. case st of
          RunSubcommand c \<Rightarrow> c = cmd
        | RunWithSpec c _ \<Rightarrow> c = cmd
        | InService s \<Rightarrow> \<not> starts_node s
        | _ \<Rightarrow> True))"
proof -
  let ?r = "CreateRunner (subcommand cli)"
  have made: "made = ?r # snd (exec_plan fails (run_body S E N cli) []) \<or> made = [?r]"
    using exec_plan_log [of fails "run_body S E N cli" "[?r]"] assms
    by (auto simp: run_split call_def split: option.splits)
  moreover have "case st of RunSubcommand c \<Rightarrow> c = cmd | RunWithSpec c _ \<Rightarrow> c = cmd | InService s \<Rightarrow> \<not> starts_node s | _ \<Rightarrow> True"
    if "subcommand cli = Some cmd" "st \<in> set made" for cmd st
  proof (cases "st = ?r")
    case False
    then have "st \<in> set (steps_of (run_body S E N cli))" using made that(2) exec_plan_made by fastforce
    then have "only_of cmd st" using run_body_only_of [OF that(1)] by blast
    then show ?thesis by (cases st) auto
  qed simp
  moreover have "exec_plan fails (run S E N cli) [] = (Err e, [?r])" if "fails ?r = Some e" for e
    using that by (simp add: run_split call_def)
  ultimately show ?thesis by auto
qed

theorem run_subcommands_isolated_witness:
  "exec_plan (\<lambda>_. Some (Sdk ''no'')) (run demo_spec_api (demo_service None) demo_run (demo_cli (Some (Revert 1)))) []
     = (Err (Sdk ''no''), [CreateRunner (Some (Revert 1))])"
  using run_subcommands_isolated [OF refl, of "\<lambda>_. Some (Sdk ''no'')" demo_spec_api "demo_service None" demo_run
      "demo_cli (Some (Revert 1))"]
  by (simp add: demo_cli_def)

text \<open>
  C37: Without a subcommand and with its runner created, the node fails if the chain specification has no
  parachain identifier, ends if clap rejects the relay chain arguments (which follow the name of the
  executable), fails with an explained error if they give no configuration, and otherwise starts the
  parachain of the specification, whose result it returns with the error wrapped.
\<close>

theorem run_node_behaviour:
  fixes fails :: "('a, 'b, 'f, 'w, 'co, 'hw, 'key) cli_step \<Rightarrow> node_error option"
  assumes "subcommand cli = None" and "fails (CreateRunner None) = None" and "config = runner_config N cli"
    and "result = fst (exec_plan fails (run S E N cli) [])"
    and "hwbench = (if no_hardware_benchmarks cli then None else map_option (gathered_hwbench N) (database_path config))"
  shows "(case extensions_try_get S (cfg_chain_spec config) of
      None \<Rightarrow> result = Err (Input ''Could not find parachain ID in chain-spec.'')
    | Some ext \<Rightarrow>
        (case parse_run_cmd N (executable_name N # relay_chain_args cli) of
           None \<Rightarrow> result = Panicked
         | Some base \<Rightarrow>
             (let rc = \<lparr>relay_base = base, relay_chain_id = Some (relay_chain ext),
                        relay_base_path = Some (path_join (cfg_base_path config) ''polkadot'')\<rparr>
              in case fails (CreateRelayConfiguration rc) of
                   Some e \<Rightarrow> result = Err (Input (''Relay chain argument error: '' @ error_display N e))
                 | None \<Rightarrow> result = map_outcome_err Service
                     (fst (exec_plan (\<lambda>st. fails (InService st))
                       (start_parachain_node E config (relay_configuration N rc) (collator_options_of N (run_cmd cli))
                         (para_id ext) hwbench) [])))))"
proof -
  have hw: "fst (gather_hwbench N cli config :: 'hw option \<times> ('a, 'b, 'f, 'w, 'co, 'hw, 'key) cli_plan) = hwbench"
    by (simp add: assms(5) gather_hwbench_def split: option.split)
  have "result = fst (exec_plan fails (run_node S E N cli config) [CreateRunner None])"
    by (simp add: assms run_def call_def)
  then show ?thesis
    by (simp add: exec_run_node hw RelayChainCli_new_def relay_argument_error_def Let_def split: option.split)
qed

theorem run_node_behaviour_witness:
  "fst (exec_plan (\<lambda>st. case st of CreateRelayConfiguration _ \<Rightarrow> Some (Sdk ''x'') | _ \<Rightarrow> None)
     (run demo_spec_api (demo_service None) demo_run (demo_cli None)) [])
     = Err (Input ''Relay chain argument error: bad'')"
  using run_node_behaviour [OF _ _ refl refl refl, of "demo_cli None"
      "\<lambda>st. case st of CreateRelayConfiguration _ \<Rightarrow> Some (Sdk ''x'') | _ \<Rightarrow> None" demo_spec_api "demo_service None" demo_run]
  by (simp add: demo_cli_def demo_run_def demo_config_def demo_spec_api_def Let_def)

text \<open>
  The relay chain node inside takes its chain and its directory from the relay chain's own arguments,
  and where these say nothing the chain is the one of the parachain's specification and the directory
  is \<open>polkadot\<close> below the parachain's; every other question is answered by the relay chain's arguments.
\<close>

lemma relay_chain_cli_defaults:
  assumes rc: "RelayChainCli_new S parse config args = Some rc"
    and ext: "extensions_try_get S (cfg_chain_spec config) = Some ext"
    and base: "parse args = Some base"
  shows "(\<forall>is_dev. chain_id B rc is_dev =
       (case cmd_chain_id B base is_dev of Inl e \<Rightarrow> Inl e | Inr c \<Rightarrow> Inr (if c = '''' then relay_chain ext else c))) \<and>
    base_path B rc =
      (case cmd_base_path B base of
         Inl e \<Rightarrow> Inl e
       | Inr p \<Rightarrow> Inr (Some (case p of Some d \<Rightarrow> d | None \<Rightarrow> path_join (cfg_base_path config) ''polkadot''))) \<and>
    (\<forall>q. relay_query B rc q = cmd_query B base q)"
  using RelayChainCli_new_Some [OF rc] ext base
  by (simp add: chain_id_def base_path_def relay_query_def split: sum.split option.split)

lemma relay_chain_cli_defaults_example:
  "\<exists>rc. RelayChainCli_new demo_spec_api Some (demo_config True) [''node''] = Some rc \<and>
     chain_id demo_run_cmd rc False = Inr ''westend'' \<and> base_path demo_run_cmd rc = Inr (Some ''/data/polkadot'')"
proof -
  obtain rc where rc: "RelayChainCli_new demo_spec_api Some (demo_config True) [''node''] = Some rc"
    by (simp add: RelayChainCli_new_def Let_def)
  have ext: "extensions_try_get demo_spec_api (cfg_chain_spec (demo_config True)) = Some \<lparr>relay_chain = ''westend'', para_id = 2000\<rparr>"
    by (simp add: demo_config_def demo_spec_api_def)
  from relay_chain_cli_defaults [OF rc ext, of "[''node'']" demo_run_cmd] rc show ?thesis
    by (simp add: demo_run_cmd_def demo_config_def path_join_def)
qed


text \<open>
  Both command lines present themselves alike, so that the help of the node inside is that of the node
  around it; they differ only in where a chain specification comes from.
\<close>

lemma substrate_cli_same_metadata:
  "cli_impl_name (substrate_cli_for_RelayChainCli B) = cli_impl_name (substrate_cli_for_Cli B S)"
  "cli_impl_version (substrate_cli_for_RelayChainCli B) = cli_impl_version (substrate_cli_for_Cli B S)"
  "cli_description (substrate_cli_for_RelayChainCli B) = cli_description (substrate_cli_for_Cli B S)"
  "cli_author (substrate_cli_for_RelayChainCli B) = cli_author (substrate_cli_for_Cli B S)"
  "cli_support_url (substrate_cli_for_RelayChainCli B) = cli_support_url (substrate_cli_for_Cli B S)"
  "cli_copyright_start_year (substrate_cli_for_RelayChainCli B) = cli_copyright_start_year (substrate_cli_for_Cli B S)"
  by (simp_all add: substrate_cli_for_Cli_def substrate_cli_for_RelayChainCli_def impl_name_def description_def
      support_url_def copyright_start_year_def)

end
