(* ===== verification/Node_Wiring.thy ===== *)
theory Node_Wiring
  imports Node_Service
begin

text \<open>
  The objects of a node and how node/src/service.rs connects them. \<open>Node_Service\<close> has the calls into the SDK in
  their order; here each call also makes an object, at the next free address, and names the addresses of the
  objects it is given: the client, the backend, the task manager, and so on. A function of service.rs becomes
  a function that extends a plan and returns addresses where the source returns handles.

  Forgetting the addresses gives the plan of \<open>Node_Service\<close>. Every address an object names is that of an object of
  the expected kind made before it, whichever calls fail, and all parts of a node share one client, one
  backend, one pool and so on.
\<close>

subsection \<open>Objects\<close>

type_synonym addr = nat

text \<open>
  A task has the task manager that runs it, whether it is essential, its name and group, and the objects it works on.
  The objects that \<open>new_full_parts\<close> and \<open>build_network\<close> return besides the first refer to the first. The registry of
  metrics is passed on as in the source, where it is optional. The closures that the source passes are here what they capture
  and return: the inherent data they provide, and the client of the provider of code hashes.
\<close>

datatype inherent_data_providers = SystemTimestamp | NoInherentData

datatype ('f, 'w, 'co, 'hw, 'key) service_object =
    Obj_TelemetryWorker nat
  | Obj_WorkerHandle addr
  | Obj_Telemetry addr "string list"
  | Obj_TelemetryHandle addr
  | Obj_Client "('f, 'w) configuration" "addr option" "'w executor" bool
  | Obj_Backend addr
  | Obj_Keystore addr
  | Obj_TaskManager addr
  | Obj_Task addr bool string "string option" "(addr list)"
  | Obj_Pool addr addr bool "('f, 'w) configuration"
  | Obj_BlockImport addr addr
  | Obj_ImportQueue addr addr inherent_data_providers addr "nat option" "addr option"
  | Obj_ImportQueueService addr
  | Obj_NetConfig "('f, 'w) configuration" "nat option"
  | Obj_RelayInterface "('f, 'w) configuration" "('f, 'w) configuration" "addr option" addr 'co "'hw option"
  | Obj_Network "('f, 'w) configuration" addr addr addr u32 addr addr addr collator_sybil_resistance
  | Obj_SystemRpcTx addr
  | Obj_TxHandler addr
  | Obj_SyncService addr
  | Obj_OffchainWorkers addr addr addr addr addr bool bool
  | Obj_RpcBuilder addr addr
  | Obj_SpawnedTasks addr addr addr addr "('f, 'w) configuration" addr addr addr addr addr addr "addr option"
  | Obj_PrintedHwbench 'hw
  | Obj_HardwareWarning 'hw
  | Obj_AnnounceBlock addr
  | Obj_OverseerHandle addr
  | Obj_RelayChainTasks addr addr u32 addr addr da_recovery_profile addr u64 addr addr
  | Obj_Proposer addr addr addr "nat option" "addr option"
  | Obj_CollatorService addr addr addr addr
  | Obj_CodeHashProvider addr
  | Obj_Aura inherent_data_providers addr addr addr addr addr addr addr addr addr "'key aura_params"

datatype object_kind =
    K_TelemetryWorker | K_WorkerHandle | K_Telemetry | K_TelemetryHandle | K_Client | K_Backend | K_Keystore
  | K_TaskManager | K_Pool | K_BlockImport | K_ImportQueue | K_ImportQueueService | K_NetConfig | K_RelayInterface
  | K_Network | K_SystemRpcTx | K_TxHandler | K_SyncService | K_OffchainWorkers | K_RpcBuilder | K_AnnounceBlock
  | K_OverseerHandle | K_Proposer | K_CollatorService | K_CodeHashProvider | K_Aura | K_Effect

fun kind_of :: "('f, 'w, 'co, 'hw, 'key) service_object \<Rightarrow> object_kind" where
  "kind_of (Obj_TelemetryWorker _) = K_TelemetryWorker"
| "kind_of (Obj_WorkerHandle _) = K_WorkerHandle"
| "kind_of (Obj_Telemetry _ _) = K_Telemetry"
| "kind_of (Obj_TelemetryHandle _) = K_TelemetryHandle"
| "kind_of (Obj_Client _ _ _ _) = K_Client"
| "kind_of (Obj_Backend _) = K_Backend"
| "kind_of (Obj_Keystore _) = K_Keystore"
| "kind_of (Obj_TaskManager _) = K_TaskManager"
| "kind_of (Obj_Pool _ _ _ _) = K_Pool"
| "kind_of (Obj_BlockImport _ _) = K_BlockImport"
| "kind_of (Obj_ImportQueue _ _ _ _ _ _) = K_ImportQueue"
| "kind_of (Obj_ImportQueueService _) = K_ImportQueueService"
| "kind_of (Obj_NetConfig _ _) = K_NetConfig"
| "kind_of (Obj_RelayInterface _ _ _ _ _ _) = K_RelayInterface"
| "kind_of (Obj_Network _ _ _ _ _ _ _ _ _) = K_Network"
| "kind_of (Obj_SystemRpcTx _) = K_SystemRpcTx"
| "kind_of (Obj_TxHandler _) = K_TxHandler"
| "kind_of (Obj_SyncService _) = K_SyncService"
| "kind_of (Obj_OffchainWorkers _ _ _ _ _ _ _) = K_OffchainWorkers"
| "kind_of (Obj_RpcBuilder _ _) = K_RpcBuilder"
| "kind_of (Obj_AnnounceBlock _) = K_AnnounceBlock"
| "kind_of (Obj_OverseerHandle _) = K_OverseerHandle"
| "kind_of (Obj_Proposer _ _ _ _ _) = K_Proposer"
| "kind_of (Obj_CollatorService _ _ _ _) = K_CollatorService"
| "kind_of (Obj_CodeHashProvider _) = K_CodeHashProvider"
| "kind_of (Obj_Aura _ _ _ _ _ _ _ _ _ _ _) = K_Aura"
| "kind_of _ = K_Effect"

text \<open>The objects an object is given, with the kind the SDK's function expects there.\<close>

definition optional :: "object_kind \<Rightarrow> addr option \<Rightarrow> (object_kind \<times> addr) list" where
  "optional k a = (case a of None \<Rightarrow> [] | Some x \<Rightarrow> [(k, x)])"

text \<open>The tasks of the node by name, with the kind of what they run.\<close>

definition task_kinds :: "string \<Rightarrow> object_kind list" where
  "task_kinds name =
     (if name = ''telemetry'' then [K_TelemetryWorker]
      else if name = ''offchain-workers-runner'' then [K_OffchainWorkers, K_Client]
      else if name = ''telemetry_hwbench'' then [K_TelemetryHandle]
      else if name = ''aura'' then [K_Aura]
      else [])"

fun given :: "('f, 'w, 'co, 'hw, 'key) service_object \<Rightarrow> (object_kind \<times> addr) list" where
  "given (Obj_WorkerHandle w) = [(K_TelemetryWorker, w)]"
| "given (Obj_Telemetry h _) = [(K_WorkerHandle, h)]"
| "given (Obj_TelemetryHandle t) = [(K_Telemetry, t)]"
| "given (Obj_Client _ h _ _) = optional K_TelemetryHandle h"
| "given (Obj_Backend c) = [(K_Client, c)]"
| "given (Obj_Keystore c) = [(K_Client, c)]"
| "given (Obj_TaskManager c) = [(K_Client, c)]"
| "given (Obj_Task tm _ name _ xs) = (K_TaskManager, tm) # zip (task_kinds name) xs"
| "given (Obj_Pool tm c _ _) = [(K_TaskManager, tm), (K_Client, c)]"
| "given (Obj_BlockImport c b) = [(K_Client, c), (K_Backend, b)]"
| "given (Obj_ImportQueue c bi _ tm _ h) = [(K_Client, c), (K_BlockImport, bi), (K_TaskManager, tm)] @ optional K_TelemetryHandle h"
| "given (Obj_ImportQueueService q) = [(K_ImportQueue, q)]"
| "given (Obj_RelayInterface _ _ wh tm _ _) = (K_TaskManager, tm) # optional K_WorkerHandle wh"
| "given (Obj_Network _ nc c p _ tm r q _) =
     [(K_NetConfig, nc), (K_Client, c), (K_Pool, p), (K_TaskManager, tm), (K_RelayInterface, r), (K_ImportQueue, q)]"
| "given (Obj_SystemRpcTx n) = [(K_Network, n)]"
| "given (Obj_TxHandler n) = [(K_Network, n)]"
| "given (Obj_SyncService n) = [(K_Network, n)]"
| "given (Obj_OffchainWorkers c k b p n _ _) =
     [(K_Client, c), (K_Keystore, k), (K_Backend, b), (K_Pool, p), (K_Network, n)]"
| "given (Obj_RpcBuilder c p) = [(K_Client, c), (K_Pool, p)]"
| "given (Obj_SpawnedTasks rb c p tm _ k b n sy rx tx t) =
     [(K_RpcBuilder, rb), (K_Client, c), (K_Pool, p), (K_TaskManager, tm), (K_Keystore, k), (K_Backend, b),
      (K_Network, n), (K_SyncService, sy), (K_SystemRpcTx, rx), (K_TxHandler, tx)] @ optional K_Telemetry t"
| "given (Obj_AnnounceBlock sy) = [(K_SyncService, sy)]"
| "given (Obj_OverseerHandle r) = [(K_RelayInterface, r)]"
| "given (Obj_RelayChainTasks c a _ r tm _ q _ oh sy) =
     [(K_Client, c), (K_AnnounceBlock, a), (K_RelayInterface, r), (K_TaskManager, tm), (K_ImportQueueService, q),
      (K_OverseerHandle, oh), (K_SyncService, sy)]"
| "given (Obj_Proposer tm c p _ h) = [(K_TaskManager, tm), (K_Client, c), (K_Pool, p)] @ optional K_TelemetryHandle h"
| "given (Obj_CollatorService c tm a api) =
     [(K_Client, c), (K_TaskManager, tm), (K_AnnounceBlock, a), (K_Client, api)]"
| "given (Obj_CodeHashProvider c) = [(K_Client, c)]"
| "given (Obj_Aura _ bi c b r ch k oh pr cs _) =
     [(K_BlockImport, bi), (K_Client, c), (K_Backend, b), (K_RelayInterface, r), (K_CodeHashProvider, ch), (K_Keystore, k),
      (K_OverseerHandle, oh), (K_Proposer, pr), (K_CollatorService, cs)]"
| "given _ = []"

subsection \<open>service.rs\<close>

type_synonym ('f, 'w, 'co, 'hw, 'key) object_plan =
  "(('f, 'w, 'co, 'hw, 'key) service_object, node_error) instr list"

definition emit :: "('st, 'e) instr \<Rightarrow> ('st, 'e) instr list \<Rightarrow> nat \<times> ('st, 'e) instr list" where
  "emit i p = (length p, p @ [i])"

definition emit_option ::
  "(addr \<Rightarrow> 'st) \<Rightarrow> addr option \<Rightarrow> ('st, 'e) instr list \<Rightarrow> addr option \<times> ('st, 'e) instr list" where
  "emit_option f a p =
     (case a of None \<Rightarrow> (None, p) | Some x \<Rightarrow> (case emit (Do (f x)) p of (y, p') \<Rightarrow> (Some y, p')))"

record partial_components =
  pc_client :: addr
  pc_backend :: addr
  pc_import_queue :: addr
  pc_keystore_container :: addr
  pc_task_manager :: addr
  pc_transaction_pool :: addr
  pc_block_import :: addr
  pc_telemetry :: "addr option"
  pc_telemetry_worker_handle :: "addr option"

definition wire_import_queue ::
  "addr \<Rightarrow> addr \<Rightarrow> ('f, 'w) configuration \<Rightarrow> addr option \<Rightarrow> addr \<Rightarrow> ('f, 'w, 'co, 'hw, 'key) object_plan \<Rightarrow>
     addr \<times> ('f, 'w, 'co, 'hw, 'key) object_plan" where
  "wire_import_queue client block_import config telemetry task_manager p =
     emit (Do (Obj_ImportQueue client block_import SystemTimestamp task_manager (prometheus_registry config) telemetry)) p"

definition wire_partial ::
  "('f, 'w, 'co, 'hw, 'key) service_api \<Rightarrow> ('f, 'w) configuration \<Rightarrow> ('f, 'w, 'co, 'hw, 'key) object_plan \<Rightarrow>
     partial_components \<times> ('f, 'w, 'co, 'hw, 'key) object_plan" where
  "wire_partial E config p0 =
     (let (telemetry0, p1) =
            (case telemetry_of config of
               None \<Rightarrow> (None, p0)
             | Some endpoints \<Rightarrow>
                 let (worker, q1) = emit (Step (Obj_TelemetryWorker 16) Telemetry) p0;
                     (handle, q2) = emit (Do (Obj_WorkerHandle worker)) q1;
                     (telemetry, q3) = emit (Do (Obj_Telemetry handle endpoints)) q2
                 in (Some (worker, telemetry), q3));
          (telemetry_handle, p2) = emit_option Obj_TelemetryHandle (map_option snd telemetry0) p1;
          (client, p3) = emit (call (Obj_Client config telemetry_handle (build_executor E config) True)) p2;
          (backend, p4) = emit (Do (Obj_Backend client)) p3;
          (keystore_container, p5) = emit (Do (Obj_Keystore client)) p4;
          (task_manager, p6) = emit (Do (Obj_TaskManager client)) p5;
          (telemetry_worker_handle, p7) = emit_option Obj_WorkerHandle (map_option fst telemetry0) p6;
          (telemetry, p8) =
            (case telemetry0 of
               None \<Rightarrow> (None, p7)
             | Some (worker, telemetry) \<Rightarrow>
                 let (task, q1) = emit (Do (Obj_Task task_manager False ''telemetry'' None [worker])) p7
                 in (Some telemetry, q1));
          (transaction_pool, p9) = emit (Do (Obj_Pool task_manager client (is_authority config) config)) p8;
          (block_import, p10) = emit (Do (Obj_BlockImport client backend)) p9;
          (queue_telemetry, p11) = emit_option Obj_TelemetryHandle telemetry p10;
          (import_queue, p12) = wire_import_queue client block_import config queue_telemetry task_manager p11
      in (\<lparr>pc_client = client, pc_backend = backend, pc_import_queue = import_queue,
           pc_keystore_container = keystore_container, pc_task_manager = task_manager,
           pc_transaction_pool = transaction_pool, pc_block_import = block_import, pc_telemetry = telemetry,
           pc_telemetry_worker_handle = telemetry_worker_handle\<rparr>, p12))"

definition wire_consensus ::
  "addr \<Rightarrow> addr \<Rightarrow> addr \<Rightarrow> nat option \<Rightarrow> addr option \<Rightarrow> addr \<Rightarrow> addr \<Rightarrow> addr \<Rightarrow> addr \<Rightarrow> u64 \<Rightarrow> u32 \<Rightarrow> 'key \<Rightarrow> addr \<Rightarrow> addr \<Rightarrow>
     ('f, 'w, 'co, 'hw, 'key) object_plan \<Rightarrow> ('f, 'w, 'co, 'hw, 'key) object_plan" where
  "wire_consensus client backend block_import registry telemetry task_manager relay_chain_interface transaction_pool keystore
       slot_duration para collator_key overseer_handle announce_block p0 =
     (let (proposer, p1) = emit (Do (Obj_Proposer task_manager client transaction_pool registry telemetry)) p0;
          (collator_service, p2) = emit (Do (Obj_CollatorService client task_manager announce_block client)) p1;
          (code_hash_provider, p3) = emit (Do (Obj_CodeHashProvider client)) p2;
          (fut, p4) = emit (Do (Obj_Aura NoInherentData block_import client backend relay_chain_interface code_hash_provider
            keystore overseer_handle proposer collator_service
            \<lparr>aura_collator_key = collator_key,
             aura_para_id = para,
             aura_relay_chain_slot_duration = slot_duration,
             authoring_duration = 2000,
             reinitialize = False,
             max_pov_percentage = None\<rparr>)) p3;
          (task, p5) = emit (Do (Obj_Task task_manager True ''aura'' None [fut])) p4
      in p5)"

definition wire_hwbench ::
  "('f, 'w, 'co, 'hw, 'key) service_api \<Rightarrow> bool \<Rightarrow> addr option \<Rightarrow> addr \<Rightarrow> 'hw option \<Rightarrow>
     ('f, 'w, 'co, 'hw, 'key) object_plan \<Rightarrow> ('f, 'w, 'co, 'hw, 'key) object_plan" where
  "wire_hwbench E validator telemetry task_manager hwbench p0 =
     (case hwbench of
        None \<Rightarrow> p0
      | Some hw \<Rightarrow>
          let (printed, p1) = emit (Do (Obj_PrintedHwbench hw)) p0;
              p2 = (if \<not> meets_reference_hardware E hw \<and> validator
                    then snd (emit (Do (Obj_HardwareWarning hw)) p1) else p1)
          in (case telemetry of
               None \<Rightarrow> p2
             | Some t \<Rightarrow>
                 let (telemetry_handle, p3) = emit (Do (Obj_TelemetryHandle t)) p2
                 in snd (emit (Do (Obj_Task task_manager False ''telemetry_hwbench'' None [telemetry_handle])) p3)))"

text \<open>The result is the task manager and the client, unless an authority has no key.\<close>

definition wire_parachain_node ::
  "('f, 'w, 'co, 'hw, 'key) service_api \<Rightarrow> ('f, 'w) configuration \<Rightarrow> ('f, 'w) configuration \<Rightarrow> 'co \<Rightarrow> u32 \<Rightarrow>
     'hw option \<Rightarrow> (addr \<times> addr) \<times> ('f, 'w, 'co, 'hw, 'key) object_plan" where
  "wire_parachain_node E parachain_config0 polkadot_config collator_options para hwbench =
     (let parachain_config = prepare_node_config E parachain_config0;
          (params, p1) = wire_partial E parachain_config [];
          block_import = pc_block_import params;
          telemetry = pc_telemetry params;
          telemetry_worker_handle = pc_telemetry_worker_handle params;
          registry = prometheus_registry parachain_config;
          (net_config, p2) = emit (Do (Obj_NetConfig parachain_config registry)) p1;
          client = pc_client params;
          backend = pc_backend params;
          task_manager = pc_task_manager params;
          (relay_chain_interface, p3) =
            emit (Step (Obj_RelayInterface polkadot_config parachain_config telemetry_worker_handle task_manager
              collator_options hwbench) Application) p2;
          collator_key = built_collator_key E polkadot_config parachain_config collator_options;
          validator = is_authority parachain_config;
          transaction_pool = pc_transaction_pool params;
          (import_queue_service, p4) = emit (Do (Obj_ImportQueueService (pc_import_queue params))) p3;
          (network, p5) =
            emit (call (Obj_Network parachain_config net_config client transaction_pool para task_manager
              relay_chain_interface (pc_import_queue params) Resistant)) p4;
          (system_rpc_tx, p6) = emit (Do (Obj_SystemRpcTx network)) p5;
          (tx_handler_controller, p7) = emit (Do (Obj_TxHandler network)) p6;
          (sync_service, p8) = emit (Do (Obj_SyncService network)) p7;
          p9 = (if offchain_worker_enabled parachain_config
                then let (offchain_workers, q1) =
                           emit (call (Obj_OffchainWorkers client (pc_keystore_container params) backend transaction_pool
                             network (is_authority parachain_config) False)) p8
                     in snd (emit (Do (Obj_Task task_manager False ''offchain-workers-runner'' (Some ''offchain-work'')
                          [offchain_workers, client])) q1)
                else p8);
          (rpc_builder, p10) = emit (Do (Obj_RpcBuilder client transaction_pool)) p9;
          (tasks, p11) =
            emit (call (Obj_SpawnedTasks rpc_builder client transaction_pool task_manager parachain_config
              (pc_keystore_container params) backend network sync_service system_rpc_tx tx_handler_controller
              telemetry)) p10;
          p12 = wire_hwbench E validator telemetry task_manager hwbench p11;
          (announce_block, p13) = emit (Do (Obj_AnnounceBlock sync_service)) p12;
          (overseer_handle, p14) = emit (Step (Obj_OverseerHandle relay_chain_interface) Application) p13;
          (relay_tasks, p15) =
            emit (call (Obj_RelayChainTasks client announce_block para relay_chain_interface task_manager
              (if validator then Collator else FullNode) import_queue_service relay_chain_slot_duration overseer_handle
              sync_service)) p14;
          p16 = (if validator
                 then let (consensus_telemetry, q1) = emit_option Obj_TelemetryHandle telemetry p15
                      in case collator_key of
                           None \<Rightarrow> q1 @ [Abort]
                         | Some key \<Rightarrow>
                             wire_consensus client backend block_import registry consensus_telemetry task_manager
                               relay_chain_interface transaction_pool (pc_keystore_container params)
                               relay_chain_slot_duration para key overseer_handle announce_block q1
                 else p15)
      in ((task_manager, client), p16))"

subsection \<open>Forgetting the objects\<close>

text \<open>The endpoints behind a telemetry or a handle of one.\<close>

definition endpoints_at :: "('f, 'w, 'co, 'hw, 'key) service_object list \<Rightarrow> addr \<Rightarrow> string list" where
  "endpoints_at store a =
     (case store ! a of
        Obj_Telemetry _ endpoints \<Rightarrow> endpoints
      | Obj_TelemetryHandle t \<Rightarrow> (case store ! t of Obj_Telemetry _ endpoints \<Rightarrow> endpoints | _ \<Rightarrow> [])
      | _ \<Rightarrow> [])"

fun erase ::
  "('f, 'w, 'co, 'hw, 'key) service_object list \<Rightarrow> ('f, 'w, 'co, 'hw, 'key) service_object \<Rightarrow>
     ('f, 'w, 'co, 'hw, 'key) service_step option" where
  "erase store (Obj_TelemetryWorker n) = Some (TelemetryWorkerNew n)"
| "erase store (Obj_Telemetry _ endpoints) = Some (NewTelemetry endpoints)"
| "erase store (Obj_Client config h executor record_import) =
     Some (NewFullParts config (map_option (endpoints_at store) h) executor record_import)"
| "erase store (Obj_Task _ essential name grp _) = Some (Spawn essential name grp)"
| "erase store (Obj_Pool _ _ authority config) = Some (BuildTransactionPool authority config)"
| "erase store (Obj_BlockImport _ _) = Some NewBlockImport"
| "erase store (Obj_ImportQueue _ _ _ _ _ h) = Some (FullyVerifyingImportQueue (map_option (endpoints_at store) h))"
| "erase store (Obj_NetConfig config _) = Some (NewNetworkConfiguration config)"
| "erase store (Obj_RelayInterface relay config wh _ co hw) = Some (BuildRelayChainInterface relay config (wh \<noteq> None) co hw)"
| "erase store (Obj_Network config _ _ _ para _ _ _ sybil) = Some (BuildNetwork config para sybil)"
| "erase store (Obj_OffchainWorkers _ _ _ _ _ validator http) = Some (NewOffchainWorkers validator http)"
| "erase store (Obj_SpawnedTasks _ _ _ _ config _ _ _ _ _ _ t) = Some (SpawnTasks config (map_option (endpoints_at store) t))"
| "erase store (Obj_PrintedHwbench hw) = Some (PrintHwbench hw)"
| "erase store (Obj_HardwareWarning hw) = Some (WarnHardware hw)"
| "erase store (Obj_OverseerHandle _) = Some GetOverseerHandle"
| "erase store (Obj_RelayChainTasks _ _ para _ _ profile _ slot _ _) = Some (StartRelayChainTasks para profile slot)"
| "erase store (Obj_Proposer _ _ _ _ h) = Some (NewProposer (map_option (endpoints_at store) h))"
| "erase store (Obj_CollatorService _ _ _ _) = Some NewCollatorService"
| "erase store (Obj_Aura _ _ _ _ _ _ _ _ _ _ params) = Some (AuraRun params)"
| "erase store _ = None"

definition node_store ::
  "('f, 'w, 'co, 'hw, 'key) service_api \<Rightarrow> ('f, 'w) configuration \<Rightarrow> ('f, 'w) configuration \<Rightarrow> 'co \<Rightarrow> u32 \<Rightarrow>
     'hw option \<Rightarrow> ('f, 'w, 'co, 'hw, 'key) service_object list" where
  "node_store E config relay co para hwbench = steps_of (snd (wire_parachain_node E config relay co para hwbench))"

lemma wire_partial_silent:
  assumes "telemetry_of config = None"
  shows "wire_partial E config [] =
    (\<lparr>pc_client = 0, pc_backend = 1, pc_import_queue = 6, pc_keystore_container = 2, pc_task_manager = 3,
      pc_transaction_pool = 4, pc_block_import = 5, pc_telemetry = None, pc_telemetry_worker_handle = None\<rparr>,
     [call (Obj_Client config None (build_executor E config) True), Do (Obj_Backend 0), Do (Obj_Keystore 0),
      Do (Obj_TaskManager 0), Do (Obj_Pool 3 0 (is_authority config) config), Do (Obj_BlockImport 0 1),
      Do (Obj_ImportQueue 0 5 SystemTimestamp 3 (prometheus_registry config) None)])"
  by (simp add: wire_partial_def wire_import_queue_def emit_def emit_option_def assms)

lemma wire_partial_telemetry:
  assumes "telemetry_of config = Some endpoints"
  shows "wire_partial E config [] =
    (\<lparr>pc_client = 4, pc_backend = 5, pc_import_queue = 13, pc_keystore_container = 6, pc_task_manager = 7,
      pc_transaction_pool = 10, pc_block_import = 11, pc_telemetry = Some 2, pc_telemetry_worker_handle = Some 8\<rparr>,
     [Step (Obj_TelemetryWorker 16) Telemetry, Do (Obj_WorkerHandle 0), Do (Obj_Telemetry 1 endpoints),
      Do (Obj_TelemetryHandle 2),
      call (Obj_Client config (Some 3) (build_executor E config) True), Do (Obj_Backend 4), Do (Obj_Keystore 4),
      Do (Obj_TaskManager 4), Do (Obj_WorkerHandle 0), Do (Obj_Task 7 False ''telemetry'' None [0]),
      Do (Obj_Pool 7 4 (is_authority config) config), Do (Obj_BlockImport 4 5), Do (Obj_TelemetryHandle 2),
      Do (Obj_ImportQueue 4 11 SystemTimestamp 7 (prometheus_registry config) (Some 12))])"
  by (simp add: wire_partial_def wire_import_queue_def emit_def emit_option_def assms call_def)

lemmas wire_node_defs = wire_parachain_node_def wire_consensus_def wire_hwbench_def emit_def emit_option_def call_def
  Let_def

text \<open>The branches of a start that make a difference to the objects.\<close>

lemma start_branches [case_names full hw_full none none_hw none_warn some some_hw some_warn]:
  assumes "\<not> authority \<Longrightarrow> hwbench = None \<Longrightarrow> thesis"
    and "\<And>hw. \<not> authority \<Longrightarrow> hwbench = Some hw \<Longrightarrow> thesis"
    and "authority \<Longrightarrow> key = None \<Longrightarrow> hwbench = None \<Longrightarrow> thesis"
    and "\<And>hw. authority \<Longrightarrow> key = None \<Longrightarrow> hwbench = Some hw \<Longrightarrow> meets hw \<Longrightarrow> thesis"
    and "\<And>hw. authority \<Longrightarrow> key = None \<Longrightarrow> hwbench = Some hw \<Longrightarrow> \<not> meets hw \<Longrightarrow> thesis"
    and "\<And>k. authority \<Longrightarrow> key = Some k \<Longrightarrow> hwbench = None \<Longrightarrow> thesis"
    and "\<And>k hw. authority \<Longrightarrow> key = Some k \<Longrightarrow> hwbench = Some hw \<Longrightarrow> meets hw \<Longrightarrow> thesis"
    and "\<And>k hw. authority \<Longrightarrow> key = Some k \<Longrightarrow> hwbench = Some hw \<Longrightarrow> \<not> meets hw \<Longrightarrow> thesis"
  shows thesis
  using assms by (cases authority; cases hwbench; cases key; cases "meets (the hwbench)") auto

lemma erase_wired_silent:
  assumes "telemetry_of (prepare_node_config E config) = None"
  shows "erase_plan (erase (node_store E config relay co para hwbench)) (snd (wire_parachain_node E config relay co para hwbench)) =
     start_parachain_node E config relay co para hwbench"
proof -
  let ?c = "prepare_node_config E config"
  show ?thesis
    by (rule start_branches [where authority = "is_authority ?c" and hwbench = hwbench and
          key = "built_collator_key E relay ?c co" and meets = "meets_reference_hardware E"];
        cases "offchain_worker_enabled ?c")
      (simp_all add: wire_partial_silent [OF assms] assms node_store_def wire_node_defs erase_plan_def
        start_parachain_node_def service_plan_defs)
qed

lemma erase_wired_telemetry:
  assumes "telemetry_of (prepare_node_config E config) = Some endpoints"
  shows "erase_plan (erase (node_store E config relay co para hwbench)) (snd (wire_parachain_node E config relay co para hwbench)) =
     start_parachain_node E config relay co para hwbench"
proof -
  let ?c = "prepare_node_config E config"
  show ?thesis
    by (rule start_branches [where authority = "is_authority ?c" and hwbench = hwbench and
          key = "built_collator_key E relay ?c co" and meets = "meets_reference_hardware E"];
        cases "offchain_worker_enabled ?c")
      (simp_all add: wire_partial_telemetry [OF assms] assms node_store_def wire_node_defs erase_plan_def
        start_parachain_node_def service_plan_defs endpoints_at_def)
qed

lemma erase_wired:
  "erase_plan (erase (node_store E config relay co para hwbench)) (snd (wire_parachain_node E config relay co para hwbench)) =
     start_parachain_node E config relay co para hwbench"
  by (cases "telemetry_of (prepare_node_config E config)") (simp_all add: erase_wired_silent erase_wired_telemetry)

subsection \<open>Conformance\<close>

text \<open>Every object is given objects of the expected kinds that were made before it, at the addresses of \<open>kinds\<close>.\<close>

fun conforms :: "object_kind list \<Rightarrow> ('f, 'w, 'co, 'hw, 'key) service_object list \<Rightarrow> bool" where
  "conforms kinds [] = True"
| "conforms kinds (x # xs) =
     (list_all (\<lambda>(k, a). a < length kinds \<and> kinds ! a = k) (given x) \<and> conforms (kinds @ [kind_of x]) xs)"

lemma conforms_append: "conforms kinds (xs @ ys) \<longleftrightarrow> conforms kinds xs \<and> conforms (kinds @ map kind_of xs) ys"
  by (induction xs arbitrary: kinds) auto

lemma conforms_nth:
  assumes "conforms [] xs" and "i < length xs" and "(k, a) \<in> set (given (xs ! i))"
  shows "a < i \<and> kind_of (xs ! a) = k"
proof -
  have "xs = take i xs @ xs ! i # drop (Suc i) xs" using assms(2) by (rule id_take_nth_drop)
  then have "conforms (map kind_of (take i xs)) (xs ! i # drop (Suc i) xs)"
    using assms(1) conforms_append [of "[]" "take i xs" "xs ! i # drop (Suc i) xs"] by simp
  with assms(2,3) show ?thesis by (auto simp: list_all_iff)
qed

text \<open>The kinds of which a node has one object: all but handles, which are made anew for each use, and effects.\<close>

fun is_shared :: "object_kind \<Rightarrow> bool" where
  "is_shared K_WorkerHandle = False"
| "is_shared K_TelemetryHandle = False"
| "is_shared K_Effect = False"
| "is_shared _ = True"

definition well_wired :: "('f, 'w, 'co, 'hw, 'key) service_object list \<Rightarrow> bool" where
  "well_wired xs \<longleftrightarrow> conforms [] xs \<and> distinct (filter is_shared (map kind_of xs))"

lemma distinct_filter_nth:
  assumes "distinct (filter P ys)" and "a < b" and "b < length ys" and "P (ys ! b)"
  shows "ys ! a \<noteq> ys ! b"
proof -
  have "ys = take b ys @ ys ! b # drop (Suc b) ys" using assms(3) by (rule id_take_nth_drop)
  then have "distinct (filter P (take b ys @ ys ! b # drop (Suc b) ys))" using assms(1) by simp
  then have "ys ! b \<notin> set (take b ys)" using assms(4) by simp
  moreover have "ys ! a \<in> set (take b ys)" using assms(2,3) by (auto simp: in_set_conv_nth)
  ultimately show ?thesis by metis
qed

lemma well_wired_single:
  assumes "well_wired xs" and "is_shared k" and "a < length xs" "kind_of (xs ! a) = k" and "b < length xs" "kind_of (xs ! b) = k"
  shows "a = b"
  using distinct_filter_nth [of is_shared "map kind_of xs" a b] distinct_filter_nth [of is_shared "map kind_of xs" b a] assms
  by (cases a b rule: linorder_cases) (auto simp: well_wired_def)

lemma well_wired_prefix: "well_wired (xs @ ys) \<Longrightarrow> well_wired xs"
  by (auto simp: well_wired_def conforms_append)

text \<open>The store of a node that starts completely, and what the start returns.\<close>

definition kind_at :: "('f, 'w, 'co, 'hw, 'key) service_object list \<Rightarrow> object_kind \<Rightarrow> addr \<Rightarrow> bool" where
  "kind_at xs k a \<longleftrightarrow> a < length xs \<and> kind_of (xs ! a) = k"

definition node_wired ::
  "addr \<times> addr \<Rightarrow> ('f, 'w, 'co, 'hw, 'key) service_object list \<Rightarrow> bool" where
  "node_wired result xs \<longleftrightarrow> well_wired xs \<and> kind_at xs K_TaskManager (fst result) \<and> kind_at xs K_Client (snd result)"

lemma wired_silent:
  assumes "telemetry_of (prepare_node_config E config) = None"
  shows "node_wired (fst (wire_parachain_node E config relay co para hwbench)) (node_store E config relay co para hwbench)"
proof -
  let ?c = "prepare_node_config E config"
  show ?thesis
    by (rule start_branches [where authority = "is_authority ?c" and hwbench = hwbench and
          key = "built_collator_key E relay ?c co" and meets = "meets_reference_hardware E"];
        cases "offchain_worker_enabled ?c")
      (simp_all add: wire_partial_silent [OF assms] node_store_def wire_node_defs node_wired_def kind_at_def well_wired_def optional_def
        task_kinds_def)
qed

lemma wired_telemetry:
  assumes "telemetry_of (prepare_node_config E config) = Some endpoints"
  shows "node_wired (fst (wire_parachain_node E config relay co para hwbench)) (node_store E config relay co para hwbench)"
proof -
  let ?c = "prepare_node_config E config"
  show ?thesis
    by (rule start_branches [where authority = "is_authority ?c" and hwbench = hwbench and
          key = "built_collator_key E relay ?c co" and meets = "meets_reference_hardware E"];
        cases "offchain_worker_enabled ?c")
      (simp_all add: wire_partial_telemetry [OF assms] node_store_def wire_node_defs node_wired_def kind_at_def well_wired_def optional_def
        task_kinds_def)
qed

lemma wired: "node_wired (fst (wire_parachain_node E config relay co para hwbench)) (node_store E config relay co para hwbench)"
  by (cases "telemetry_of (prepare_node_config E config)") (simp_all add: wired_silent wired_telemetry)

lemma made_prefix:
  "\<exists>later. node_store E config relay co para hwbench =
     snd (exec_plan fails (snd (wire_parachain_node E config relay co para hwbench)) []) @ later"
  using exec_plan_prefix [of fails "snd (wire_parachain_node E config relay co para hwbench)" "[]"]
  by (auto simp: node_store_def)

lemma made_well_wired:
  "well_wired (snd (exec_plan fails (snd (wire_parachain_node E config relay co para hwbench)) []))"
  using wired [of E config relay co para hwbench] made_prefix [of E config relay co para hwbench fails]
  by (auto simp: node_wired_def intro: well_wired_prefix)

lemma made_result:
  assumes "fst (wire_parachain_node E config relay co para hwbench) = (task_manager, client)"
    and "kind_at (snd (exec_plan fails (snd (wire_parachain_node E config relay co para hwbench)) [])) k a"
  shows "(k = K_Client \<longrightarrow> a = client) \<and> (k = K_TaskManager \<longrightarrow> a = task_manager)"
proof -
  let ?store = "node_store E config relay co para hwbench"
  have store: "well_wired ?store" "kind_at ?store K_TaskManager task_manager" "kind_at ?store K_Client client"
    using wired [of E config relay co para hwbench] by (simp_all add: node_wired_def assms(1))
  moreover have "kind_at ?store k a"
    using made_prefix [of E config relay co para hwbench fails] assms(2) by (auto simp: kind_at_def nth_append)
  ultimately show ?thesis
    using well_wired_single [OF store(1), of K_Client a client] well_wired_single [OF store(1), of K_TaskManager a task_manager]
    by (auto simp: kind_at_def)
qed

text \<open>A collator with telemetry for examples.\<close>

definition demo_collator :: "(extensions, unit) configuration" where
  "demo_collator = (demo_config True)\<lparr>telemetry_endpoints := Some [''wss://telemetry'']\<rparr>"

abbreviation demo_wiring ::
  "(addr \<times> addr) \<times> (extensions, unit, unit, nat, nat) object_plan" where
  "demo_wiring \<equiv> wire_parachain_node (demo_service (Some 7)) demo_collator (demo_config False) () 2000 (Some 5)"

lemma demo_wired:
  "snd (exec_plan (\<lambda>_. None) (snd demo_wiring) []) =
     node_store (demo_service (Some 7)) demo_collator (demo_config False) () 2000 (Some 5)"
proof -
  have "list_all (passes (\<lambda>_. None)) (snd demo_wiring)"
    by (simp add: wire_partial_telemetry wire_node_defs demo_collator_def demo_config_def demo_service_def telemetry_of_def)
  then show ?thesis by (simp add: exec_plan_Ok_log node_store_def)
qed

lemma demo_store:
  "node_store (demo_service (Some 7)) demo_collator (demo_config False) () 2000 (Some 5) ! 10 = Obj_Pool 7 4 True demo_collator \<and>
   node_store (demo_service (Some 7)) demo_collator (demo_config False) () 2000 (Some 5) ! 23 = Obj_RpcBuilder 4 10 \<and>
   24 < length (node_store (demo_service (Some 7)) demo_collator (demo_config False) () 2000 (Some 5)) \<and>
   fst demo_wiring = (7, 4)"
  by (simp add: node_store_def wire_partial_telemetry wire_node_defs demo_collator_def demo_config_def demo_service_def telemetry_of_def)

subsection \<open>Properties\<close>

text \<open>
  C12: All parts of a node share their components: two objects that are given a client, a backend, a keystore, a task
  manager, a transaction pool, an import queue, a relay chain interface, a network or any other component but a telemetry handle
  are given the same one; so the pool, the network, the offchain workers, the server of RPC calls, the relay chain tasks and block
  production all work on one client, and it is this client, and this task manager, that the start returns.
\<close>

theorem node_components_shared:
  fixes fails :: "('f, 'w, 'co, 'hw, 'key) service_object \<Rightarrow> node_error option"
  assumes "objects = snd (exec_plan fails (snd (wire_parachain_node E config relay co para hwbench)) [])"
    and "i < length objects" and "(k, a) \<in> set (given (objects ! i))"
    and "j < length objects" and "(k, b) \<in> set (given (objects ! j))" and "is_shared k"
    and "fst (wire_parachain_node E config relay co para hwbench) = (task_manager, client)"
  shows "a = b \<and> (k = K_Client \<longrightarrow> a = client) \<and> (k = K_TaskManager \<longrightarrow> a = task_manager)"
proof -
  have wired: "well_wired objects" unfolding assms(1) by (rule made_well_wired)
  have "kind_at objects k a" "kind_at objects k b"
    using conforms_nth [of objects i k a] conforms_nth [of objects j k b] wired assms(2-5)
    by (auto simp: well_wired_def kind_at_def)
  then show ?thesis
    using well_wired_single [OF wired assms(6), of a b] made_result [OF assms(7), of fails k a] assms(1)
    by (simp add: kind_at_def)
qed

theorem node_components_shared_witness:
  "(K_Client, 4) \<in> set (given (snd (exec_plan (\<lambda>_. None) (snd demo_wiring) []) ! 10)) \<and>
   (K_Client, 4) \<in> set (given (snd (exec_plan (\<lambda>_. None) (snd demo_wiring) []) ! 23)) \<and> 4 = snd (fst demo_wiring)"
proof -
  let ?objects = "snd (exec_plan (\<lambda>_. None) (snd demo_wiring) [])"
  have at: "10 < length ?objects" "(K_Client, 4) \<in> set (given (?objects ! 10))"
    "23 < length ?objects" "(K_Client, 4) \<in> set (given (?objects ! 23))"
    using demo_store by (simp_all add: demo_wired)
  from node_components_shared [OF refl at, of "fst (fst demo_wiring)" "snd (fst demo_wiring)"] at show ?thesis by simp
qed

text \<open>
  The objects are those of the calls: forgetting the objects turns the start of a node into the sequence of
  calls of \<open>start_parachain_node\<close>, with the endpoints of the telemetry found through its handles; and whichever calls
  fail, both have the same result and the calls made are those of the objects made.
\<close>

lemma node_wiring_refines:
  fixes fails :: "('f, 'w, 'co, 'hw, 'key) service_step \<Rightarrow> node_error option"
  assumes "store = node_store E config relay co para hwbench"
    and "exec_plan (\<lambda>x. case erase store x of None \<Rightarrow> None | Some st \<Rightarrow> fails st)
      (snd (wire_parachain_node E config relay co para hwbench)) [] = (r, objects)"
  shows "exec_plan fails (start_parachain_node E config relay co para hwbench) [] = (r, List.map_filter (erase store) objects)"
  using exec_plan_erase [of fails "erase store" "snd (wire_parachain_node E config relay co para hwbench)" "[]"] assms
  by (simp add: erase_wired)

lemma node_wiring_refines_example:
  "NewOffchainWorkers True False \<in> set (snd (exec_plan (\<lambda>_. None)
     (start_parachain_node (demo_service (Some 7)) demo_collator (demo_config False) () 2000 (Some 5)) []))"
  (is "?st \<in> set (snd (exec_plan _ ?plan _))")
proof -
  let ?store = "node_store (demo_service (Some 7)) demo_collator (demo_config False) () 2000 (Some 5)"
  obtain r objects where run: "exec_plan (\<lambda>x. case erase ?store x of None \<Rightarrow> None | Some st \<Rightarrow> (\<lambda>_. None) st) (snd demo_wiring) [] = (r, objects)"
    by (cases "exec_plan (\<lambda>x. case erase ?store x of None \<Rightarrow> None | Some st \<Rightarrow> (\<lambda>_. None) st) (snd demo_wiring) []") blast
  have "(\<lambda>x. case erase ?store x of None \<Rightarrow> None | Some st \<Rightarrow> None) = (\<lambda>x. None :: node_error option)"
    by (auto split: option.split)
  then have objects: "objects = ?store" using run demo_wired by simp
  have "?store ! 21 = Obj_OffchainWorkers 4 6 5 10 17 True False \<and> 21 < length ?store"
    by (simp add: node_store_def wire_partial_telemetry wire_node_defs demo_collator_def demo_config_def demo_service_def telemetry_of_def)
  then have "Obj_OffchainWorkers 4 6 5 10 17 True False \<in> set ?store" by (metis nth_mem)
  then have "?st \<in> set (List.map_filter (erase ?store) ?store)" by (rule map_filterI) simp
  with node_wiring_refines [OF refl run] objects show ?thesis by simp
qed

end
