(* ===== verification/Scale_Codec.thy ===== *)
theory Scale_Codec
  imports Rust_Prelude
begin

unbundle bit_operations_syntax

text \<open>
  The interface to the binary encoding of the chain (\<open>Encode\<close>, \<open>Decode\<close>, \<open>MaxEncodedLen\<close>): a codec is an
  encoder, a decoder that returns the rest of the input, and a bound on the length. The codecs of the
  types the SDK provides are parameters; the laws are those of the encoding's specification: decoding
  undoes encoding, only what encoding produces is decoded, and no encoding is longer than the bound.
  The instance is the specified encoding of \<open>u32\<close>, four bytes with the least significant first.
\<close>

subsection \<open>Interface\<close>

record 'a codec =
  encode :: "'a \<Rightarrow> u8 list"
  decode :: "u8 list \<Rightarrow> ('a \<times> u8 list) option"
  max_encoded_len :: nat

locale codec_laws =
  fixes C :: "'a codec"
  assumes decode_encode [simp]: "decode C (encode C x @ rest) = Some (x, rest)"
    and decode_sound: "decode C bs = Some (x, rest) \<Longrightarrow> bs = encode C x @ rest"
    and encode_bound: "length (encode C x) \<le> max_encoded_len C"
begin

lemma decode_encode_all [simp]: "decode C (encode C x) = Some (x, [])"
  using decode_encode [of x "[]"] by simp

lemma decode_iff: "decode C bs = Some (x, rest) \<longleftrightarrow> bs = encode C x @ rest"
  using decode_sound by auto

text \<open>No encoding is the beginning of another.\<close>

lemma encode_prefix_free:
  assumes "encode C x @ r = encode C y @ r'"
  shows "x = y \<and> r = r'"
proof -
  have "Some (x, r) = decode C (encode C y @ r')" unfolding assms [symmetric] by simp
  then show ?thesis by simp
qed

lemma encode_inj: "encode C x = encode C y \<longleftrightarrow> x = y"
  using encode_prefix_free [of x "[]" y "[]"] by auto

end

subsection \<open>The encoding of u32\<close>

definition byte_of :: "nat \<Rightarrow> u32 \<Rightarrow> u8" where
  "byte_of i x = ucast (drop_bit (8 * i) x)"

definition u32_of_bytes :: "u8 \<Rightarrow> u8 \<Rightarrow> u8 \<Rightarrow> u8 \<Rightarrow> u32" where
  "u32_of_bytes a b c d =
     ucast a OR push_bit 8 (ucast b) OR push_bit 16 (ucast c) OR push_bit 24 (ucast d)"

fun u32_decode :: "u8 list \<Rightarrow> (u32 \<times> u8 list) option" where
  "u32_decode (a # b # c # d # rest) = Some (u32_of_bytes a b c d, rest)"
| "u32_decode _ = None"

definition u32_codec :: "u32 codec" where
  "u32_codec =
     \<lparr>encode = (\<lambda>x. [byte_of 0 x, byte_of 1 x, byte_of 2 x, byte_of 3 x]),
      decode = u32_decode, max_encoded_len = 4\<rparr>"

lemma u32_of_bytes_of: "u32_of_bytes (byte_of 0 x) (byte_of 1 x) (byte_of 2 x) (byte_of 3 x) = x"
proof (rule bit_word_eqI)
  fix n assume "n < LENGTH(32)"
  then consider "n < 8" | "8 \<le> n" "n < 16" | "16 \<le> n" "n < 24" | "24 \<le> n" "n < 32" by fastforce
  then show "bit (u32_of_bytes (byte_of 0 x) (byte_of 1 x) (byte_of 2 x) (byte_of 3 x)) n = bit x n"
    by cases (auto simp: u32_of_bytes_def byte_of_def bit_simps)
qed

lemma bit_u8_high:
  "\<not> bit (a :: u8) (8 + n)" "\<not> bit (a :: u8) (16 + n)" "\<not> bit (a :: u8) (24 + n)"
  by (auto dest: bit_imp_le_length)

lemma bytes_of_u32:
  "byte_of 0 (u32_of_bytes a b c d) = a" "byte_of 1 (u32_of_bytes a b c d) = b"
  "byte_of 2 (u32_of_bytes a b c d) = c" "byte_of 3 (u32_of_bytes a b c d) = d"
  by (auto intro!: bit_word_eqI simp: u32_of_bytes_def byte_of_def bit_simps bit_u8_high)

lemma u32_decode_Some:
  "u32_decode bs = Some (x, rest) \<longleftrightarrow> (\<exists>a b c d. bs = a # b # c # d # rest \<and> x = u32_of_bytes a b c d)"
  by (cases bs rule: u32_decode.cases) auto

interpretation u32: codec_laws u32_codec
  by unfold_locales
     (auto simp: u32_codec_def u32_of_bytes_of [simplified] bytes_of_u32 [simplified] u32_decode_Some)

end
