(* ===== verification/Call_Codec.thy ===== *)
theory Call_Codec
  imports Scale_Codec Runtime_Config
begin

text \<open>
  The binary format of the chain's own types and calls: the derived encodings of \<open>Coordinate\<close>, \<open>Command\<close>
  (swarm-robot-pallet/src/lib.rs) and \<open>CompositeStruct\<close> (template/src/lib.rs), and the encoding of the
  calls: the index of the pallet in the runtime, the index of the call in the pallet, the arguments.
  A derived encoding is that of the fields in order, for an enum after the index of the variant in
  order of declaration. The encodings of the types a pallet is generic in and of the calls of the SDK's
  pallets are parameters.
\<close>

subsection \<open>Definitions\<close>

definition coordinate_codec :: "u32 codec \<Rightarrow> coordinate codec" where
  "coordinate_codec U =
     \<lparr>encode = (\<lambda>c. encode U (coord_x c) @ encode U (coord_y c)),
      decode = (\<lambda>bs. case decode U bs of
          None \<Rightarrow> None
        | Some (x, bs1) \<Rightarrow> (case decode U bs1 of
            None \<Rightarrow> None
          | Some (y, bs2) \<Rightarrow> Some (\<lparr>coord_x = x, coord_y = y\<rparr>, bs2))),
      max_encoded_len = max_encoded_len U + max_encoded_len U\<rparr>"

definition composite_codec :: "'bn codec \<Rightarrow> 'bn composite_struct codec" where
  "composite_codec N =
     \<lparr>encode = (\<lambda>c. encode N (block_number c)),
      decode = (\<lambda>bs. map_option (\<lambda>(n, rest). (\<lparr>block_number = n\<rparr>, rest)) (decode N bs)),
      max_encoded_len = max_encoded_len N\<rparr>"

definition command_codec :: "'loc codec \<Rightarrow> 'task codec \<Rightarrow> ('loc, 'task) command codec" where
  "command_codec L K =
     \<lparr>encode = (\<lambda>c. case c of
          GoToLocation l \<Rightarrow> 0 # encode L l
        | PerformTask t \<Rightarrow> 1 # encode K t
        | Halt \<Rightarrow> [2]
        | WaitForCommand \<Rightarrow> [3]),
      decode = (\<lambda>bs. case bs of
          [] \<Rightarrow> None
        | i # rest \<Rightarrow>
            if i = 0 then map_option (\<lambda>(l, r). (GoToLocation l, r)) (decode L rest)
            else if i = 1 then map_option (\<lambda>(t, r). (PerformTask t, r)) (decode K rest)
            else if i = 2 then Some (Halt, rest)
            else if i = 3 then Some (WaitForCommand, rest)
            else None),
      max_encoded_len = 1 + max (max_encoded_len L) (max_encoded_len K)\<rparr>"

text \<open>The calls of the swarm pallet have no explicit index: they are numbered in order of declaration.\<close>

primrec swarm_call_index :: "('rid, 'loc, 'task) swarm_call \<Rightarrow> u8" where
  "swarm_call_index (RegisterRobot r) = 0"
| "swarm_call_index (EnqueueCommand c) = 1"
| "swarm_call_index (PullNext r) = 2"

definition encode_swarm_call ::
  "'rid codec \<Rightarrow> ('loc, 'task) command codec \<Rightarrow> ('rid, 'loc, 'task) swarm_call \<Rightarrow> u8 list" where
  "encode_swarm_call R C call =
     swarm_call_index call #
     (case call of RegisterRobot r \<Rightarrow> encode R r | EnqueueCommand c \<Rightarrow> encode C c | PullNext r \<Rightarrow> encode R r)"

definition decode_swarm_call ::
  "'rid codec \<Rightarrow> ('loc, 'task) command codec \<Rightarrow> u8 list \<Rightarrow> (('rid, 'loc, 'task) swarm_call \<times> u8 list) option" where
  "decode_swarm_call R C bs =
     (case bs of
        [] \<Rightarrow> None
      | i # rest \<Rightarrow>
          if i = 0 then map_option (\<lambda>(r, bs'). (RegisterRobot r, bs')) (decode R rest)
          else if i = 1 then map_option (\<lambda>(c, bs'). (EnqueueCommand c, bs')) (decode C rest)
          else if i = 2 then map_option (\<lambda>(r, bs'). (PullNext r, bs')) (decode R rest)
          else None)"

definition encode_template_call :: "u32 codec \<Rightarrow> template_call \<Rightarrow> u8 list" where
  "encode_template_call U call =
     template_call_index call # (case call of DoSomething bn \<Rightarrow> encode U bn | CauseError \<Rightarrow> [])"

definition decode_template_call :: "u32 codec \<Rightarrow> u8 list \<Rightarrow> (template_call \<times> u8 list) option" where
  "decode_template_call U bs =
     (case bs of
        [] \<Rightarrow> None
      | i # rest \<Rightarrow>
          if i = 0 then map_option (\<lambda>(bn, bs'). (DoSomething bn, bs')) (decode U rest)
          else if i = 1 then Some (CauseError, rest)
          else None)"

text \<open>The calls of the runtime. \<open>Call_Sdk\<close> is a call of a pallet of the SDK.\<close>

datatype ('rid, 'loc, 'task, 'x) runtime_call =
    Call_Template template_call
  | Call_Swarm "('rid, 'loc, 'task) swarm_call"
  | Call_Sdk runtime_pallet 'x

primrec call_pallet :: "('rid, 'loc, 'task, 'x) runtime_call \<Rightarrow> runtime_pallet" where
  "call_pallet (Call_Template c) = TemplatePallet"
| "call_pallet (Call_Swarm c) = SwarmRobotPallet"
| "call_pallet (Call_Sdk p x) = p"

primrec wf_call :: "('rid, 'loc, 'task, 'x) runtime_call \<Rightarrow> bool" where
  "wf_call (Call_Template c) = True"
| "wf_call (Call_Swarm c) = True"
| "wf_call (Call_Sdk p x) = (p \<noteq> TemplatePallet \<and> p \<noteq> SwarmRobotPallet)"

definition pallet_of_index :: "u8 \<Rightarrow> runtime_pallet option" where
  "pallet_of_index i = List.find (\<lambda>p. pallet_index p = i) all_pallets"

record ('rid, 'loc, 'task, 'x) call_codecs =
  cc_u32 :: "u32 codec"
  cc_robot :: "'rid codec"
  cc_loc :: "'loc codec"
  cc_task :: "'task codec"
  cc_sdk :: "runtime_pallet \<Rightarrow> 'x codec"

definition encode_call :: "('rid, 'loc, 'task, 'x) call_codecs \<Rightarrow> ('rid, 'loc, 'task, 'x) runtime_call \<Rightarrow> u8 list" where
  "encode_call K call =
     pallet_index (call_pallet call) #
     (case call of
        Call_Template c \<Rightarrow> encode_template_call (cc_u32 K) c
      | Call_Swarm c \<Rightarrow> encode_swarm_call (cc_robot K) (command_codec (cc_loc K) (cc_task K)) c
      | Call_Sdk p x \<Rightarrow> encode (cc_sdk K p) x)"

definition decode_call ::
  "('rid, 'loc, 'task, 'x) call_codecs \<Rightarrow> u8 list \<Rightarrow> (('rid, 'loc, 'task, 'x) runtime_call \<times> u8 list) option" where
  "decode_call K bs =
     (case bs of
        [] \<Rightarrow> None
      | i # rest \<Rightarrow>
          (case pallet_of_index i of
             None \<Rightarrow> None
           | Some p \<Rightarrow>
               if p = TemplatePallet
               then map_option (\<lambda>(c, r). (Call_Template c, r)) (decode_template_call (cc_u32 K) rest)
               else if p = SwarmRobotPallet
               then map_option (\<lambda>(c, r). (Call_Swarm c, r))
                 (decode_swarm_call (cc_robot K) (command_codec (cc_loc K) (cc_task K)) rest)
               else map_option (\<lambda>(x, r). (Call_Sdk p x, r)) (decode (cc_sdk K p) rest)))"

subsection \<open>Lemmas\<close>

lemma coordinate_codec_laws:
  assumes "codec_laws U"
  shows "codec_laws (coordinate_codec U)"
proof
  note laws = codec_laws.decode_encode [OF assms] codec_laws.decode_iff [OF assms]
  fix c bs rest
  show "decode (coordinate_codec U) (encode (coordinate_codec U) c @ rest) = Some (c, rest)"
    by (simp add: coordinate_codec_def laws)
  show "bs = encode (coordinate_codec U) c @ rest" if "decode (coordinate_codec U) bs = Some (c, rest)"
    using that by (auto simp: coordinate_codec_def laws split: option.splits)
  show "length (encode (coordinate_codec U) c) \<le> max_encoded_len (coordinate_codec U)"
    using codec_laws.encode_bound [OF assms] by (simp add: coordinate_codec_def add_mono)
qed

lemma composite_codec_laws:
  assumes "codec_laws N"
  shows "codec_laws (composite_codec N)"
proof
  note laws = codec_laws.decode_encode [OF assms] codec_laws.decode_iff [OF assms]
  fix c bs rest
  show "decode (composite_codec N) (encode (composite_codec N) c @ rest) = Some (c, rest)"
    by (simp add: composite_codec_def laws)
  show "bs = encode (composite_codec N) c @ rest" if "decode (composite_codec N) bs = Some (c, rest)"
    using that by (auto simp: composite_codec_def laws)
  show "length (encode (composite_codec N) c) \<le> max_encoded_len (composite_codec N)"
    using codec_laws.encode_bound [OF assms] by (simp add: composite_codec_def)
qed

lemma command_codec_laws:
  assumes "codec_laws L" and "codec_laws K"
  shows "codec_laws (command_codec L K)"
proof
  note laws = codec_laws.decode_encode [OF assms(1)] codec_laws.decode_encode [OF assms(2)]
    codec_laws.decode_iff [OF assms(1)] codec_laws.decode_iff [OF assms(2)]
  fix c bs rest
  show "decode (command_codec L K) (encode (command_codec L K) c @ rest) = Some (c, rest)"
    by (cases c) (simp_all add: command_codec_def laws)
  show "bs = encode (command_codec L K) c @ rest" if "decode (command_codec L K) bs = Some (c, rest)"
    using that by (auto simp: command_codec_def laws split: list.splits if_splits)
  show "length (encode (command_codec L K) c) \<le> max_encoded_len (command_codec L K)"
    using codec_laws.encode_bound [OF assms(1)] codec_laws.encode_bound [OF assms(2)]
    by (cases c) (simp_all add: command_codec_def le_max_iff_disj)
qed

lemma template_call_iff:
  assumes "codec_laws U"
  shows "decode_template_call U bs = Some (c, rest) \<longleftrightarrow> bs = encode_template_call U c @ rest"
  by (cases c) (auto simp: decode_template_call_def encode_template_call_def codec_laws.decode_iff [OF assms]
      split: list.splits if_splits)

lemma swarm_call_iff:
  assumes "codec_laws R" and "codec_laws C"
  shows "decode_swarm_call R C bs = Some (c, rest) \<longleftrightarrow> bs = encode_swarm_call R C c @ rest"
  by (cases c) (auto simp: decode_swarm_call_def encode_swarm_call_def codec_laws.decode_iff [OF assms(1)]
      codec_laws.decode_iff [OF assms(2)] split: list.splits if_splits)

lemma pallet_of_index_iff: "pallet_of_index i = Some p \<longleftrightarrow> i = pallet_index p"
proof
  assume "pallet_of_index i = Some p"
  then show "i = pallet_index p" by (auto simp: pallet_of_index_def find_Some_iff)
next
  assume "i = pallet_index p"
  then show "pallet_of_index i = Some p"
    by (cases p) (simp_all add: pallet_of_index_def all_pallets_def)
qed

lemma pallet_index_eq: "pallet_index p = pallet_index q \<longleftrightarrow> p = q"
  using pallet_of_index_iff [of "pallet_index p" p] pallet_of_index_iff [of "pallet_index p" q] by auto

text \<open>An enum over all pallets is decoded by the index of the pallet and then as an enum of that pallet.\<close>

lemma outer_decode_iff:
  assumes "\<And>p bs. dec p bs = Some (c, rest) \<longleftrightarrow> p = pal \<and> ok \<and> bs = body @ rest"
  shows "(case bs of [] \<Rightarrow> None | i # bs' \<Rightarrow> (case pallet_of_index i of None \<Rightarrow> None | Some p \<Rightarrow> dec p bs')) = Some (c, rest)
    \<longleftrightarrow> ok \<and> bs = pallet_index pal # body @ rest"
proof (cases bs)
  case (Cons i bs')
  show ?thesis
  proof (cases "pallet_of_index i")
    case None
    then have "i \<noteq> pallet_index pal" using pallet_of_index_iff [of i] by auto
    with None show ?thesis by (simp add: Cons)
  next
    case (Some p)
    then have "i = pallet_index pal \<longleftrightarrow> p = pal" by (simp add: pallet_of_index_iff pallet_index_eq)
    with Some show ?thesis by (auto simp: Cons assms)
  qed
qed simp

text \<open>The codecs of the runtime's own types: robots and tasks are \<open>u32\<close>, locations are coordinates.\<close>

definition runtime_codecs :: "(runtime_pallet \<Rightarrow> 'x codec) \<Rightarrow> (u32, coordinate, u32, 'x) call_codecs" where
  "runtime_codecs sdk =
     \<lparr>cc_u32 = u32_codec, cc_robot = u32_codec, cc_loc = coordinate_codec u32_codec, cc_task = u32_codec,
      cc_sdk = sdk\<rparr>"

definition codecs_lawful :: "('rid, 'loc, 'task, 'x) call_codecs \<Rightarrow> bool" where
  "codecs_lawful K \<longleftrightarrow> codec_laws (cc_u32 K) \<and> codec_laws (cc_robot K) \<and> codec_laws (cc_loc K) \<and>
     codec_laws (cc_task K) \<and> (\<forall>p. codec_laws (cc_sdk K p))"

lemma runtime_codecs_lawful: "\<forall>p. codec_laws (sdk p) \<Longrightarrow> codecs_lawful (runtime_codecs sdk)"
  by (simp add: codecs_lawful_def runtime_codecs_def u32.codec_laws_axioms coordinate_codec_laws)

lemma decode_call_iff:
  assumes "codecs_lawful K"
  shows "decode_call K bs = Some (c, rest) \<longleftrightarrow> wf_call c \<and> bs = encode_call K c @ rest"
proof -
  have C: "codec_laws (command_codec (cc_loc K) (cc_task K))"
    using assms by (simp add: codecs_lawful_def command_codec_laws)
  have laws: "codec_laws (cc_u32 K)" "codec_laws (cc_robot K)" "\<And>p. codec_laws (cc_sdk K p)"
    using assms by (simp_all add: codecs_lawful_def)
  note iffs = template_call_iff [OF laws(1)] swarm_call_iff [OF laws(2) C] codec_laws.decode_iff [OF laws(3)]
  show ?thesis
    unfolding decode_call_def encode_call_def append_Cons
    by (rule outer_decode_iff, cases c) (auto simp: iffs split: if_splits)
qed

subsection \<open>Properties\<close>

text \<open>
  The encoding of commands is reversible and unambiguous: decoding returns the command and leaves the
  bytes after it, only encodings are decoded, distinct commands have distinct encodings, and no
  encoding is longer than \<open>max_encoded_len\<close>, one byte more than the longest argument.
\<close>

lemma command_roundtrip:
  assumes "codec_laws L" and "codec_laws K"
  shows "decode (command_codec L K) (encode (command_codec L K) c @ rest) = Some (c, rest) \<and>
    (decode (command_codec L K) bs = Some (c, rest) \<longleftrightarrow> bs = encode (command_codec L K) c @ rest) \<and>
    (encode (command_codec L K) c = encode (command_codec L K) d \<longleftrightarrow> c = d) \<and>
    length (encode (command_codec L K) c) \<le> 1 + max (max_encoded_len L) (max_encoded_len K)"
  using codec_laws.decode_encode [OF command_codec_laws [OF assms], of c rest]
    codec_laws.decode_iff [OF command_codec_laws [OF assms], of bs c rest]
    codec_laws.encode_inj [OF command_codec_laws [OF assms], of c d]
    codec_laws.encode_bound [OF command_codec_laws [OF assms], of c]
  by (simp add: command_codec_def)

lemma command_roundtrip_example:
  "decode (command_codec (coordinate_codec u32_codec) u32_codec)
     (encode (command_codec (coordinate_codec u32_codec) u32_codec) (GoToLocation \<lparr>coord_x = 10, coord_y = 20\<rparr>) @ [9])
     = Some (GoToLocation \<lparr>coord_x = 10, coord_y = 20\<rparr>, [9]) \<and>
   length (encode (command_codec (coordinate_codec u32_codec) u32_codec) (GoToLocation \<lparr>coord_x = 10, coord_y = 20\<rparr>)) \<le> 9"
  using command_roundtrip [OF coordinate_codec_laws [OF u32.codec_laws_axioms] u32.codec_laws_axioms,
      of "GoToLocation \<lparr>coord_x = 10, coord_y = 20\<rparr>" "[9]"]
  by (simp add: u32_codec_def coordinate_codec_def)

text \<open>
  C14: The encoding of the runtime's calls is reversible and unambiguous: a call decodes to itself, only
  encodings of calls of the runtime decode, and no two calls, of the same or of different pallets, have
  the same encoding.
\<close>

theorem runtime_call_roundtrip:
  assumes "codecs_lawful K"
  shows "(wf_call c \<longrightarrow> decode_call K (encode_call K c @ rest) = Some (c, rest)) \<and>
    (decode_call K bs = Some (c, rest) \<longrightarrow> wf_call c \<and> bs = encode_call K c @ rest) \<and>
    (wf_call c \<and> wf_call d \<and> encode_call K c @ rest = encode_call K d @ rest' \<longrightarrow> c = d \<and> rest = rest')"
proof (intro conjI impI; (elim conjE)?)
  assume "wf_call c"
  then show "decode_call K (encode_call K c @ rest) = Some (c, rest)" by (simp add: decode_call_iff [OF assms])
next
  assume "decode_call K bs = Some (c, rest)"
  then show "wf_call c" and "bs = encode_call K c @ rest" by (simp_all add: decode_call_iff [OF assms])
next
  assume "wf_call c" "wf_call d" "encode_call K c @ rest = encode_call K d @ rest'"
  then have "Some (c, rest) = Some (d, rest')" by (metis decode_call_iff [OF assms])
  then show "c = d" and "rest = rest'" by simp_all
qed

theorem runtime_call_roundtrip_witness:
  "decode_call (runtime_codecs (\<lambda>_. u32_codec)) (encode_call (runtime_codecs (\<lambda>_. u32_codec)) (Call_Swarm (PullNext 7)))
     = Some (Call_Swarm (PullNext 7), []) \<and>
   encode_call (runtime_codecs (\<lambda>_. u32_codec)) (Call_Swarm (PullNext 7)) = [51, 2, 7, 0, 0, 0]"
proof -
  have "codecs_lawful (runtime_codecs (\<lambda>_. u32_codec))"
    by (simp add: runtime_codecs_lawful u32.codec_laws_axioms)
  from runtime_call_roundtrip [OF this, of "Call_Swarm (PullNext 7)" "[]"] show ?thesis
    by (simp add: encode_call_def encode_swarm_call_def runtime_codecs_def u32_codec_def byte_of_def)
qed

end
