(* ===== verification/Storage_Codec.thy ===== *)
theory Storage_Codec
  imports Call_Codec
begin

text \<open>
  The type and the binary format of the command queue, \<open>BoundedVec<Command, MaxGlobalCommands>\<close>. The bound is
  part of the type, as in the source: \<open>bvec\<close> holds the lists no longer than the bound its type argument
  names, so that a value beyond the bound does not exist, and its operations are lifted from lists. The
  encoding is the number of elements followed by the elements; the encoding of the number is a
  parameter, with the compact encoding of the format's specification as the instance.
\<close>

subsection \<open>Bounded vectors\<close>

typedef (overloaded) ('c, 'n::len0) bvec = "{q :: 'c list. length q \<le> LENGTH('n)}"
  morphisms bvec_slice bvec_of_list
  by (rule exI [of _ "[]"]) simp

setup_lifting type_definition_bvec

lift_definition bvec_empty :: "('c, 'n::len0) bvec" is "[]" by simp

lift_definition bvec_push :: "('c, 'n::len0) bvec \<Rightarrow> 'c \<Rightarrow> ('c, 'n) bvec"
  is "\<lambda>q c. if length q < LENGTH('n) then q @ [c] else q" by simp

lift_definition bvec_delete :: "('c, 'n::len0) bvec \<Rightarrow> nat \<Rightarrow> ('c, 'n) bvec"
  is "\<lambda>q i. take i q @ drop (Suc i) q" by simp

definition bvec_ops :: "(('c, 'n::len0) bvec, 'c) bounded_vec" where
  "bvec_ops =
     \<lparr>bv_slice = bvec_slice,
      bv_try_push = (\<lambda>q c. if length (bvec_slice q) < LENGTH('n) then Inr (bvec_push q c) else Inl c),
      bv_remove = (\<lambda>q i. if i < length (bvec_slice q) then Some (bvec_slice q ! i, bvec_delete q i) else None)\<rparr>"

lemma bvec_slice_bound: "length (bvec_slice (q :: ('c, 'n::len0) bvec)) \<le> LENGTH('n)"
  using bvec_slice [of q] by simp

lemma bvec_slice_empty [simp]: "bvec_slice bvec_empty = []"
  by transfer simp

lemma bvec_slice_push [simp]:
  "bvec_slice (bvec_push q c :: ('c, 'n::len0) bvec) = (if length (bvec_slice q) < LENGTH('n) then bvec_slice q @ [c] else bvec_slice q)"
  by transfer simp

lemma bvec_slice_delete [simp]: "bvec_slice (bvec_delete q i) = take i (bvec_slice q) @ drop (Suc i) (bvec_slice q)"
  by transfer simp

lemma bvec_slice_of_list: "length xs \<le> LENGTH('n::len0) \<Longrightarrow> bvec_slice (bvec_of_list xs :: ('c, 'n) bvec) = xs"
  by (simp add: bvec_of_list_inverse)

interpretation bvec: bounded_vec_laws "bvec_ops :: (('c, 'n::len0) bvec, 'c) bounded_vec" "LENGTH('n)"
  by unfold_locales (auto simp: bvec_ops_def)

subsection \<open>The format of a bounded vector\<close>

primrec decode_items :: "'c codec \<Rightarrow> nat \<Rightarrow> u8 list \<Rightarrow> ('c list \<times> u8 list) option" where
  "decode_items C 0 bs = Some ([], bs)"
| "decode_items C (Suc n) bs =
     (case decode C bs of
        None \<Rightarrow> None
      | Some (c, bs1) \<Rightarrow> map_option (\<lambda>(cs, rest). (c # cs, rest)) (decode_items C n bs1))"

text \<open>
  \<open>N\<close> encodes the number of elements. The decoder refuses a number beyond the bound. The longest encoding is
  that of the bound followed by as many elements of the longest encoding.
\<close>

definition queue_codec :: "u32 codec \<Rightarrow> 'c codec \<Rightarrow> ('c, 'n::len0) bvec codec" where
  "queue_codec N C =
     \<lparr>encode = (\<lambda>q. encode N (word_of_nat (length (bvec_slice q))) @ concat (map (encode C) (bvec_slice q))),
      decode = (\<lambda>bs. case decode N bs of
          None \<Rightarrow> None
        | Some (n, bs1) \<Rightarrow>
            if unat n \<le> LENGTH('n)
            then map_option (\<lambda>(cs, rest). (bvec_of_list cs, rest)) (decode_items C (unat n) bs1)
            else None),
      max_encoded_len = length (encode N (word_of_nat LENGTH('n))) + LENGTH('n) * max_encoded_len C\<rparr>"

text \<open>What the format relies on of the encoding of numbers: a smaller number has no longer encoding.\<close>

locale number_codec_laws = codec_laws N for N :: "u32 codec" +
  assumes shorter: "unat a \<le> unat b \<Longrightarrow> length (encode N a) \<le> length (encode N b)"

context codec_laws
begin

lemma decode_items_iff:
  "decode_items C n bs = Some (cs, rest) \<longleftrightarrow> length cs = n \<and> bs = concat (map (encode C) cs) @ rest"
proof (induction n arbitrary: bs cs)
  case (Suc n)
  show ?case
  proof (cases cs)
    case Nil
    then show ?thesis by (auto split: option.splits)
  next
    case (Cons c cs')
    show ?thesis
      by (auto simp: Cons decode_iff Suc.IH split: option.splits dest: encode_prefix_free)
  qed
qed auto

lemma items_bound: "length (concat (map (encode C) cs)) \<le> length cs * max_encoded_len C"
  by (induction cs) (auto intro: add_mono encode_bound)

end

lemma queue_codec_laws:
  assumes "number_codec_laws N" and "codec_laws C" and "LENGTH('n::len0) < 2 ^ 32"
  shows "codec_laws (queue_codec N C :: ('c, 'n) bvec codec)"
proof
  note laws = number_codec_laws.axioms(1) [OF assms(1)]
  note N = codec_laws.decode_encode [OF laws] codec_laws.decode_iff [OF laws]
  note C = codec_laws.decode_items_iff [OF assms(2)]
  let ?Q = "queue_codec N C :: ('c, 'n) bvec codec"
  have len: "unat (word_of_nat (length (bvec_slice q)) :: u32) = length (bvec_slice q)" for q :: "('c, 'n) bvec"
    using bvec_slice_bound [of q] assms(3) by (simp add: unat_of_nat)
  fix q :: "('c, 'n) bvec" and bs rest
  have items: "decode_items C (length (bvec_slice q)) (concat (map (encode C) (bvec_slice q)) @ rest) = Some (bvec_slice q, rest)"
    by (simp add: C)
  show "decode ?Q (encode ?Q q @ rest) = Some (q, rest)"
    by (simp add: queue_codec_def N(1) len items bvec_slice_bound bvec_slice_inverse)
  show "bs = encode ?Q q @ rest" if "decode ?Q bs = Some (q, rest)"
    using that
    by (auto simp: queue_codec_def N(2) C bvec_slice_of_list split: option.splits if_splits)
  have "length (bvec_slice q) * max_encoded_len C \<le> LENGTH('n) * max_encoded_len C"
    by (rule mult_le_mono1) (rule bvec_slice_bound)
  moreover have "length (encode N (word_of_nat (length (bvec_slice q)))) \<le> length (encode N (word_of_nat LENGTH('n)))"
    using len [of q] bvec_slice_bound [of q] assms(3) by (intro number_codec_laws.shorter [OF assms(1)]) (simp add: unat_of_nat)
  ultimately show "length (encode ?Q q) \<le> max_encoded_len ?Q"
    using codec_laws.items_bound [OF assms(2), of "bvec_slice q"]
    by (simp only: queue_codec_def codec.select_convs length_append)
qed

subsection \<open>The compact encoding of the number of elements\<close>

primrec le_bytes :: "nat \<Rightarrow> nat \<Rightarrow> u8 list" where
  "le_bytes 0 n = []"
| "le_bytes (Suc k) n = word_of_nat n # le_bytes k (n div 256)"

primrec le_value :: "u8 list \<Rightarrow> nat" where
  "le_value [] = 0"
| "le_value (b # bs) = unat b + 256 * le_value bs"

text \<open>
  The two low bits of the first byte are the mode: a number below \<open>2 ^ 6\<close>, \<open>2 ^ 14\<close> or \<open>2 ^ 30\<close> is shifted by
  two bits and takes one, two or four bytes; a larger one follows in four bytes of its own. A number is
  only accepted in the shortest mode.
\<close>

definition compact_encode :: "u32 \<Rightarrow> u8 list" where
  "compact_encode x =
     (if unat x < 2 ^ 6 then le_bytes 1 (4 * unat x)
      else if unat x < 2 ^ 14 then le_bytes 2 (4 * unat x + 1)
      else if unat x < 2 ^ 30 then le_bytes 4 (4 * unat x + 2)
      else 3 # le_bytes 4 (unat x))"

definition take_number :: "nat \<Rightarrow> nat \<Rightarrow> nat \<Rightarrow> u8 list \<Rightarrow> (u32 \<times> u8 list) option" where
  "take_number k scale least bs =
     (let n = le_value (take k bs) div scale in
      if k \<le> length bs \<and> least \<le> n then Some (word_of_nat n, drop k bs) else None)"

definition compact_decode :: "u8 list \<Rightarrow> (u32 \<times> u8 list) option" where
  "compact_decode bs =
     (case bs of
        [] \<Rightarrow> None
      | b # rest \<Rightarrow>
          if unat b mod 4 = 0 then take_number 1 4 0 bs
          else if unat b mod 4 = 1 then take_number 2 4 (2 ^ 6) bs
          else if unat b mod 4 = 2 then take_number 4 4 (2 ^ 14) bs
          else if b = 3 then take_number 4 1 (2 ^ 30) rest
          else None)"

definition compact_codec :: "u32 codec" where
  "compact_codec = \<lparr>encode = compact_encode, decode = compact_decode, max_encoded_len = 5\<rparr>"

lemma length_le_bytes [simp]: "length (le_bytes k n) = k"
  by (induction k arbitrary: n) simp_all

lemma unat_u8_of_nat: "unat (word_of_nat n :: u8) = n mod 256"
  by (simp add: unat_of_nat)

lemma le_value_bytes: "le_value (le_bytes k n) = n mod 256 ^ k"
proof (induction k arbitrary: n)
  case (Suc k)
  show ?case
    by (simp add: unat_u8_of_nat Suc.IH mod_mult2_eq)
qed simp

lemma le_bytes_value: "le_bytes (length bs) (le_value bs) = bs"
proof (induction bs)
  case (Cons b bs)
  have b: "unat b < 256" using unsigned_less [of b] by simp
  then have "(unat b + 256 * le_value bs) div 256 = le_value bs" by simp
  moreover have "word_of_nat (unat b + 256 * le_value bs) = b"
  proof -
    have "(256 :: u8) = 0" by simp
    then have "word_of_nat (256 * le_value bs) = (0 :: u8)" by (simp only: of_nat_mult of_nat_numeral mult_zero_left)
    then show ?thesis by (simp only: of_nat_add) simp
  qed
  ultimately show ?case using Cons.IH by simp
qed simp

lemma le_value_less: "le_value bs < 256 ^ length bs"
proof -
  have "le_value bs mod 256 ^ length bs = le_value bs"
    using le_value_bytes [of "length bs" "le_value bs"] by (simp add: le_bytes_value)
  then show ?thesis by (metis mod_less_divisor zero_less_numeral zero_less_power)
qed

lemma take_number_bytes:
  assumes "m < 256 ^ k" and "least \<le> m div c"
  shows "take_number k c least (le_bytes k m @ rest) = Some (word_of_nat (m div c), rest)"
  using assms by (simp add: take_number_def le_value_bytes Let_def)

lemma take_number_SomeD:
  assumes "take_number k c least bs = Some (x, rest)"
  obtains v where "bs = le_bytes k v @ rest" and "v < 256 ^ k" and "least \<le> v div c" and "x = word_of_nat (v div c)"
proof -
  let ?v = "le_value (take k bs)"
  from assms have k: "k \<le> length bs" "least \<le> ?v div c" "x = word_of_nat (?v div c)" "rest = drop k bs"
    by (auto simp: take_number_def Let_def split: if_splits)
  have "le_bytes k ?v = take k bs" using le_bytes_value [of "take k bs"] k(1) by (simp add: min_absorb2)
  then have "bs = le_bytes k ?v @ rest" by (simp add: k(4))
  moreover have "?v < 256 ^ k" using le_value_less [of "take k bs"] k(1) by (simp add: min_absorb2)
  ultimately show thesis using that k(2,3) by blast
qed

lemma le_bytes_Cons: "0 < k \<Longrightarrow> le_bytes k m = word_of_nat m # le_bytes (k - 1) (m div 256)"
  by (cases k) simp_all

lemma first_byte_mode: "unat (word_of_nat m :: u8) mod 4 = m mod 4"
  by (simp add: unat_u8_of_nat mod_mod_cancel)

text \<open>The decoder reads the number in the mode its first byte names.\<close>

lemma compact_decode_mode:
  "0 < k \<Longrightarrow> m mod 4 = 0 \<Longrightarrow> compact_decode (le_bytes k m @ rest) = take_number 1 4 0 (le_bytes k m @ rest)"
  "0 < k \<Longrightarrow> m mod 4 = 1 \<Longrightarrow> compact_decode (le_bytes k m @ rest) = take_number 2 4 (2 ^ 6) (le_bytes k m @ rest)"
  "0 < k \<Longrightarrow> m mod 4 = 2 \<Longrightarrow> compact_decode (le_bytes k m @ rest) = take_number 4 4 (2 ^ 14) (le_bytes k m @ rest)"
  "compact_decode (3 # bs) = take_number 4 1 (2 ^ 30) bs"
  by (simp_all add: compact_decode_def le_bytes_Cons first_byte_mode)

lemma compact_decode_encode: "compact_decode (compact_encode x @ rest) = Some (x, rest)"
proof -
  let ?n = "unat x"
  have n: "?n < 2 ^ 32" using unsigned_less [of x] by simp
  have undo: "word_of_nat ?n = x" by simp
  have shift: "(4 * ?n + 1) div 4 = ?n" "(4 * ?n + 2) div 4 = ?n" "(4 * ?n + 2) mod 4 = 2" by presburger+
  consider (b6) "?n < 2 ^ 6" | (b14) "2 ^ 6 \<le> ?n" "?n < 2 ^ 14" | (b30) "2 ^ 14 \<le> ?n" "?n < 2 ^ 30" | (large) "2 ^ 30 \<le> ?n"
    by linarith
  then show ?thesis
  proof cases
    case b6
    then have "take_number 1 4 0 (le_bytes 1 (4 * ?n) @ rest) = Some (x, rest)"
      by (subst take_number_bytes) (simp_all add: undo)
    with b6 compact_decode_mode(1) [of 1 "4 * ?n" rest] show ?thesis by (simp add: compact_encode_def)
  next
    case b14
    then have "take_number 2 4 (2 ^ 6) (le_bytes 2 (4 * ?n + 1) @ rest) = Some (x, rest)"
      by (subst take_number_bytes) (simp_all only: shift undo, simp_all)
    with b14 show ?thesis by (simp add: compact_encode_def compact_decode_mode(2))
  next
    case b30
    then have "take_number 4 4 (2 ^ 14) (le_bytes 4 (4 * ?n + 2) @ rest) = Some (x, rest)"
      by (subst take_number_bytes) (simp_all only: shift undo, simp_all)
    with b30 compact_decode_mode(3) [of 4 "4 * ?n + 2" rest] shift(3) show ?thesis by (simp add: compact_encode_def)
  next
    case large
    then have "take_number 4 1 (2 ^ 30) (le_bytes 4 ?n @ rest) = Some (x, rest)"
      using n by (subst take_number_bytes) (simp_all add: undo)
    with large show ?thesis by (simp add: compact_encode_def compact_decode_mode(4))
  qed
qed

lemma compact_decode_sound:
  assumes "compact_decode bs = Some (x, rest)"
  shows "bs = compact_encode x @ rest"
proof (cases bs)
  case Nil
  with assms show ?thesis by (simp add: compact_decode_def)
next
  case (Cons b bs')
  have split: "v = 4 * (v div 4) + v mod 4" for v :: nat by simp
  have small: "unat (word_of_nat (v div 4) :: u32) = v div 4" if "v < 256 ^ 4" for v
    using that by (simp add: unat_of_nat)
  have mode: "v mod 4 = unat b mod 4" if "bs = le_bytes k v @ rest" "0 < k" for k v
    using that Cons by (simp add: le_bytes_Cons first_byte_mode)
  consider (m0) "unat b mod 4 = 0" "take_number 1 4 0 bs = Some (x, rest)"
    | (m1) "unat b mod 4 = 1" "take_number 2 4 (2 ^ 6) bs = Some (x, rest)"
    | (m2) "unat b mod 4 = 2" "take_number 4 4 (2 ^ 14) bs = Some (x, rest)"
    | (m3) "b = 3" "take_number 4 1 (2 ^ 30) bs' = Some (x, rest)"
    using assms Cons by (auto simp: compact_decode_def split: if_splits)
  then show ?thesis
  proof cases
    case m0
    from m0(2) obtain v where v: "bs = le_bytes 1 v @ rest" "v < 256" "x = word_of_nat (v div 4)"
      by (auto elim: take_number_SomeD)
    then have "v = 4 * (v div 4)" "v div 4 < 64"
      using mode [of 1 v] split [of v] m0(1) by (simp_all add: less_mult_imp_div_less)
    with v small [of v] show ?thesis by (simp add: compact_encode_def)
  next
    case m1
    from m1(2) obtain v where v: "bs = le_bytes 2 v @ rest" "v < 65536" "2 ^ 6 \<le> v div 4" "x = word_of_nat (v div 4)"
      by (auto elim: take_number_SomeD)
    then have "v = 4 * (v div 4) + 1" "v div 4 < 16384"
      using mode [of 2 v] split [of v] m1(1) by (simp_all add: less_mult_imp_div_less)
    with v small [of v] show ?thesis by (simp add: compact_encode_def)
  next
    case m2
    from m2(2) obtain v where v: "bs = le_bytes 4 v @ rest" "v < 4294967296" "2 ^ 14 \<le> v div 4" "x = word_of_nat (v div 4)"
      by (auto elim: take_number_SomeD)
    then have "v = 4 * (v div 4) + 2" "v div 4 < 1073741824"
      using mode [of 4 v] split [of v] m2(1) by (simp_all add: less_mult_imp_div_less)
    with v small [of v] show ?thesis by (simp add: compact_encode_def)
  next
    case m3
    from m3(2) obtain v where v: "bs' = le_bytes 4 v @ rest" "v < 256 ^ 4" "2 ^ 30 \<le> v" "x = word_of_nat v"
      by (auto elim: take_number_SomeD)
    then have "unat x = v" by (simp add: unat_of_nat)
    with v m3(1) Cons show ?thesis by (simp add: compact_encode_def)
  qed
qed

lemma compact_encode_shorter: "unat a \<le> unat b \<Longrightarrow> length (compact_encode a) \<le> length (compact_encode b)"
  by (simp add: compact_encode_def)

lemma length_compact_encode: "length (compact_encode x) \<le> 5"
  by (simp add: compact_encode_def)

interpretation compact: number_codec_laws compact_codec
  by unfold_locales
     (simp_all add: compact_codec_def compact_decode_encode compact_decode_sound length_compact_encode
        compact_encode_shorter)

end
