(* ===== verification/Runtime_Dispatch.thy ===== *)
theory Runtime_Dispatch
  imports Call_Codec
begin

text \<open>
  The runtime as one machine: a call is handed to the pallet it belongs to, inside a storage layer, over
  one storage that all pallets share (module \<open>runtime\<close> of runtime/src/lib.rs). The pallets of the SDK are
  a parameter. The locale \<open>runtime_frame\<close> says that the storage items of the two pallets of the repository
  are different items; the lemmas show that in any run each of the two pallets is the abstract machine
  of its own calls, those of the run and those that calls of the SDK make inside of them, as
  \<open>Sudo::sudo_as\<close> does. What is assumed of the calls of the SDK is that they change the items of a pallet by such
  calls only; a call of root that writes raw storage keys (\<open>System::set_storage\<close>, \<open>kill_storage\<close>) on them is excluded.
\<close>

subsection \<open>Definitions\<close>

datatype 'e runtime_error = TemplateError template_error | SwarmError swarm_error | SdkError 'e

type_synonym 'e runtime_result = "('e runtime_error dispatch_error, unit) outcome"

definition runtime_dispatch ::
  "('s, 'o, 'acc, 'bn) template_config \<Rightarrow> ('s, 'o, 'acc, 'rid, 'loc, 'task, 'q) swarm_config \<Rightarrow>
     ('o \<Rightarrow> runtime_pallet \<Rightarrow> 'x \<Rightarrow> 's \<Rightarrow> 'e runtime_result \<times> 's) \<Rightarrow> 'o \<Rightarrow>
     ('rid, 'loc, 'task, 'x) runtime_call \<Rightarrow> 's \<Rightarrow> 'e runtime_result \<times> 's" where
  "runtime_dispatch P T sdk origin call =
     with_storage_layer (\<lambda>s.
       case call of
         Call_Template c \<Rightarrow>
           (case template_dispatch P origin c s of
              (r, s') \<Rightarrow> (map_outcome (map_dispatch_error TemplateError) id r, s'))
       | Call_Swarm c \<Rightarrow>
           (case swarm_dispatch T origin c s of
              (r, s') \<Rightarrow> (map_outcome (map_dispatch_error SwarmError) id r, s'))
       | Call_Sdk p x \<Rightarrow> sdk origin p x s)"

text \<open>Calls with their origins, as a block applies them.\<close>

definition runtime_apply ::
  "('s, 'o, 'acc, 'bn) template_config \<Rightarrow> ('s, 'o, 'acc, 'rid, 'loc, 'task, 'q) swarm_config \<Rightarrow>
     ('o \<Rightarrow> runtime_pallet \<Rightarrow> 'x \<Rightarrow> 's \<Rightarrow> 'e runtime_result \<times> 's) \<Rightarrow> 'o \<times> ('rid, 'loc, 'task, 'x) runtime_call \<Rightarrow> 's \<Rightarrow>
     'e runtime_result \<times> 's" where
  "runtime_apply P T sdk = (\<lambda>(origin, call). runtime_dispatch P T sdk origin call)"

subsection \<open>The pallets as parts of the runtime\<close>

text \<open>The state of the template pallet: its storage item and its events.\<close>

definition template_view ::
  "('s, 'o, 'acc, 'bn) template_config \<Rightarrow> ('s \<Rightarrow> ('bn, 'acc) template_event list) \<Rightarrow> 's \<Rightarrow>
     'bn composite_struct option \<times> ('bn, 'acc) template_event list" where
  "template_view P read_events s = (so_get (Something P) s, read_events s)"

definition template_apply ::
  "('s, 'o, 'acc, 'bn) template_config \<Rightarrow> 'o \<times> template_call \<Rightarrow> 's \<Rightarrow> template_result \<times> 's" where
  "template_apply P = (\<lambda>(origin, c). template_dispatch P origin c)"

definition template_spec ::
  "('s, 'o, 'acc, 'bn) template_config \<Rightarrow> 'o \<times> template_call \<Rightarrow>
     'bn composite_struct option \<times> ('bn, 'acc) template_event list \<Rightarrow>
     template_result \<times> 'bn composite_struct option \<times> ('bn, 'acc) template_event list" where
  "template_spec P = (\<lambda>(origin, c) (v, es).
     case tpl_ensure_signed P origin of
       None \<Rightarrow> (Err BadOrigin, v, es)
     | Some who \<Rightarrow>
         (case c of
            DoSomething bn \<Rightarrow>
              (Ok (), Some \<lparr>block_number = bn_from_u32 P bn\<rparr>, es @ [SomethingStored (bn_from_u32 P bn) who])
          | CauseError \<Rightarrow>
              (case v of
                 None \<Rightarrow> (Err (ModuleError NoneValue), v, es)
               | Some old \<Rightarrow>
                   (case bn_checked_add P (block_number old) (bn_one P) of
                      None \<Rightarrow> (Err (ModuleError StorageOverflow), v, es)
                    | Some n \<Rightarrow> (Ok (), Some (old\<lparr>block_number := n\<rparr>), es)))))"

text \<open>The calls of a run that belong to one of the pallets.\<close>

definition swarm_call_of :: "'o \<times> ('rid, 'loc, 'task, 'x) runtime_call \<Rightarrow> ('o \<times> ('rid, 'loc, 'task) swarm_call) option" where
  "swarm_call_of oc = (case snd oc of Call_Swarm c \<Rightarrow> Some (fst oc, c) | _ \<Rightarrow> None)"

definition template_call_of :: "'o \<times> ('rid, 'loc, 'task, 'x) runtime_call \<Rightarrow> ('o \<times> template_call) option" where
  "template_call_of oc = (case snd oc of Call_Template c \<Rightarrow> Some (fst oc, c) | _ \<Rightarrow> None)"

lemma call_of_iff:
  "swarm_call_of oc = Some (ori, c) \<longleftrightarrow> oc = (ori, Call_Swarm c)"
  "template_call_of oc = Some (ori, k) \<longleftrightarrow> oc = (ori, Call_Template k)"
  by (cases oc; cases "snd oc"; auto simp: swarm_call_of_def template_call_of_def)+

text \<open>The calls of a pallet that a call of the SDK makes inside of it; the two pallets make none.\<close>

definition nested_in ::
  "('o \<Rightarrow> runtime_pallet \<Rightarrow> 'x \<Rightarrow> 's \<Rightarrow> 'd list) \<Rightarrow> 'o \<times> ('rid, 'loc, 'task, 'x) runtime_call \<Rightarrow> 's \<Rightarrow> 'd list" where
  "nested_in nested = (\<lambda>(ori, call) s. case call of Call_Sdk p x \<Rightarrow> nested ori p x s | _ \<Rightarrow> [])"

locale runtime_frame =
  swarm: swarm_frame T swarm_events +
  tpl: template_frame P tpl_events bn_val bn_max
  for T :: "('s, 'o, 'acc, 'rid, 'loc, 'task, 'q) swarm_config"
    and swarm_events :: "'s \<Rightarrow> ('rid, 'loc, 'task) swarm_event list"
    and P :: "('s, 'o, 'acc, 'bn) template_config"
    and tpl_events :: "'s \<Rightarrow> ('bn, 'acc) template_event list"
    and bn_val :: "'bn \<Rightarrow> nat" and bn_max :: nat +
  assumes swarm_put: "swarm_view T swarm_events (so_put (Something P) v s) = swarm_view T swarm_events s"
    and swarm_deposit: "swarm_view T swarm_events (tpl_deposit_event P te s) = swarm_view T swarm_events s"
    and tpl_insert: "template_view P tpl_events (sm_insert (RegisteredRobots T) r u s) = template_view P tpl_events s"
    and tpl_put: "template_view P tpl_events (sv_put (GlobalCommandQueue T) q s) = template_view P tpl_events s"
    and tpl_deposit: "template_view P tpl_events (deposit_event T se s) = template_view P tpl_events s"
begin

lemma template_refines:
  "template_spec P (origin, c) (template_view P tpl_events s) =
     (fst (template_dispatch P origin c s), template_view P tpl_events (snd (template_dispatch P origin c s)))"
  by (cases c) (simp_all add: template_spec_def template_view_def template_ops Let_def split: option.split)

lemma template_keeps_swarm:
  "swarm_view T swarm_events (snd (template_dispatch P origin c s)) = swarm_view T swarm_events s"
  by (cases c) (simp_all add: template_ops Let_def swarm_put swarm_deposit split: option.split)

lemma swarm_keeps_template:
  "template_view P tpl_events (snd (swarm_dispatch T origin c s)) = template_view P tpl_events s"
  by (cases c) (simp_all add: swarm_ops Let_def tpl_insert tpl_put tpl_deposit split: option.split sum.split prod.split)

text \<open>The storage layer changes nothing for the two pallets.\<close>

lemma runtime_dispatch_swarm:
  "runtime_dispatch P T sdk origin (Call_Swarm c) s =
     (map_outcome (map_dispatch_error SwarmError) id (fst (swarm_dispatch T origin c s)), snd (swarm_dispatch T origin c s))"
proof (cases "swarm_dispatch T origin c s")
  case (Pair r s')
  with swarm.call.not_Ok_unchanged [of origin c s] show ?thesis
    by (cases r) (simp_all add: runtime_dispatch_def with_storage_layer_def)
qed

lemma runtime_dispatch_template:
  "runtime_dispatch P T sdk origin (Call_Template c) s =
     (map_outcome (map_dispatch_error TemplateError) id (fst (template_dispatch P origin c s)),
      snd (template_dispatch P origin c s))"
proof (cases "template_dispatch P origin c s")
  case (Pair r s')
  with tpl.call.not_Ok_unchanged [of origin c s] show ?thesis
    by (cases r) (simp_all add: runtime_dispatch_def with_storage_layer_def)
qed

end

text \<open>A call of the SDK in its storage layer: what it did is undone if it returns an error.\<close>

lemma runtime_dispatch_sdk:
  "runtime_dispatch P T sdk origin (Call_Sdk p x) s =
     (fst (sdk origin p x s), if is_Err (fst (sdk origin p x s)) then s else snd (sdk origin p x s))"
  by (cases "sdk origin p x s"; cases "fst (sdk origin p x s)") (simp_all add: runtime_dispatch_def with_storage_layer_def)

lemma runtime_dispatch_sdk_view:
  assumes "\<And>s. view (snd (sdk origin p x s)) = view s"
  shows "view (snd (runtime_dispatch P T sdk origin (Call_Sdk p x) s)) = view s"
  using assms [of s] by (simp add: runtime_dispatch_sdk)

context runtime_frame
begin

lemma run_swarm_trace:
  assumes nested: "\<And>ori p x s. (ori, Call_Sdk p x) \<in> set cs \<Longrightarrow> \<not> is_Err (fst (sdk ori p x s)) \<Longrightarrow>
      swarm_view T swarm_events (snd (sdk ori p x s)) =
      swarm_view T swarm_events (snd (run_calls (swarm_apply T) (nested ori p x s) s))"
    and trace: "tr = call_trace swarm_call_of (nested_in nested) (runtime_apply P T sdk) cs s"
    and own: "own = run_calls (spec_dispatch (unat (MaxGlobalCommands T))) (spec_calls T (map snd tr)) (swarm_view T swarm_events s)"
  shows "swarm_view T swarm_events (snd (run_calls (runtime_apply P T sdk) cs s)) = snd own \<and>
    selected_results swarm_call_of cs (fst (run_calls (runtime_apply P T sdk) cs s)) =
      map (map_outcome (map_dispatch_error SwarmError) id) (direct_results tr (fst own))"
proof (rule run_calls_trace [where view = "swarm_view T swarm_events", OF _ _ _ trace])
  let ?view = "swarm_view T swarm_events" and ?lift = "map_outcome (map_dispatch_error SwarmError) id"
  let ?step = "\<lambda>oc. spec_dispatch (unat (MaxGlobalCommands T)) (is_signed T (fst oc), snd oc)"
  show "own = run_calls ?step (map snd tr) (?view s)"
    by (simp add: own spec_calls_def run_calls_map)
  fix c s
  assume "c \<in> set cs"
  {
    assume "swarm_call_of c = None"
    moreover obtain ori call where c: "c = (ori, call)" by (cases c)
    moreover have "?view (snd (run_calls (swarm_apply T) ds s)) = snd (run_calls ?step ds (?view s))" for ds
      using swarm.run_refines [of ds s] by (simp add: spec_calls_def run_calls_map)
    ultimately show "?view (snd (runtime_apply P T sdk c s)) = snd (run_calls ?step
        (if is_Err (fst (runtime_apply P T sdk c s)) then [] else nested_in nested c s) (?view s))"
      using \<open>c \<in> set cs\<close> nested
      by (cases call) (simp_all add: runtime_apply_def nested_in_def swarm_call_of_def runtime_dispatch_template
          template_keeps_swarm runtime_dispatch_sdk)
  }
  fix d
  assume "swarm_call_of c = Some d"
  with swarm.apply_refines [of d s]
  show "?view (snd (runtime_apply P T sdk c s)) = snd (?step d (?view s))"
    "fst (runtime_apply P T sdk c s) = ?lift (fst (?step d (?view s)))"
    by (cases d; simp add: call_of_iff runtime_apply_def runtime_dispatch_swarm swarm_apply_def)+
qed

lemma run_swarm:
  assumes quiet: "\<And>ori p x s. (ori, Call_Sdk p x) \<in> set cs \<Longrightarrow>
      swarm_view T swarm_events (snd (sdk ori p x s)) = swarm_view T swarm_events s"
    and run: "run_calls (runtime_apply P T sdk) cs s = (rs, s')"
    and own: "own = run_calls (spec_dispatch (unat (MaxGlobalCommands T)))
      (spec_calls T (List.map_filter swarm_call_of cs)) (swarm_view T swarm_events s)"
  shows "swarm_view T swarm_events s' = snd own"
    and "selected_results swarm_call_of cs rs = map (map_outcome (map_dispatch_error SwarmError) id) (fst own)"
proof -
  let ?tr = "call_trace swarm_call_of (nested_in (\<lambda>ori p x s. [])) (runtime_apply P T sdk) cs s"
  have none: "nested_in (\<lambda>ori p x s. []) = (\<lambda>c s. [])"
    by (auto simp: nested_in_def fun_eq_iff split: runtime_call.split)
  have tr: "?tr = map (Pair True) (List.map_filter swarm_call_of cs)"
    unfolding none by (rule call_trace_direct)
  have "length (fst own) = length (List.map_filter swarm_call_of cs)"
    by (simp add: own spec_calls_def)
  note direct = direct_results_all [OF this]
  have "own = run_calls (spec_dispatch (unat (MaxGlobalCommands T))) (spec_calls T (map snd ?tr)) (swarm_view T swarm_events s)"
    by (simp add: own tr comp_def)
  from run_swarm_trace [where nested = "\<lambda>ori p x s. []", OF _ refl this] quiet
  show "swarm_view T swarm_events s' = snd own"
    "selected_results swarm_call_of cs rs = map (map_outcome (map_dispatch_error SwarmError) id) (fst own)"
    by (simp_all add: run tr direct)
qed

lemma run_template_trace:
  assumes nested: "\<And>ori p x s. (ori, Call_Sdk p x) \<in> set cs \<Longrightarrow> \<not> is_Err (fst (sdk ori p x s)) \<Longrightarrow>
      template_view P tpl_events (snd (sdk ori p x s)) =
      template_view P tpl_events (snd (run_calls (template_apply P) (nested ori p x s) s))"
    and trace: "tr = call_trace template_call_of (nested_in nested) (runtime_apply P T sdk) cs s"
    and own: "own = run_calls (template_spec P) (map snd tr) (template_view P tpl_events s)"
  shows "template_view P tpl_events (snd (run_calls (runtime_apply P T sdk) cs s)) = snd own \<and>
    selected_results template_call_of cs (fst (run_calls (runtime_apply P T sdk) cs s)) =
      map (map_outcome (map_dispatch_error TemplateError) id) (direct_results tr (fst own))"
proof (rule run_calls_trace [where view = "template_view P tpl_events", OF _ _ _ trace own])
  let ?view = "template_view P tpl_events" and ?lift = "map_outcome (map_dispatch_error TemplateError) id"
  have refines: "?view (snd (template_apply P d s)) = snd (template_spec P d (?view s))"
    "fst (template_apply P d s) = fst (template_spec P d (?view s))" for d s
    by (cases d; simp add: template_apply_def template_refines)+
  fix c s
  assume "c \<in> set cs"
  {
    assume "template_call_of c = None"
    moreover obtain ori call where c: "c = (ori, call)" by (cases c)
    moreover have "?view (snd (run_calls (template_apply P) ds s)) = snd (run_calls (template_spec P) ds (?view s))" for ds
      by (rule run_calls_simulation(2)) (rule refines)+
    ultimately show "?view (snd (runtime_apply P T sdk c s)) = snd (run_calls (template_spec P)
        (if is_Err (fst (runtime_apply P T sdk c s)) then [] else nested_in nested c s) (?view s))"
      using \<open>c \<in> set cs\<close> nested
      by (cases call) (simp_all add: runtime_apply_def nested_in_def template_call_of_def runtime_dispatch_swarm
          swarm_keeps_template runtime_dispatch_sdk)
  }
  fix d
  assume "template_call_of c = Some d"
  with refines [of d s]
  show "?view (snd (runtime_apply P T sdk c s)) = snd (template_spec P d (?view s))"
    "fst (runtime_apply P T sdk c s) = ?lift (fst (template_spec P d (?view s)))"
    by (cases d; simp add: call_of_iff runtime_apply_def runtime_dispatch_template template_apply_def)+
qed

end

text \<open>Both pallets on one storage in memory.\<close>

type_synonym runtime_mem =
  "(u32, rt_command, u32 composite_struct, (u32, coordinate, u32) swarm_event + (u32, nat) template_event) mem_storage"

definition rt_mem_template :: "(runtime_mem, nat raw_origin, nat, u32) template_config" where
  "rt_mem_template = mem_template_config SubstrateWeight (RocksDbWeight pair_weights)"

definition rt_mem_swarm ::
  "(runtime_mem, nat raw_origin, nat, u32, coordinate, u32, rt_command list) swarm_config" where
  "rt_mem_swarm = mem_swarm_config runtime_MaxGlobalCommands"

interpretation both: runtime_frame rt_mem_swarm mem_swarm_events rt_mem_template mem_template_events unat "2 ^ 32 - 1"
  unfolding rt_mem_swarm_def rt_mem_template_def
  by (intro runtime_frame.intro mem_swarm.swarm_frame_axioms tpl32.template_frame_axioms runtime_frame_axioms.intro)
     (simp_all add: swarm_view_def template_view_def queue_of_def mem_swarm_config_def mem_template_config_def
        mem_swarm_events_def mem_template_events_def mem_defs)

text \<open>A run of both pallets for examples; the calls of the SDK do nothing.\<close>

definition idle_sdk :: "nat raw_origin \<Rightarrow> runtime_pallet \<Rightarrow> unit \<Rightarrow> runtime_mem \<Rightarrow> unit runtime_result \<times> runtime_mem" where
  "idle_sdk origin p x s = (Ok (), s)"

definition mixed_calls :: "(nat raw_origin \<times> (u32, coordinate, u32, unit) runtime_call) list" where
  "mixed_calls =
     [(Signed 1, Call_Swarm (RegisterRobot 7)), (Signed 1, Call_Template (DoSomething 5)),
      (Signed 2, Call_Swarm (EnqueueCommand Halt)), (Root, Call_Sdk Balances ()),
      (Signed 1, Call_Template CauseError), (Signed 3, Call_Swarm (PullNext 8))]"

text \<open>
  An SDK with a sudo pallet for examples: the account 9 may dispatch a call of the two pallets as another account, and
  no other account may.
\<close>

definition sudo_sdk ::
  "nat raw_origin \<Rightarrow> runtime_pallet \<Rightarrow> nat \<times> (u32, coordinate, u32, unit) runtime_call \<Rightarrow> runtime_mem \<Rightarrow>
     unit runtime_result \<times> runtime_mem" where
  "sudo_sdk origin p x s =
     (if origin = Signed 9 \<and> p = Sudo
      then (Ok (), snd (runtime_dispatch rt_mem_template rt_mem_swarm idle_sdk (Signed (fst x)) (snd x) s))
      else (Err BadOrigin, s))"

definition sudo_nested ::
  "(nat raw_origin \<times> ('rid, 'loc, 'task, 'y) runtime_call \<Rightarrow> 'd option) \<Rightarrow> nat raw_origin \<Rightarrow> runtime_pallet \<Rightarrow>
     nat \<times> ('rid, 'loc, 'task, 'y) runtime_call \<Rightarrow> 's \<Rightarrow> 'd list" where
  "sudo_nested sel origin p x s = (case sel (Signed (fst x), snd x) of None \<Rightarrow> [] | Some d \<Rightarrow> [d])"

definition sudo_calls ::
  "(nat raw_origin \<times> (u32, coordinate, u32, nat \<times> (u32, coordinate, u32, unit) runtime_call) runtime_call) list" where
  "sudo_calls =
     [(Signed 1, Call_Swarm (RegisterRobot 7)), (Signed 9, Call_Sdk Sudo (2, Call_Swarm (EnqueueCommand Halt))),
      (Signed 4, Call_Sdk Sudo (2, Call_Template (DoSomething 3))), (Signed 9, Call_Sdk Sudo (2, Call_Template (DoSomething 5))),
      (Signed 1, Call_Template CauseError), (Signed 3, Call_Swarm (PullNext 7))]"

lemma sudo_swarm_view:
  "swarm_view rt_mem_swarm mem_swarm_events (snd (sudo_sdk ori p x s)) =
   swarm_view rt_mem_swarm mem_swarm_events (snd (run_calls (swarm_apply rt_mem_swarm) (sudo_nested swarm_call_of ori p x s) s))"
  if "\<not> is_Err (fst (sudo_sdk ori p x s))"
  using that
  by (cases "snd x") (auto simp: sudo_sdk_def sudo_nested_def swarm_call_of_def swarm_apply_def both.runtime_dispatch_swarm
      both.runtime_dispatch_template both.template_keeps_swarm runtime_dispatch_sdk idle_sdk_def split: if_splits)

lemma sudo_template_view:
  "template_view rt_mem_template mem_template_events (snd (sudo_sdk ori p x s)) =
   template_view rt_mem_template mem_template_events
     (snd (run_calls (template_apply rt_mem_template) (sudo_nested template_call_of ori p x s) s))"
  if "\<not> is_Err (fst (sudo_sdk ori p x s))"
  using that
  by (cases "snd x") (auto simp: sudo_sdk_def sudo_nested_def template_call_of_def template_apply_def both.runtime_dispatch_swarm
      both.runtime_dispatch_template both.swarm_keeps_template runtime_dispatch_sdk idle_sdk_def split: if_splits)

lemma sudo_traces:
  "call_trace swarm_call_of (nested_in (sudo_nested swarm_call_of)) (runtime_apply rt_mem_template rt_mem_swarm sudo_sdk) sudo_calls s =
     [(True, Signed 1, RegisterRobot 7), (False, Signed 2, EnqueueCommand Halt), (True, Signed 3, PullNext 7)]"
  "call_trace template_call_of (nested_in (sudo_nested template_call_of)) (runtime_apply rt_mem_template rt_mem_swarm sudo_sdk) sudo_calls s =
     [(False, Signed 2, DoSomething 5), (True, Signed 1, CauseError)]"
  by (simp_all add: sudo_calls_def swarm_call_of_def template_call_of_def nested_in_def sudo_nested_def runtime_apply_def
      runtime_dispatch_sdk sudo_sdk_def)

lemma map_outcome_Panicked: "Panicked = map_outcome f g r \<longleftrightarrow> r = Panicked"
  by (cases r) auto

subsection \<open>Properties\<close>

text \<open>
  C5: In every run of the runtime the registry, the queue and the events of the swarm pallet are those of the
  abstract machine run on the swarm calls alone: those of the run, with the results the machine gives
  them, and those that calls of the SDK that return no error dispatch inside of them (\<open>nested\<close>), in the order they happen. The
  template pallet has no part in it. Assumed of the SDK's calls is that they write the items of the
  pallet by dispatching its calls only, so that root's \<open>System::set_storage\<close> and \<open>kill_storage\<close> on them are excluded.
\<close>

theorem runtime_swarm_isolated:
  assumes "runtime_frame T swarm_events P tpl_events bn_val bn_max"
    and "\<And>ori p x s. (ori, Call_Sdk p x) \<in> set cs \<Longrightarrow> \<not> is_Err (fst (sdk ori p x s)) \<Longrightarrow>
      swarm_view T swarm_events (snd (sdk ori p x s)) =
      swarm_view T swarm_events (snd (run_calls (swarm_apply T) (nested ori p x s) s))"
    and "run_calls (runtime_apply P T sdk) cs s = (rs, s')"
    and "tr = call_trace swarm_call_of (nested_in nested) (runtime_apply P T sdk) cs s"
    and "own = run_calls (spec_dispatch (unat (MaxGlobalCommands T))) (spec_calls T (map snd tr)) (swarm_view T swarm_events s)"
  shows "swarm_view T swarm_events s' = snd own \<and>
    selected_results swarm_call_of cs rs =
      map (map_outcome (map_dispatch_error SwarmError) id) (direct_results tr (fst own))"
  using runtime_frame.run_swarm_trace [OF assms(1,2,4,5)] assms(3) by simp

theorem runtime_swarm_isolated_witness:
  "selected_results swarm_call_of sudo_calls
     (fst (run_calls (runtime_apply rt_mem_template rt_mem_swarm sudo_sdk) sudo_calls mem_empty)) = [Ok (), Ok ()] \<and>
   mem_swarm_events (snd (run_calls (runtime_apply rt_mem_template rt_mem_swarm sudo_sdk) sudo_calls mem_empty)) =
     [CommandEnqueued Halt, CommandPulled 7 Halt None]"
proof -
  let ?run = "run_calls (runtime_apply rt_mem_template rt_mem_swarm sudo_sdk) sudo_calls mem_empty"
  have init: "swarm_view rt_mem_swarm mem_swarm_events mem_empty = spec_init" "unat (MaxGlobalCommands rt_mem_swarm) = 64"
    by (simp_all add: swarm_view_def queue_of_def rt_mem_swarm_def mem_swarm_config_def mem_swarm_events_def
        mem_defs spec_init_def runtime_MaxGlobalCommands_def List.map_filter_def)
  have signed: "is_signed rt_mem_swarm (Signed a)" for a
    by (simp add: is_signed_def rt_mem_swarm_def mem_swarm_config_def)
  have machine: "fst (run_calls (spec_dispatch 64) [(True, RegisterRobot 7), (True, EnqueueCommand Halt), (True, PullNext 7)]
      (spec_init :: (u32, coordinate, u32) swarm_spec)) = [Ok (), Ok (), Ok ()]"
    "log (snd (run_calls (spec_dispatch 64) [(True, RegisterRobot 7), (True, EnqueueCommand Halt), (True, PullNext 7)]
      (spec_init :: (u32, coordinate, u32) swarm_spec))) = [CommandEnqueued Halt, CommandPulled 7 Halt None]"
    by (simp_all add: spec_dispatch_def spec_init_def target_def)
  from runtime_swarm_isolated [where s = mem_empty and cs = sudo_calls and sdk = sudo_sdk and nested = "sudo_nested swarm_call_of",
      OF both.runtime_frame_axioms sudo_swarm_view surjective_pairing refl refl]
  have "log (swarm_view rt_mem_swarm mem_swarm_events (snd ?run)) = [CommandEnqueued Halt, CommandPulled 7 Halt None]"
    "selected_results swarm_call_of sudo_calls (fst ?run) = [Ok (), Ok ()]"
    by (simp_all add: sudo_traces init signed machine [simplified])
  then show ?thesis by (simp add: swarm_view_def)
qed

text \<open>
  C24: In the same way the stored block number and the events of the template pallet, and the results of
  its calls in a run, are those of its abstract machine run on the template calls alone, those of the run and those that
  calls of the SDK that return no error dispatch inside of them; the same is assumed of the SDK's calls and the item of this pallet.
\<close>

theorem runtime_template_isolated:
  assumes "runtime_frame T swarm_events P tpl_events bn_val bn_max"
    and "\<And>ori p x s. (ori, Call_Sdk p x) \<in> set cs \<Longrightarrow> \<not> is_Err (fst (sdk ori p x s)) \<Longrightarrow>
      template_view P tpl_events (snd (sdk ori p x s)) =
      template_view P tpl_events (snd (run_calls (template_apply P) (nested ori p x s) s))"
    and "run_calls (runtime_apply P T sdk) cs s = (rs, s')"
    and "tr = call_trace template_call_of (nested_in nested) (runtime_apply P T sdk) cs s"
    and "own = run_calls (template_spec P) (map snd tr) (template_view P tpl_events s)"
  shows "template_view P tpl_events s' = snd own \<and>
    selected_results template_call_of cs rs =
      map (map_outcome (map_dispatch_error TemplateError) id) (direct_results tr (fst own))"
  using runtime_frame.run_template_trace [OF assms(1,2,4,5)] assms(3) by simp

theorem runtime_template_isolated_witness:
  "template_view rt_mem_template mem_template_events
     (snd (run_calls (runtime_apply rt_mem_template rt_mem_swarm sudo_sdk) sudo_calls mem_empty)) =
     (Some \<lparr>block_number = 6\<rparr>, [SomethingStored 5 2])"
proof -
  have init: "template_view rt_mem_template mem_template_events mem_empty = (None, [])"
    by (simp add: template_view_def rt_mem_template_def mem_template_config_def mem_template_events_def mem_defs
        List.map_filter_def)
  have machine: "snd (run_calls (template_spec rt_mem_template) [(Signed 2, DoSomething 5), (Signed 1, CauseError)] (None, [])) =
      (Some \<lparr>block_number = 6\<rparr>, [SomethingStored 5 2])"
    by (simp add: template_spec_def rt_mem_template_def mem_template_config_def checked_add_def)
  from runtime_template_isolated [where s = mem_empty and cs = sudo_calls and sdk = sudo_sdk and nested = "sudo_nested template_call_of",
      OF both.runtime_frame_axioms sudo_template_view surjective_pairing refl refl]
  show ?thesis by (simp add: sudo_traces init machine [simplified])
qed

text \<open>
  C6: In every run of the runtime from an empty swarm storage, mixed with calls of the SDK's pallets that do not write the
  items of the swarm pallet, the enqueued commands are the pulled ones in the same order followed by those that wait, at
  most 64 wait, every robot that pulled is registered, and no swarm call panics.
\<close>

theorem runtime_swarm_delivery:
  assumes "runtime_frame T swarm_events P tpl_events bn_val bn_max"
    and "T = runtime_swarm_config signed_check registered queue vec_of deposit"
    and "\<And>ori p x s. (ori, Call_Sdk p x) \<in> set cs \<Longrightarrow>
      swarm_view T swarm_events (snd (sdk ori p x s)) = swarm_view T swarm_events s"
    and "storage_empty T swarm_events s" and "run_calls (runtime_apply P T sdk) cs s = (rs, s')"
  shows "enqueued_of (swarm_events s') = pulled_of (swarm_events s') @ queue_of T s' \<and>
    length (queue_of T s') \<le> 64 \<and>
    (\<forall>r \<in> pullers_of (swarm_events s'). sm_contains_key (RegisteredRobots T) r s') \<and>
    Panicked \<notin> set (selected_results swarm_call_of cs rs)"
proof -
  let ?own = "run_calls (spec_dispatch (unat (MaxGlobalCommands T)))
      (spec_calls T (List.map_filter swarm_call_of cs)) (swarm_view T swarm_events s)"
  have cap: "unat (MaxGlobalCommands T) = 64"
    by (simp add: assms(2) runtime_swarm_config_def runtime_MaxGlobalCommands_def)
  note own = runtime_frame.run_swarm [OF assms(1,3,5) refl]
  have "spec_inv 64 (snd ?own)"
    using assms(4) by (simp add: cap spec_run_inv view_empty spec_inv_init)
  then have "spec_inv 64 (swarm_view T swarm_events s')" by (simp only: own(1))
  moreover have "Panicked \<notin> set (selected_results swarm_call_of cs rs)"
    using spec_run_no_panic [of "unat (MaxGlobalCommands T)" "spec_calls T (List.map_filter swarm_call_of cs)"]
    by (auto simp: own(2) map_outcome_Panicked)
  ultimately show ?thesis by (auto simp: spec_inv_def)
qed

theorem runtime_swarm_delivery_witness:
  "enqueued_of (mem_swarm_events (snd (run_calls (runtime_apply rt_mem_template rt_mem_swarm idle_sdk) mixed_calls mem_empty))) =
   pulled_of (mem_swarm_events (snd (run_calls (runtime_apply rt_mem_template rt_mem_swarm idle_sdk) mixed_calls mem_empty))) @
   queue_of rt_mem_swarm (snd (run_calls (runtime_apply rt_mem_template rt_mem_swarm idle_sdk) mixed_calls mem_empty))"
proof -
  have quiet: "swarm_view rt_mem_swarm mem_swarm_events (snd (idle_sdk ori p x s)) = swarm_view rt_mem_swarm mem_swarm_events s"
    for ori p x s by (simp add: idle_sdk_def)
  have config: "rt_mem_swarm = runtime_swarm_config mem_ensure_signed mem_keys_map mem_queue_value
      (\<lambda>n. list_vec (unat n)) (\<lambda>e. mem_deposit (Inl e))"
    by (simp add: rt_mem_swarm_def runtime_swarm_config_def mem_swarm_config_def)
  have "storage_empty rt_mem_swarm mem_swarm_events mem_empty"
    by (simp add: storage_empty_def queue_of_def rt_mem_swarm_def mem_swarm_config_def mem_swarm_events_def mem_defs
        List.map_filter_def)
  from runtime_swarm_delivery [OF both.runtime_frame_axioms config, of mixed_calls idle_sdk mem_empty,
      OF quiet this surjective_pairing]
  show ?thesis by blast
qed

end
