(* ===== verification/Raw_Storage.thy ===== *)
theory Raw_Storage
  imports Storage_Codec Runtime_Dispatch
begin

text \<open>
  The two pallets on the storage the chain really has: one map from keys to values that are both byte
  strings. The key of a storage item is made from the names of pallet and item and, for the registry of
  robots, from the encoded robot; the values are the encodings of the stored types. The hash functions
  are a parameter of which only the lengths and the inequality of two pairs of names are needed.

  From this the laws that the pallets rely on follow: \<open>runtime_frame\<close> holds of the byte store, so that all
  that is proved of the runtime over a lawful storage holds of the bytes. The names are hashed by XXH64,
  which is written out for names of this length as the instance.
\<close>

subsection \<open>Storage keys\<close>

text \<open>The names under which the runtime declares its pallets.\<close>

primrec pallet_name :: "runtime_pallet \<Rightarrow> string" where
  "pallet_name System = ''System''"
| "pallet_name ParachainSystem = ''ParachainSystem''"
| "pallet_name Timestamp = ''Timestamp''"
| "pallet_name ParachainInfo = ''ParachainInfo''"
| "pallet_name WeightReclaim = ''WeightReclaim''"
| "pallet_name Balances = ''Balances''"
| "pallet_name TransactionPayment = ''TransactionPayment''"
| "pallet_name Sudo = ''Sudo''"
| "pallet_name Authorship = ''Authorship''"
| "pallet_name CollatorSelection = ''CollatorSelection''"
| "pallet_name Session = ''Session''"
| "pallet_name Aura = ''Aura''"
| "pallet_name AuraExt = ''AuraExt''"
| "pallet_name XcmpQueue = ''XcmpQueue''"
| "pallet_name PolkadotXcm = ''PolkadotXcm''"
| "pallet_name CumulusXcm = ''CumulusXcm''"
| "pallet_name MessageQueue = ''MessageQueue''"
| "pallet_name TemplatePallet = ''TemplatePallet''"
| "pallet_name SwarmRobotPallet = ''SwarmRobotPallet''"

record hash_api =
  twox_128 :: "string \<Rightarrow> u8 list"
  blake2_128 :: "u8 list \<Rightarrow> u8 list"

definition storage_prefix :: "hash_api \<Rightarrow> runtime_pallet \<Rightarrow> string \<Rightarrow> u8 list" where
  "storage_prefix H p item = twox_128 H (pallet_name p) @ twox_128 H item"

definition Blake2_128Concat :: "hash_api \<Rightarrow> u8 list \<Rightarrow> u8 list" where
  "Blake2_128Concat H bs = blake2_128 H bs @ bs"

definition RegisteredRobots_key :: "hash_api \<Rightarrow> 'rid codec \<Rightarrow> 'rid \<Rightarrow> u8 list" where
  "RegisteredRobots_key H R r =
     storage_prefix H SwarmRobotPallet ''RegisteredRobots'' @ Blake2_128Concat H (encode R r)"

definition GlobalCommandQueue_key :: "hash_api \<Rightarrow> u8 list" where
  "GlobalCommandQueue_key H = storage_prefix H SwarmRobotPallet ''GlobalCommandQueue''"

definition Something_key :: "hash_api \<Rightarrow> u8 list" where
  "Something_key H = storage_prefix H TemplatePallet ''Something''"

locale hash_laws =
  fixes H :: hash_api
  assumes twox_length [simp]: "length (twox_128 H name) = 16"
    and blake_length [simp]: "length (blake2_128 H bs) = 16"
    and pallets_apart: "twox_128 H ''SwarmRobotPallet'' \<noteq> twox_128 H ''TemplatePallet''"
    and items_apart: "twox_128 H ''RegisteredRobots'' \<noteq> twox_128 H ''GlobalCommandQueue''"
begin

lemma prefix_eq_iff:
  "storage_prefix H p i @ bs = storage_prefix H q j @ cs \<longleftrightarrow>
     twox_128 H (pallet_name p) = twox_128 H (pallet_name q) \<and> twox_128 H i = twox_128 H j \<and> bs = cs"
  by (simp add: storage_prefix_def)

text \<open>The encoded robot is part of the key, so that distinct robots have distinct keys whatever their hashes.\<close>

lemma robot_key_inj:
  assumes "codec_laws R"
  shows "RegisteredRobots_key H R r = RegisteredRobots_key H R r' \<longleftrightarrow> r = r'"
  by (auto simp: RegisteredRobots_key_def prefix_eq_iff Blake2_128Concat_def codec_laws.encode_inj [OF assms])

lemma keys_apart:
  "RegisteredRobots_key H R r \<noteq> GlobalCommandQueue_key H"
  "RegisteredRobots_key H R r \<noteq> Something_key H"
  "GlobalCommandQueue_key H \<noteq> Something_key H"
  using prefix_eq_iff [of SwarmRobotPallet "''RegisteredRobots''" _ SwarmRobotPallet "''GlobalCommandQueue''" "[]"]
    prefix_eq_iff [of SwarmRobotPallet "''RegisteredRobots''" _ TemplatePallet "''Something''" "[]"]
    prefix_eq_iff [of SwarmRobotPallet "''GlobalCommandQueue''" "[]" TemplatePallet "''Something''" "[]"]
    pallets_apart items_apart
  by (auto simp: RegisteredRobots_key_def GlobalCommandQueue_key_def Something_key_def)

lemmas keys_apart_both [simp] = keys_apart keys_apart [symmetric]

end

subsection \<open>Storage items on bytes\<close>

text \<open>The store, and the log of the events of the block.\<close>

record 'e raw_state =
  raw_kv :: "u8 list \<Rightarrow> u8 list option"
  raw_log :: "'e list"

definition raw_empty :: "'e raw_state" where
  "raw_empty = \<lparr>raw_kv = (\<lambda>_. None), raw_log = []\<rparr>"

definition raw_get :: "u8 list \<Rightarrow> 'v codec \<Rightarrow> 'e raw_state \<Rightarrow> 'v option" where
  "raw_get key C s = Option.bind (raw_kv s key) (\<lambda>bs. map_option fst (decode C bs))"

definition raw_put :: "u8 list \<Rightarrow> u8 list \<Rightarrow> 'e raw_state \<Rightarrow> 'e raw_state" where
  "raw_put key bs s = s\<lparr>raw_kv := (raw_kv s)(key := Some bs)\<rparr>"

definition raw_value :: "u8 list \<Rightarrow> 'v codec \<Rightarrow> 'v \<Rightarrow> ('e raw_state, 'v) storage_value" where
  "raw_value key C dflt =
     \<lparr>sv_get = (\<lambda>s. case raw_get key C s of None \<Rightarrow> dflt | Some v \<Rightarrow> v),
      sv_put = (\<lambda>v. raw_put key (encode C v))\<rparr>"

definition raw_option :: "u8 list \<Rightarrow> 'v codec \<Rightarrow> ('e raw_state, 'v) storage_option" where
  "raw_option key C = \<lparr>so_get = raw_get key C, so_put = (\<lambda>v. raw_put key (encode C v))\<rparr>"

text \<open>A map to the unit type, whose encoding is empty.\<close>

definition raw_unit_map :: "('k \<Rightarrow> u8 list) \<Rightarrow> ('e raw_state, 'k, unit) storage_map" where
  "raw_unit_map key =
     \<lparr>sm_contains_key = (\<lambda>k s. raw_kv s (key k) \<noteq> None),
      sm_insert = (\<lambda>k _. raw_put (key k) [])\<rparr>"

definition raw_deposit :: "'e \<Rightarrow> 'e raw_state \<Rightarrow> 'e raw_state" where
  "raw_deposit e s = s\<lparr>raw_log := raw_log s @ [e]\<rparr>"

lemma raw_get_put:
  assumes "codec_laws C"
  shows "raw_get key C (raw_put key' (encode C v) s) = (if key = key' then Some v else raw_get key C s)"
  by (simp add: raw_get_def raw_put_def codec_laws.decode_encode_all [OF assms])

lemma raw_get_put_other: "key \<noteq> key' \<Longrightarrow> raw_get key C (raw_put key' bs s) = raw_get key C s"
  by (simp add: raw_get_def raw_put_def)

lemma raw_simps [simp]:
  "raw_get key C (raw_deposit e s) = raw_get key C s"
  "raw_kv (raw_deposit e s) = raw_kv s"
  "raw_log (raw_deposit e s) = raw_log s @ [e]"
  "raw_log (raw_put key bs s) = raw_log s"
  "raw_kv (raw_put key bs s) = (raw_kv s)(key := Some bs)"
  by (simp_all add: raw_get_def raw_deposit_def raw_put_def)

subsection \<open>The pallets of the runtime on bytes\<close>

type_synonym 'acc raw_chain = "(rt_swarm_event + (block_number_t, 'acc) template_event) raw_state"

type_synonym rt_queue = "(rt_command, 64) bvec"

definition rt_command_codec :: "u32 codec \<Rightarrow> rt_command codec" where
  "rt_command_codec U = command_codec (coordinate_codec U) U"

definition raw_swarm ::
  "hash_api \<Rightarrow> u32 codec \<Rightarrow> u32 codec \<Rightarrow>
     ('acc raw_chain, 'acc raw_origin, 'acc, u32, coordinate, u32, rt_queue) swarm_config" where
  "raw_swarm H U N =
     runtime_swarm_config mem_ensure_signed (raw_unit_map (RegisteredRobots_key H U))
       (raw_value (GlobalCommandQueue_key H) (queue_codec N (rt_command_codec U)) bvec_empty)
       (\<lambda>_. bvec_ops) (\<lambda>e. raw_deposit (Inl e))"

definition raw_template ::
  "'w weight_api \<Rightarrow> hash_api \<Rightarrow> u32 codec \<Rightarrow> ('acc raw_chain, 'acc raw_origin, 'acc, block_number_t) template_config" where
  "raw_template W H U =
     runtime_template_config W mem_ensure_signed (raw_option (Something_key H) (composite_codec U))
       (\<lambda>e. raw_deposit (Inr e))"

definition raw_swarm_events :: "'acc raw_chain \<Rightarrow> rt_swarm_event list" where
  "raw_swarm_events s = List.map_filter (\<lambda>e. case e of Inl x \<Rightarrow> Some x | Inr y \<Rightarrow> None) (raw_log s)"

definition raw_template_events :: "'acc raw_chain \<Rightarrow> (block_number_t, 'acc) template_event list" where
  "raw_template_events s = List.map_filter (\<lambda>e. case e of Inl x \<Rightarrow> None | Inr y \<Rightarrow> Some y) (raw_log s)"

lemma raw_config_sel [simp]:
  "ensure_signed (raw_swarm H U N) = mem_ensure_signed"
  "RegisteredRobots (raw_swarm H U N) = raw_unit_map (RegisteredRobots_key H U)"
  "GlobalCommandQueue (raw_swarm H U N) =
     raw_value (GlobalCommandQueue_key H) (queue_codec N (rt_command_codec U)) bvec_empty"
  "QueueVec (raw_swarm H U N) = bvec_ops"
  "deposit_event (raw_swarm H U N) = (\<lambda>e. raw_deposit (Inl e))"
  "unat (MaxGlobalCommands (raw_swarm H U N)) = 64"
  "Something (raw_template W H U) = raw_option (Something_key H) (composite_codec U)"
  "tpl_deposit_event (raw_template W H U) = (\<lambda>e. raw_deposit (Inr e))"
  "tpl_ensure_signed (raw_template W H U) = mem_ensure_signed"
  by (simp_all add: raw_swarm_def runtime_swarm_config_def runtime_MaxGlobalCommands_def raw_template_def
      runtime_template_config_def)

locale raw_runtime = hash_laws H for H :: hash_api +
  fixes U N :: "u32 codec"
  assumes u32_laws: "codec_laws U" and number_laws: "number_codec_laws N"
begin

lemma command_laws: "codec_laws (rt_command_codec U)"
  by (simp add: rt_command_codec_def command_codec_laws coordinate_codec_laws u32_laws)

lemma queue_laws: "codec_laws (queue_codec N (rt_command_codec U) :: rt_queue codec)"
  by (rule queue_codec_laws) (simp_all add: number_laws command_laws)

lemma composite_laws: "codec_laws (composite_codec U)"
  by (rule composite_codec_laws) (rule u32_laws)

lemmas raw_laws = raw_get_put [OF queue_laws] raw_get_put [OF composite_laws] raw_get_put_other
  robot_key_inj [OF u32_laws]

lemmas raw_items = raw_unit_map_def raw_value_def raw_option_def raw_swarm_events_def raw_template_events_def

lemma bvec_ops_laws: "bounded_vec_laws (bvec_ops :: (rt_queue, rt_command) bounded_vec) 64"
  using bvec.bounded_vec_laws_axioms [where 'n = 64] by simp

lemma raw_swarm_frame: "swarm_frame (raw_swarm H U N :: ('acc raw_chain, _, _, _, _, _, _) swarm_config) raw_swarm_events"
proof (intro swarm_frame.intro swarm_frame_axioms.intro)
  show "bounded_vec_laws (QueueVec (raw_swarm H U N)) (unat (MaxGlobalCommands (raw_swarm H U N)))"
    by (simp add: bvec_ops_laws)
qed (unfold_locales, auto simp: raw_items raw_laws)

lemma raw_template_frame:
  "template_frame (raw_template W H U :: ('acc raw_chain, _, _, _) template_config) raw_template_events unat (2 ^ 32 - 1)"
proof (intro template_frame.intro template_frame_axioms.intro)
  note words = tpl32.checked_add_fits [unfolded mem_template_config_def, simplified]
    tpl32.checked_add_overflow [unfolded mem_template_config_def, simplified]
  show "storage_option_laws (Something (raw_template W H U))"
    by unfold_locales (simp add: raw_items raw_laws)
  fix a b :: u32
  show "\<exists>c. bn_checked_add (raw_template W H U) a b = Some c \<and> unat c = unat a + unat b"
    if "unat a + unat b \<le> 2 ^ 32 - 1"
    using that words(1) [of a b] by (simp add: raw_template_def runtime_template_config_def)
  show "bn_checked_add (raw_template W H U) a b = None" if "2 ^ 32 - 1 < unat a + unat b"
    using that words(2) [of a b] by (simp add: raw_template_def runtime_template_config_def)
  show "unat a = unat b \<Longrightarrow> a = b" by (rule unsigned_word_eqI)
  show "unat a \<le> 2 ^ 32 - 1" using unat_le_max [of a] by simp
qed (auto simp: raw_items raw_laws raw_template_def runtime_template_config_def)

end

text \<open>The byte store is a lawful storage of the runtime.\<close>

sublocale raw_runtime \<subseteq> bytes: runtime_frame "raw_swarm H U N" raw_swarm_events "raw_template W H U" raw_template_events
  unat "2 ^ 32 - 1" for W
proof (intro runtime_frame.intro raw_swarm_frame raw_template_frame runtime_frame_axioms.intro)
qed (auto simp: swarm_view_def template_view_def queue_of_def raw_items raw_laws)

text \<open>
  The key of the queue holds nothing, before the first command is enqueued, or the encoding of a queue of the
  type the pallet declares.
\<close>

definition queue_stored :: "hash_api \<Rightarrow> u32 codec \<Rightarrow> u32 codec \<Rightarrow> 'acc raw_chain \<Rightarrow> bool" where
  "queue_stored H U N s \<longleftrightarrow>
     raw_kv s (GlobalCommandQueue_key H) = None \<or>
     (\<exists>q :: rt_queue. raw_kv s (GlobalCommandQueue_key H) = Some (encode (queue_codec N (rt_command_codec U)) q))"

text \<open>A call of another pallet leaves the keys and the events of the swarm pallet alone.\<close>

definition keeps_swarm_keys ::
  "hash_api \<Rightarrow> u32 codec \<Rightarrow> ('acc raw_chain \<Rightarrow> 'r \<times> 'acc raw_chain) \<Rightarrow> bool" where
  "keeps_swarm_keys H U f \<longleftrightarrow>
     (\<forall>s. raw_kv (snd (f s)) (GlobalCommandQueue_key H) = raw_kv s (GlobalCommandQueue_key H) \<and>
          (\<forall>r. raw_kv (snd (f s)) (RegisteredRobots_key H U r) = raw_kv s (RegisteredRobots_key H U r)) \<and>
          raw_swarm_events (snd (f s)) = raw_swarm_events s)"

lemma keeps_swarm_view:
  assumes "keeps_swarm_keys H U f"
  shows "swarm_view (raw_swarm H U N) raw_swarm_events (snd (f s)) = swarm_view (raw_swarm H U N) raw_swarm_events s"
  using assms
  by (simp add: keeps_swarm_keys_def swarm_view_def queue_of_def raw_unit_map_def raw_value_def raw_get_def)

context raw_runtime
begin

lemma bytes_frame:
  "runtime_frame (raw_swarm H U N) raw_swarm_events (raw_template W H U) raw_template_events unat (2 ^ 32 - 1)"
  by (rule bytes.runtime_frame_axioms)

lemma swarm_keeps_queue_stored:
  assumes "queue_stored H U N s"
  shows "queue_stored H U N (snd (swarm_dispatch (raw_swarm H U N) origin c s))"
  using assms
  by (cases c)
     (auto simp: queue_stored_def swarm_ops raw_items Let_def split: option.splits sum.splits prod.splits)

lemma template_keeps_queue_stored:
  assumes "queue_stored H U N s"
  shows "queue_stored H U N (snd (template_dispatch (raw_template W H U) origin c s))"
  using assms
  by (cases c) (auto simp: queue_stored_def template_ops raw_items Let_def split: option.splits)

lemma apply_keeps_queue_stored:
  assumes "queue_stored H U N s" and "\<And>p x. snd oc = Call_Sdk p x \<Longrightarrow> keeps_swarm_keys H U (sdk (fst oc) p x)"
  shows "queue_stored H U N (snd (runtime_apply (raw_template W H U) (raw_swarm H U N) sdk oc s))"
proof (cases oc)
  case (Pair ori call)
  show ?thesis
  proof (cases call)
    case (Call_Sdk p x)
    with assms(2) Pair have "keeps_swarm_keys H U (sdk ori p x)" by simp
    then have "queue_stored H U N (snd (sdk ori p x s))"
      using assms(1) by (simp add: keeps_swarm_keys_def queue_stored_def)
    with assms(1) show ?thesis
      by (auto simp: Pair Call_Sdk runtime_apply_def runtime_dispatch_def with_storage_layer_def
          split: prod.splits outcome.splits)
  qed (use assms(1) in \<open>simp_all add: Pair runtime_apply_def bytes.runtime_dispatch_swarm bytes.runtime_dispatch_template
        swarm_keeps_queue_stored template_keeps_queue_stored\<close>)
qed

lemma run_keeps_queue_stored:
  assumes "queue_stored H U N s" and "\<And>ori p x. (ori, Call_Sdk p x) \<in> set cs \<Longrightarrow> keeps_swarm_keys H U (sdk ori p x)"
  shows "queue_stored H U N (snd (run_calls (runtime_apply (raw_template W H U) (raw_swarm H U N) sdk) cs s))"
  by (rule run_calls_inv [where I = "queue_stored H U N"], rule apply_keeps_queue_stored)
     (use assms in \<open>auto simp: prod_eq_iff\<close>)

lemma run_from_empty_stored:
  assumes "\<And>ori p x. (ori, Call_Sdk p x) \<in> set cs \<Longrightarrow> keeps_swarm_keys H U (sdk ori p x)"
  shows "queue_stored H U N (snd (run_calls (runtime_apply (raw_template W H U) (raw_swarm H U N) sdk) cs raw_empty))"
  by (rule run_keeps_queue_stored) (use assms in \<open>simp_all add: queue_stored_def raw_empty_def\<close>)

lemma max_queue_bytes:
  "length (encode (queue_codec N (rt_command_codec U)) (q :: rt_queue)) \<le>
     length (encode N 64) + 64 * (1 + max (max_encoded_len U + max_encoded_len U) (max_encoded_len U))"
  using codec_laws.encode_bound [OF queue_laws, of q]
  by (simp add: queue_codec_def rt_command_codec_def command_codec_def coordinate_codec_def)

lemma queue_of_stored:
  assumes "raw_kv s (GlobalCommandQueue_key H) = Some (encode (queue_codec N (rt_command_codec U)) q)"
  shows "queue_of (raw_swarm H U N) s = bvec_slice (q :: rt_queue)"
  using assms
  using codec_laws.decode_encode_all [OF queue_laws, of q]
  by (simp add: queue_of_def raw_value_def raw_get_def bvec_ops_def)

lemma raw_view_empty: "swarm_view (raw_swarm H U N) raw_swarm_events raw_empty = spec_init"
  by (simp add: swarm_view_def queue_of_def raw_items raw_empty_def raw_get_def bvec_ops_def spec_init_def
      List.map_filter_def)

end

subsection \<open>XXH64\<close>

text \<open>
  The hash of the names, for inputs of less than 32 bytes: lanes of eight bytes, then one of four, then
  single bytes are mixed into an accumulator, which is scrambled at the end.
\<close>

definition xx_prime1 :: u64 where "xx_prime1 = 11400714785074694791"
definition xx_prime2 :: u64 where "xx_prime2 = 14029467366897019727"
definition xx_prime3 :: u64 where "xx_prime3 = 1609587929392839161"
definition xx_prime4 :: u64 where "xx_prime4 = 9650029242287828579"
definition xx_prime5 :: u64 where "xx_prime5 = 2870177450012600261"

definition xx_rotl :: "nat \<Rightarrow> u64 \<Rightarrow> u64" where
  "xx_rotl r x = push_bit r x OR drop_bit (64 - r) x"

definition xx_word :: "u64 list \<Rightarrow> u64" where
  "xx_word ns = foldr (\<lambda>n v. n + 256 * v) ns 0"

definition xx_lane8 :: "u64 list \<Rightarrow> u64 \<Rightarrow> u64" where
  "xx_lane8 ns acc = xx_rotl 27 (acc XOR xx_rotl 31 (xx_word ns * xx_prime2) * xx_prime1) * xx_prime1 + xx_prime4"

definition xx_lane4 :: "u64 list \<Rightarrow> u64 \<Rightarrow> u64" where
  "xx_lane4 ns acc = xx_rotl 23 (acc XOR xx_word ns * xx_prime1) * xx_prime2 + xx_prime3"

definition xx_byte :: "u64 \<Rightarrow> u64 \<Rightarrow> u64" where
  "xx_byte n acc = xx_rotl 11 (acc XOR n * xx_prime5) * xx_prime1"

fun xx_absorb :: "u64 list \<Rightarrow> u64 \<Rightarrow> u64" where
  "xx_absorb (a # b # c # d # e # f # g # h # ns) acc = xx_absorb ns (xx_lane8 [a, b, c, d, e, f, g, h] acc)"
| "xx_absorb (a # b # c # d # ns) acc = fold xx_byte ns (xx_lane4 [a, b, c, d] acc)"
| "xx_absorb ns acc = fold xx_byte ns acc"

definition xx_avalanche :: "u64 \<Rightarrow> u64" where
  "xx_avalanche a =
     (let b = (a XOR drop_bit 33 a) * xx_prime2; c = (b XOR drop_bit 29 b) * xx_prime3 in c XOR drop_bit 32 c)"

definition xxh64 :: "u64 \<Rightarrow> string \<Rightarrow> u64" where
  "xxh64 seed name = xx_avalanche (xx_absorb (map of_char name) (seed + xx_prime5 + word_of_nat (length name)))"

definition xx_twox_128 :: "string \<Rightarrow> u8 list" where
  "xx_twox_128 name = le_bytes 8 (unat (xxh64 0 name)) @ le_bytes 8 (unat (xxh64 1 name))"

lemmas xx_defs = xx_prime1_def xx_prime2_def xx_prime3_def xx_prime4_def xx_prime5_def xx_rotl_def xx_word_def
  xx_lane8_def xx_lane4_def xx_byte_def xx_avalanche_def xxh64_def of_char_def Let_def

text \<open>A stand-in for BLAKE2, of which only the length is needed, and the functions together.\<close>

definition demo_hashes :: hash_api where
  "demo_hashes = \<lparr>twox_128 = xx_twox_128, blake2_128 = (\<lambda>bs. le_bytes 16 (le_value bs))\<rparr>"

text \<open>The hashes of the name whose prefix every chain has.\<close>

lemma system_hashes: "xxh64 0 ''System'' = 16154507427712707110" "xxh64 1 ''System'' = 17856306969756715132"
  by (simp_all add: xx_defs)

lemma le_bytes_mod_eqD: "le_bytes k m = le_bytes k n \<Longrightarrow> m mod 256 ^ k = n mod 256 ^ k"
  by (metis le_value_bytes)

lemma xx_twox_128_eqD: "xx_twox_128 a = xx_twox_128 b \<Longrightarrow> xxh64 0 a = xxh64 0 b"
proof -
  assume "xx_twox_128 a = xx_twox_128 b"
  then have "unat (xxh64 0 a) mod 256 ^ 8 = unat (xxh64 0 b) mod 256 ^ 8"
    by (intro le_bytes_mod_eqD) (simp add: xx_twox_128_def)
  moreover have "unat x < 256 ^ 8" for x :: u64 using unsigned_less [of x] by simp
  ultimately show ?thesis by (simp only: mod_less word_unat_eq_iff)
qed

lemma names_apart:
  "xxh64 0 ''SwarmRobotPallet'' \<noteq> xxh64 0 ''TemplatePallet''"
  "xxh64 0 ''RegisteredRobots'' \<noteq> xxh64 0 ''GlobalCommandQueue''"
  by (simp_all add: xx_defs)

lemma demo_hash_laws: "hash_laws demo_hashes"
proof
  show "twox_128 demo_hashes ''SwarmRobotPallet'' \<noteq> twox_128 demo_hashes ''TemplatePallet''"
    using names_apart(1) xx_twox_128_eqD unfolding demo_hashes_def hash_api.select_convs by blast
  show "twox_128 demo_hashes ''RegisteredRobots'' \<noteq> twox_128 demo_hashes ''GlobalCommandQueue''"
    using names_apart(2) xx_twox_128_eqD unfolding demo_hashes_def hash_api.select_convs by blast
qed (simp_all add: demo_hashes_def xx_twox_128_def)

interpretation demo_bytes: raw_runtime demo_hashes u32_codec compact_codec
  by (intro raw_runtime.intro raw_runtime_axioms.intro demo_hash_laws u32.codec_laws_axioms
      compact.number_codec_laws_axioms)

text \<open>A run for examples, with calls of the other pallets that do nothing.\<close>

definition byte_calls :: "(nat raw_origin \<times> (u32, coordinate, u32, unit) runtime_call) list" where
  "byte_calls =
     [(Signed 1, Call_Swarm (RegisterRobot 7)), (Signed 2, Call_Swarm (EnqueueCommand (PerformTask 3))),
      (Signed 2, Call_Template (DoSomething 5)), (Root, Call_Sdk Balances ()),
      (Signed 2, Call_Swarm (EnqueueCommand Halt)), (Signed 3, Call_Swarm (PullNext 7))]"

definition idle_raw_sdk :: "nat raw_origin \<Rightarrow> runtime_pallet \<Rightarrow> unit \<Rightarrow> nat raw_chain \<Rightarrow> unit runtime_result \<times> nat raw_chain" where
  "idle_raw_sdk origin p x s = (Ok (), s)"

lemma idle_raw_quiet: "keeps_swarm_keys H U (idle_raw_sdk ori p x)"
  by (simp add: keeps_swarm_keys_def idle_raw_sdk_def)

definition byte_run :: "(nat raw_origin \<times> (u32, coordinate, u32, unit) runtime_call) list \<Rightarrow> unit runtime_result list \<times> nat raw_chain" where
  "byte_run cs =
     run_calls (runtime_apply (raw_template pair_weights demo_hashes u32_codec)
       (raw_swarm demo_hashes u32_codec compact_codec) idle_raw_sdk) cs raw_empty"

subsection \<open>Properties\<close>

text \<open>
  No two things the pallets store share a key: distinct robots have distinct keys, even if their hashes
  collide, because the key ends with the encoded robot; and the keys of the registry, of the queue and of the
  template pallet's item are different. Besides the lengths of the hashes this needs only that two
  pairs of names hash differently, which holds for XXH64.
\<close>

lemma storage_keys_separate:
  assumes "hash_laws H" and "codec_laws R"
  shows "(RegisteredRobots_key H R r = RegisteredRobots_key H R r' \<longleftrightarrow> r = r') \<and>
    RegisteredRobots_key H R r \<noteq> GlobalCommandQueue_key H \<and> RegisteredRobots_key H R r \<noteq> Something_key H \<and>
    GlobalCommandQueue_key H \<noteq> Something_key H"
  by (simp add: hash_laws.robot_key_inj [OF assms] hash_laws.keys_apart [OF assms(1)])

lemma storage_keys_separate_example:
  "RegisteredRobots_key demo_hashes u32_codec 7 \<noteq> RegisteredRobots_key demo_hashes u32_codec 8 \<and>
   RegisteredRobots_key demo_hashes u32_codec 7 \<noteq> GlobalCommandQueue_key demo_hashes"
proof -
  have "(7 :: u32) \<noteq> 8" by simp
  with storage_keys_separate [OF demo_bytes.hash_laws_axioms u32.codec_laws_axioms, of 7 8] show ?thesis by blast
qed

text \<open>
  C7: What the byte store holds of the queue is always well typed: the key of the queue is absent or holds
  exactly the encoding of a queue of at most 64 commands, nothing else decodes there, and it takes at most the
  bytes of the declared maximum (578 for the compact encoding of the length).
\<close>

theorem stored_queue_welltyped:
  assumes "raw_runtime H U N"
    and "\<And>ori p x. (ori, Call_Sdk p x) \<in> set cs \<Longrightarrow> keeps_swarm_keys H U (sdk ori p x)"
    and "run_calls (runtime_apply (raw_template W H U) (raw_swarm H U N) sdk) cs raw_empty = (rs, s')"
    and "raw_kv s' (GlobalCommandQueue_key H) = Some bs"
  shows "\<exists>q :: rt_queue. bs = encode (queue_codec N (rt_command_codec U)) q \<and>
    decode (queue_codec N (rt_command_codec U)) bs = Some (q, []) \<and>
    bvec_slice q = queue_of (raw_swarm H U N) s' \<and> length (bvec_slice q) \<le> 64 \<and>
    length bs \<le> length (encode N 64) + 64 * (1 + max (max_encoded_len U + max_encoded_len U) (max_encoded_len U))"
proof -
  have "queue_stored H U N s'"
    using raw_runtime.run_from_empty_stored [OF assms(1), of cs sdk W] assms(2,3) by simp
  with assms(4) obtain q :: rt_queue where q: "bs = encode (queue_codec N (rt_command_codec U)) q"
    by (auto simp: queue_stored_def)
  have "length (bvec_slice q) \<le> 64" using bvec_slice_bound [of q] by simp
  moreover have "queue_of (raw_swarm H U N) s' = bvec_slice q"
    using assms(4) q by (intro raw_runtime.queue_of_stored [OF assms(1)]) simp
  ultimately show ?thesis
    using q codec_laws.decode_encode_all [OF raw_runtime.queue_laws [OF assms(1)], of q]
      raw_runtime.max_queue_bytes [OF assms(1), of q]
    by (intro exI [of _ q]) simp
qed

theorem stored_queue_welltyped_witness:
  "\<exists>bs. raw_kv (snd (byte_run [(Signed 2, Call_Swarm (EnqueueCommand Halt))])) (GlobalCommandQueue_key demo_hashes) = Some bs \<and>
     length bs \<le> 578"
proof -
  let ?cs = "[(Signed 2, Call_Swarm (EnqueueCommand Halt))] :: (nat raw_origin \<times> (u32, coordinate, u32, unit) runtime_call) list"
  obtain bs where bs: "raw_kv (snd (byte_run ?cs)) (GlobalCommandQueue_key demo_hashes) = Some bs"
    by (simp add: byte_run_def runtime_apply_def demo_bytes.bytes.runtime_dispatch_swarm swarm_ops raw_value_def
        bvec_ops_def raw_get_def raw_empty_def)
  have bounds: "length (encode compact_codec 64) = 2" "max_encoded_len u32_codec = 4"
    by (simp_all add: compact_codec_def compact_encode_def u32_codec_def)
  have "length bs \<le> 578"
    using stored_queue_welltyped [OF demo_bytes.raw_runtime_axioms idle_raw_quiet surjective_pairing bs [unfolded byte_run_def]]
    by (auto simp: bounds)
  with bs show ?thesis by blast
qed

text \<open>
  C4: The runtime on the byte store refines the abstract machine of the swarm pallet: after any run from the
  empty store, the keys of robots that exist are those of the registered robots, the bytes of the queue decode
  to the commands that wait, the results of the swarm calls and the deposited events are those of the
  abstract machine, and the template pallet's calls and those of pallets that write other keys do not
  interfere.
\<close>

theorem runtime_on_bytes:
  assumes "raw_runtime H U N"
    and "\<And>ori p x. (ori, Call_Sdk p x) \<in> set cs \<Longrightarrow> keeps_swarm_keys H U (sdk ori p x)"
    and "run_calls (runtime_apply (raw_template W H U) (raw_swarm H U N) sdk) cs raw_empty = (rs, s')"
    and "own = run_calls (spec_dispatch 64) (spec_calls (raw_swarm H U N) (List.map_filter swarm_call_of cs)) spec_init"
  shows "{r. raw_kv s' (RegisteredRobots_key H U r) \<noteq> None} = robots (snd own) \<and>
    (case raw_kv s' (GlobalCommandQueue_key H) of
       None \<Rightarrow> waiting (snd own) = []
     | Some bs \<Rightarrow> map_option (\<lambda>(q, rest). bvec_slice q) (decode (queue_codec N (rt_command_codec U) :: rt_queue codec) bs)
         = Some (waiting (snd own))) \<and>
    raw_swarm_events s' = log (snd own) \<and>
    selected_results swarm_call_of cs rs = map (map_outcome (map_dispatch_error SwarmError) id) (fst own)"
proof -
  have own: "own = run_calls (spec_dispatch (unat (MaxGlobalCommands (raw_swarm H U N))))
      (spec_calls (raw_swarm H U N) (List.map_filter swarm_call_of cs))
      (swarm_view (raw_swarm H U N) raw_swarm_events raw_empty)"
    by (simp add: assms(4) raw_runtime.raw_view_empty [OF assms(1)])
  have quiet: "swarm_view (raw_swarm H U N) raw_swarm_events (snd (sdk ori p x s)) =
      swarm_view (raw_swarm H U N) raw_swarm_events s" if "(ori, Call_Sdk p x) \<in> set cs" for ori p x s
    using assms(2) [OF that] by (rule keeps_swarm_view)
  have refines: "swarm_view (raw_swarm H U N) raw_swarm_events s' = snd own"
    "selected_results swarm_call_of cs rs = map (map_outcome (map_dispatch_error SwarmError) id) (fst own)"
    by (rule runtime_frame.run_swarm [OF raw_runtime.bytes_frame [OF assms(1)] _ assms(3) own], rule quiet, assumption)+
  have stored: "queue_stored H U N s'"
    using raw_runtime.run_from_empty_stored [OF assms(1), of cs sdk W] assms(2,3) by simp
  note view = swarm_view_eqD [OF refines(1)]
  have "case raw_kv s' (GlobalCommandQueue_key H) of
       None \<Rightarrow> waiting (snd own) = []
     | Some bs \<Rightarrow> map_option (\<lambda>(q, rest). bvec_slice q) (decode (queue_codec N (rt_command_codec U) :: rt_queue codec) bs)
         = Some (waiting (snd own))"
    using stored codec_laws.decode_encode_all [OF raw_runtime.queue_laws [OF assms(1)]]
      raw_runtime.queue_of_stored [OF assms(1)]
    unfolding view(2) [symmetric] queue_stored_def
    by (auto simp: queue_of_def raw_value_def raw_get_def bvec_ops_def)
  moreover have "{r. raw_kv s' (RegisteredRobots_key H U r) \<noteq> None} = robots (snd own)"
    using view(1) by (auto simp: raw_unit_map_def)
  moreover have "raw_swarm_events s' = log (snd own)" by (rule view(3))
  ultimately show ?thesis using refines(2) by blast
qed

theorem runtime_on_bytes_witness:
  "{r. raw_kv (snd (byte_run byte_calls)) (RegisteredRobots_key demo_hashes u32_codec r) \<noteq> None} = {7} \<and>
   selected_results swarm_call_of byte_calls (fst (byte_run byte_calls)) = [Ok (), Ok (), Ok (), Ok ()]"
proof -
  let ?T = "raw_swarm demo_hashes u32_codec compact_codec :: (nat raw_chain, _, _, _, _, _, _) swarm_config"
  have calls: "spec_calls ?T (List.map_filter swarm_call_of byte_calls) =
      [(True, RegisterRobot 7), (True, EnqueueCommand (PerformTask 3)), (True, EnqueueCommand Halt), (True, PullNext 7)]"
    by (simp add: byte_calls_def swarm_call_of_def List.map_filter_def is_signed_def)
  have own: "run_calls (spec_dispatch 64)
      [(True, RegisterRobot 7), (True, EnqueueCommand (PerformTask 3)), (True, EnqueueCommand Halt), (True, PullNext 7)]
      (spec_init :: (u32, coordinate, u32) swarm_spec) =
      ([Ok (), Ok (), Ok (), Ok ()],
       \<lparr>robots = {7}, waiting = [Halt],
        log = [CommandEnqueued (PerformTask 3), CommandEnqueued Halt, CommandPulled 7 (PerformTask 3) None]\<rparr>)"
    by (simp add: prod_eq_iff spec_dispatch_def spec_init_def target_def)
  from runtime_on_bytes [where cs = byte_calls and W = pair_weights and sdk = idle_raw_sdk,
      OF demo_bytes.raw_runtime_axioms idle_raw_quiet surjective_pairing refl, unfolded calls own]
  show ?thesis by (simp add: byte_run_def)
qed

end
