(* ===== verification/Runtime_Apis.thy ===== *)
theory Runtime_Apis
  imports Genesis_Presets
begin

text \<open>
  runtime/src/apis.rs and runtime/src/benchmarks.rs: the interfaces through which the node calls the
  runtime. Most of them pass the call on to the SDK; for these a table says to which of its functions.
  The others are written out: the slot duration and the consensus hook, the version, the genesis
  builder, the two functions for trying a runtime upgrade, and the benchmarks.
\<close>

subsection \<open>Functions passed on to the SDK\<close>

datatype sdk_fn =
    ExecutiveFn string
  | PalletFn runtime_pallet string
  | RuntimeFn string
  | InherentDataFn string
  | SessionKeysFn string

datatype api_fn =
    AuraApi_authorities
  | Core_execute_block
  | Core_initialize_block
  | Metadata_metadata
  | Metadata_metadata_at_version
  | Metadata_metadata_versions
  | RuntimeViewFunction_execute_view_function
  | BlockBuilder_apply_extrinsic
  | BlockBuilder_finalize_block
  | BlockBuilder_inherent_extrinsics
  | BlockBuilder_check_inherents
  | TaggedTransactionQueue_validate_transaction
  | OffchainWorkerApi_offchain_worker
  | SessionKeys_generate_session_keys
  | SessionKeys_decode_session_keys
  | AccountNonceApi_account_nonce
  | TransactionPaymentApi_query_info
  | TransactionPaymentApi_query_fee_details
  | TransactionPaymentApi_query_weight_to_fee
  | TransactionPaymentApi_query_length_to_fee
  | TransactionPaymentCallApi_query_call_info
  | TransactionPaymentCallApi_query_call_fee_details
  | TransactionPaymentCallApi_query_weight_to_fee
  | TransactionPaymentCallApi_query_length_to_fee
  | CollectCollationInfo_collect_collation_info

primrec api_target :: "api_fn \<Rightarrow> sdk_fn" where
  "api_target AuraApi_authorities = PalletFn Aura ''Authorities::get''"
| "api_target Core_execute_block = ExecutiveFn ''execute_block''"
| "api_target Core_initialize_block = ExecutiveFn ''initialize_block''"
| "api_target Metadata_metadata = RuntimeFn ''metadata''"
| "api_target Metadata_metadata_at_version = RuntimeFn ''metadata_at_version''"
| "api_target Metadata_metadata_versions = RuntimeFn ''metadata_versions''"
| "api_target RuntimeViewFunction_execute_view_function = RuntimeFn ''execute_view_function''"
| "api_target BlockBuilder_apply_extrinsic = ExecutiveFn ''apply_extrinsic''"
| "api_target BlockBuilder_finalize_block = ExecutiveFn ''finalize_block''"
| "api_target BlockBuilder_inherent_extrinsics = InherentDataFn ''create_extrinsics''"
| "api_target BlockBuilder_check_inherents = InherentDataFn ''check_extrinsics''"
| "api_target TaggedTransactionQueue_validate_transaction = ExecutiveFn ''validate_transaction''"
| "api_target OffchainWorkerApi_offchain_worker = ExecutiveFn ''offchain_worker''"
| "api_target SessionKeys_generate_session_keys = SessionKeysFn ''generate''"
| "api_target SessionKeys_decode_session_keys = SessionKeysFn ''decode_into_raw_public_keys''"
| "api_target AccountNonceApi_account_nonce = PalletFn System ''account_nonce''"
| "api_target TransactionPaymentApi_query_info = PalletFn TransactionPayment ''query_info''"
| "api_target TransactionPaymentApi_query_fee_details = PalletFn TransactionPayment ''query_fee_details''"
| "api_target TransactionPaymentApi_query_weight_to_fee = PalletFn TransactionPayment ''weight_to_fee''"
| "api_target TransactionPaymentApi_query_length_to_fee = PalletFn TransactionPayment ''length_to_fee''"
| "api_target TransactionPaymentCallApi_query_call_info = PalletFn TransactionPayment ''query_call_info''"
| "api_target TransactionPaymentCallApi_query_call_fee_details = PalletFn TransactionPayment ''query_call_fee_details''"
| "api_target TransactionPaymentCallApi_query_weight_to_fee = PalletFn TransactionPayment ''weight_to_fee''"
| "api_target TransactionPaymentCallApi_query_length_to_fee = PalletFn TransactionPayment ''length_to_fee''"
| "api_target CollectCollationInfo_collect_collation_info = PalletFn ParachainSystem ''collect_collation_info''"

definition runtime_api :: "(sdk_fn \<Rightarrow> 'a \<Rightarrow> ('s, 'e, 'v) exec) \<Rightarrow> api_fn \<Rightarrow> 'a \<Rightarrow> ('s, 'e, 'v) exec" where
  "runtime_api sdk f arg = sdk (api_target f) arg"

subsection \<open>Consensus and version\<close>

definition impl_slot_duration :: "(u64 \<Rightarrow> 'slot) \<Rightarrow> 'slot" where
  "impl_slot_duration from_millis = from_millis SLOT_DURATION"

definition AuraApi_slot_duration :: "(u64 \<Rightarrow> 'slot) \<Rightarrow> 'slot" where
  "AuraApi_slot_duration from_millis = impl_slot_duration from_millis"

text \<open>\<open>hook_can_build_upon\<close> is the function of the SDK's consensus hook, here at the parameters of \<open>ConsensusHook\<close>.\<close>

definition impl_can_build_upon ::
  "(u32 \<Rightarrow> u32 \<Rightarrow> u32 \<Rightarrow> 'hook) \<Rightarrow> ('hook \<Rightarrow> 'hash \<Rightarrow> 'slot \<Rightarrow> 's \<Rightarrow> bool) \<Rightarrow> 'hash \<Rightarrow> 'slot \<Rightarrow> 's \<Rightarrow> bool" where
  "impl_can_build_upon fixed_velocity_hook hook_can_build_upon included_hash slot =
     hook_can_build_upon (ConsensusHook fixed_velocity_hook) included_hash slot"

definition Core_version :: "'api \<Rightarrow> 'api runtime_version" where
  "Core_version runtime_api_versions = VERSION runtime_api_versions"

subsection \<open>Genesis builder\<close>

record ('s, 'e) genesis_helper =
  gh_build_state :: "u8 list \<Rightarrow> ('s, 'e, unit) exec"
  gh_get_preset :: "(string \<Rightarrow> (unit, u8 list option) outcome) \<Rightarrow> string option \<Rightarrow> (unit, u8 list option) outcome"

definition GenesisBuilder_build_state :: "('s, 'e) genesis_helper \<Rightarrow> u8 list \<Rightarrow> ('s, 'e, unit) exec" where
  "GenesisBuilder_build_state H config = gh_build_state H config"

definition GenesisBuilder_get_preset ::
  "('s, 'e) genesis_helper \<Rightarrow> ('k, 'acc, 'aura) genesis_api \<Rightarrow> string option \<Rightarrow> (unit, u8 list option) outcome" where
  "GenesisBuilder_get_preset H G preset_id = gh_get_preset H (get_preset G) preset_id"

definition GenesisBuilder_preset_names :: "('k, 'acc, 'aura) genesis_api \<Rightarrow> string list" where
  "GenesisBuilder_preset_names G = preset_names G"

text \<open>Without a name the helper serves the default genesis configuration, with a name what the given function answers.\<close>

locale genesis_helper_laws =
  fixes H :: "('s, 'e) genesis_helper" and default_json :: "u8 list"
  assumes preset_default: "gh_get_preset H f None = Ok (Some default_json)"
    and preset_named: "gh_get_preset H f (Some preset_id) = f preset_id"

subsection \<open>Trying a runtime upgrade\<close>

text \<open>Both functions unwrap the result of the SDK: an error is a panic.\<close>

definition TryRuntime_on_runtime_upgrade ::
  "('c \<Rightarrow> string + 'w) \<Rightarrow> ('bw \<Rightarrow> 'w) \<Rightarrow> 'bw \<Rightarrow> 'c \<Rightarrow> (string, 'w \<times> 'w) outcome" where
  "TryRuntime_on_runtime_upgrade try_runtime_upgrade max_block block_weights checks =
     (case try_runtime_upgrade checks of
        Inl e \<Rightarrow> Panicked
      | Inr weight \<Rightarrow> Ok (weight, max_block block_weights))"

definition TryRuntime_execute_block ::
  "('block \<Rightarrow> bool \<Rightarrow> bool \<Rightarrow> 'sel \<Rightarrow> string + 'w) \<Rightarrow> 'block \<Rightarrow> bool \<Rightarrow> bool \<Rightarrow> 'sel \<Rightarrow> (string, 'w) outcome" where
  "TryRuntime_execute_block try_execute_block block state_root_check signature_check sel =
     (case try_execute_block block state_root_check signature_check sel of
        Inl e \<Rightarrow> Panicked
      | Inr weight \<Rightarrow> Ok weight)"

subsection \<open>Benchmarks\<close>

text \<open>The list of benchmarks.rs: the name a pallet is benchmarked under and the pallet.\<close>

definition benchmark_list :: "(string \<times> runtime_pallet) list" where
  "benchmark_list =
     [(''frame_system'', System),
      (''pallet_balances'', Balances),
      (''pallet_session'', Session),
      (''pallet_timestamp'', Timestamp),
      (''pallet_message_queue'', MessageQueue),
      (''pallet_sudo'', Sudo),
      (''pallet_collator_selection'', CollatorSelection),
      (''cumulus_pallet_parachain_system'', ParachainSystem),
      (''cumulus_pallet_xcmp_queue'', XcmpQueue),
      (''cumulus_pallet_weight_reclaim'', WeightReclaim)]"

record ('cfg, 'key, 'batch, 'meta, 'info) benchmark_api =
  list_benchmarks :: "(string \<times> runtime_pallet) list \<Rightarrow> bool \<Rightarrow> 'meta list"
  storage_info :: "'info list"
  whitelisted_storage_keys :: "'key list"
  add_benchmarks :: "(string \<times> runtime_pallet) list \<Rightarrow> 'cfg \<Rightarrow> 'key list \<Rightarrow> string + 'batch list"

definition benchmark_metadata ::
  "('cfg, 'key, 'batch, 'meta, 'info) benchmark_api \<Rightarrow> bool \<Rightarrow> 'meta list \<times> 'info list" where
  "benchmark_metadata A extra = (list_benchmarks A benchmark_list extra, storage_info A)"

definition setup_set_code_requirements :: "(u32 \<Rightarrow> 's \<Rightarrow> 's) \<Rightarrow> u8 list \<Rightarrow> ('s, 'e, unit) exec" where
  "setup_set_code_requirements initialize_for_set_code_benchmark code s =
     (Ok (), initialize_for_set_code_benchmark (word_of_nat (length code)) s)"

definition dispatch_benchmark ::
  "('cfg, 'key, 'batch, 'meta, 'info) benchmark_api \<Rightarrow> 'cfg \<Rightarrow> (string, 'batch list) outcome" where
  "dispatch_benchmark A config =
     (case add_benchmarks A benchmark_list config (whitelisted_storage_keys A) of
        Inl e \<Rightarrow> Err e
      | Inr batches \<Rightarrow>
          if batches = [] then Err ''Benchmark not found for this pallet.'' else Ok batches)"

text \<open>
  \<open>requested\<close> is the name of the pallet a configuration asks for; batches come only from the pallets of the
  list that have this name.
\<close>

locale benchmark_laws =
  fixes A :: "('cfg, 'key, 'batch, 'meta, 'info) benchmark_api" and requested :: "'cfg \<Rightarrow> string"
  assumes unlisted: "requested config \<notin> fst ` set pallets \<Longrightarrow> add_benchmarks A pallets config keys = Inr []"
begin

lemma dispatch_unlisted:
  "requested config \<notin> fst ` set benchmark_list \<Longrightarrow>
     dispatch_benchmark A config = Err ''Benchmark not found for this pallet.''"
  by (simp add: dispatch_benchmark_def unlisted)

end

subsection \<open>Lemmas\<close>

text \<open>The two interfaces for fees answer their common questions by the same function.\<close>

lemma payment_apis_agree:
  "runtime_api sdk TransactionPaymentApi_query_weight_to_fee = runtime_api sdk TransactionPaymentCallApi_query_weight_to_fee"
  "runtime_api sdk TransactionPaymentApi_query_length_to_fee = runtime_api sdk TransactionPaymentCallApi_query_length_to_fee"
  by (simp_all add: fun_eq_iff runtime_api_def)

lemma benchmark_list_pallets: "distinct (map fst benchmark_list) \<and> set (map snd benchmark_list) \<subseteq> set all_pallets"
  by (simp add: benchmark_list_def all_pallets_def)

definition direct_helper :: "u8 list \<Rightarrow> (unit, unit) genesis_helper" where
  "direct_helper default_json =
     \<lparr>gh_build_state = (\<lambda>_ s. (Ok (), s)),
      gh_get_preset = (\<lambda>f preset_id. case preset_id of None \<Rightarrow> Ok (Some default_json) | Some i \<Rightarrow> f i)\<rparr>"

interpretation direct: genesis_helper_laws "direct_helper default_json" default_json for default_json
  by unfold_locales (simp_all add: direct_helper_def)

text \<open>One batch per pallet of the requested name, for examples.\<close>

definition name_benchmarks :: "(string, unit, runtime_pallet, string, unit) benchmark_api" where
  "name_benchmarks =
     \<lparr>list_benchmarks = (\<lambda>ps extra. map fst ps), storage_info = [], whitelisted_storage_keys = [],
      add_benchmarks = (\<lambda>ps config keys. Inr (map snd (filter (\<lambda>(n, p). n = config) ps)))\<rparr>"

interpretation by_name: benchmark_laws name_benchmarks "\<lambda>config. config"
  by unfold_locales (force simp: name_benchmarks_def filter_empty_conv)

subsection \<open>Properties\<close>

text \<open>
  The genesis builder of the runtime serves exactly the presets it lists, each as the genesis
  configuration of the test network, serves the default configuration without a name and nothing for
  any other name, and does not panic as long as the serialisation succeeds.
\<close>

lemma genesis_builder_presets:
  assumes "genesis_helper_laws H default_json" and "\<And>g. to_json G g \<noteq> None"
  shows "GenesisBuilder_get_preset H G None = Ok (Some default_json) \<and>
    GenesisBuilder_get_preset H G (Some preset_id) =
      (if preset_id \<in> set (GenesisBuilder_preset_names G) then Ok (to_json G (local_testnet_genesis G)) else Ok None)"
  using get_preset_served [OF assms(2)]
  by (simp add: GenesisBuilder_get_preset_def GenesisBuilder_preset_names_def
      genesis_helper_laws.preset_default [OF assms(1)] genesis_helper_laws.preset_named [OF assms(1)])

lemma genesis_builder_presets_example:
  "GenesisBuilder_get_preset (direct_helper [9]) demo_genesis_api (Some ''development'') = Ok (Some [6]) \<and>
   GenesisBuilder_get_preset (direct_helper [9]) demo_genesis_api (Some ''live'') = Ok None \<and>
   GenesisBuilder_get_preset (direct_helper [9]) demo_genesis_api None = Ok (Some [9])"
proof -
  have json: "\<And>g. to_json demo_genesis_api g \<noteq> None"
    by (simp add: demo_genesis_api_def)
  have "set (GenesisBuilder_preset_names demo_genesis_api) = {''development'', ''local_testnet''}"
    "to_json demo_genesis_api (local_testnet_genesis demo_genesis_api) = Some [6]"
    by (simp_all add: GenesisBuilder_preset_names_def preset_names_def demo_genesis_api_def
        local_testnet_genesis_def testnet_genesis_def)
  then show ?thesis
    using genesis_builder_presets [OF direct.genesis_helper_laws_axioms json, of "[9]" "''development''"]
      genesis_builder_presets [OF direct.genesis_helper_laws_axioms json, of "[9]" "''live''"]
    by simp
qed

text \<open>
  C40: A request to benchmark a pallet that is not in the runtime's list fails with \<open>Benchmark not found for
  this pallet\<close>; this is so for both pallets of the repository, although the template pallet
  has benchmarks.
\<close>

theorem benchmark_not_found:
  assumes "benchmark_laws A requested"
  shows "(requested config \<notin> fst ` set benchmark_list \<longrightarrow>
      dispatch_benchmark A config = Err ''Benchmark not found for this pallet.'') \<and>
    TemplatePallet \<notin> snd ` set benchmark_list \<and> SwarmRobotPallet \<notin> snd ` set benchmark_list \<and>
    (requested config \<in> {''pallet_parachain_template'', ''swarm_robot_pallet''} \<longrightarrow>
      dispatch_benchmark A config = Err ''Benchmark not found for this pallet.'')"
proof -
  have "''pallet_parachain_template'' \<notin> fst ` set benchmark_list" "''swarm_robot_pallet'' \<notin> fst ` set benchmark_list"
    by (simp_all add: benchmark_list_def)
  moreover have "TemplatePallet \<notin> snd ` set benchmark_list" "SwarmRobotPallet \<notin> snd ` set benchmark_list"
    by (simp_all add: benchmark_list_def)
  moreover note benchmark_laws.dispatch_unlisted [OF assms, of config]
  ultimately show ?thesis by auto
qed

theorem benchmark_not_found_witness:
  "dispatch_benchmark name_benchmarks ''pallet_parachain_template'' = Err ''Benchmark not found for this pallet.''"
  using benchmark_not_found [OF by_name.benchmark_laws_axioms, of "''pallet_parachain_template''"] by simp

end
