(* ===== verification/Block_Execution.thy ===== *)
theory Block_Execution
  imports Raw_Storage Runtime_Apis
begin

text \<open>
  Blocks: through the runtime's interface (runtime/src/apis.rs) the node builds a block, by
  initialising it, applying its extrinsics one by one and finalising it, and imports a block, by executing it as a
  whole; the functions called there are those of \<open>Executive\<close> (runtime/src/lib.rs), which belongs to the SDK. Initialising
  or executing a block clears the events of the block before, so that the log of events of the chain is the sequence of
  the logs of its blocks. The changes of a call that panics, as the execution of an invalid block does, are
  discarded by the node.

  A step relation ranges over all sequences of these calls, also those that are no complete blocks, and keeps the
  events of the past; the lemmas carry the invariant of the swarm pallet through it. A reference
  executive decodes its extrinsics from bytes and runs on the byte store.
\<close>

subsection \<open>The calls that make a block\<close>

datatype ('h, 'ux) block_op = ExecuteBlock 'h "'ux list" | InitializeBlock 'h | ApplyExtrinsic 'ux | FinalizeBlock

datatype ('h, 'ux) api_arg = BlockArg 'h "'ux list" | HeaderArg 'h | ExtrinsicArg 'ux | NoArg

primrec block_api :: "('h, 'ux) block_op \<Rightarrow> api_fn \<times> ('h, 'ux) api_arg" where
  "block_api (ExecuteBlock h uxs) = (Core_execute_block, BlockArg h uxs)"
| "block_api (InitializeBlock h) = (Core_initialize_block, HeaderArg h)"
| "block_api (ApplyExtrinsic ux) = (BlockBuilder_apply_extrinsic, ExtrinsicArg ux)"
| "block_api FinalizeBlock = (BlockBuilder_finalize_block, NoArg)"

definition block_call ::
  "(sdk_fn \<Rightarrow> ('h, 'ux) api_arg \<Rightarrow> ('s, 'e, 'v) exec) \<Rightarrow> ('h, 'ux) block_op \<Rightarrow> ('s, 'e, 'v) exec" where
  "block_call sdk op = (case block_api op of (f, arg) \<Rightarrow> runtime_api sdk f arg)"

text \<open>The events of all blocks before the current one.\<close>

primrec past_events :: "('h, 'ux) block_op \<Rightarrow> 'ev list \<Rightarrow> 'ev list \<Rightarrow> 'ev list" where
  "past_events (ExecuteBlock h uxs) past current = past @ current"
| "past_events (InitializeBlock h) past current = past @ current"
| "past_events (ApplyExtrinsic ux) past current = past"
| "past_events FinalizeBlock past current = past"

text \<open>A step of the chain: a call, of which nothing remains if it panics.\<close>

definition panics :: "(sdk_fn \<Rightarrow> ('h, 'ux) api_arg \<Rightarrow> ('s, 'e, 'v) exec) \<Rightarrow> ('h, 'ux) block_op \<Rightarrow> 's \<Rightarrow> bool" where
  "panics sdk op s = (case fst (block_call sdk op s) of Panicked \<Rightarrow> True | _ \<Rightarrow> False)"

definition block_step ::
  "(sdk_fn \<Rightarrow> ('h, 'ux) api_arg \<Rightarrow> ('s, 'e, 'v) exec) \<Rightarrow> ('s \<Rightarrow> 'ev list) \<Rightarrow> ('h, 'ux) block_op \<Rightarrow> 's \<times> 'ev list \<Rightarrow> 's \<times> 'ev list" where
  "block_step sdk read_events op = (\<lambda>(s, past).
     if panics sdk op s then (s, past)
     else (snd (block_call sdk op s), past_events op past (read_events s)))"

inductive chain_reach ::
  "(sdk_fn \<Rightarrow> ('h, 'ux) api_arg \<Rightarrow> ('s, 'e, 'v) exec) \<Rightarrow> ('s \<Rightarrow> 'ev list) \<Rightarrow> 's \<Rightarrow> 's \<Rightarrow> 'ev list \<Rightarrow> bool"
  for sdk read_events s0
where
  genesis: "chain_reach sdk read_events s0 s0 []"
| step: "chain_reach sdk read_events s0 s past \<Longrightarrow> block_step sdk read_events op (s, past) = (s', past') \<Longrightarrow>
    chain_reach sdk read_events s0 s' past'"

primrec chain_run ::
  "(sdk_fn \<Rightarrow> ('h, 'ux) api_arg \<Rightarrow> ('s, 'e, 'v) exec) \<Rightarrow> ('s \<Rightarrow> 'ev list) \<Rightarrow> ('h, 'ux) block_op list \<Rightarrow> 's \<times> 'ev list \<Rightarrow>
     's \<times> 'ev list" where
  "chain_run sdk read_events [] sp = sp"
| "chain_run sdk read_events (op # ops) sp = chain_run sdk read_events ops (block_step sdk read_events op sp)"

lemma chain_run_snoc:
  "chain_run sdk read_events (ops @ [op]) sp = block_step sdk read_events op (chain_run sdk read_events ops sp)"
  by (induction ops arbitrary: sp) simp_all

lemma chain_run_reaches:
  "chain_run sdk read_events ops (s0, []) = (s, past) \<Longrightarrow> chain_reach sdk read_events s0 s past"
proof (induction ops arbitrary: s past rule: rev_induct)
  case Nil
  then show ?case by (simp add: genesis)
next
  case (snoc op ops)
  then show ?case
    by (cases "chain_run sdk read_events ops (s0, [])") (auto simp: chain_run_snoc intro: step)
qed

text \<open>The reachable states are exactly those that some sequence of calls computes.\<close>

lemma chain_reach_iff_run:
  "chain_reach sdk read_events s0 s past \<longleftrightarrow> (\<exists>ops. chain_run sdk read_events ops (s0, []) = (s, past))"
proof
  assume "chain_reach sdk read_events s0 s past"
  then show "\<exists>ops. chain_run sdk read_events ops (s0, []) = (s, past)"
  proof induction
    case genesis
    show ?case by (rule exI [of _ "[]"]) simp
  next
    case (step s past op s' past')
    then obtain ops where "chain_run sdk read_events ops (s0, []) = (s, past)" by blast
    with step.hyps(2) show ?case by (intro exI [of _ "ops @ [op]"]) (simp add: chain_run_snoc)
  qed
qed (auto intro: chain_run_reaches)

text \<open>The calls of the swarm pallet that are dispatched during a sequence of calls of the executive.\<close>

primrec chain_calls ::
  "(sdk_fn \<Rightarrow> ('h, 'ux) api_arg \<Rightarrow> ('s, 'e, 'v) exec) \<Rightarrow> (('h, 'ux) block_op \<Rightarrow> 's \<Rightarrow> 'c list) \<Rightarrow> ('h, 'ux) block_op list \<Rightarrow> 's
     \<Rightarrow> 'c list" where
  "chain_calls sdk swarm_calls [] s = []"
| "chain_calls sdk swarm_calls (op # ops) s =
     (if panics sdk op s then chain_calls sdk swarm_calls ops s
      else swarm_calls op s @ chain_calls sdk swarm_calls ops (snd (block_call sdk op s)))"

subsection \<open>What the runtime relies on of its executive\<close>

text \<open>
  During each of the calls that does not panic the executive dispatches some calls of the swarm pallet, \<open>swarm_calls\<close>: that
  of an extrinsic which passes its checks, or calls inside of it, or those of messages from other chains. The items of
  the swarm pallet change by these dispatches alone, except that initialising or executing a block first clears the
  events (\<open>reset_events\<close>); calls of root that write raw storage keys on the items are excluded. Nothing is assumed of what the dispatched calls do: that is the code of the pallet.
\<close>

locale executive_laws = swarm_frame T read_events
  for T :: "('s, 'o, 'acc, 'rid, 'loc, 'task, 'q) swarm_config"
    and read_events :: "'s \<Rightarrow> ('rid, 'loc, 'task) swarm_event list" +
  fixes sdk :: "sdk_fn \<Rightarrow> ('h, 'ux) api_arg \<Rightarrow> ('s, 'e, 'v) exec"
    and swarm_calls :: "('h, 'ux) block_op \<Rightarrow> 's \<Rightarrow> ('o \<times> ('rid, 'loc, 'task) swarm_call) list"
    and reset_events :: "'s \<Rightarrow> 's"
  assumes reset: "swarm_view T read_events (reset_events s) = (swarm_view T read_events s)\<lparr>log := []\<rparr>"
    and execute: "fst (sdk (ExecutiveFn ''execute_block'') (BlockArg h uxs) s) \<noteq> Panicked \<Longrightarrow>
      swarm_view T read_events (snd (sdk (ExecutiveFn ''execute_block'') (BlockArg h uxs) s)) =
      swarm_view T read_events (snd (run_calls (swarm_apply T) (swarm_calls (ExecuteBlock h uxs) s) (reset_events s)))"
    and initialize: "fst (sdk (ExecutiveFn ''initialize_block'') (HeaderArg h) s) \<noteq> Panicked \<Longrightarrow>
      swarm_view T read_events (snd (sdk (ExecutiveFn ''initialize_block'') (HeaderArg h) s)) =
      swarm_view T read_events (snd (run_calls (swarm_apply T) (swarm_calls (InitializeBlock h) s) (reset_events s)))"
    and apply_extrinsic: "fst (sdk (ExecutiveFn ''apply_extrinsic'') (ExtrinsicArg ux) s) \<noteq> Panicked \<Longrightarrow>
      swarm_view T read_events (snd (sdk (ExecutiveFn ''apply_extrinsic'') (ExtrinsicArg ux) s)) =
      swarm_view T read_events (snd (run_calls (swarm_apply T) (swarm_calls (ApplyExtrinsic ux) s) s))"
    and finalize: "fst (sdk (ExecutiveFn ''finalize_block'') NoArg s) \<noteq> Panicked \<Longrightarrow>
      swarm_view T read_events (snd (sdk (ExecutiveFn ''finalize_block'') NoArg s)) =
      swarm_view T read_events (snd (run_calls (swarm_apply T) (swarm_calls FinalizeBlock s) s))"

text \<open>The abstract machine does not look at the log, so that it may be given a past.\<close>

definition with_past :: "('rid, 'loc, 'task) swarm_event list \<Rightarrow> ('rid, 'loc, 'task) swarm_spec \<Rightarrow> ('rid, 'loc, 'task) swarm_spec" where
  "with_past past a = a\<lparr>log := past @ log a\<rparr>"

lemma with_past_sel [simp]:
  "robots (with_past past a) = robots a" "waiting (with_past past a) = waiting a" "log (with_past past a) = past @ log a"
  by (simp_all add: with_past_def)

lemma spec_dispatch_past:
  "spec_dispatch cap c (with_past past a) =
     (fst (spec_dispatch cap c a), with_past past (snd (spec_dispatch cap c a)))"
  by (cases "snd c") (auto simp: spec_dispatch_def with_past_def split: list.split)

lemma spec_run_past:
  "run_calls (spec_dispatch cap) cs (with_past past a) =
     (fst (run_calls (spec_dispatch cap) cs a), with_past past (snd (run_calls (spec_dispatch cap) cs a)))"
  by (induction cs arbitrary: a) (simp_all add: prod_eq_iff spec_dispatch_past)

context executive_laws
begin

text \<open>What the dispatched calls do is known from the pallet: they are steps of its abstract machine.\<close>

lemma run_view: "view (snd (run_calls (swarm_apply T) cs s)) = snd (run_calls (spec_dispatch cap) (spec_calls T cs) (view s))"
  by (simp add: run_refines)

lemma block_call_view:
  assumes "\<not> panics sdk op s"
  shows "with_past (past_events op past (read_events s)) (view (snd (block_call sdk op s))) =
     snd (run_calls (spec_dispatch cap) (spec_calls T (swarm_calls op s)) (with_past past (view s)))"
proof -
  have shift: "with_past past (view s) = with_past (past @ read_events s) ((view s)\<lparr>log := []\<rparr>)"
    by (simp add: with_past_def)
  have ok: "fst (block_call sdk op s) \<noteq> Panicked" using assms by (auto simp: panics_def)
  show ?thesis
  proof (cases op)
    case (ExecuteBlock h uxs)
    with ok show ?thesis
      unfolding shift spec_run_past by (simp add: block_call_def runtime_api_def execute run_view reset)
  next
    case (InitializeBlock h)
    with ok show ?thesis
      unfolding shift spec_run_past by (simp add: block_call_def runtime_api_def initialize run_view reset)
  qed (use ok in \<open>simp_all add: block_call_def runtime_api_def apply_extrinsic finalize spec_run_past run_view\<close>)
qed

text \<open>Over any sequence of blocks the pallet is its abstract machine, run on all calls dispatched in them.\<close>

lemma chain_run_view:
  assumes "chain_run sdk read_events ops (s, past) = (s', past')"
  shows "with_past past' (view s') =
    snd (run_calls (spec_dispatch cap) (spec_calls T (chain_calls sdk swarm_calls ops s)) (with_past past (view s)))"
  using assms
  by (induction ops arbitrary: s past)
     (simp_all add: block_step_def block_call_view spec_calls_def run_calls_append split_beta split: if_splits)

lemma block_step_inv:
  assumes "spec_inv cap (with_past past (view s))" and "block_step sdk read_events op (s, past) = (s', past')"
  shows "spec_inv cap (with_past past' (view s'))"
  using assms by (auto simp: block_step_def block_call_view spec_run_inv split: if_splits)

lemma chain_inv:
  assumes "storage_empty T read_events s0" and "chain_reach sdk read_events s0 s past"
  shows "spec_inv cap (with_past past (view s))"
  using assms(2)
proof (induction rule: chain_reach.induct)
  case genesis
  then show ?case using assms(1) by (simp add: view_empty with_past_def spec_inv_init)
next
  case (step s past op s' past')
  then show ?case by (blast intro: block_step_inv)
qed

text \<open>Once registered, a robot stays registered in all blocks that follow.\<close>

lemma block_step_robots:
  assumes "block_step sdk read_events op (s, past) = (s', past')"
  shows "robots (view s) \<subseteq> robots (view s')"
  using assms arg_cong [OF block_call_view [of op s "[]"], of robots]
  by (auto simp: block_step_def spec_run_robots split: if_splits)

end

subsection \<open>A reference executive\<close>

text \<open>
  An extrinsic is an optional signer and an encoded call. It is refused when one of the runtime's transaction
  extensions objects or its bytes are not a call; otherwise the call is dispatched with the origin of the signer. A
  block is executed by applying its extrinsics in order; a refused one, or a header that is not that of the state
  reached, is a panic.
\<close>

record 'acc unchecked_extrinsic =
  ux_signer :: "'acc option"
  ux_call :: "u8 list"

definition ux_origin :: "'acc unchecked_extrinsic \<Rightarrow> 'acc raw_origin" where
  "ux_origin ux = (case ux_signer ux of None \<Rightarrow> NoOrigin | Some who \<Rightarrow> Signed who)"

fun checked_extensions :: "tx_extension \<Rightarrow> tx_extension list" where
  "checked_extensions (StorageWeightReclaim es) = es"
| "checked_extensions e = [e]"

definition ux_accepted ::
  "(tx_extension \<Rightarrow> 'acc unchecked_extrinsic \<Rightarrow> 's \<Rightarrow> bool) \<Rightarrow> (u32, coordinate, u32, 'x) call_codecs \<Rightarrow>
     'acc unchecked_extrinsic \<Rightarrow> 's \<Rightarrow> (u32, coordinate, u32, 'x) runtime_call option" where
  "ux_accepted check K ux s =
     (if list_all (\<lambda>e. check e ux s) (checked_extensions TxExtension)
      then (case decode_call K (ux_call ux) of Some (call, []) \<Rightarrow> Some call | _ \<Rightarrow> None)
      else None)"

definition raw_reset_events :: "'acc raw_chain \<Rightarrow> 'acc raw_chain" where
  "raw_reset_events s = s\<lparr>raw_log := []\<rparr>"

definition byte_apply ::
  "hash_api \<Rightarrow> u32 codec \<Rightarrow> u32 codec \<Rightarrow> 'w weight_api \<Rightarrow>
   (tx_extension \<Rightarrow> 'acc unchecked_extrinsic \<Rightarrow> 'acc raw_chain \<Rightarrow> bool) \<Rightarrow> (u32, coordinate, u32, 'x) call_codecs \<Rightarrow>
   ('acc raw_origin \<Rightarrow> runtime_pallet \<Rightarrow> 'x \<Rightarrow> 'acc raw_chain \<Rightarrow> 'e runtime_result \<times> 'acc raw_chain) \<Rightarrow>
   'acc unchecked_extrinsic \<Rightarrow> ('acc raw_chain, string, 'e runtime_result) exec" where
  "byte_apply H U N W check K pallets ux s =
     (case ux_accepted check K ux s of
        None \<Rightarrow> (Err ''InvalidTransaction'', s)
      | Some call \<Rightarrow>
          (case runtime_dispatch (raw_template W H U) (raw_swarm H U N) pallets (ux_origin ux) call s of
             (Panicked, s') \<Rightarrow> (Panicked, s')
           | (r, s') \<Rightarrow> (Ok r, s')))"

primrec apply_all :: "('ux \<Rightarrow> ('s, 'e, 'v) exec) \<Rightarrow> 'ux list \<Rightarrow> 's \<Rightarrow> 's option" where
  "apply_all f [] s = Some s"
| "apply_all f (ux # uxs) s = (case f ux s of (Ok r, s') \<Rightarrow> apply_all f uxs s' | _ \<Rightarrow> None)"

definition byte_executive ::
  "('acc raw_chain \<Rightarrow> 'h) \<Rightarrow> ('acc unchecked_extrinsic \<Rightarrow> ('acc raw_chain, string, 'e runtime_result) exec) \<Rightarrow>
   sdk_fn \<Rightarrow> ('h, 'acc unchecked_extrinsic) api_arg \<Rightarrow> ('acc raw_chain, string, 'e runtime_result) exec" where
  "byte_executive header_of apply_ux f arg s =
     (if f = ExecutiveFn ''execute_block'' then
        (case arg of
           BlockArg h uxs \<Rightarrow>
             (case apply_all apply_ux uxs (raw_reset_events s) of
                None \<Rightarrow> (Panicked, s)
              | Some s' \<Rightarrow> if header_of s' = h then (Ok (Ok ()), s') else (Panicked, s'))
         | _ \<Rightarrow> (Panicked, s))
      else if f = ExecutiveFn ''initialize_block'' then (Ok (Ok ()), raw_reset_events s)
      else if f = ExecutiveFn ''apply_extrinsic'' then
        (case arg of ExtrinsicArg ux \<Rightarrow> apply_ux ux s | _ \<Rightarrow> (Err ''InvalidTransaction'', s))
      else (Ok (Ok ()), s))"

text \<open>The calls of the swarm pallet in an extrinsic, in the extrinsics of a block, and in a call of the executive.\<close>

definition ux_swarm_calls ::
  "(tx_extension \<Rightarrow> 'acc unchecked_extrinsic \<Rightarrow> 'acc raw_chain \<Rightarrow> bool) \<Rightarrow> (u32, coordinate, u32, 'x) call_codecs \<Rightarrow>
   'acc unchecked_extrinsic \<Rightarrow> 'acc raw_chain \<Rightarrow> ('acc raw_origin \<times> (u32, coordinate, u32) swarm_call) list" where
  "ux_swarm_calls check K ux s =
     (case ux_accepted check K ux s of Some (Call_Swarm c) \<Rightarrow> [(ux_origin ux, c)] | _ \<Rightarrow> [])"

primrec calls_of_all :: "('ux \<Rightarrow> 's \<Rightarrow> 'd list) \<Rightarrow> ('ux \<Rightarrow> ('s, 'e, 'v) exec) \<Rightarrow> 'ux list \<Rightarrow> 's \<Rightarrow> 'd list" where
  "calls_of_all calls f [] s = []"
| "calls_of_all calls f (ux # uxs) s = calls ux s @ calls_of_all calls f uxs (snd (f ux s))"

primrec byte_swarm_calls ::
  "('acc unchecked_extrinsic \<Rightarrow> 'acc raw_chain \<Rightarrow> 'd list) \<Rightarrow>
   ('acc unchecked_extrinsic \<Rightarrow> ('acc raw_chain, string, 'e runtime_result) exec) \<Rightarrow>
   ('h, 'acc unchecked_extrinsic) block_op \<Rightarrow> 'acc raw_chain \<Rightarrow> 'd list" where
  "byte_swarm_calls calls apply_ux (ExecuteBlock h uxs) s = calls_of_all calls apply_ux uxs (raw_reset_events s)"
| "byte_swarm_calls calls apply_ux (InitializeBlock h) s = []"
| "byte_swarm_calls calls apply_ux (ApplyExtrinsic ux) s = calls ux s"
| "byte_swarm_calls calls apply_ux FinalizeBlock s = []"

context raw_runtime
begin

lemma reset_view:
  "swarm_view (raw_swarm H U N) raw_swarm_events (raw_reset_events s) =
     (swarm_view (raw_swarm H U N) raw_swarm_events s)\<lparr>log := []\<rparr>"
  by (simp add: swarm_view_def queue_of_def raw_items raw_reset_events_def raw_get_def List.map_filter_def)

text \<open>If the calls of the SDK's pallets write other keys, an extrinsic acts by its swarm call.\<close>

lemma byte_apply_view:
  assumes quiet: "\<And>ori p x. keeps_swarm_keys H U (pallets ori p x)"
  shows "swarm_view (raw_swarm H U N) raw_swarm_events (snd (byte_apply H U N W check K pallets ux s)) =
    swarm_view (raw_swarm H U N) raw_swarm_events (snd (run_calls (swarm_apply (raw_swarm H U N)) (ux_swarm_calls check K ux s) s))"
proof (cases "ux_accepted check K ux s")
  case None
  then show ?thesis by (simp add: byte_apply_def ux_swarm_calls_def)
next
  case (Some call)
  let ?view = "swarm_view (raw_swarm H U N) raw_swarm_events"
  let ?run = "runtime_dispatch (raw_template W H U) (raw_swarm H U N) pallets (ux_origin ux) call s"
  have "snd (byte_apply H U N W check K pallets ux s) = snd ?run"
    by (simp add: byte_apply_def Some split: prod.split outcome.split)
  moreover have "?view (snd ?run) = ?view (snd (run_calls (swarm_apply (raw_swarm H U N)) (ux_swarm_calls check K ux s) s))"
  proof (cases call)
    case (Call_Swarm c)
    with Some show ?thesis by (simp add: ux_swarm_calls_def bytes.runtime_dispatch_swarm swarm_apply_def)
  next
    case (Call_Template c)
    with Some show ?thesis
      by (simp add: ux_swarm_calls_def bytes.runtime_dispatch_template bytes.template_keeps_swarm)
  next
    case (Call_Sdk p x)
    with Some runtime_dispatch_sdk_view [where view = ?view, OF keeps_swarm_view [OF quiet]] show ?thesis
      by (simp add: ux_swarm_calls_def)
  qed
  ultimately show ?thesis by simp
qed

lemma apply_all_view:
  assumes each: "\<And>ux s. swarm_view (raw_swarm H U N) raw_swarm_events (snd (f ux s)) =
      swarm_view (raw_swarm H U N) raw_swarm_events (snd (run_calls (swarm_apply (raw_swarm H U N)) (calls ux s) s))"
    and "apply_all f uxs s = Some s'"
  shows "swarm_view (raw_swarm H U N) raw_swarm_events s' =
    swarm_view (raw_swarm H U N) raw_swarm_events (snd (run_calls (swarm_apply (raw_swarm H U N)) (calls_of_all calls f uxs s) s))"
  using assms(2)
proof (induction uxs arbitrary: s)
  case (Cons ux uxs)
  note run = swarm_frame.run_refines [OF raw_swarm_frame, symmetric, THEN arg_cong [of _ _ snd], simplified]
  from Cons.prems have "apply_all f uxs (snd (f ux s)) = Some s'"
    by (simp split: prod.splits outcome.splits)
  from Cons.IH [OF this] show ?case
    by (simp add: run each spec_calls_def run_calls_append split_beta Let_def)
qed simp

lemma byte_executive_laws:
  assumes "\<And>ux s. swarm_view (raw_swarm H U N) raw_swarm_events (snd (f ux s)) =
      swarm_view (raw_swarm H U N) raw_swarm_events (snd (run_calls (swarm_apply (raw_swarm H U N)) (calls ux s) s))"
  shows "executive_laws (raw_swarm H U N) raw_swarm_events (byte_executive header_of f) (byte_swarm_calls calls f) raw_reset_events"
proof (intro executive_laws.intro executive_laws_axioms.intro)
  let ?T = "raw_swarm H U N" and ?view = "swarm_view (raw_swarm H U N) raw_swarm_events" and ?X = "byte_executive header_of f"
  fix h uxs s
  assume "fst (?X (ExecutiveFn ''execute_block'') (BlockArg h uxs) s) \<noteq> Panicked"
  then obtain s' where s': "apply_all f uxs (raw_reset_events s) = Some s'" "header_of s' = h"
    by (auto simp: byte_executive_def split: option.splits if_splits)
  from apply_all_view [OF assms s'(1)] s'
  show "?view (snd (?X (ExecutiveFn ''execute_block'') (BlockArg h uxs) s)) =
      ?view (snd (run_calls (swarm_apply ?T) (byte_swarm_calls calls f (ExecuteBlock h uxs) s) (raw_reset_events s)))"
    by (simp add: byte_executive_def)
qed (simp_all add: byte_executive_def reset_view raw_swarm_frame assms)

end

abbreviation demo_apply ::
  "(tx_extension \<Rightarrow> nat unchecked_extrinsic \<Rightarrow> nat raw_chain \<Rightarrow> bool) \<Rightarrow> nat unchecked_extrinsic \<Rightarrow>
     (nat raw_chain, string, unit runtime_result) exec" where
  "demo_apply check \<equiv>
     byte_apply demo_hashes u32_codec compact_codec pair_weights check (runtime_codecs (\<lambda>_. u32_codec)) (\<lambda>ori p x s. (Ok (), s))"

interpretation demo_chain: executive_laws "raw_swarm demo_hashes u32_codec compact_codec" raw_swarm_events
  "byte_executive header_of (demo_apply check)"
  "byte_swarm_calls (ux_swarm_calls check (runtime_codecs (\<lambda>_. u32_codec))) (demo_apply check)" raw_reset_events
  for header_of check
  by (intro demo_bytes.byte_executive_laws demo_bytes.byte_apply_view) (simp add: keeps_swarm_keys_def)

text \<open>
  Two blocks for examples: a robot is registered and a command enqueued in the first, which is built, and the command is
  pulled in the second, which is imported after an invalid one.
\<close>

definition demo_ux :: "nat \<Rightarrow> (u32, coordinate, u32) swarm_call \<Rightarrow> nat unchecked_extrinsic" where
  "demo_ux who c =
     \<lparr>ux_signer = Some who, ux_call = encode_call (runtime_codecs (\<lambda>_. u32_codec)) (Call_Swarm c)\<rparr>"

lemma demo_ux_accepted:
  "ux_accepted (\<lambda>_ _ _. True) (runtime_codecs (\<lambda>_. u32_codec)) (demo_ux who c) s = Some (Call_Swarm c)"
proof -
  let ?K = "runtime_codecs (\<lambda>_. u32_codec)"
  have "codecs_lawful ?K" by (simp add: runtime_codecs_lawful u32.codec_laws_axioms)
  then have "decode_call ?K (encode_call ?K (Call_Swarm c) @ []) = Some (Call_Swarm c, [])"
    by (simp add: decode_call_iff)
  then show ?thesis by (simp add: ux_accepted_def demo_ux_def list.pred_True)
qed

lemma demo_ux_origin: "ux_origin (demo_ux who c) = Signed who"
  by (simp add: ux_origin_def demo_ux_def)

definition demo_blocks :: "(unit, nat unchecked_extrinsic) block_op list" where
  "demo_blocks =
     [InitializeBlock (), ApplyExtrinsic (demo_ux 1 (RegisterRobot 7)), ApplyExtrinsic (demo_ux 2 (EnqueueCommand Halt)),
      FinalizeBlock, ExecuteBlock () [demo_ux 3 (PullNext 7), (demo_ux 3 (PullNext 7))\<lparr>ux_call := []\<rparr>],
      ExecuteBlock () [demo_ux 3 (PullNext 7)]]"

definition demo_executive ::
  "sdk_fn \<Rightarrow> (unit, nat unchecked_extrinsic) api_arg \<Rightarrow> (nat raw_chain, string, unit runtime_result) exec" where
  "demo_executive = byte_executive (\<lambda>_. ()) (demo_apply (\<lambda>_ _ _. True))"

definition demo_calls ::
  "(unit, nat unchecked_extrinsic) block_op \<Rightarrow> nat raw_chain \<Rightarrow> (nat raw_origin \<times> (u32, coordinate, u32) swarm_call) list" where
  "demo_calls = byte_swarm_calls (ux_swarm_calls (\<lambda>_ _ _. True) (runtime_codecs (\<lambda>_. u32_codec))) (demo_apply (\<lambda>_ _ _. True))"

lemma demo_executive_laws:
  "executive_laws (raw_swarm demo_hashes u32_codec compact_codec) raw_swarm_events demo_executive demo_calls raw_reset_events"
  unfolding demo_executive_def demo_calls_def by (rule demo_chain.executive_laws_axioms)

lemma demo_ux_applied:
  "\<exists>r. fst (demo_apply (\<lambda>_ _ _. True) (demo_ux who c) s) = Ok r"
proof -
  have "fst (runtime_dispatch (raw_template pair_weights demo_hashes u32_codec) (raw_swarm demo_hashes u32_codec compact_codec)
      sdk (Signed who) (Call_Swarm c) s) \<noteq> Panicked"
    for sdk :: "nat raw_origin \<Rightarrow> runtime_pallet \<Rightarrow> u32 \<Rightarrow> nat raw_chain \<Rightarrow> unit runtime_result \<times> nat raw_chain"
    using demo_bytes.bytes.swarm.call.no_panic [of "Signed who" c s]
    by (cases "fst (swarm_dispatch (raw_swarm demo_hashes u32_codec compact_codec) (Signed who) c s)")
       (simp_all add: demo_bytes.bytes.runtime_dispatch_swarm)
  from this [of "\<lambda>ori p x s. (Ok (), s)"] show ?thesis
    by (auto simp: byte_apply_def demo_ux_accepted demo_ux_origin split: prod.split outcome.split)
qed

lemma demo_ux_refused: "demo_apply check (ux\<lparr>ux_call := []\<rparr>) s = (Err ''InvalidTransaction'', s)"
  by (simp add: byte_apply_def ux_accepted_def decode_call_def)

lemma demo_apply_all:
  "apply_all (demo_apply (\<lambda>_ _ _. True)) (demo_ux who c # uxs) s =
   apply_all (demo_apply (\<lambda>_ _ _. True)) uxs (snd (demo_apply (\<lambda>_ _ _. True) (demo_ux who c) s))"
  using demo_ux_applied [of who c s] by (auto split: prod.split)

lemma demo_panics:
  "panics demo_executive (InitializeBlock h) s = False"
  "panics demo_executive (ApplyExtrinsic (demo_ux who c)) s = False"
  "panics demo_executive FinalizeBlock s = False"
  "panics demo_executive (ExecuteBlock h [demo_ux who c]) s = False"
  "panics demo_executive (ExecuteBlock h [demo_ux who c, ux\<lparr>ux_call := []\<rparr>]) s = True"
  using demo_ux_applied [of who c s]
  by (auto simp: panics_def block_call_def runtime_api_def demo_executive_def byte_executive_def demo_apply_all
      simp del: apply_all.simps(2))
     (simp add: demo_ux_refused)

lemma demo_call_values:
  "demo_calls (InitializeBlock h) s = []"
  "demo_calls (ApplyExtrinsic (demo_ux who c)) s = [(Signed who, c)]"
  "demo_calls FinalizeBlock s = []"
  "demo_calls (ExecuteBlock h [demo_ux who c]) s = [(Signed who, c)]"
  by (simp_all add: demo_calls_def ux_swarm_calls_def demo_ux_accepted demo_ux_origin)

lemma demo_genesis: "storage_empty (raw_swarm demo_hashes u32_codec compact_codec) raw_swarm_events raw_empty"
  by (simp add: view_empty demo_bytes.raw_view_empty)

lemma demo_chain_calls:
  "chain_calls demo_executive demo_calls demo_blocks s =
     [(Signed 1, RegisterRobot 7), (Signed 2, EnqueueCommand Halt), (Signed 3, PullNext 7)]"
  by (simp add: demo_blocks_def demo_panics demo_call_values)

lemma demo_chain_log:
  assumes "chain_run demo_executive raw_swarm_events demo_blocks (raw_empty, []) = (s, past)"
  shows "past @ raw_swarm_events s = [CommandEnqueued Halt, CommandPulled 7 Halt None]"
proof -
  have "log (with_past past (swarm_view (raw_swarm demo_hashes u32_codec compact_codec) raw_swarm_events s)) =
      [CommandEnqueued Halt, CommandPulled 7 Halt None]"
    unfolding executive_laws.chain_run_view [OF demo_executive_laws assms] demo_chain_calls
    by (simp add: demo_bytes.raw_view_empty spec_dispatch_def is_signed_def spec_init_def with_past_def target_def)
  then show ?thesis by simp
qed

subsection \<open>Properties\<close>

text \<open>
  C3: Across all blocks of the chain commands are delivered exactly once and in order: in every state reached from
  genesis by executing blocks, initialising them, applying extrinsics and finalising, in any order, the commands the
  events of all blocks so far report as enqueued are those reported as pulled, in the same order, followed by
  those in the queue, although every block starts with no events. The queue keeps its capacity, every robot
  that ever pulled is registered, and every reported coordinate is that of the command.
\<close>

theorem chain_delivery:
  assumes "executive_laws T read_events sdk swarm_calls reset_events" and "storage_empty T read_events s0"
    and "chain_reach sdk read_events s0 s past" and "events = past @ read_events s"
  shows "enqueued_of events = pulled_of events @ queue_of T s \<and>
    length (queue_of T s) \<le> unat (MaxGlobalCommands T) \<and>
    (\<forall>r \<in> pullers_of events. sm_contains_key (RegisteredRobots T) r s) \<and> list_all event_consistent events"
  using executive_laws.chain_inv [OF assms(1-3)] by (auto simp: spec_inv_def assms(4))

theorem chain_delivery_witness:
  "case chain_run demo_executive raw_swarm_events demo_blocks (raw_empty, []) of
     (s, past) \<Rightarrow> past @ raw_swarm_events s = [CommandEnqueued Halt, CommandPulled 7 Halt None] \<and>
       queue_of (raw_swarm demo_hashes u32_codec compact_codec) s = [] \<and>
       sm_contains_key (RegisteredRobots (raw_swarm demo_hashes u32_codec compact_codec)) 7 s"
proof (cases "chain_run demo_executive raw_swarm_events demo_blocks (raw_empty, [])")
  case (Pair s past)
  note log = demo_chain_log [OF Pair]
  from chain_delivery [OF demo_executive_laws demo_genesis chain_run_reaches [OF Pair] refl] log Pair show ?thesis
    by simp
qed

end
