(* ===== verification/Event_Codec.thy ===== *)
theory Event_Codec
  imports Runtime_Dispatch
begin

text \<open>
  What a client of the chain reads: the binary format of the events, which the \<open>pallet::event\<close> attributes derive for the
  enums of the pallets and the runtime for all pallets (\<open>RuntimeEvent\<close>), and the codes of the errors, which the
  \<open>pallet::error\<close> attributes give to the variants in order of declaration. A failed call is reported as the index of the
  pallet and four bytes that begin with the code of the variant. The events and errors of the SDK's pallets
  are parameters.
\<close>

subsection \<open>Definitions\<close>

definition option_codec :: "'a codec \<Rightarrow> 'a option codec" where
  "option_codec C =
     \<lparr>encode = (\<lambda>v. case v of None \<Rightarrow> [0] | Some x \<Rightarrow> 1 # encode C x),
      decode = (\<lambda>bs. case bs of
          [] \<Rightarrow> None
        | b # rest \<Rightarrow>
            if b = 0 then Some (None, rest)
            else if b = 1 then map_option (\<lambda>(x, r). (Some x, r)) (decode C rest)
            else None),
      max_encoded_len = 1 + max_encoded_len C\<rparr>"

definition encode_swarm_event ::
  "'rid codec \<Rightarrow> 'loc codec \<Rightarrow> ('loc, 'task) command codec \<Rightarrow> ('rid, 'loc, 'task) swarm_event \<Rightarrow> u8 list" where
  "encode_swarm_event R L C ev =
     (case ev of
        CommandEnqueued c \<Rightarrow> 0 # encode C c
      | CommandPulled r c k \<Rightarrow> 1 # encode R r @ encode C c @ encode (option_codec L) k)"

definition decode_swarm_event ::
  "'rid codec \<Rightarrow> 'loc codec \<Rightarrow> ('loc, 'task) command codec \<Rightarrow> u8 list \<Rightarrow>
     (('rid, 'loc, 'task) swarm_event \<times> u8 list) option" where
  "decode_swarm_event R L C bs =
     (case bs of
        [] \<Rightarrow> None
      | i # rest \<Rightarrow>
          if i = 0 then map_option (\<lambda>(c, r). (CommandEnqueued c, r)) (decode C rest)
          else if i = 1 then
            (case decode R rest of None \<Rightarrow> None | Some (r, bs1) \<Rightarrow>
            (case decode C bs1 of None \<Rightarrow> None | Some (c, bs2) \<Rightarrow>
               map_option (\<lambda>(k, bs3). (CommandPulled r c k, bs3)) (decode (option_codec L) bs2)))
          else None)"

definition encode_template_event :: "'bn codec \<Rightarrow> 'acc codec \<Rightarrow> ('bn, 'acc) template_event \<Rightarrow> u8 list" where
  "encode_template_event B A ev = (case ev of SomethingStored n who \<Rightarrow> 0 # encode B n @ encode A who)"

definition decode_template_event ::
  "'bn codec \<Rightarrow> 'acc codec \<Rightarrow> u8 list \<Rightarrow> (('bn, 'acc) template_event \<times> u8 list) option" where
  "decode_template_event B A bs =
     (case bs of
        [] \<Rightarrow> None
      | i # rest \<Rightarrow>
          if i = 0 then
            (case decode B rest of None \<Rightarrow> None | Some (n, bs1) \<Rightarrow>
               map_option (\<lambda>(who, bs2). (SomethingStored n who, bs2)) (decode A bs1))
          else None)"

datatype ('rid, 'loc, 'task, 'bn, 'acc, 'x) runtime_event =
    Event_Template "('bn, 'acc) template_event"
  | Event_Swarm "('rid, 'loc, 'task) swarm_event"
  | Event_Sdk runtime_pallet 'x

primrec event_pallet :: "('rid, 'loc, 'task, 'bn, 'acc, 'x) runtime_event \<Rightarrow> runtime_pallet" where
  "event_pallet (Event_Template e) = TemplatePallet"
| "event_pallet (Event_Swarm e) = SwarmRobotPallet"
| "event_pallet (Event_Sdk p x) = p"

primrec wf_event :: "('rid, 'loc, 'task, 'bn, 'acc, 'x) runtime_event \<Rightarrow> bool" where
  "wf_event (Event_Template e) = True"
| "wf_event (Event_Swarm e) = True"
| "wf_event (Event_Sdk p x) = (p \<noteq> TemplatePallet \<and> p \<noteq> SwarmRobotPallet)"

record ('rid, 'loc, 'task, 'bn, 'acc, 'x) event_codecs =
  ec_robot :: "'rid codec"
  ec_loc :: "'loc codec"
  ec_task :: "'task codec"
  ec_block :: "'bn codec"
  ec_account :: "'acc codec"
  ec_sdk :: "runtime_pallet \<Rightarrow> 'x codec"

definition encode_event ::
  "('rid, 'loc, 'task, 'bn, 'acc, 'x) event_codecs \<Rightarrow> ('rid, 'loc, 'task, 'bn, 'acc, 'x) runtime_event \<Rightarrow> u8 list" where
  "encode_event K ev =
     pallet_index (event_pallet ev) #
     (case ev of
        Event_Template e \<Rightarrow> encode_template_event (ec_block K) (ec_account K) e
      | Event_Swarm e \<Rightarrow> encode_swarm_event (ec_robot K) (ec_loc K) (command_codec (ec_loc K) (ec_task K)) e
      | Event_Sdk p x \<Rightarrow> encode (ec_sdk K p) x)"

definition decode_event ::
  "('rid, 'loc, 'task, 'bn, 'acc, 'x) event_codecs \<Rightarrow> u8 list \<Rightarrow>
     (('rid, 'loc, 'task, 'bn, 'acc, 'x) runtime_event \<times> u8 list) option" where
  "decode_event K bs =
     (case bs of
        [] \<Rightarrow> None
      | i # rest \<Rightarrow>
          (case pallet_of_index i of
             None \<Rightarrow> None
           | Some p \<Rightarrow>
               if p = TemplatePallet
               then map_option (\<lambda>(e, r). (Event_Template e, r)) (decode_template_event (ec_block K) (ec_account K) rest)
               else if p = SwarmRobotPallet
               then map_option (\<lambda>(e, r). (Event_Swarm e, r))
                 (decode_swarm_event (ec_robot K) (ec_loc K) (command_codec (ec_loc K) (ec_task K)) rest)
               else map_option (\<lambda>(x, r). (Event_Sdk p x, r)) (decode (ec_sdk K p) rest)))"

definition event_codecs_lawful :: "('rid, 'loc, 'task, 'bn, 'acc, 'x) event_codecs \<Rightarrow> bool" where
  "event_codecs_lawful K \<longleftrightarrow> codec_laws (ec_robot K) \<and> codec_laws (ec_loc K) \<and> codec_laws (ec_task K) \<and>
     codec_laws (ec_block K) \<and> codec_laws (ec_account K) \<and> (\<forall>p. codec_laws (ec_sdk K p))"

text \<open>The codes of the errors.\<close>

primrec swarm_error_code :: "swarm_error \<Rightarrow> u8" where
  "swarm_error_code InvalidRobotId = 0"
| "swarm_error_code QueueFull = 1"
| "swarm_error_code QueueEmpty = 2"

primrec template_error_code :: "template_error \<Rightarrow> u8" where
  "template_error_code NoneValue = 0"
| "template_error_code StorageOverflow = 1"

record module_error =
  me_index :: u8
  me_error :: "u8 list"

text \<open>\<open>sdk\<close> gives the pallet and the error bytes of an error of the SDK's pallets.\<close>

definition module_error_of :: "('e \<Rightarrow> runtime_pallet \<times> u8 list) \<Rightarrow> 'e runtime_error \<Rightarrow> module_error" where
  "module_error_of sdk e =
     (case e of
        TemplateError x \<Rightarrow> \<lparr>me_index = pallet_index TemplatePallet, me_error = [template_error_code x, 0, 0, 0]\<rparr>
      | SwarmError x \<Rightarrow> \<lparr>me_index = pallet_index SwarmRobotPallet, me_error = [swarm_error_code x, 0, 0, 0]\<rparr>
      | SdkError x \<Rightarrow> \<lparr>me_index = pallet_index (fst (sdk x)), me_error = snd (sdk x)\<rparr>)"

subsection \<open>Lemmas\<close>

lemma option_codec_laws:
  assumes "codec_laws C"
  shows "codec_laws (option_codec C)"
proof
  note laws = codec_laws.decode_encode [OF assms] codec_laws.decode_iff [OF assms]
  fix v bs rest
  show "decode (option_codec C) (encode (option_codec C) v @ rest) = Some (v, rest)"
    by (cases v) (simp_all add: option_codec_def laws)
  show "bs = encode (option_codec C) v @ rest" if "decode (option_codec C) bs = Some (v, rest)"
    using that by (auto simp: option_codec_def laws split: list.splits if_splits)
  show "length (encode (option_codec C) v) \<le> max_encoded_len (option_codec C)"
    using codec_laws.encode_bound [OF assms] by (cases v) (simp_all add: option_codec_def)
qed

lemma template_event_iff:
  assumes "codec_laws B" and "codec_laws A"
  shows "decode_template_event B A bs = Some (e, rest) \<longleftrightarrow> bs = encode_template_event B A e @ rest"
proof (cases e)
  case (SomethingStored n who)
  note laws = codec_laws.decode_iff [OF assms(1)] codec_laws.decode_iff [OF assms(2)]
    codec_laws.decode_encode [OF assms(1)] codec_laws.decode_encode [OF assms(2)]
  show ?thesis
  proof
    assume "decode_template_event B A bs = Some (e, rest)"
    then show "bs = encode_template_event B A e @ rest"
      by (auto simp: decode_template_event_def encode_template_event_def laws(1,2) SomethingStored
          split: list.splits if_splits option.splits)
  qed (simp add: decode_template_event_def encode_template_event_def laws(3,4) SomethingStored)
qed

lemma swarm_event_iff:
  assumes "codec_laws R" and "codec_laws L" and "codec_laws C"
  shows "decode_swarm_event R L C bs = Some (e, rest) \<longleftrightarrow> bs = encode_swarm_event R L C e @ rest"
proof
  note iffs = codec_laws.decode_iff [OF assms(1)] codec_laws.decode_iff [OF option_codec_laws [OF assms(2)]]
    codec_laws.decode_iff [OF assms(3)]
  assume "decode_swarm_event R L C bs = Some (e, rest)"
  then show "bs = encode_swarm_event R L C e @ rest"
    by (auto simp: decode_swarm_event_def encode_swarm_event_def iffs split: list.splits if_splits option.splits)
next
  note encs = codec_laws.decode_encode [OF assms(1)] codec_laws.decode_encode [OF option_codec_laws [OF assms(2)]]
    codec_laws.decode_encode [OF assms(3)]
  assume "bs = encode_swarm_event R L C e @ rest"
  then show "decode_swarm_event R L C bs = Some (e, rest)"
    by (cases e) (simp_all add: decode_swarm_event_def encode_swarm_event_def encs)
qed

lemma decode_event_iff:
  assumes "event_codecs_lawful K"
  shows "decode_event K bs = Some (e, rest) \<longleftrightarrow> wf_event e \<and> bs = encode_event K e @ rest"
proof -
  have laws: "codec_laws (ec_robot K)" "codec_laws (ec_loc K)" "codec_laws (command_codec (ec_loc K) (ec_task K))"
      "codec_laws (ec_block K)" "codec_laws (ec_account K)" "\<And>p. codec_laws (ec_sdk K p)"
    using assms by (simp_all add: event_codecs_lawful_def command_codec_laws)
  note iffs = template_event_iff [OF laws(4,5)] swarm_event_iff [OF laws(1,2,3)] codec_laws.decode_iff [OF laws(6)]
  show ?thesis
    unfolding decode_event_def encode_event_def append_Cons
    by (rule outer_decode_iff, cases e) (auto simp: iffs split: if_splits)
qed

lemma error_codes:
  "swarm_error_code a = swarm_error_code b \<longleftrightarrow> a = b" "template_error_code x = template_error_code y \<longleftrightarrow> x = y"
  by (cases a; cases b; simp) (cases x; cases y; simp)

text \<open>The codecs of the runtime, over those of accounts and of the SDK's events.\<close>

definition runtime_event_codecs ::
  "'acc codec \<Rightarrow> (runtime_pallet \<Rightarrow> 'x codec) \<Rightarrow> (u32, coordinate, u32, block_number_t, 'acc, 'x) event_codecs" where
  "runtime_event_codecs A sdk =
     \<lparr>ec_robot = u32_codec, ec_loc = coordinate_codec u32_codec, ec_task = u32_codec, ec_block = u32_codec, ec_account = A,
      ec_sdk = sdk\<rparr>"

lemma runtime_event_codecs_lawful:
  "codec_laws A \<Longrightarrow> \<forall>p. codec_laws (sdk p) \<Longrightarrow> event_codecs_lawful (runtime_event_codecs A sdk)"
  by (simp add: event_codecs_lawful_def runtime_event_codecs_def u32.codec_laws_axioms coordinate_codec_laws)

subsection \<open>Properties\<close>

text \<open>
  C15: Clients can read every event without ambiguity: an event of the runtime decodes to itself and leaves the bytes
  after it, only encodings of events decode, and no two events, of the same or of different pallets, have the
  same encoding; so that a sequence of encoded events decodes in one way only.
\<close>

theorem runtime_event_roundtrip:
  assumes "event_codecs_lawful K"
  shows "(wf_event e \<longrightarrow> decode_event K (encode_event K e @ rest) = Some (e, rest)) \<and>
    (decode_event K bs = Some (e, rest) \<longrightarrow> wf_event e \<and> bs = encode_event K e @ rest) \<and>
    (list_all wf_event es \<and> list_all wf_event fs \<and> concat (map (encode_event K) es) = concat (map (encode_event K) fs)
      \<longrightarrow> es = fs)"
proof -
  note iff = decode_event_iff [OF assms]
  have unique: "es = fs" if "list_all wf_event es" "list_all wf_event fs"
    "concat (map (encode_event K) es) = concat (map (encode_event K) fs)" for es fs
    using that
  proof (induction es arbitrary: fs)
    case Nil
    then show ?case by (cases fs) (simp_all add: encode_event_def)
  next
    case (Cons e es)
    then obtain f gs where fs: "fs = f # gs" by (cases fs) (simp_all add: encode_event_def)
    let ?es = "concat (map (encode_event K) es)" and ?gs = "concat (map (encode_event K) gs)"
    have "decode_event K (encode_event K e @ ?es) = Some (e, ?es)" "decode_event K (encode_event K f @ ?gs) = Some (f, ?gs)"
      using Cons.prems(1,2) by (simp_all add: fs iff)
    moreover have "encode_event K e @ ?es = encode_event K f @ ?gs" using Cons.prems(3) by (simp add: fs)
    ultimately have "Some (e, ?es) = Some (f, ?gs)" by (simp only:)
    then have same: "e = f" "?es = ?gs" by simp_all
    have "es = gs" by (rule Cons.IH) (use Cons.prems(1,2) fs same in simp_all)
    with same fs show ?case by simp
  qed
  show ?thesis using unique [of es fs] by (simp add: iff)
qed

theorem runtime_event_roundtrip_witness:
  "decode_event (runtime_event_codecs u32_codec (\<lambda>_. u32_codec))
     (encode_event (runtime_event_codecs u32_codec (\<lambda>_. u32_codec)) (Event_Swarm (CommandPulled 7 Halt None)) @ [9]) =
     Some (Event_Swarm (CommandPulled 7 Halt None), [9]) \<and>
   encode_event (runtime_event_codecs u32_codec (\<lambda>_. u32_codec)) (Event_Swarm (CommandPulled 7 Halt None)) =
     [51, 1, 7, 0, 0, 0, 2, 0]"
proof -
  have "event_codecs_lawful (runtime_event_codecs u32_codec (\<lambda>_. u32_codec))"
    by (simp add: runtime_event_codecs_lawful u32.codec_laws_axioms)
  from runtime_event_roundtrip [OF this, of "Event_Swarm (CommandPulled 7 Halt None)" "[9]"] show ?thesis
    by (simp add: encode_event_def encode_swarm_event_def option_codec_def runtime_event_codecs_def command_codec_def
        u32_codec_def byte_of_def)
qed

text \<open>
  The reported error identifies the failure: two different errors of the pallets of the runtime are reported
  differently, whichever pallets they come from, if the SDK's pallets report their own errors under their
  own index and without ambiguity.
\<close>

lemma module_errors_distinct:
  assumes "inj sdk" and "\<And>x. fst (sdk x) \<noteq> TemplatePallet \<and> fst (sdk x) \<noteq> SwarmRobotPallet"
  shows "inj (module_error_of sdk)"
proof (rule injI)
  fix a b assume "module_error_of sdk a = module_error_of sdk b"
  moreover have "TemplatePallet \<noteq> fst (sdk x)" "SwarmRobotPallet \<noteq> fst (sdk x)" for x using assms(2) [of x] by auto
  ultimately show "a = b"
    using assms(2) injD [OF assms(1)]
    by (cases a; cases b) (auto simp: module_error_of_def error_codes pallet_index_eq prod_eq_iff
        simp del: pallet_index.simps)
qed

lemma module_errors_distinct_example:
  "inj (module_error_of (\<lambda>x :: u8. (Balances, [x, 0, 0, 0])))"
  by (rule module_errors_distinct) (auto intro: injI)

end
