(* ===== verification/Xcm_Config.thy ===== *)
theory Xcm_Config
  imports Runtime_Config
begin

text \<open>
  runtime/src/configs/xcm_config.rs: the parameters of cross-chain messages, the filter of locations that
  may execute without paying, and the barrier every incoming message has to pass. The parts the barrier
  is built from belong to the SDK: they are the record \<open>barrier_api\<close>, and the locale \<open>barrier_laws\<close> states
  what their documentation says of the messages they let through.
\<close>

subsection \<open>Definitions\<close>

text \<open>
  Locations. \<open>'n\<close> are the networks, \<open>'acc\<close> the accounts, and \<open>'j\<close> the junctions the code does not look at.
\<close>

datatype body_id = Executive | Defense | OtherBody nat

datatype body_part = Voice | OtherPart nat

datatype ('n, 'acc, 'j) junction =
    Parachain u32
  | AccountId32 "'n option" 'acc
  | Plurality body_id body_part
  | OtherJunction 'j

record ('n, 'acc, 'j) location =
  parents :: u8
  interior :: "('n, 'acc, 'j) junction list"

definition RelayLocation :: "('n, 'acc, 'j) location" where
  "RelayLocation = \<lparr>parents = 1, interior = []\<rparr>"

definition RelayNetwork :: "'n option" where
  "RelayNetwork = None"

definition UniversalLocation :: "u32 \<Rightarrow> ('n, 'acc, 'j) junction list" where
  "UniversalLocation parachain_id = [Parachain parachain_id]"

definition UnitWeightCost :: "'w weight_api \<Rightarrow> 'w" where
  "UnitWeightCost W = from_parts W 1000000000 (64 * 1024)"

definition MaxInstructions :: u32 where
  "MaxInstructions = 100"

definition MaxAssetsIntoHolding :: u32 where
  "MaxAssetsIntoHolding = 64"

definition StakingAdminBodyId :: body_id where
  "StakingAdminBodyId = Defense"

text \<open>\<open>ParentOrParentsExecutivePlurality::contains\<close>, on the pair \<open>location.unpack()\<close>.\<close>

fun unpacked_contains :: "u8 \<Rightarrow> ('n, 'acc, 'j) junction list \<Rightarrow> bool" where
  "unpacked_contains n [] = (n = 1)"
| "unpacked_contains n [Plurality Executive part] = (n = 1)"
| "unpacked_contains n _ = False"

definition ParentOrParentsExecutivePlurality_contains :: "('n, 'acc, 'j) location \<Rightarrow> bool" where
  "ParentOrParentsExecutivePlurality_contains l = unpacked_contains (parents l) (interior l)"

text \<open>
  Barriers \<open>'b\<close> and denials \<open>'d\<close> of the SDK. A message \<open>'m\<close> stands for all that \<open>should_execute\<close> gets
  besides the origin: the instructions, the weight limit and the properties of the message.
\<close>

record ('b, 'd, 'n, 'acc, 'j, 'm) barrier_api =
  should_execute :: "'b \<Rightarrow> ('n, 'acc, 'j) location \<Rightarrow> 'm \<Rightarrow> bool"
  TrailingSetTopicAsId :: "'b \<Rightarrow> 'b"
  DenyThenTry :: "'d \<Rightarrow> 'b \<Rightarrow> 'b"
  DenyRecursively :: "'d \<Rightarrow> 'd"
  DenyReserveTransferToRelayChain :: 'd
  barrier_pair :: "'b \<Rightarrow> 'b \<Rightarrow> 'b"
  TakeWeightCredit :: 'b
  WithComputedOrigin :: "'b \<Rightarrow> ('n, 'acc, 'j) junction list \<Rightarrow> u32 \<Rightarrow> 'b"
  AllowTopLevelPaidExecutionFrom :: "(('n, 'acc, 'j) location \<Rightarrow> bool) \<Rightarrow> 'b"
  AllowExplicitUnpaidExecutionFrom :: "(('n, 'acc, 'j) location \<Rightarrow> bool) \<Rightarrow> 'b"

definition Barrier :: "('b, 'd, 'n, 'acc, 'j, 'm) barrier_api \<Rightarrow> u32 \<Rightarrow> 'b" where
  "Barrier X parachain_id =
     TrailingSetTopicAsId X
       (DenyThenTry X
         (DenyRecursively X (DenyReserveTransferToRelayChain X))
         (barrier_pair X
           (TakeWeightCredit X)
           (WithComputedOrigin X
             (barrier_pair X
               (AllowTopLevelPaidExecutionFrom X (\<lambda>_. True))
               (AllowExplicitUnpaidExecutionFrom X ParentOrParentsExecutivePlurality_contains))
             (UniversalLocation parachain_id)
             8)))"

subsection \<open>Documented behaviour of the barriers\<close>

datatype ('n, 'acc, 'j) origin_step =
    UniversalOrigin "('n, 'acc, 'j) junction"
  | DescendOrigin "('n, 'acc, 'j) junction list"

fun claims_universal :: "nat \<Rightarrow> ('n, 'acc, 'j) origin_step list \<Rightarrow> bool" where
  "claims_universal (Suc n) (UniversalOrigin j # as) = True"
| "claims_universal (Suc n) (DescendOrigin js # as) = claims_universal n as"
| "claims_universal n as = False"

lemma claims_universal_in: "claims_universal n as \<Longrightarrow> \<exists>j. UniversalOrigin j \<in> set as"
  by (induction n as rule: claims_universal.induct) auto

text \<open>
  \<open>strip\<close> takes a trailing \<open>SetTopic\<close> off a message, \<open>leading\<close> are the instructions at its beginning that alter
  the origin, and \<open>computed\<close> applies the first of them, up to the given number. They are not checked there: a
  \<open>UniversalOrigin\<close> makes the computed origin any location it names, and without one the computed origin
  descends from the real one, or the barrier refuses the message. \<open>has_credit\<close> says that the weight credit of the message covers it, \<open>pays\<close> that it starts by
  buying its execution, \<open>unpaid\<close> that it starts by declaring unpaid execution, and
  \<open>reserves_to_relay\<close> that it moves reserves to the relay chain.
\<close>

locale barrier_laws =
  fixes X :: "('b, 'd, 'n, 'acc, 'j, 'm) barrier_api"
    and strip :: "'m \<Rightarrow> 'm"
    and leading :: "'m \<Rightarrow> ('n, 'acc, 'j) origin_step list"
    and computed :: "('n, 'acc, 'j) junction list \<Rightarrow> u32 \<Rightarrow> ('n, 'acc, 'j) location \<Rightarrow> 'm \<Rightarrow> (('n, 'acc, 'j) location \<times> 'm) option"
    and has_credit pays unpaid :: "'m \<Rightarrow> bool"
    and reserves_to_relay :: "('n, 'acc, 'j) location \<Rightarrow> 'm \<Rightarrow> bool"
    and denies :: "'d \<Rightarrow> ('n, 'acc, 'j) location \<Rightarrow> 'm \<Rightarrow> bool"
  assumes trailing: "should_execute X (TrailingSetTopicAsId X b) o1 m = should_execute X b o1 (strip m)"
    and deny_then_try: "should_execute X (DenyThenTry X d b) o1 m \<longleftrightarrow> \<not> denies d o1 m \<and> should_execute X b o1 m"
    and deny_recursively: "denies d o1 m \<Longrightarrow> denies (DenyRecursively X d) o1 m"
    and deny_reserve: "denies (DenyReserveTransferToRelayChain X) o1 m = reserves_to_relay o1 m"
    and pair: "should_execute X (barrier_pair X b c) o1 m \<longleftrightarrow> should_execute X b o1 m \<or> should_execute X c o1 m"
    and credit: "should_execute X (TakeWeightCredit X) o1 m = has_credit m"
    and with_computed: "should_execute X (WithComputedOrigin X b u n) o1 m =
      (case computed u n o1 m of None \<Rightarrow> False | Some (o2, m2) \<Rightarrow> should_execute X b o2 m2)"
    and leading_strip: "leading (strip m) = leading m"
    and computed_descends: "computed u n o1 m = Some (o2, m2) \<Longrightarrow> \<not> claims_universal (unat n) (leading m) \<Longrightarrow>
      parents o2 = parents o1 \<and> (\<exists>js. interior o2 = interior o1 @ js)"
    and paid: "should_execute X (AllowTopLevelPaidExecutionFrom X T) o1 m \<longleftrightarrow> T o1 \<and> pays m"
    and explicit_unpaid: "should_execute X (AllowExplicitUnpaidExecutionFrom X T) o1 m \<longleftrightarrow> T o1 \<and> unpaid m"
begin

lemma barrier_cases:
  "should_execute X (Barrier X p) o1 m \<longleftrightarrow>
     \<not> denies (DenyRecursively X (DenyReserveTransferToRelayChain X)) o1 (strip m) \<and>
     (has_credit (strip m) \<or>
      (case computed (UniversalLocation p) 8 o1 (strip m) of
         None \<Rightarrow> False
       | Some (o2, m2) \<Rightarrow> pays m2 \<or> ParentOrParentsExecutivePlurality_contains o2 \<and> unpaid m2))"
  by (simp add: Barrier_def trailing deny_then_try pair credit with_computed paid explicit_unpaid split: option.split prod.split)

lemma barrier_denies_reserve:
  "reserves_to_relay o1 (strip m) \<Longrightarrow> \<not> should_execute X (Barrier X p) o1 m"
  using deny_recursively [of "DenyReserveTransferToRelayChain X" o1 "strip m"]
  by (simp add: barrier_cases deny_reserve)

end

text \<open>Barriers as predicates, over messages that are lists of instructions.\<close>

datatype ('n, 'acc, 'j) xcm_instr =
    SetTopic
  | AlterOrigin "('n, 'acc, 'j) origin_step"
  | BuyExecution
  | UnpaidExecution
  | ReserveToRelay
  | OtherInstr

definition strip_topic :: "('n, 'acc, 'j) xcm_instr list \<Rightarrow> ('n, 'acc, 'j) xcm_instr list" where
  "strip_topic m = (if m \<noteq> [] \<and> (case last m of SetTopic \<Rightarrow> True | _ \<Rightarrow> False) then butlast m else m)"

fun leading_steps :: "('n, 'acc, 'j) xcm_instr list \<Rightarrow> ('n, 'acc, 'j) origin_step list" where
  "leading_steps (AlterOrigin a # m) = a # leading_steps m"
| "leading_steps m = []"

text \<open>A junction of the global consensus as seen from a universal location, and a descent of at most 8 junctions in all.\<close>

fun relative_to :: "('n, 'acc, 'j) junction list \<Rightarrow> ('n, 'acc, 'j) junction \<Rightarrow> ('n, 'acc, 'j) location" where
  "relative_to [] j = \<lparr>parents = 0, interior = [j]\<rparr>"
| "relative_to (k # ks) j =
     (if k = j then \<lparr>parents = of_nat (length ks), interior = []\<rparr>
      else \<lparr>parents = of_nat (Suc (length ks)), interior = [j]\<rparr>)"

primrec alter_origin ::
  "('n, 'acc, 'j) junction list \<Rightarrow> ('n, 'acc, 'j) location \<Rightarrow> ('n, 'acc, 'j) origin_step \<Rightarrow> ('n, 'acc, 'j) location option" where
  "alter_origin u l (UniversalOrigin j) = Some (relative_to u j)"
| "alter_origin u l (DescendOrigin js) =
     (if length (interior l) + length js \<le> 8 then Some (l\<lparr>interior := interior l @ js\<rparr>) else None)"

fun compute_origin ::
  "('n, 'acc, 'j) junction list \<Rightarrow> nat \<Rightarrow> ('n, 'acc, 'j) location \<Rightarrow> ('n, 'acc, 'j) xcm_instr list \<Rightarrow>
     (('n, 'acc, 'j) location \<times> ('n, 'acc, 'j) xcm_instr list) option" where
  "compute_origin u (Suc n) l (AlterOrigin a # m) =
     (case alter_origin u l a of None \<Rightarrow> None | Some l' \<Rightarrow> compute_origin u n l' m)"
| "compute_origin u n l m = Some (l, m)"

lemma compute_origin_numeral [simp]:
  "compute_origin u (numeral k) l (AlterOrigin a # m) =
     (case alter_origin u l a of None \<Rightarrow> None | Some l' \<Rightarrow> compute_origin u (pred_numeral k) l' m)"
  by (simp add: numeral_eq_Suc)

lemma claims_universal_numeral [simp]:
  "claims_universal (numeral k) (UniversalOrigin j # as)"
  "claims_universal (numeral k) (DescendOrigin js # as) = claims_universal (pred_numeral k) as"
  by (simp_all add: numeral_eq_Suc)

lemma leading_strip_topic: "leading_steps (strip_topic m) = leading_steps m"
  by (induction m rule: leading_steps.induct) (auto simp: strip_topic_def split: xcm_instr.splits)

lemma compute_origin_descends:
  assumes "compute_origin u n l m = Some (l', m')" and "\<not> claims_universal n (leading_steps m)"
  shows "parents l' = parents l \<and> (\<exists>js. interior l' = interior l @ js)"
  using assms
proof (induction u n l m rule: compute_origin.induct)
  case (1 u n l a m)
  then show ?case by (cases a) (auto split: if_splits)
qed auto

fun starts_with :: "(('n, 'acc, 'j) xcm_instr \<Rightarrow> bool) \<Rightarrow> ('n, 'acc, 'j) xcm_instr list \<Rightarrow> bool" where
  "starts_with P [] = False"
| "starts_with P (i # m) = P i"

fun is_buy :: "('n, 'acc, 'j) xcm_instr \<Rightarrow> bool" where
  "is_buy BuyExecution = True"
| "is_buy _ = False"

fun is_unpaid :: "('n, 'acc, 'j) xcm_instr \<Rightarrow> bool" where
  "is_unpaid UnpaidExecution = True"
| "is_unpaid _ = False"

fun is_reserve :: "('n, 'acc, 'j) xcm_instr \<Rightarrow> bool" where
  "is_reserve ReserveToRelay = True"
| "is_reserve _ = False"

definition pred_barriers ::
  "(('n, 'acc, 'j) location \<Rightarrow> ('n, 'acc, 'j) xcm_instr list \<Rightarrow> bool,
    ('n, 'acc, 'j) location \<Rightarrow> ('n, 'acc, 'j) xcm_instr list \<Rightarrow> bool,
    'n, 'acc, 'j, ('n, 'acc, 'j) xcm_instr list) barrier_api" where
  "pred_barriers =
     \<lparr>should_execute = (\<lambda>b. b),
      TrailingSetTopicAsId = (\<lambda>b l m. b l (strip_topic m)),
      DenyThenTry = (\<lambda>d b l m. \<not> d l m \<and> b l m),
      DenyRecursively = (\<lambda>d. d),
      DenyReserveTransferToRelayChain = (\<lambda>l m. list_ex is_reserve m),
      barrier_pair = (\<lambda>b c l m. b l m \<or> c l m),
      TakeWeightCredit = (\<lambda>l m. m = []),
      WithComputedOrigin = (\<lambda>b u n l m. case compute_origin u (unat n) l m of None \<Rightarrow> False | Some (l', m') \<Rightarrow> b l' m'),
      AllowTopLevelPaidExecutionFrom = (\<lambda>T l m. T l \<and> starts_with is_buy m),
      AllowExplicitUnpaidExecutionFrom = (\<lambda>T l m. T l \<and> starts_with is_unpaid m)\<rparr>"

interpretation preds: barrier_laws pred_barriers strip_topic leading_steps "\<lambda>u n. compute_origin u (unat n)" "\<lambda>m. m = []"
  "starts_with is_buy" "starts_with is_unpaid" "\<lambda>l. list_ex is_reserve" "\<lambda>d. d"
  by unfold_locales
     (auto simp: pred_barriers_def leading_strip_topic dest: compute_origin_descends split: option.splits)

subsection \<open>Lemmas\<close>

lemma unpacked_contains_iff:
  "unpacked_contains n js \<longleftrightarrow> n = 1 \<and> (js = [] \<or> (\<exists>part. js = [Plurality Executive part]))"
  by (induction n js rule: unpacked_contains.induct) auto

lemma contains_iff:
  "ParentOrParentsExecutivePlurality_contains l \<longleftrightarrow>
     parents l = 1 \<and> (interior l = [] \<or> (\<exists>part. interior l = [Plurality Executive part]))"
  by (simp add: ParentOrParentsExecutivePlurality_contains_def unpacked_contains_iff)

context barrier_laws
begin

lemma free_only_from_relay:
  assumes "computed u 8 l (strip m) = Some (l', m')" and "ParentOrParentsExecutivePlurality_contains l'"
    and "\<not> claims_universal 8 (leading m)"
  shows "l = RelayLocation \<or> (\<exists>part. l = \<lparr>parents = 1, interior = [Plurality Executive part]\<rparr>)"
proof -
  have "parents l' = 1" and inner: "interior l' = [] \<or> (\<exists>part. interior l' = [Plurality Executive part])"
    using assms(2) by (simp_all add: contains_iff)
  with computed_descends [OF assms(1)] assms(3) obtain js where "parents l = 1" "interior l' = interior l @ js"
    by (auto simp: leading_strip)
  with inner show ?thesis by (cases l) (auto simp: RelayLocation_def append_eq_Cons_conv)
qed

end

subsection \<open>Properties\<close>

text \<open>
  C26: A message the barrier lets through moves no reserves to the relay chain, and unless its weight is
  already paid for or it buys its execution, it declares unpaid execution and its computed origin is the
  relay chain or the relay chain's executive body. The barrier computes that origin without checking it:
  if no \<open>UniversalOrigin\<close> is among the first eight instructions that alter the origin, the message really comes from the
  relay chain or its executive body.
\<close>

theorem barrier_free_execution:
  assumes laws: "barrier_laws X strip leading computed has_credit pays unpaid reserves_to_relay denies"
    and accepted: "should_execute X (Barrier X parachain_id) origin m"
    and free: "\<not> has_credit (strip m)"
      "\<And>origin' m'. computed (UniversalLocation parachain_id) 8 origin (strip m) = Some (origin', m') \<Longrightarrow> \<not> pays m'"
  shows "\<not> reserves_to_relay origin (strip m) \<and>
    (\<exists>origin' m'. computed (UniversalLocation parachain_id) 8 origin (strip m) = Some (origin', m') \<and> unpaid m' \<and>
      ParentOrParentsExecutivePlurality_contains origin') \<and>
    (\<not> claims_universal 8 (leading m) \<longrightarrow>
      origin = RelayLocation \<or> (\<exists>part. origin = \<lparr>parents = 1, interior = [Plurality Executive part]\<rparr>))"
proof -
  obtain origin' m' where comp: "computed (UniversalLocation parachain_id) 8 origin (strip m) = Some (origin', m')"
      "unpaid m'" "ParentOrParentsExecutivePlurality_contains origin'"
    using accepted free by (auto simp: barrier_laws.barrier_cases [OF laws] split: option.splits)
  moreover have "\<not> reserves_to_relay origin (strip m)"
    using barrier_laws.barrier_denies_reserve [OF laws] accepted by blast
  ultimately show ?thesis using barrier_laws.free_only_from_relay [OF laws comp(1,3)] by blast
qed

theorem barrier_free_execution_witness:
  "\<not> should_execute pred_barriers (Barrier pred_barriers 1000) (\<lparr>parents = 1, interior = [Parachain 2000]\<rparr> :: (nat, nat, nat) location)
     [AlterOrigin (DescendOrigin [Plurality Executive Voice]), UnpaidExecution, SetTopic] \<and>
   should_execute pred_barriers (Barrier pred_barriers 1000) (\<lparr>parents = 1, interior = [Parachain 2000]\<rparr> :: (nat, nat, nat) location)
     [AlterOrigin (UniversalOrigin (Plurality Executive Voice)), UnpaidExecution, SetTopic]"
proof -
  let ?l = "\<lparr>parents = 1, interior = [Parachain 2000]\<rparr> :: (nat, nat, nat) location"
  let ?m = "[AlterOrigin (DescendOrigin [Plurality Executive Voice]), UnpaidExecution, SetTopic] :: (nat, nat, nat) xcm_instr list"
  let ?u = "[AlterOrigin (UniversalOrigin (Plurality Executive Voice)), UnpaidExecution, SetTopic] :: (nat, nat, nat) xcm_instr list"
  have strip: "strip_topic ?m = butlast ?m" "strip_topic ?u = butlast ?u" by (simp_all add: strip_topic_def)
  have comp: "compute_origin (UniversalLocation 1000) (unat (8 :: u32)) ?l (strip_topic ?m) =
      Some (?l\<lparr>interior := [Parachain 2000, Plurality Executive Voice]\<rparr>, [UnpaidExecution])"
    by (simp add: strip)
  have honest: "\<not> claims_universal 8 (leading_steps ?m)"
    by simp
  have "\<not> should_execute pred_barriers (Barrier pred_barriers 1000) ?l ?m"
  proof
    assume "should_execute pred_barriers (Barrier pred_barriers 1000) ?l ?m"
    from barrier_free_execution [OF preds.barrier_laws_axioms this, unfolded comp] honest show False
      by (simp add: strip RelayLocation_def)
  qed
  moreover have "should_execute pred_barriers (Barrier pred_barriers 1000) ?l ?u"
    unfolding preds.barrier_cases strip
    by (simp add: UniversalLocation_def ParentOrParentsExecutivePlurality_contains_def) (simp add: pred_barriers_def)
  ultimately show ?thesis by simp
qed

end
