(* ===== verification/Xcm_Origins.thy ===== *)
theory Xcm_Origins
  imports Xcm_Config
begin

text \<open>
  runtime/src/configs/xcm_config.rs, second part: who a cross-chain message speaks for. The conversion of
  locations to accounts, the conversion of a location and an origin kind to an origin of the runtime,
  the routing of outgoing messages, the configuration of the executor and of the XCM pallet, and the
  origin that may update the collators (runtime/src/configs/mod.rs). The converters the tuples list are
  the SDK's: they are records of functions, and the locales state what their documentation says.
\<close>

subsection \<open>Locations as accounts\<close>

record ('c, 'n, 'acc, 'j) location_api =
  convert_location :: "'c \<Rightarrow> ('n, 'acc, 'j) location \<Rightarrow> 'acc option"
  location_tuple :: "'c list \<Rightarrow> 'c"
  ParentIsPreset :: 'c
  SiblingParachainConvertsVia :: 'c
  AccountId32Aliases :: "'n option \<Rightarrow> 'c"

definition LocationToAccountId :: "('c, 'n, 'acc, 'j) location_api \<Rightarrow> 'c" where
  "LocationToAccountId L =
     location_tuple L [ParentIsPreset L, SiblingParachainConvertsVia L, AccountId32Aliases L RelayNetwork]"

text \<open>The sibling parachain and the local account a location stands for.\<close>

fun sibling_of :: "u8 \<Rightarrow> ('n, 'acc, 'j) junction list \<Rightarrow> u32 option" where
  "sibling_of n [Parachain p] = (if n = 1 then Some p else None)"
| "sibling_of n _ = None"

fun account_of :: "'n option \<Rightarrow> u8 \<Rightarrow> ('n, 'acc, 'j) junction list \<Rightarrow> 'acc option" where
  "account_of net n [AccountId32 net' a] = (if n = 0 \<and> (net' = None \<or> net' = net) then Some a else None)"
| "account_of net n _ = None"

locale location_laws =
  fixes L :: "('c, 'n, 'acc, 'j) location_api" and parent_account :: 'acc and sibling_account :: "u32 \<Rightarrow> 'acc"
  assumes tuple: "convert_location L (location_tuple L cs) l = first_some (\<lambda>c. convert_location L c l) cs"
    and parent: "convert_location L (ParentIsPreset L) l = (if l = RelayLocation then Some parent_account else None)"
    and sibling: "convert_location L (SiblingParachainConvertsVia L) l =
      map_option sibling_account (sibling_of (parents l) (interior l))"
    and aliases: "convert_location L (AccountId32Aliases L net) l = account_of net (parents l) (interior l)"

subsection \<open>Origins of messages\<close>

datatype origin_kind = Native | SovereignAccount | Superuser | Xcm

text \<open>The origins of the runtime a message can be dispatched with, and the root origin.\<close>

datatype ('acc, 'l) runtime_origin =
    RawRoot
  | RawSigned 'acc
  | RawNone
  | CumulusRelay
  | CumulusSibling u32
  | XcmLocation 'l

record ('k, 'c, 'n, 'acc, 'j) origin_api =
  convert_origin :: "'k \<Rightarrow> ('n, 'acc, 'j) location \<Rightarrow> origin_kind \<Rightarrow> ('acc, ('n, 'acc, 'j) location) runtime_origin option"
  origin_tuple :: "'k list \<Rightarrow> 'k"
  SovereignSignedViaLocation :: "'c \<Rightarrow> 'k"
  RelayChainAsNative :: "('acc, ('n, 'acc, 'j) location) runtime_origin \<Rightarrow> 'k"
  SiblingParachainAsNative :: 'k
  SignedAccountId32AsNative :: "'n option \<Rightarrow> 'k"
  XcmPassthrough :: 'k

definition RelayChainOrigin :: "('acc, 'l) runtime_origin" where
  "RelayChainOrigin = CumulusRelay"

definition XcmOriginToTransactDispatchOrigin ::
  "('c, 'n, 'acc, 'j) location_api \<Rightarrow> ('k, 'c, 'n, 'acc, 'j) origin_api \<Rightarrow> 'k" where
  "XcmOriginToTransactDispatchOrigin L K =
     origin_tuple K
       [SovereignSignedViaLocation K (LocationToAccountId L),
        RelayChainAsNative K RelayChainOrigin,
        SiblingParachainAsNative K,
        SignedAccountId32AsNative K RelayNetwork,
        XcmPassthrough K]"

locale origin_laws = location_laws L parent_account sibling_account
  for L :: "('c, 'n, 'acc, 'j) location_api" and parent_account :: 'acc and sibling_account :: "u32 \<Rightarrow> 'acc" +
  fixes K :: "('k, 'c, 'n, 'acc, 'j) origin_api"
  assumes origins: "convert_origin K (origin_tuple K ks) l k = first_some (\<lambda>c. convert_origin K c l k) ks"
    and sovereign: "convert_origin K (SovereignSignedViaLocation K c) l k =
      (if k = SovereignAccount then map_option RawSigned (convert_location L c l) else None)"
    and relay_native: "convert_origin K (RelayChainAsNative K r) l k = (if k = Native \<and> l = RelayLocation then Some r else None)"
    and sibling_native: "convert_origin K (SiblingParachainAsNative K) l k =
      (if k = Native then map_option CumulusSibling (sibling_of (parents l) (interior l)) else None)"
    and signed_native: "convert_origin K (SignedAccountId32AsNative K net) l k =
      (if k = Native then map_option RawSigned (account_of net (parents l) (interior l)) else None)"
    and passthrough: "convert_origin K (XcmPassthrough K) l k = (if k = Xcm then Some (XcmLocation l) else None)"

subsection \<open>The origin that updates the collators\<close>

record ('en, 'n, 'acc, 'j) ensure_api =
  ensure_origin :: "'en \<Rightarrow> ('acc, ('n, 'acc, 'j) location) runtime_origin \<Rightarrow> bool"
  EitherOfDiverse :: "'en \<Rightarrow> 'en \<Rightarrow> 'en"
  EnsureRoot :: 'en
  EnsureXcm :: "(('n, 'acc, 'j) location \<Rightarrow> bool) \<Rightarrow> 'en"
  IsVoiceOfBody :: "('n, 'acc, 'j) location \<Rightarrow> body_id \<Rightarrow> ('n, 'acc, 'j) location \<Rightarrow> bool"

definition CollatorSelectionUpdateOrigin :: "('en, 'n, 'acc, 'j) ensure_api \<Rightarrow> 'en" where
  "CollatorSelectionUpdateOrigin N =
     EitherOfDiverse N (EnsureRoot N) (EnsureXcm N (IsVoiceOfBody N RelayLocation StakingAdminBodyId))"

locale ensure_laws =
  fixes N :: "('en, 'n, 'acc, 'j) ensure_api"
  assumes either: "ensure_origin N (EitherOfDiverse N a b) ori \<longleftrightarrow> ensure_origin N a ori \<or> ensure_origin N b ori"
    and root: "ensure_origin N (EnsureRoot N) ori \<longleftrightarrow> ori = RawRoot"
    and ensure_xcm: "ensure_origin N (EnsureXcm N F) ori \<longleftrightarrow> (\<exists>l. ori = XcmLocation l \<and> F l)"
    and voice: "IsVoiceOfBody N p body l \<longleftrightarrow> parents l = parents p \<and> interior l = interior p @ [Plurality body Voice]"
begin

text \<open>The voice of the relay chain's defence body.\<close>

lemma update_origin_iff:
  "ensure_origin N (CollatorSelectionUpdateOrigin N) ori \<longleftrightarrow>
     ori = RawRoot \<or> ori = XcmLocation \<lparr>parents = 1, interior = [Plurality Defense Voice]\<rparr>"
proof -
  have "parents l = 1 \<and> interior l = [Plurality Defense Voice] \<longleftrightarrow> l = \<lparr>parents = 1, interior = [Plurality Defense Voice]\<rparr>"
    for l :: "('n, 'acc, 'j) location" by (cases l) auto
  then show ?thesis
    by (auto simp: CollatorSelectionUpdateOrigin_def either root ensure_xcm voice RelayLocation_def StakingAdminBodyId_def)
qed

end

subsection \<open>Routing\<close>

datatype route = ToParent | ToSibling u32

record ('r, 'n, 'acc, 'j) router_api =
  route_of :: "'r \<Rightarrow> ('n, 'acc, 'j) location \<Rightarrow> route option"
  router_tuple :: "'r list \<Rightarrow> 'r"
  WithUniqueTopic :: "'r \<Rightarrow> 'r"
  ParentAsUmp :: "runtime_pallet \<Rightarrow> 'r"
  router_of_pallet :: "runtime_pallet \<Rightarrow> 'r"

definition XcmRouter :: "('r, 'n, 'acc, 'j) router_api \<Rightarrow> 'r" where
  "XcmRouter R = WithUniqueTopic R (router_tuple R [ParentAsUmp R ParachainSystem, router_of_pallet R XcmpQueue])"

locale router_laws =
  fixes R :: "('r, 'n, 'acc, 'j) router_api"
  assumes topic: "route_of R (WithUniqueTopic R r) l = route_of R r l"
    and routers: "route_of R (router_tuple R rs) l = first_some (\<lambda>r. route_of R r l) rs"
    and ump: "route_of R (ParentAsUmp R p) l = (if l = RelayLocation then Some ToParent else None)"
    and xcmp: "route_of R (router_of_pallet R XcmpQueue) l = map_option ToSibling (sibling_of (parents l) (interior l))"

subsection \<open>Configuration of the executor and of the XCM pallet\<close>

datatype xcm_filter = Everything | Nothing

text \<open>None is the type \<open>()\<close>, which disables a feature.\<close>

record xcm_executor_config =
  xc_XcmEventEmitter :: runtime_pallet
  xc_Currency :: runtime_pallet
  xc_IsTeleporter :: "string option"
  xc_IsReserve :: "string option"
  xc_ResponseHandler :: runtime_pallet
  xc_AssetTrap :: runtime_pallet
  xc_AssetClaims :: runtime_pallet
  xc_SubscriptionService :: runtime_pallet
  xc_MaxAssetsIntoHolding :: u32
  xc_AssetLocker :: "string option"
  xc_AssetExchanger :: "string option"
  xc_FeeManager :: "string option"
  xc_MessageExporter :: "string option"
  xc_UniversalAliases :: xcm_filter
  xc_SafeCallFilter :: xcm_filter
  xc_Aliasers :: xcm_filter
  xc_XcmRecorder :: runtime_pallet

definition XcmConfig :: xcm_executor_config where
  "XcmConfig =
     \<lparr>xc_XcmEventEmitter = PolkadotXcm,
      xc_Currency = Balances,
      xc_IsTeleporter = None,
      xc_IsReserve = Some ''NativeAsset'',
      xc_ResponseHandler = PolkadotXcm,
      xc_AssetTrap = PolkadotXcm,
      xc_AssetClaims = PolkadotXcm,
      xc_SubscriptionService = PolkadotXcm,
      xc_MaxAssetsIntoHolding = MaxAssetsIntoHolding,
      xc_AssetLocker = None,
      xc_AssetExchanger = None,
      xc_FeeManager = None,
      xc_MessageExporter = None,
      xc_UniversalAliases = Nothing,
      xc_SafeCallFilter = Everything,
      xc_Aliasers = Nothing,
      xc_XcmRecorder = PolkadotXcm\<rparr>"

record pallet_xcm_config =
  px_XcmExecuteFilter :: xcm_filter
  px_XcmTeleportFilter :: xcm_filter
  px_XcmReserveTransferFilter :: xcm_filter
  px_MaxInstructions :: u32
  px_VERSION_DISCOVERY_QUEUE_SIZE :: u32
  px_Currency :: runtime_pallet
  px_MaxLockers :: u32
  px_MaxRemoteLockConsumers :: u32

definition runtime_pallet_xcm_config :: pallet_xcm_config where
  "runtime_pallet_xcm_config =
     \<lparr>px_XcmExecuteFilter = Nothing,
      px_XcmTeleportFilter = Everything,
      px_XcmReserveTransferFilter = Nothing,
      px_MaxInstructions = MaxInstructions,
      px_VERSION_DISCOVERY_QUEUE_SIZE = 100,
      px_Currency = Balances,
      px_MaxLockers = 8,
      px_MaxRemoteLockConsumers = 0\<rparr>"

subsection \<open>Lemmas\<close>

lemma sibling_of_Some: "sibling_of n js = Some p \<longleftrightarrow> n = 1 \<and> js = [Parachain p]"
  by (induction n js rule: sibling_of.induct) auto

lemma account_of_Some:
  "account_of net n js = Some a \<longleftrightarrow> n = 0 \<and> (\<exists>net'. js = [AccountId32 net' a] \<and> (net' = None \<or> net' = net))"
  by (induction net n js rule: account_of.induct) auto

lemma location_eq_iff: "l = \<lparr>parents = n, interior = js\<rparr> \<longleftrightarrow> parents l = n \<and> interior l = js"
  by (cases l) auto

lemma sibling_of_iff: "sibling_of (parents l) (interior l) = Some p \<longleftrightarrow> l = \<lparr>parents = 1, interior = [Parachain p]\<rparr>"
  by (simp add: sibling_of_Some location_eq_iff)

lemma account_of_iff:
  "account_of None (parents l) (interior l) = Some a \<longleftrightarrow> l = \<lparr>parents = 0, interior = [AccountId32 None a]\<rparr>"
  by (auto simp: account_of_Some location_eq_iff)

lemma no_sibling [simp]: "sibling_of n [] = None" "account_of net n [] = None" "account_of net n [Parachain p] = None"
  by simp_all

context location_laws
begin

lemma to_account_cases:
  "convert_location L (LocationToAccountId L) l =
     (if l = RelayLocation then Some parent_account
      else case sibling_of (parents l) (interior l) of
             Some p \<Rightarrow> Some (sibling_account p)
           | None \<Rightarrow> account_of None (parents l) (interior l))"
  by (simp add: LocationToAccountId_def tuple parent sibling aliases RelayNetwork_def split: option.split)

lemma to_account_iff:
  "convert_location L (LocationToAccountId L) l = Some a \<longleftrightarrow>
     l = RelayLocation \<and> a = parent_account \<or>
     (\<exists>p. l = \<lparr>parents = 1, interior = [Parachain p]\<rparr> \<and> a = sibling_account p) \<or>
     l = \<lparr>parents = 0, interior = [AccountId32 None a]\<rparr>"
proof (cases "l = RelayLocation")
  case False
  show ?thesis
  proof (cases "sibling_of (parents l) (interior l)")
    case None
    with False show ?thesis
      by (auto simp: to_account_cases account_of_iff sibling_of_Some)
  next
    case (Some p)
    then have "l = \<lparr>parents = 1, interior = [Parachain p]\<rparr>" by (simp add: sibling_of_iff)
    then show ?thesis by (auto simp: to_account_cases RelayLocation_def)
  qed
qed (auto simp: to_account_cases RelayLocation_def)

end

context origin_laws
begin

abbreviation "dispatch_origin \<equiv> convert_origin K (XcmOriginToTransactDispatchOrigin L K)"

lemma dispatch_origin_cases:
  "dispatch_origin l k =
     (case k of
        SovereignAccount \<Rightarrow> map_option RawSigned (convert_location L (LocationToAccountId L) l)
      | Native \<Rightarrow>
          if l = RelayLocation then Some CumulusRelay
          else (case sibling_of (parents l) (interior l) of
                  Some p \<Rightarrow> Some (CumulusSibling p)
                | None \<Rightarrow> map_option RawSigned (account_of None (parents l) (interior l)))
      | Xcm \<Rightarrow> Some (XcmLocation l)
      | Superuser \<Rightarrow> None)"
  by (cases k)
     (simp_all add: XcmOriginToTransactDispatchOrigin_def origins sovereign relay_native sibling_native signed_native
        passthrough RelayChainOrigin_def RelayNetwork_def split: option.split)

lemma dispatch_origin_not_root: "dispatch_origin l k \<noteq> Some RawRoot"
  by (cases k) (auto simp: dispatch_origin_cases split: option.splits if_splits)

lemma dispatch_origin_signed:
  "dispatch_origin l k = Some (RawSigned a) \<longleftrightarrow>
     k = SovereignAccount \<and> convert_location L (LocationToAccountId L) l = Some a \<or>
     k = Native \<and> l = \<lparr>parents = 0, interior = [AccountId32 None a]\<rparr>"
proof (cases k)
  case Native
  then show ?thesis
    by (auto simp: dispatch_origin_cases account_of_iff sibling_of_Some RelayLocation_def split: option.splits if_splits)
qed (auto simp: dispatch_origin_cases)

lemma dispatch_origin_xcm: "dispatch_origin l k = Some (XcmLocation l') \<longleftrightarrow> k = Xcm \<and> l' = l"
  by (cases k) (auto simp: dispatch_origin_cases split: option.splits if_splits)

end

context router_laws
begin

text \<open>Messages go up to the relay chain or across to a sibling parachain, and nowhere else.\<close>

lemma router_cases:
  "route_of R (XcmRouter R) l =
     (if l = RelayLocation then Some ToParent else map_option ToSibling (sibling_of (parents l) (interior l)))"
  by (simp add: XcmRouter_def topic routers ump xcmp split: option.split)

end

subsection \<open>Converters as functions\<close>

definition fun_locations ::
  "'acc \<Rightarrow> (u32 \<Rightarrow> 'acc) \<Rightarrow> (('n, 'acc, 'j) location \<Rightarrow> 'acc option, 'n, 'acc, 'j) location_api" where
  "fun_locations parent_account sibling_account =
     \<lparr>convert_location = (\<lambda>c. c),
      location_tuple = (\<lambda>cs l. first_some (\<lambda>c. c l) cs),
      ParentIsPreset = (\<lambda>l. if parents l = 1 \<and> interior l = [] then Some parent_account else None),
      SiblingParachainConvertsVia = (\<lambda>l. map_option sibling_account (sibling_of (parents l) (interior l))),
      AccountId32Aliases = (\<lambda>net l. account_of net (parents l) (interior l))\<rparr>"

lemma is_RelayLocation: "parents l = 1 \<and> interior l = [] \<longleftrightarrow> l = RelayLocation"
  by (simp add: RelayLocation_def location_eq_iff)

interpretation fun_loc: location_laws "fun_locations parent_account sibling_account" parent_account sibling_account
  for parent_account sibling_account
  by unfold_locales (simp_all add: fun_locations_def is_RelayLocation)

type_synonym ('n, 'acc, 'j) origin_fun =
  "('n, 'acc, 'j) location \<Rightarrow> origin_kind \<Rightarrow> ('acc, ('n, 'acc, 'j) location) runtime_origin option"

definition fun_origins ::
  "(('n, 'acc, 'j) origin_fun, ('n, 'acc, 'j) location \<Rightarrow> 'acc option, 'n, 'acc, 'j) origin_api" where
  "fun_origins =
     \<lparr>convert_origin = (\<lambda>c. c),
      origin_tuple = (\<lambda>cs l k. first_some (\<lambda>c. c l k) cs),
      SovereignSignedViaLocation = (\<lambda>c l k. if k = SovereignAccount then map_option RawSigned (c l) else None),
      RelayChainAsNative = (\<lambda>r l k. if k = Native \<and> parents l = 1 \<and> interior l = [] then Some r else None),
      SiblingParachainAsNative =
        (\<lambda>l k. if k = Native then map_option CumulusSibling (sibling_of (parents l) (interior l)) else None),
      SignedAccountId32AsNative =
        (\<lambda>net l k. if k = Native then map_option RawSigned (account_of net (parents l) (interior l)) else None),
      XcmPassthrough = (\<lambda>l k. if k = Xcm then Some (XcmLocation l) else None)\<rparr>"

interpretation fun_ori: origin_laws "fun_locations parent_account sibling_account" parent_account sibling_account fun_origins
  for parent_account sibling_account
  by unfold_locales (simp_all add: fun_origins_def fun_locations_def is_RelayLocation)

definition pred_ensure ::
  "(('acc, ('n, 'acc, 'j) location) runtime_origin \<Rightarrow> bool, 'n, 'acc, 'j) ensure_api" where
  "pred_ensure =
     \<lparr>ensure_origin = (\<lambda>e. e),
      EitherOfDiverse = (\<lambda>a b ori. a ori \<or> b ori),
      EnsureRoot = (\<lambda>ori. case ori of RawRoot \<Rightarrow> True | _ \<Rightarrow> False),
      EnsureXcm = (\<lambda>F ori. case ori of XcmLocation l \<Rightarrow> F l | _ \<Rightarrow> False),
      IsVoiceOfBody = (\<lambda>p body l. parents l = parents p \<and> interior l = interior p @ [Plurality body Voice])\<rparr>"

interpretation preds_ensure: ensure_laws pred_ensure
  by unfold_locales (auto simp: pred_ensure_def split: runtime_origin.split)

definition fun_router :: "(('n, 'acc, 'j) location \<Rightarrow> route option, 'n, 'acc, 'j) router_api" where
  "fun_router =
     \<lparr>route_of = (\<lambda>r. r),
      router_tuple = (\<lambda>rs l. first_some (\<lambda>r. r l) rs),
      WithUniqueTopic = (\<lambda>r. r),
      ParentAsUmp = (\<lambda>p l. if parents l = 1 \<and> interior l = [] then Some ToParent else None),
      router_of_pallet = (\<lambda>p l. map_option ToSibling (sibling_of (parents l) (interior l)))\<rparr>"

interpretation fun_rt: router_laws fun_router
  by unfold_locales (simp_all add: fun_router_def is_RelayLocation)

subsection \<open>Properties\<close>

text \<open>
  The accounts of locations: the relay chain has its preset account, each sibling parachain the one
  derived from its identifier, a local account is its own, and no other location has an account. If the
  derived accounts are distinct, no two remote locations share one.
\<close>

lemma location_accounts:
  assumes "location_laws L parent_account sibling_account"
  shows "(convert_location L (LocationToAccountId L) l = Some a \<longleftrightarrow>
      l = RelayLocation \<and> a = parent_account \<or>
      (\<exists>p. l = \<lparr>parents = 1, interior = [Parachain p]\<rparr> \<and> a = sibling_account p) \<or>
      l = \<lparr>parents = 0, interior = [AccountId32 None a]\<rparr>) \<and>
    (inj sibling_account \<and> parent_account \<notin> range sibling_account \<and> parents l = 1 \<and> parents l' = 1 \<and>
     convert_location L (LocationToAccountId L) l = Some a \<and> convert_location L (LocationToAccountId L) l' = Some a
     \<longrightarrow> l = l')"
  unfolding location_laws.to_account_iff [OF assms]
  by (auto simp: RelayLocation_def dest: injD)

lemma location_accounts_example:
  "convert_location (fun_locations (0 :: nat) (\<lambda>p. Suc (unat p)))
     (LocationToAccountId (fun_locations 0 (\<lambda>p. Suc (unat p))))
     (\<lparr>parents = 1, interior = [Parachain 2000]\<rparr> :: (nat, nat, nat) location) = Some 2001"
  using location_accounts [OF fun_loc.location_laws_axioms, of 0 "\<lambda>p. Suc (unat p)"
      "\<lparr>parents = 1, interior = [Parachain 2000]\<rparr> :: (nat, nat, nat) location" 2001 RelayLocation]
  by simp

text \<open>
  C9: What a cross-chain message can be dispatched as: never as root, whatever its origin and the kind it
  asks for; a request for superuser rights is refused; as a signed account only if the account is that
  of its location; and as an XCM origin only with its own location.
\<close>

theorem message_origin_safe:
  assumes "origin_laws L parent_account sibling_account K"
    and "converted = convert_origin K (XcmOriginToTransactDispatchOrigin L K)"
  shows "converted l k \<noteq> Some RawRoot \<and>
    converted l Superuser = None \<and>
    (converted l k = Some (RawSigned a) \<longrightarrow> convert_location L (LocationToAccountId L) l = Some a) \<and>
    (converted l k = Some (XcmLocation l') \<longleftrightarrow> k = Xcm \<and> l' = l)"
proof -
  have loc: "location_laws L parent_account sibling_account" using assms(1) by (rule origin_laws.axioms(1))
  have "convert_location L (LocationToAccountId L) l = Some a" if "converted l k = Some (RawSigned a)"
    using that unfolding assms(2) origin_laws.dispatch_origin_signed [OF assms(1)]
    by (auto simp: location_laws.to_account_iff [OF loc])
  then show ?thesis
    unfolding assms(2)
    by (simp add: origin_laws.dispatch_origin_not_root [OF assms(1)] origin_laws.dispatch_origin_xcm [OF assms(1)])
       (simp add: origin_laws.dispatch_origin_cases [OF assms(1)])
qed

theorem message_origin_safe_witness:
  "convert_origin fun_origins (XcmOriginToTransactDispatchOrigin (fun_locations (0 :: nat) (\<lambda>p. Suc (unat p))) fun_origins)
     (RelayLocation :: (nat, nat, nat) location) Superuser = None"
  using message_origin_safe [OF fun_ori.origin_laws_axioms refl, of 0 "\<lambda>p. Suc (unat p)"
      "RelayLocation :: (nat, nat, nat) location"] by blast

text \<open>
  The collators are updated by root or by the voice of the relay chain's defence body; and of all
  cross-chain messages only one from that body, dispatched as an XCM origin, can do it.
\<close>

lemma collator_update_origin:
  assumes "ensure_laws N" and "origin_laws L parent_account sibling_account K"
  shows "(ensure_origin N (CollatorSelectionUpdateOrigin N) ori \<longleftrightarrow>
      ori = RawRoot \<or> ori = XcmLocation \<lparr>parents = 1, interior = [Plurality Defense Voice]\<rparr>) \<and>
    ((\<exists>ori'. convert_origin K (XcmOriginToTransactDispatchOrigin L K) l k = Some ori' \<and>
        ensure_origin N (CollatorSelectionUpdateOrigin N) ori') \<longleftrightarrow>
      k = Xcm \<and> l = \<lparr>parents = 1, interior = [Plurality Defense Voice]\<rparr>)"
proof -
  have "convert_origin K (XcmOriginToTransactDispatchOrigin L K) l k \<noteq> Some RawRoot"
    by (rule origin_laws.dispatch_origin_not_root [OF assms(2)])
  then show ?thesis
    unfolding ensure_laws.update_origin_iff [OF assms(1)]
    using origin_laws.dispatch_origin_xcm [OF assms(2), of l k "\<lparr>parents = 1, interior = [Plurality Defense Voice]\<rparr>"]
    by auto
qed

lemma collator_update_origin_example:
  "ensure_origin pred_ensure (CollatorSelectionUpdateOrigin pred_ensure)
     (XcmLocation \<lparr>parents = 1, interior = [Plurality Defense Voice]\<rparr> :: (nat, (nat, nat, nat) location) runtime_origin)"
  using collator_update_origin [OF preds_ensure.ensure_laws_axioms fun_ori.origin_laws_axioms [of 0 "\<lambda>p. Suc (unat p)"]]
  by blast

end
