(* ===== verification/Xcm_Assets.thy ===== *)
theory Xcm_Assets
  imports Xcm_Origins
begin

text \<open>
  runtime/src/configs/xcm_config.rs, third part: which assets messages can move and whose they are, what a message
  weighs, and the location a local origin sends messages as. The adapter to the balances, the filters and the
  weigher are types of the SDK with the runtime's parameters; their constructors and the functions of the
  executor that use them are records, and the locales state their documented behaviour.
\<close>

subsection \<open>Assets\<close>

datatype 'i fungibility = Fungible u128 | NonFungible 'i

record ('n, 'acc, 'j, 'i) asset =
  asset_id :: "('n, 'acc, 'j) location"
  asset_fun :: "'i fungibility"

datatype xcm_error = AssetNotHandled | AccountIdConversionFailed | FailedToTransactAsset

type_synonym 's transact = "('s, xcm_error, unit) exec"

text \<open>\<open>'m\<close> are the matchers of assets, \<open>'t\<close> the transactors and \<open>'f\<close> the filters of pairs of an asset and its origin.\<close>

record ('m, 't, 'f, 'c, 's, 'n, 'acc, 'j, 'i) asset_api =
  matches_fungible :: "'m \<Rightarrow> ('n, 'acc, 'j, 'i) asset \<Rightarrow> u128 option"
  IsConcrete :: "('n, 'acc, 'j) location \<Rightarrow> 'm"
  mint_into :: "runtime_pallet \<Rightarrow> 'acc \<Rightarrow> u128 \<Rightarrow> 's transact"
  burn_from :: "runtime_pallet \<Rightarrow> 'acc \<Rightarrow> u128 \<Rightarrow> 's transact"
  FungibleAdapter :: "runtime_pallet \<Rightarrow> 'm \<Rightarrow> 'c \<Rightarrow> 't"
  deposit_asset :: "'t \<Rightarrow> ('n, 'acc, 'j, 'i) asset \<Rightarrow> ('n, 'acc, 'j) location \<Rightarrow> 's transact"
  withdraw_asset :: "'t \<Rightarrow> ('n, 'acc, 'j, 'i) asset \<Rightarrow> ('n, 'acc, 'j) location \<Rightarrow> 's transact"
  filter_contains :: "'f \<Rightarrow> ('n, 'acc, 'j, 'i) asset \<Rightarrow> ('n, 'acc, 'j) location \<Rightarrow> bool"
  NativeAsset :: 'f
  unit_filter :: 'f

text \<open>The checking account of the adapter is the type \<open>()\<close>: teleports are not tracked.\<close>

definition LocalAssetTransactor ::
  "('m, 't, 'f, 'c, 's, 'n, 'acc, 'j, 'i) asset_api \<Rightarrow> ('c, 'n, 'acc, 'j) location_api \<Rightarrow> 't" where
  "LocalAssetTransactor A L = FungibleAdapter A Balances (IsConcrete A RelayLocation) (LocationToAccountId L)"

definition IsReserve :: "('m, 't, 'f, 'c, 's, 'n, 'acc, 'j, 'i) asset_api \<Rightarrow> 'f" where
  "IsReserve A = NativeAsset A"

definition IsTeleporter :: "('m, 't, 'f, 'c, 's, 'n, 'acc, 'j, 'i) asset_api \<Rightarrow> 'f" where
  "IsTeleporter A = unit_filter A"

locale asset_laws = location_laws L parent_account sibling_account
  for L :: "('c, 'n, 'acc, 'j) location_api" and parent_account :: 'acc and sibling_account :: "u32 \<Rightarrow> 'acc" +
  fixes A :: "('m, 't, 'f, 'c, 's, 'n, 'acc, 'j, 'i) asset_api"
  assumes concrete: "matches_fungible A (IsConcrete A l) a =
      (case asset_fun a of Fungible n \<Rightarrow> if asset_id a = l then Some n else None | NonFungible i \<Rightarrow> None)"
    and deposit: "deposit_asset A (FungibleAdapter A p m c) a l s =
      (case matches_fungible A m a of
         None \<Rightarrow> (Err AssetNotHandled, s)
       | Some n \<Rightarrow> (case convert_location L c l of
           None \<Rightarrow> (Err AccountIdConversionFailed, s)
         | Some acc \<Rightarrow> mint_into A p acc n s))"
    and withdraw: "withdraw_asset A (FungibleAdapter A p m c) a l s =
      (case matches_fungible A m a of
         None \<Rightarrow> (Err AssetNotHandled, s)
       | Some n \<Rightarrow> (case convert_location L c l of
           None \<Rightarrow> (Err AccountIdConversionFailed, s)
         | Some acc \<Rightarrow> burn_from A p acc n s))"
    and native: "filter_contains A (NativeAsset A) a l \<longleftrightarrow> asset_id a = l"
    and unit_filter: "\<not> filter_contains A (unit_filter A) a l"
begin

lemma deposit_cases:
  "deposit_asset A (LocalAssetTransactor A L) a l s =
     (case (asset_fun a, convert_location L (LocationToAccountId L) l) of
        (NonFungible i, _) \<Rightarrow> (Err AssetNotHandled, s)
      | (Fungible n, acc) \<Rightarrow>
          if asset_id a \<noteq> RelayLocation then (Err AssetNotHandled, s)
          else (case acc of None \<Rightarrow> (Err AccountIdConversionFailed, s) | Some acc \<Rightarrow> mint_into A Balances acc n s))"
  by (simp add: LocalAssetTransactor_def deposit concrete split: fungibility.split)

lemma withdraw_cases:
  "withdraw_asset A (LocalAssetTransactor A L) a l s =
     (case (asset_fun a, convert_location L (LocationToAccountId L) l) of
        (NonFungible i, _) \<Rightarrow> (Err AssetNotHandled, s)
      | (Fungible n, acc) \<Rightarrow>
          if asset_id a \<noteq> RelayLocation then (Err AssetNotHandled, s)
          else (case acc of None \<Rightarrow> (Err AccountIdConversionFailed, s) | Some acc \<Rightarrow> burn_from A Balances acc n s))"
  by (simp add: LocalAssetTransactor_def withdraw concrete split: fungibility.split)

text \<open>A transfer that moves something concerns the relay chain's token and an account of the location.\<close>

lemma moved_relay_token:
  assumes "f \<in> {deposit_asset A, withdraw_asset A}" and "f (LocalAssetTransactor A L) a l s = (r, s')"
    and "r = Ok () \<or> s' \<noteq> s"
  obtains n acc where "a = \<lparr>asset_id = RelayLocation, asset_fun = Fungible n\<rparr>"
    and "convert_location L (LocationToAccountId L) l = Some acc"
  using assms
  by (cases a) (auto simp: deposit_cases withdraw_cases split: fungibility.splits if_splits option.splits)

end

subsection \<open>Local origins as locations\<close>

record ('v, 'e, 'n, 'acc, 'j) sender_api =
  to_location :: "'v \<Rightarrow> ('acc, ('n, 'acc, 'j) location) runtime_origin \<Rightarrow> ('n, 'acc, 'j) location option"
  SignedToAccountId32 :: "'n option \<Rightarrow> 'v"
  EnsureXcmOrigin :: "'v \<Rightarrow> 'e"
  sender_location :: "'e \<Rightarrow> ('acc, ('n, 'acc, 'j) location) runtime_origin \<Rightarrow> ('n, 'acc, 'j) location option"

definition LocalOriginToLocation :: "('v, 'e, 'n, 'acc, 'j) sender_api \<Rightarrow> 'v" where
  "LocalOriginToLocation V = SignedToAccountId32 V RelayNetwork"

text \<open>Who may send a message, or execute one, with the XCM pallet, and as which location.\<close>

definition SendXcmOrigin :: "('v, 'e, 'n, 'acc, 'j) sender_api \<Rightarrow> 'e" where
  "SendXcmOrigin V = EnsureXcmOrigin V (LocalOriginToLocation V)"

definition ExecuteXcmOrigin :: "('v, 'e, 'n, 'acc, 'j) sender_api \<Rightarrow> 'e" where
  "ExecuteXcmOrigin V = EnsureXcmOrigin V (LocalOriginToLocation V)"

definition Here :: "('n, 'acc, 'j) location" where
  "Here = \<lparr>parents = 0, interior = []\<rparr>"

text \<open>Root stands for the whole chain where no location is given by the conversion.\<close>

locale sender_laws =
  fixes V :: "('v, 'e, 'n, 'acc, 'j) sender_api"
  assumes signed: "to_location V (SignedToAccountId32 V net) ori =
      (case ori of RawSigned a \<Rightarrow> Some \<lparr>parents = 0, interior = [AccountId32 net a]\<rparr> | _ \<Rightarrow> None)"
    and ensured: "sender_location V (EnsureXcmOrigin V v) ori =
      (case to_location V v ori of Some l \<Rightarrow> Some l | None \<Rightarrow> if ori = RawRoot then Some Here else None)"
begin

lemma sender_cases:
  "sender_location V (SendXcmOrigin V) ori =
     (case ori of RawSigned a \<Rightarrow> Some \<lparr>parents = 0, interior = [AccountId32 None a]\<rparr>
      | RawRoot \<Rightarrow> Some Here | _ \<Rightarrow> None)"
  by (cases ori) (simp_all add: SendXcmOrigin_def LocalOriginToLocation_def ensured signed RelayNetwork_def)

end

subsection \<open>The weight of a message\<close>

record ('x, 'g, 'w) weigher_api =
  FixedWeightBounds :: "'w \<Rightarrow> u32 \<Rightarrow> 'g"
  message_weight :: "'g \<Rightarrow> 'x \<Rightarrow> 'w option"

definition Weigher :: "'w weight_api \<Rightarrow> ('x, 'g, 'w) weigher_api \<Rightarrow> 'g" where
  "Weigher W G = FixedWeightBounds G (UnitWeightCost W) MaxInstructions"

text \<open>
  \<open>instructions\<close> is the number of instructions of a message, those inside others included: a message with more
  than the limit is not weighed, and no message weighs less than its instructions at the unit weight.
\<close>

locale weigher_laws = weight_laws W for W :: "'w weight_api" +
  fixes G :: "('x, 'g, 'w) weigher_api" and instructions :: "'x \<Rightarrow> nat"
  assumes too_long: "unat n < instructions x \<Longrightarrow> message_weight G (FixedWeightBounds G u n) x = None"
    and at_least: "message_weight G (FixedWeightBounds G u n) x = Some w \<Longrightarrow>
      instructions x * unat (ref_time W u) \<le> unat (ref_time W w) \<and>
      instructions x * unat (proof_size W u) \<le> unat (proof_size W w)"
begin

lemma weighed:
  assumes "message_weight G (Weigher W G) x = Some w"
  shows "instructions x \<le> 100" and "instructions x * 1000000000 \<le> unat (ref_time W w)"
    and "instructions x * 65536 \<le> unat (proof_size W w)"
  using assms too_long [of MaxInstructions x "UnitWeightCost W"] at_least [of "UnitWeightCost W" MaxInstructions x w]
  by (auto simp: Weigher_def UnitWeightCost_def MaxInstructions_def not_less [symmetric])

end

subsection \<open>Instances\<close>

text \<open>Balances as a function, transactors as pairs of functions, filters as predicates.\<close>

type_synonym 'acc balances_fun = "'acc \<Rightarrow> u128"

type_synonym ('n, 'acc, 'j, 'i) transfer_fun =
  "('n, 'acc, 'j, 'i) asset \<Rightarrow> ('n, 'acc, 'j) location \<Rightarrow> 'acc balances_fun transact"

definition fun_mint :: "'acc \<Rightarrow> u128 \<Rightarrow> 'acc balances_fun transact" where
  "fun_mint acc n s =
     (case checked_add (s acc) n of None \<Rightarrow> (Err FailedToTransactAsset, s) | Some m \<Rightarrow> (Ok (), s(acc := m)))"

definition fun_burn :: "'acc \<Rightarrow> u128 \<Rightarrow> 'acc balances_fun transact" where
  "fun_burn acc n s = (if unat n \<le> unat (s acc) then (Ok (), s(acc := s acc - n)) else (Err FailedToTransactAsset, s))"

definition adapter_fun ::
  "(('n, 'acc, 'j, 'i) asset \<Rightarrow> u128 option) \<Rightarrow> (('n, 'acc, 'j) location \<Rightarrow> 'acc option) \<Rightarrow>
     ('acc \<Rightarrow> u128 \<Rightarrow> 'acc balances_fun transact) \<Rightarrow> ('n, 'acc, 'j, 'i) transfer_fun" where
  "adapter_fun m c move a l s =
     (case m a of
        None \<Rightarrow> (Err AssetNotHandled, s)
      | Some n \<Rightarrow> (case c l of None \<Rightarrow> (Err AccountIdConversionFailed, s) | Some acc \<Rightarrow> move acc n s))"

definition fun_assets ::
  "(('n, 'acc, 'j, 'i) asset \<Rightarrow> u128 option, ('n, 'acc, 'j, 'i) transfer_fun \<times> ('n, 'acc, 'j, 'i) transfer_fun,
    ('n, 'acc, 'j, 'i) asset \<Rightarrow> ('n, 'acc, 'j) location \<Rightarrow> bool, ('n, 'acc, 'j) location \<Rightarrow> 'acc option,
    'acc balances_fun, 'n, 'acc, 'j, 'i) asset_api" where
  "fun_assets =
     \<lparr>matches_fungible = (\<lambda>m. m),
      IsConcrete = (\<lambda>l a. case asset_fun a of Fungible n \<Rightarrow> if asset_id a = l then Some n else None | NonFungible i \<Rightarrow> None),
      mint_into = (\<lambda>p. fun_mint),
      burn_from = (\<lambda>p. fun_burn),
      FungibleAdapter = (\<lambda>p m c. (adapter_fun m c fun_mint, adapter_fun m c fun_burn)),
      deposit_asset = fst,
      withdraw_asset = snd,
      filter_contains = (\<lambda>f. f),
      NativeAsset = (\<lambda>a l. asset_id a = l),
      unit_filter = (\<lambda>a l. False)\<rparr>"

interpretation fun_asset: asset_laws "fun_locations parent_account sibling_account" parent_account sibling_account fun_assets
  for parent_account sibling_account
  by unfold_locales (simp_all add: fun_assets_def adapter_fun_def fun_locations_def split: option.split)

definition fun_senders ::
  "(('acc, ('n, 'acc, 'j) location) runtime_origin \<Rightarrow> ('n, 'acc, 'j) location option,
    ('acc, ('n, 'acc, 'j) location) runtime_origin \<Rightarrow> ('n, 'acc, 'j) location option, 'n, 'acc, 'j) sender_api" where
  "fun_senders =
     \<lparr>to_location = (\<lambda>v. v),
      SignedToAccountId32 = (\<lambda>net ori. case ori of RawSigned a \<Rightarrow> Some \<lparr>parents = 0, interior = [AccountId32 net a]\<rparr> | _ \<Rightarrow> None),
      EnsureXcmOrigin = (\<lambda>v ori. case v ori of Some l \<Rightarrow> Some l | None \<Rightarrow> (case ori of RawRoot \<Rightarrow> Some Here | _ \<Rightarrow> None)),
      sender_location = (\<lambda>e. e)\<rparr>"

interpretation fun_sender: sender_laws fun_senders
  by unfold_locales (auto simp: fun_senders_def split: runtime_origin.split option.split)

text \<open>Messages as numbers of instructions; a weight that does not fit its type is not given.\<close>

definition count_weigher :: "(nat, pair_weight \<times> u32, pair_weight) weigher_api" where
  "count_weigher =
     \<lparr>FixedWeightBounds = Pair,
      message_weight = (\<lambda>(u, n) k.
        if k \<le> unat n \<and> k * unat (pw_time u) < 2 ^ 64 \<and> k * unat (pw_size u) < 2 ^ 64
        then Some \<lparr>pw_time = word_of_nat (k * unat (pw_time u)), pw_size = word_of_nat (k * unat (pw_size u))\<rparr>
        else None)\<rparr>"

interpretation counted: weigher_laws pair_weights count_weigher "\<lambda>k. k"
  by unfold_locales (auto simp: count_weigher_def pair_weights_def unat_of_nat simp del: of_nat_mult split: if_splits)

subsection \<open>Properties\<close>

text \<open>
  C10: The assets messages can move. A deposit or a withdrawal that succeeds, or that changes anything, concerns an
  amount of the relay chain's token and the account of a location that has one; every other asset is refused as not
  handled and leaves the balances alone. A location is a trusted reserve of exactly the asset it identifies: the relay
  chain, and no other chain, of the relay chain's token, and a sibling of its own asset, which cannot be
  deposited here. No asset at all is accepted by teleport.
\<close>

theorem message_assets:
  assumes "asset_laws L parent_account sibling_account A" and "f \<in> {deposit_asset A, withdraw_asset A}"
  shows "(f (LocalAssetTransactor A L) a l s = (r, s') \<and> (r = Ok () \<or> s' \<noteq> s) \<longrightarrow>
      asset_id a = RelayLocation \<and> (\<exists>n. asset_fun a = Fungible n) \<and>
      (\<exists>acc. convert_location L (LocationToAccountId L) l = Some acc)) \<and>
    (asset_id a \<noteq> RelayLocation \<longrightarrow> f (LocalAssetTransactor A L) a l s = (Err AssetNotHandled, s)) \<and>
    (filter_contains A (IsReserve A) a origin \<longleftrightarrow> origin = asset_id a) \<and>
    \<not> filter_contains A (IsTeleporter A) a origin"
proof -
  have "asset_id a = RelayLocation \<and> (\<exists>n. asset_fun a = Fungible n) \<and>
      (\<exists>acc. convert_location L (LocationToAccountId L) l = Some acc)"
    if "f (LocalAssetTransactor A L) a l s = (r, s')" "r = Ok () \<or> s' \<noteq> s"
    using assms(2) that by (rule asset_laws.moved_relay_token [OF assms(1)]) auto
  moreover have "f (LocalAssetTransactor A L) a l s = (Err AssetNotHandled, s)" if "asset_id a \<noteq> RelayLocation"
    using assms(2) that
    by (auto simp: asset_laws.deposit_cases [OF assms(1)] asset_laws.withdraw_cases [OF assms(1)] split: fungibility.split)
  moreover have "filter_contains A (IsReserve A) a origin \<longleftrightarrow> origin = asset_id a"
    unfolding IsReserve_def asset_laws.native [OF assms(1)] by blast
  moreover have "\<not> filter_contains A (IsTeleporter A) a origin"
    unfolding IsTeleporter_def by (rule asset_laws.unit_filter [OF assms(1)])
  ultimately show ?thesis by blast
qed

theorem message_assets_witness:
  "let L = fun_locations (0 :: nat) (\<lambda>p. Suc (unat p)); sibling = \<lparr>parents = 1, interior = [Parachain 2000]\<rparr>;
       own = \<lparr>asset_id = sibling, asset_fun = Fungible 5\<rparr> :: (nat, nat, nat, nat) asset in
     \<not> filter_contains fun_assets (IsReserve fun_assets) (own\<lparr>asset_id := RelayLocation\<rparr>) sibling \<and>
     filter_contains fun_assets (IsReserve fun_assets) own sibling \<and>
     deposit_asset fun_assets (LocalAssetTransactor fun_assets L) own RelayLocation (\<lambda>_. 1) = (Err AssetNotHandled, \<lambda>_. 1)"
proof -
  let ?L = "fun_locations (0 :: nat) (\<lambda>p. Suc (unat p))"
  note assets = message_assets [where f = "deposit_asset fun_assets" and L = ?L and A = fun_assets,
      OF fun_asset.asset_laws_axioms insertI1]
  have reserve: "filter_contains fun_assets (IsReserve fun_assets) a origin \<longleftrightarrow> origin = asset_id a"
    for a :: "(nat, nat, nat, nat) asset" and origin
    by (rule conjunct1 [OF conjunct2 [OF conjunct2 [OF assets]]])
  have refused: "deposit_asset fun_assets (LocalAssetTransactor fun_assets ?L) a l s = (Err AssetNotHandled, s)"
    if "asset_id a \<noteq> RelayLocation" for a :: "(nat, nat, nat, nat) asset" and l s
    by (rule mp [OF conjunct1 [OF conjunct2 [OF assets]] that])
  show ?thesis by (simp add: reserve refused RelayLocation_def Let_def)
qed

text \<open>
  C13: A local account that sends or executes messages is the same account when the message speaks for its location:
  the location converts back to it, as an owner of assets and as a dispatch origin. Besides accounts only root can
  send, as the location of the whole chain, and this location converts back to no account and not to root.
\<close>

theorem local_origin_roundtrip:
  assumes "sender_laws V" and "origin_laws L parent_account sibling_account K"
    and "sender_location V (SendXcmOrigin V) ori = Some l"
  shows "(\<exists>a. ori = RawSigned a \<and> convert_location L (LocationToAccountId L) l = Some a \<and>
      (\<forall>k \<in> {Native, SovereignAccount}. convert_origin K (XcmOriginToTransactDispatchOrigin L K) l k = Some ori)) \<or>
    (ori = RawRoot \<and> l = Here \<and> convert_location L (LocationToAccountId L) l = None \<and>
      (\<forall>k \<in> {Native, SovereignAccount, Superuser}. convert_origin K (XcmOriginToTransactDispatchOrigin L K) l k = None))"
proof -
  note loc = origin_laws.axioms(1) [OF assms(2)]
  show ?thesis
    using assms(3)
    by (cases ori)
       (auto simp: sender_laws.sender_cases [OF assms(1)] origin_laws.dispatch_origin_cases [OF assms(2)]
          location_laws.to_account_cases [OF loc] RelayLocation_def Here_def)
qed

theorem local_origin_roundtrip_witness:
  "convert_location (fun_locations (0 :: nat) (\<lambda>p. Suc (unat p))) (LocationToAccountId (fun_locations 0 (\<lambda>p. Suc (unat p))))
     (\<lparr>parents = 0, interior = [AccountId32 None 42]\<rparr> :: (nat, nat, nat) location) = Some 42"
proof -
  have "sender_location fun_senders (SendXcmOrigin fun_senders) (RawSigned 42) =
      Some (\<lparr>parents = 0, interior = [AccountId32 None 42]\<rparr> :: (nat, nat, nat) location)"
    by (simp add: fun_sender.sender_cases)
  from local_origin_roundtrip [OF fun_sender.sender_laws_axioms fun_ori.origin_laws_axioms this] show ?thesis by auto
qed

text \<open>
  The proof size limits messages before their number of instructions does: the runtime weighs messages of up to
  100 instructions, but a message fits the weight reserved for the message queue in a block only if its
  instructions take 35 percent of the block's proof size, which are 28 instructions where a block has 5 MiB and
  56 where it has 10 MiB.
\<close>

lemma message_service_limit:
  assumes "weigher_laws W G instructions" and "perbill_laws W P"
    and "bw_max_block B bw = MAXIMUM_BLOCK_WEIGHT W max_pov"
    and "message_weight G (Weigher W G) x = Some w"
    and "proof_size W w \<le> proof_size W (MessageQueueServiceWeight P B bw)"
  shows "instructions x \<le> unat MaxInstructions \<and> 100 * (instructions x * 65536) \<le> 35 * unat max_pov + 50 \<and>
    (max_pov = 5 * 1024 * 1024 \<longrightarrow> instructions x \<le> 28) \<and> (max_pov = 10 * 1024 * 1024 \<longrightarrow> instructions x \<le> 56)"
proof -
  have parts: "parts P (from_percent P 35) = 350000000" by (simp add: perbill_laws.parts_percent [OF assms(2)])
  have "rounded_share 350000000 (unat max_pov) (unat (proof_size W (MessageQueueServiceWeight P B bw)))"
    using perbill_laws.proof_size_share [OF assms(2), of "from_percent P 35" "MAXIMUM_BLOCK_WEIGHT W max_pov"]
    by (simp add: parts MessageQueueServiceWeight_def assms(3) perbill_laws.max_block_size [OF assms(2)])
  moreover have "unat (proof_size W w) \<le> unat (proof_size W (MessageQueueServiceWeight P B bw))"
    using assms(5) by (simp add: word_le_nat_alt)
  moreover note weigher_laws.weighed [OF assms(1,4)]
  ultimately have "100 * (instructions x * 65536) \<le> 35 * unat max_pov + 50" "instructions x \<le> unat MaxInstructions"
    by (simp_all add: rounded_share_def MaxInstructions_def)
  then show ?thesis by auto
qed

lemma message_service_limit_example:
  "proof_size pair_weights \<lparr>pw_time = 28000000000, pw_size = 1835008\<rparr> \<le>
     proof_size pair_weights (MessageQueueServiceWeight nat_perbill table_builder
       (\<lambda>_. \<lparr>base_extrinsic = from_parts pair_weights 0 0, max_extrinsic = None,
             max_total = Some (MAXIMUM_BLOCK_WEIGHT pair_weights 5242880), reserved = None\<rparr>)) \<and>
   100 * (28 * 65536) \<le> 35 * unat (5242880 :: u32) + 50"
proof -
  let ?bw = "\<lambda>_. \<lparr>base_extrinsic = from_parts pair_weights 0 0, max_extrinsic = None,
      max_total = Some (MAXIMUM_BLOCK_WEIGHT pair_weights 5242880), reserved = None\<rparr>"
  have w: "message_weight count_weigher (Weigher pair_weights count_weigher) 28 = Some \<lparr>pw_time = 28000000000, pw_size = 1835008\<rparr>"
    by (simp add: Weigher_def count_weigher_def UnitWeightCost_def MaxInstructions_def pair_weights_def)
  have max: "bw_max_block table_builder ?bw = MAXIMUM_BLOCK_WEIGHT pair_weights 5242880" by (simp add: table_builder_def)
  have fits: "proof_size pair_weights \<lparr>pw_time = 28000000000, pw_size = 1835008\<rparr> \<le>
      proof_size pair_weights (MessageQueueServiceWeight nat_perbill table_builder ?bw)"
    by (simp add: MessageQueueServiceWeight_def max)
       (simp add: nat_perbill_def pair_weights_def MAXIMUM_BLOCK_WEIGHT_def div_nearest_def)
  from message_service_limit [OF counted.weigher_laws_axioms pair.perbill_laws_axioms max w fits] fits show ?thesis
    by blast
qed

end
