(* ===== verification/Runtime_Fees.thy ===== *)
theory Runtime_Fees
  imports Xcm_Assets
begin

text \<open>
  What using the chain costs: \<open>WeightToFee\<close> of runtime/src/lib.rs put to use by the transaction payment
  (runtime/src/configs/mod.rs) and by the trader that sells messages their weight
  (runtime/src/configs/xcm_config.rs). The evaluation of the polynomial, the composition of the fee of an
  extrinsic and the trader are the SDK's; their documented behaviour is stated by the locales.
\<close>

subsection \<open>Fees of extrinsics\<close>

text \<open>
  \<open>polynomial_fee\<close> evaluates a polynomial at the reference time of a weight. \<open>inclusion_fee\<close> is the fee of
  an extrinsic without a tip, from the two fee functions of the configuration, the greatest weight of a block, the
  base weight of an extrinsic, the fee multiplier of the block, and the length and the total weight of the
  extrinsic, which is that of its call and that of its transaction extension. \<open>extension_weight\<close> is the weight
  a transaction extension reports. A weight greater than that of a block is charged as that of a block.
\<close>

record ('p, 'w, 'm) fee_api =
  polynomial_fee :: "'p weight_to_fee_coefficient list \<Rightarrow> 'w \<Rightarrow> balance"
  ConstantMultiplier :: "balance \<Rightarrow> u32 \<Rightarrow> balance"
  inclusion_fee :: "('w \<Rightarrow> (unit, balance) outcome) \<Rightarrow> (u32 \<Rightarrow> balance) \<Rightarrow> 'w \<Rightarrow> 'w \<Rightarrow> 'm \<Rightarrow> u32 \<Rightarrow> 'w \<Rightarrow> (unit, balance) outcome"
  adjusted :: "'m \<Rightarrow> balance \<Rightarrow> balance"
  multiplier_one :: 'm
  extension_weight :: "tx_extension \<Rightarrow> 'w"

definition WeightToFee :: "'w weight_api \<Rightarrow> ('p, 'w) perbill_api \<Rightarrow> ('p, 'w, 'm) fee_api \<Rightarrow> 'w \<Rightarrow> (unit, balance) outcome" where
  "WeightToFee W P F w = map_outcome id (\<lambda>coefficients. polynomial_fee F coefficients w) (WeightToFee_polynomial W P)"

definition runtime_LengthToFee :: "('p, 'w, 'm) fee_api \<Rightarrow> u32 \<Rightarrow> balance" where
  "runtime_LengthToFee F = ConstantMultiplier F TransactionByteFee"

definition runtime_inclusion_fee ::
  "'w weight_api \<Rightarrow> ('p, 'w) perbill_api \<Rightarrow> ('p, 'w, 'm) fee_api \<Rightarrow> u32 \<Rightarrow> 'm \<Rightarrow> u32 \<Rightarrow> 'w \<Rightarrow> (unit, balance) outcome" where
  "runtime_inclusion_fee W P F max_pov multiplier len call_weight =
     inclusion_fee F (WeightToFee W P F) (runtime_LengthToFee F) (MAXIMUM_BLOCK_WEIGHT W max_pov) (ExtrinsicBaseWeight W)
       multiplier len (weight_saturating_add W call_weight (extension_weight F TxExtension))"

locale fee_laws = perbill_laws W P for W :: "'w weight_api" and P :: "('p, 'w) perbill_api" +
  fixes F :: "('p, 'w, 'm) fee_api"
  assumes linear_fee: "degree c = 1 \<Longrightarrow> \<not> negative c \<Longrightarrow> parts P (coeff_frac c) \<le> 1000000000 \<Longrightarrow>
      \<exists>y. rounded_share (parts P (coeff_frac c)) (unat (ref_time W w)) y \<and>
        unat (polynomial_fee F [c] w) = min (y + unat (coeff_integer c) * unat (ref_time W w)) (2 ^ 128 - 1)"
    and constant_multiplier: "ConstantMultiplier F b n = saturating_mul b (ucast n)"
    and inclusion: "weight_fee base = Ok x \<Longrightarrow> weight_fee capped = Ok y \<Longrightarrow>
      ref_time W capped = min (ref_time W w) (ref_time W max_block) \<Longrightarrow>
      proof_size W capped = min (proof_size W w) (proof_size W max_block) \<Longrightarrow>
      inclusion_fee F weight_fee length_fee max_block base m n w =
        Ok (saturating_add (saturating_add x (length_fee n)) (adjusted F m y))"
    and adjusted_one: "adjusted F (multiplier_one F) y = y"
begin

text \<open>A weight costs 7999999 parts in a billion of its reference time, rounded.\<close>

lemma weight_fee:
  "\<exists>fee. WeightToFee W P F w = Ok fee \<and> rounded_share 7999999 (unat (ref_time W w)) (unat fee)"
proof -
  let ?c = "\<lparr>degree = 1, negative = False, coeff_frac = from_rational P 100000000 12500000000, coeff_integer = 0\<rparr>"
  obtain y where y: "rounded_share 7999999 (unat (ref_time W w)) y"
      "unat (polynomial_fee F [?c] w) = min y (2 ^ 128 - 1)"
    using linear_fee [of ?c w] by (auto simp: fee_parts)
  have "y \<le> unat (ref_time W w)" using rounded_share_le [OF y(1)] by simp
  also have "\<dots> < 2 ^ 64" using unsigned_less [of "ref_time W w"] by simp
  finally have "unat (polynomial_fee F [?c] w) = y" using y(2) by simp
  with y(1) show ?thesis by (simp add: WeightToFee_def fee_polynomial)
qed

lemma base_weight_fee: "\<exists>fee. WeightToFee W P F (ExtrinsicBaseWeight W) = Ok fee \<and> unat fee = 1000000"
  using weight_fee [of "ExtrinsicBaseWeight W"] by (auto simp: extrinsic_base_time rounded_share_def)

lemma weight_fee_at_least:
  assumes "1000000000 * n \<le> 7999999 * unat (ref_time W w)" and "WeightToFee W P F w = Ok fee"
  shows "n \<le> unat fee"
proof -
  have "rounded_share 7999999 (unat (ref_time W w)) (unat fee)" using weight_fee [of w] assms(2) by auto
  with assms(1) have "2000000000 * n \<le> 2000000000 * unat fee + 1000000000" unfolding rounded_share_def by linarith
  then show ?thesis by linarith
qed

lemma length_fee: "unat (runtime_LengthToFee F n) = 10000000 * unat n"
proof -
  have "unat n < 2 ^ 32" using unsigned_less [of n] by simp
  then show ?thesis
    by (simp add: runtime_LengthToFee_def constant_multiplier TransactionByteFee_def MICRO_UNIT_def
        unat_saturating_mul unat_ucast_up)
qed

end

subsection \<open>The price of a message\<close>

text \<open>
  \<open>'h\<close> are the assets a message holds, \<open>held\<close> the amount of the fungible asset of a location among them. \<open>ToAuthor\<close>
  receives what was paid.
\<close>

record ('h, 'tr, 'd, 'w, 'n, 'acc, 'j) trader_api =
  ToAuthor :: 'd
  UsingComponents :: "('w \<Rightarrow> (unit, balance) outcome) \<Rightarrow> ('n, 'acc, 'j) location \<Rightarrow> runtime_pallet \<Rightarrow> 'd \<Rightarrow> 'tr"
  buy_weight :: "'tr \<Rightarrow> 'w \<Rightarrow> 'h \<Rightarrow> 'h option"
  held :: "'h \<Rightarrow> ('n, 'acc, 'j) location \<Rightarrow> nat"

definition Trader ::
  "'w weight_api \<Rightarrow> ('p, 'w) perbill_api \<Rightarrow> ('p, 'w, 'm) fee_api \<Rightarrow> ('h, 'tr, 'd, 'w, 'n, 'acc, 'j) trader_api \<Rightarrow> 'tr" where
  "Trader W P F X = UsingComponents X (WeightToFee W P F) RelayLocation Balances (ToAuthor X)"

locale trader_laws =
  fixes X :: "('h, 'tr, 'd, 'w, 'n, 'acc, 'j) trader_api"
  assumes affordable: "weight_fee w = Ok fee \<Longrightarrow>
      buy_weight X (UsingComponents X weight_fee l p d) w h \<noteq> None \<longleftrightarrow> unat fee \<le> held X h l"
    and bought: "weight_fee w = Ok fee \<Longrightarrow> buy_weight X (UsingComponents X weight_fee l p d) w h = Some h' \<Longrightarrow>
      held X h' l' = (if l' = l then held X h l - unat fee else held X h l')"

subsection \<open>Instances\<close>

text \<open>
  Fees computed with natural numbers and cut off at the greatest balance; the multiplier is a number of
  billionths. Holdings are functions.
\<close>

definition balance_of_nat :: "nat \<Rightarrow> balance" where
  "balance_of_nat n = of_nat (min n (2 ^ 128 - 1))"

definition term_fee :: "nat weight_to_fee_coefficient \<Rightarrow> nat \<Rightarrow> nat" where
  "term_fee c t = div_nearest (coeff_frac c * t ^ unat (degree c)) 1000000000 + unat (coeff_integer c) * t ^ unat (degree c)"

definition nat_fees :: "(nat, pair_weight, nat) fee_api" where
  "nat_fees =
     \<lparr>polynomial_fee = (\<lambda>cs w. balance_of_nat
        (sum_list (map (\<lambda>c. term_fee c (unat (pw_time w))) (filter (Not \<circ> negative) cs)) -
         sum_list (map (\<lambda>c. term_fee c (unat (pw_time w))) (filter negative cs)))),
      ConstantMultiplier = (\<lambda>b n. saturating_mul b (ucast n)),
      inclusion_fee = (\<lambda>weight_fee length_fee max_block base m n w.
        let capped = \<lparr>pw_time = min (pw_time w) (pw_time max_block), pw_size = min (pw_size w) (pw_size max_block)\<rparr>
        in case (weight_fee base, weight_fee capped) of
          (Ok x, Ok y) \<Rightarrow> Ok (saturating_add (saturating_add x (length_fee n)) (balance_of_nat (m * unat y div 1000000000)))
        | _ \<Rightarrow> Panicked),
      adjusted = (\<lambda>m y. balance_of_nat (m * unat y div 1000000000)),
      multiplier_one = 1000000000,
      extension_weight = (\<lambda>e. \<lparr>pw_time = 240000, pw_size = 3000\<rparr>)\<rparr>"

lemma unat_balance_of_nat [simp]: "unat (balance_of_nat n) = min n (2 ^ 128 - 1)"
  by (simp add: balance_of_nat_def unat_of_nat min_def)

lemma balance_of_unat [simp]: "balance_of_nat (unat b) = b"
proof -
  have "unat b < 2 ^ 128" using unsigned_less [of b] by simp
  then show ?thesis by (simp add: balance_of_nat_def min_def)
qed

lemma pair_weight_eta [simp]: "\<lparr>pw_time = pw_time w, pw_size = pw_size w\<rparr> = w"
  by (cases w) simp

interpretation nat_fee: fee_laws pair_weights nat_perbill nat_fees
proof
  show "\<exists>y. rounded_share (parts nat_perbill (coeff_frac c)) (unat (ref_time pair_weights w)) y \<and>
      unat (polynomial_fee nat_fees [c] w) = min (y + unat (coeff_integer c) * unat (ref_time pair_weights w)) (2 ^ 128 - 1)"
    if "degree c = 1" "\<not> negative c" for c w
    using that div_nearest_share [of "coeff_frac c" "unat (pw_time w)"]
    by (intro exI [of _ "div_nearest (coeff_frac c * unat (pw_time w)) 1000000000"])
      (simp add: nat_fees_def term_fee_def nat_perbill_def pair_weights_def)
  show "inclusion_fee nat_fees weight_fee length_fee max_block base m n w =
      Ok (saturating_add (saturating_add x (length_fee n)) (adjusted nat_fees m y))"
    if "weight_fee base = Ok x" "weight_fee capped = Ok y"
      "ref_time pair_weights capped = min (ref_time pair_weights w) (ref_time pair_weights max_block)"
      "proof_size pair_weights capped = min (proof_size pair_weights w) (proof_size pair_weights max_block)"
    for weight_fee length_fee max_block base m n w x y capped
  proof -
    have "capped = \<lparr>pw_time = min (pw_time w) (pw_time max_block), pw_size = min (pw_size w) (pw_size max_block)\<rparr>"
      using that(3,4) by (cases capped) (simp add: pair_weights_def)
    with that(1,2) show ?thesis by (simp add: nat_fees_def)
  qed
qed (simp_all add: nat_fees_def)

definition fun_traders ::
  "(('n, 'acc, 'j) location \<Rightarrow> nat, ('w \<Rightarrow> (unit, balance) outcome) \<times> ('n, 'acc, 'j) location, unit, 'w, 'n, 'acc, 'j) trader_api" where
  "fun_traders =
     \<lparr>ToAuthor = (),
      UsingComponents = (\<lambda>weight_fee l p d. (weight_fee, l)),
      buy_weight = (\<lambda>(weight_fee, l) w h. case weight_fee w of
          Ok fee \<Rightarrow> if unat fee \<le> h l then Some (h(l := h l - unat fee)) else None
        | _ \<Rightarrow> None),
      held = (\<lambda>h. h)\<rparr>"

interpretation fun_trader: trader_laws fun_traders
  by unfold_locales (auto simp: fun_traders_def split: if_splits)

subsection \<open>Properties\<close>

text \<open>
  C23: The fee of an extrinsic with a swarm call never fails to be computed and is a million for the base weight, ten million per
  byte of the extrinsic, and the adjusted fee of its weight, which is, rounded, 7999999 parts in a billion of the
  reference time, 10000 for the call plus what the transaction extension reports, but no more than that of a block. The
  sum is cut off at the greatest balance, and without adjustment it never reaches it.
\<close>

theorem swarm_extrinsic_fee:
  fixes F :: "('p, 'w, 'm) fee_api" and c :: "('rid, 'loc, 'task) swarm_call"
  assumes "fee_laws W P F" and "w = from_parts W (swarm_call_weight c) 0"
  shows "\<exists>fee y. runtime_inclusion_fee W P F max_pov m n w = Ok fee \<and>
    rounded_share 7999999 (min (10000 + unat (ref_time W (extension_weight F TxExtension))) 2000000000000) (unat y) \<and>
    unat fee = min (1000000 + 10000000 * unat n + unat (adjusted F m y)) (2 ^ 128 - 1) \<and>
    (m = multiplier_one F \<longrightarrow> unat fee = 1000000 + 10000000 * unat n + unat y)"
proof -
  note fees = assms(1) note weights = perbill_laws.axioms(1) [OF fee_laws.axioms(1) [OF fees]]
  let ?ext = "extension_weight F TxExtension" and ?max = "MAXIMUM_BLOCK_WEIGHT W max_pov"
  let ?total = "weight_saturating_add W w ?ext"
  let ?capped = "from_parts W (min (ref_time W ?total) (ref_time W ?max)) (min (proof_size W ?total) (proof_size W ?max))"
  have "unat n < 2 ^ 32" using unsigned_less [of n] by simp
  obtain x where x: "WeightToFee W P F (ExtrinsicBaseWeight W) = Ok x" "unat x = 1000000"
    using fee_laws.base_weight_fee [OF fees] by blast
  have "swarm_call_weight c = 10000" by (cases c) (simp_all add: swarm_weight_defs)
  then have "ref_time W w = 10000"
    by (simp add: assms(2) weight_laws.ref_time_from_parts [OF weights])
  then have time: "unat (ref_time W ?capped) = min (10000 + unat (ref_time W ?ext)) 2000000000000"
    by (simp add: weight_laws.ref_time_from_parts [OF weights] weight_laws.ref_time_saturating_add [OF weights]
        perbill_laws.max_block_time [OF fee_laws.axioms(1) [OF fees]] unat_min unat_saturating_add)
  obtain y where y: "WeightToFee W P F ?capped = Ok y" "rounded_share 7999999 (unat (ref_time W ?capped)) (unat y)"
    using fee_laws.weight_fee [OF fees] by blast
  have "unat y \<le> 2000000000000" using rounded_share_le [OF y(2)] unfolding time by simp
  let ?fee = "saturating_add (saturating_add x (runtime_LengthToFee F n)) (adjusted F m y)"
  have run: "runtime_inclusion_fee W P F max_pov m n w = Ok ?fee"
    unfolding runtime_inclusion_fee_def using x(1) y(1)
    by (rule fee_laws.inclusion [OF fees])
      (simp_all add: weight_laws.ref_time_from_parts [OF weights] weight_laws.proof_size_from_parts [OF weights])
  have sum: "unat ?fee = min (1000000 + 10000000 * unat n + unat (adjusted F m y)) (2 ^ 128 - 1)"
    using \<open>unat n < 2 ^ 32\<close> by (simp add: unat_saturating_add x(2) fee_laws.length_fee [OF fees])
  have "unat ?fee = 1000000 + 10000000 * unat n + unat y" if "m = multiplier_one F"
    using sum \<open>unat n < 2 ^ 32\<close> \<open>unat y \<le> 2000000000000\<close> by (simp add: that fee_laws.adjusted_one [OF fees])
  with run sum y(2) show ?thesis unfolding time by blast
qed

theorem swarm_extrinsic_fee_witness:
  "\<exists>fee. runtime_inclusion_fee pair_weights nat_perbill nat_fees 5242880 (multiplier_one nat_fees) 110
       (from_parts pair_weights (swarm_call_weight (PullNext 7 :: (u32, coordinate, u32) swarm_call)) 0) = Ok fee \<and>
     unat fee = 1101002000"
proof -
  have ext: "unat (ref_time pair_weights (extension_weight nat_fees TxExtension)) = 240000"
    by (simp add: nat_fees_def pair_weights_def)
  obtain fee y where "runtime_inclusion_fee pair_weights nat_perbill nat_fees 5242880 (multiplier_one nat_fees) 110
       (from_parts pair_weights (swarm_call_weight (PullNext 7 :: (u32, coordinate, u32) swarm_call)) 0) = Ok fee"
      "rounded_share 7999999 (min (10000 + 240000) 2000000000000) (unat (y :: balance))" "unat fee = 1000000 + 10000000 * unat (110 :: u32) + unat y"
    using swarm_extrinsic_fee [OF nat_fee.fee_laws_axioms refl, of 5242880 "multiplier_one nat_fees" 110
      "PullNext 7 :: (u32, coordinate, u32) swarm_call", unfolded ext]
    by blast
  moreover from this(2) have "unat y = 2000" by (simp add: rounded_share_def)
  ultimately show ?thesis by (intro exI [of _ fee]) simp
qed

text \<open>
  C22: A message that pays for its execution pays in the relay chain's token and for every instruction: the price of its
  weight is always defined and at least 7999999 for each instruction, it is bought exactly if the message
  holds that much of the token, and then exactly the price is taken and every other asset of the message
  is left alone.
\<close>

theorem message_price:
  assumes "weigher_laws W G instructions" and "fee_laws W P F" and "trader_laws X"
    and "message_weight G (Weigher W G) x = Some w"
  shows "\<exists>fee. WeightToFee W P F w = Ok fee \<and> 7999999 * instructions x \<le> unat fee \<and>
    (buy_weight X (Trader W P F X) w h \<noteq> None \<longleftrightarrow> unat fee \<le> held X h RelayLocation) \<and>
    (\<forall>h' l. buy_weight X (Trader W P F X) w h = Some h' \<longrightarrow>
      held X h' l = (if l = RelayLocation then held X h l - unat fee else held X h l))"
proof -
  obtain fee where fee: "WeightToFee W P F w = Ok fee" using fee_laws.weight_fee [OF assms(2)] by blast
  have "7999999 * instructions x \<le> unat fee"
    using weigher_laws.weighed(2) [OF assms(1,4)] by (intro fee_laws.weight_fee_at_least [OF assms(2) _ fee]) simp
  moreover note trader_laws.affordable [OF assms(3), of "WeightToFee W P F", OF fee, of RelayLocation Balances "ToAuthor X" h]
    trader_laws.bought [OF assms(3), of "WeightToFee W P F", OF fee, of RelayLocation Balances "ToAuthor X" h]
  ultimately show ?thesis unfolding Trader_def using fee by auto
qed

theorem message_price_witness:
  "\<exists>fee. WeightToFee pair_weights nat_perbill nat_fees \<lparr>pw_time = 3000000000, pw_size = 196608\<rparr> = Ok fee \<and>
     23999997 \<le> unat fee \<and>
     (buy_weight fun_traders (Trader pair_weights nat_perbill nat_fees fun_traders)
        \<lparr>pw_time = 3000000000, pw_size = 196608\<rparr> (\<lambda>l :: (unit, nat, unit) location. 0) = None)"
proof -
  let ?X = "fun_traders :: (_, _, _, pair_weight, unit, nat, unit) trader_api"
  have w: "message_weight count_weigher (Weigher pair_weights count_weigher) 3 = Some \<lparr>pw_time = 3000000000, pw_size = 196608\<rparr>"
    by (simp add: Weigher_def count_weigher_def UnitWeightCost_def MaxInstructions_def pair_weights_def)
  obtain fee where fee: "WeightToFee pair_weights nat_perbill nat_fees \<lparr>pw_time = 3000000000, pw_size = 196608\<rparr> = Ok fee"
      "7999999 * 3 \<le> unat fee" and
    "buy_weight ?X (Trader pair_weights nat_perbill nat_fees ?X) \<lparr>pw_time = 3000000000, pw_size = 196608\<rparr>
        (\<lambda>l :: (unit, nat, unit) location. 0) \<noteq> None \<longleftrightarrow> unat fee \<le> held ?X (\<lambda>l :: (unit, nat, unit) location. 0) RelayLocation"
    using message_price [OF counted.weigher_laws_axioms nat_fee.fee_laws_axioms fun_trader.trader_laws_axioms w,
        of "\<lambda>l :: (unit, nat, unit) location. 0"] by (elim exE conjE) (rule that)
  moreover have "held ?X (\<lambda>l :: (unit, nat, unit) location. 0) RelayLocation = 0" by (simp add: fun_traders_def)
  ultimately show ?thesis by (intro exI [of _ fee]) auto
qed

end
