(* ===== verification/Runtime_Control.thy ===== *)
theory Runtime_Control
  imports Xcm_Origins
begin

text \<open>
  Who may do what on the chain, and its rhythm. The origins that control the message queues, the XCM pallet and the
  collators (runtime/src/configs/mod.rs and xcm_config.rs) together with what messages of other chains are
  dispatched as; the access of such messages to the swarm pallet, which composes the conversion of origins with
  the dispatch of the pallet; and the sessions in which collators rotate.
\<close>

subsection \<open>Origins that control the chain\<close>

definition xcmp_ControllerOrigin :: "('en, 'n, 'acc, 'j) ensure_api \<Rightarrow> 'en" where
  "xcmp_ControllerOrigin N = EnsureRoot N"

definition xcm_AdminOrigin :: "('en, 'n, 'acc, 'j) ensure_api \<Rightarrow> 'en" where
  "xcm_AdminOrigin N = EnsureRoot N"

definition xcmp_ControllerOriginConverter ::
  "('c, 'n, 'acc, 'j) location_api \<Rightarrow> ('k, 'c, 'n, 'acc, 'j) origin_api \<Rightarrow> 'k" where
  "xcmp_ControllerOriginConverter L K = XcmOriginToTransactDispatchOrigin L K"

context ensure_laws
begin

lemma control_iff:
  "ensure_origin N (xcmp_ControllerOrigin N) ori \<longleftrightarrow> ori = RawRoot"
  "ensure_origin N (xcm_AdminOrigin N) ori \<longleftrightarrow> ori = RawRoot"
  by (simp_all add: xcmp_ControllerOrigin_def xcm_AdminOrigin_def root)

end

subsection \<open>Calls of the swarm pallet in messages\<close>

context swarm_frame
begin

lemma dispatch_bad_origin_iff:
  assumes "swarm_dispatch T origin c s = (r, s')"
  shows "r = Err BadOrigin \<longleftrightarrow> \<not> is_signed T origin"
  using dispatch_refines [OF assms] by (cases c) (auto simp: spec_dispatch_def split: if_splits list.splits)

lemma dispatch_bad_origin_view:
  assumes "swarm_dispatch T origin c s = (Err BadOrigin, s')"
  shows "view s' = view s"
proof -
  have "\<not> is_signed T origin" using dispatch_bad_origin_iff [OF assms] by simp
  with dispatch_refines [OF assms] show ?thesis by (simp add: spec_dispatch_def)
qed

end

text \<open>The runtime's swarm pallet with the origins of the runtime, on the storage in memory.\<close>

definition signed_account :: "('acc, 'l) runtime_origin \<Rightarrow> 'acc option" where
  "signed_account ori = (case ori of RawSigned a \<Rightarrow> Some a | _ \<Rightarrow> None)"

definition mem_message_swarm ::
  "((u32, coordinate, u32, unit, unit) swarm_mem, (nat, (nat, nat, nat) location) runtime_origin, nat, u32, coordinate, u32,
     rt_command list) swarm_config" where
  "mem_message_swarm =
     runtime_swarm_config signed_account mem_keys_map mem_queue_value (\<lambda>n. list_vec (unat n)) (\<lambda>e. mem_deposit (Inl e))"

lemma mem_message_swarm_frame: "swarm_frame mem_message_swarm mem_swarm_events"
proof -
  note frame = rt_swarm.swarm_frame_axioms
  show ?thesis
    using frame
    by (simp add: swarm_frame_def swarm_frame_axioms_def mem_message_swarm_def mem_runtime_swarm_def runtime_swarm_config_def)
qed

subsection \<open>Sessions\<close>

record 'p session_api =
  PeriodicSessions :: "u32 \<Rightarrow> u32 \<Rightarrow> 'p"
  should_end_session :: "'p \<Rightarrow> block_number_t \<Rightarrow> bool"

definition ShouldEndSession :: "'p session_api \<Rightarrow> 'p" where
  "ShouldEndSession S = PeriodicSessions S Period Offset"

definition NextSessionRotation :: "'p session_api \<Rightarrow> 'p" where
  "NextSessionRotation S = PeriodicSessions S Period Offset"

locale session_laws =
  fixes S :: "'p session_api"
  assumes periodic: "should_end_session S (PeriodicSessions S p off) n \<longleftrightarrow>
    unat off \<le> unat n \<and> (unat n - unat off) mod unat p = 0"
begin

lemma session_end_iff: "should_end_session S (ShouldEndSession S) n \<longleftrightarrow> 3600 dvd unat n"
  by (simp add: ShouldEndSession_def periodic Period_def Offset_def time_units dvd_eq_mod_eq_0)

end

definition pair_sessions :: "(u32 \<times> u32) session_api" where
  "pair_sessions =
     \<lparr>PeriodicSessions = Pair,
      should_end_session = (\<lambda>(p, off) n. unat off \<le> unat n \<and> (unat n - unat off) mod unat p = 0)\<rparr>"

interpretation pair_session: session_laws pair_sessions
  by unfold_locales (simp add: pair_sessions_def)

lemma multiple_in_window:
  fixes n d :: nat
  assumes "0 < d"
  shows "\<exists>!k. n \<le> k \<and> k < n + d \<and> d dvd k"
proof -
  define q where "q = (n + d - 1) div d"
  have "n + d - 1 = d * q + (n + d - 1) mod d" by (simp add: q_def)
  moreover have "(n + d - 1) mod d < d" using assms by simp
  ultimately have "n \<le> d * q \<and> d * q < n + d" using assms by linarith
  moreover have "k = d * q" if k: "n \<le> k" "k < n + d" "d dvd k" for k
  proof -
    from k(3) obtain p where p: "k = d * p" by blast
    have "q = p" unfolding q_def using k(1,2) assms unfolding p
      by (intro div_nat_eqI) (auto simp: algebra_simps)
    with p show ?thesis by simp
  qed
  ultimately show ?thesis by (intro ex1I [of _ "d * q"]) auto
qed

subsection \<open>Properties\<close>

text \<open>
  C25: Nobody but root controls the chain: no signed account, and no message of another chain whatever its location and the kind
  of origin it asks for, passes the checks of the calls that control the message queues or the XCM pallet; the collators
  are updated, besides by root, only by the voice of the relay chain's defence body, and of all messages only one from that body can do it.
\<close>

theorem chain_control:
  assumes "ensure_laws N" and "origin_laws L parent_account sibling_account K"
    and "converted = convert_origin K (xcmp_ControllerOriginConverter L K) l k"
  shows "(\<forall>e \<in> {xcmp_ControllerOrigin N, xcm_AdminOrigin N, CollatorSelectionUpdateOrigin N}.
      ensure_origin N e RawRoot \<and> (\<forall>a. \<not> ensure_origin N e (RawSigned a))) \<and>
    (\<forall>ori. converted = Some ori \<longrightarrow>
      \<not> ensure_origin N (xcmp_ControllerOrigin N) ori \<and> \<not> ensure_origin N (xcm_AdminOrigin N) ori) \<and>
    ((\<exists>ori. converted = Some ori \<and> ensure_origin N (CollatorSelectionUpdateOrigin N) ori) \<longleftrightarrow>
      k = Xcm \<and> l = \<lparr>parents = 1, interior = [Plurality Defense Voice]\<rparr>)"
proof -
  note laws = ensure_laws.control_iff [OF assms(1)] ensure_laws.update_origin_iff [OF assms(1)]
  let ?voice = "\<lparr>parents = 1, interior = [Plurality Defense Voice]\<rparr>"
  have not_root: "converted \<noteq> Some RawRoot"
    unfolding assms(3) xcmp_ControllerOriginConverter_def by (rule origin_laws.dispatch_origin_not_root [OF assms(2)])
  have "converted = Some (XcmLocation ?voice) \<longleftrightarrow> k = Xcm \<and> l = ?voice"
    unfolding assms(3) xcmp_ControllerOriginConverter_def origin_laws.dispatch_origin_xcm [OF assms(2)] by auto
  with not_root have "(\<exists>ori. converted = Some ori \<and> ensure_origin N (CollatorSelectionUpdateOrigin N) ori) \<longleftrightarrow>
      k = Xcm \<and> l = ?voice"
    unfolding laws(3) by blast
  moreover have "ori \<noteq> RawRoot" if "converted = Some ori" for ori using that not_root by blast
  ultimately show ?thesis by (simp add: laws)
qed

theorem chain_control_witness:
  "\<not> ensure_origin pred_ensure (xcm_AdminOrigin pred_ensure)
     (XcmLocation \<lparr>parents = 1, interior = [Plurality Defense Voice]\<rparr> :: (nat, (nat, nat, nat) location) runtime_origin)"
proof -
  let ?l = "\<lparr>parents = 1, interior = [Plurality Defense Voice]\<rparr> :: (nat, nat, nat) location"
  have "convert_origin fun_origins (xcmp_ControllerOriginConverter (fun_locations (0 :: nat) (\<lambda>p. Suc (unat p))) fun_origins) ?l Xcm =
      Some (XcmLocation ?l)"
    by (simp add: xcmp_ControllerOriginConverter_def fun_ori.dispatch_origin_xcm)
  with chain_control [OF preds_ensure.ensure_laws_axioms fun_ori.origin_laws_axioms refl, of 0 "\<lambda>p. Suc (unat p)" ?l Xcm]
  show ?thesis by blast
qed

text \<open>
  C11: What messages of other chains can do with the robots: a call of the swarm pallet in a message is refused for its origin,
  and then changes nothing, unless the message asks for the account of a location that has one, or speaks for an account of this chain;
  in this case the call is made in the name of that account alone. In particular the relay chain and other
  parachains cannot command robots under their native origins.
\<close>

theorem message_swarm_access:
  assumes "swarm_frame T read_events" and "origin_laws L parent_account sibling_account K"
    and "\<And>ori. ensure_signed T ori = (case ori of RawSigned a \<Rightarrow> Some a | _ \<Rightarrow> None)"
    and "convert_origin K (XcmOriginToTransactDispatchOrigin L K) l k = Some ori"
    and "swarm_dispatch T ori c s = (r, s')"
  shows "(r \<noteq> Err BadOrigin \<longleftrightarrow>
      (\<exists>a. ori = RawSigned a \<and>
        (k = SovereignAccount \<and> convert_location L (LocationToAccountId L) l = Some a \<or>
         k = Native \<and> l = \<lparr>parents = 0, interior = [AccountId32 None a]\<rparr>))) \<and>
    (r = Err BadOrigin \<longrightarrow> swarm_view T read_events s' = swarm_view T read_events s)"
proof -
  have "r = Err BadOrigin \<longleftrightarrow> \<not> is_signed T ori" by (rule swarm_frame.dispatch_bad_origin_iff [OF assms(1,5)])
  moreover have "is_signed T ori \<longleftrightarrow> (\<exists>a. ori = RawSigned a)"
    by (simp add: is_signed_def assms(3) split: runtime_origin.split)
  moreover have "r = Err BadOrigin \<longrightarrow> swarm_view T read_events s' = swarm_view T read_events s"
    using swarm_frame.dispatch_bad_origin_view [OF assms(1)] assms(5) by blast
  moreover note origin_laws.dispatch_origin_signed [OF assms(2), of l k] assms(4)
  ultimately show ?thesis by auto
qed

theorem message_swarm_access_witness:
  "fst (swarm_dispatch mem_message_swarm CumulusRelay (EnqueueCommand Halt) mem_empty) = Err BadOrigin"
proof -
  let ?L = "fun_locations (0 :: nat) (\<lambda>p. Suc (unat p))"
  have signed: "ensure_signed mem_message_swarm ori = (case ori of RawSigned a \<Rightarrow> Some a | _ \<Rightarrow> None)" for ori
    by (simp add: mem_message_swarm_def runtime_swarm_config_def signed_account_def)
  have "convert_origin fun_origins (XcmOriginToTransactDispatchOrigin ?L fun_origins) (RelayLocation :: (nat, nat, nat) location) Native =
      Some CumulusRelay"
    by (simp add: fun_ori.dispatch_origin_cases)
  from message_swarm_access [OF mem_message_swarm_frame fun_ori.origin_laws_axioms signed this surjective_pairing,
      of "EnqueueCommand Halt" mem_empty] show ?thesis by auto
qed

text \<open>
  C39: Sessions rotate for ever: of any consecutive blocks as many as a session has, exactly one ends the session, so that no
  session is skipped or cut short; a session lasts six hours at the slot duration, and the threshold after which
  a candidate that produces no blocks is removed is one session.
\<close>

theorem session_rotation:
  assumes "session_laws S" and "unat n + unat Period \<le> 2 ^ 32"
  shows "(\<exists>!m. n \<le> m \<and> unat m < unat n + unat Period \<and> should_end_session S (ShouldEndSession S) m) \<and>
    NextSessionRotation S = ShouldEndSession S \<and>
    unat Period * unat SLOT_DURATION = 6 * 60 * 60 * 1000 \<and>
    KickThreshold runtime_collator_selection_config = Period"
proof -
  have period: "unat Period = 3600" by (simp add: Period_def time_units)
  obtain k where k: "unat n \<le> k" "k < unat n + 3600" "3600 dvd k"
    and only: "\<And>j. unat n \<le> j \<and> j < unat n + 3600 \<and> 3600 dvd j \<Longrightarrow> j = k"
    using multiple_in_window [of 3600 "unat n"] by auto
  define m :: block_number_t where "m = of_nat k"
  have m: "unat m = k" using k(2) assms(2) by (simp add: m_def unat_of_nat period)
  have ends: "should_end_session S (ShouldEndSession S) x \<longleftrightarrow> 3600 dvd unat x" for x
    by (rule session_laws.session_end_iff [OF assms(1)])
  have "\<exists>!m. n \<le> m \<and> unat m < unat n + unat Period \<and> should_end_session S (ShouldEndSession S) m"
  proof (rule ex1I [of _ m])
    show "n \<le> m \<and> unat m < unat n + unat Period \<and> should_end_session S (ShouldEndSession S) m"
      using k by (simp add: ends m period word_le_nat_alt)
  next
    fix x assume "n \<le> x \<and> unat x < unat n + unat Period \<and> should_end_session S (ShouldEndSession S) x"
    then have "unat x = k" by (intro only) (simp add: ends period word_le_nat_alt)
    then show "x = m" using m by (simp add: word_unat_eq_iff)
  qed
  moreover have "KickThreshold runtime_collator_selection_config = Period"
    by (simp add: runtime_collator_selection_config_def)
  ultimately show ?thesis
    by (simp add: NextSessionRotation_def ShouldEndSession_def period SLOT_DURATION_def MILLI_SECS_PER_BLOCK_def)
qed

theorem session_rotation_witness:
  "\<exists>!m. (3601 :: u32) \<le> m \<and> unat m < unat (3601 :: u32) + unat Period \<and> should_end_session pair_sessions (ShouldEndSession pair_sessions) m"
  using session_rotation [OF pair_session.session_laws_axioms, of 3601] by (simp add: Period_def time_units)

end
