(* ===== verification/Xcm_Queues.thy ===== *)
theory Xcm_Queues
  imports Xcm_Assets
begin

text \<open>
  How messages of other chains reach the executor (runtime/src/configs/mod.rs): messages of the relay chain and of
  sibling parachains wait in the message queue under the origin the runtime gives them, and are executed as
  the location of that origin. With the barrier, the executor's configuration and the conversion of origins this bounds
  what another chain can do: nothing of its message beyond instructions that alter the origin is executed for free, and
  it acts as nobody but itself.
\<close>

subsection \<open>Definitions\<close>

datatype aggregate_origin = AggHere | AggParent | AggSibling u32

definition RelayOrigin :: aggregate_origin where
  "RelayOrigin = AggParent"

text \<open>
  \<open>queue_origin\<close> is the origin under which a queue stores a message of a sender, which for messages of the relay
  chain has no meaning; \<open>origin_location\<close> is the location as which the message processor executes it.
\<close>

record ('q, 'n, 'acc, 'j) queue_api =
  EnqueueWithOrigin :: "runtime_pallet \<Rightarrow> aggregate_origin \<Rightarrow> 'q"
  TransformOrigin :: "runtime_pallet \<Rightarrow> (u32 \<Rightarrow> aggregate_origin) \<Rightarrow> 'q"
  ParaIdToSibling :: "u32 \<Rightarrow> aggregate_origin"
  queue_origin :: "'q \<Rightarrow> u32 \<Rightarrow> aggregate_origin"
  origin_location :: "aggregate_origin \<Rightarrow> ('n, 'acc, 'j) location"

definition runtime_DmpQueue :: "('q, 'n, 'acc, 'j) queue_api \<Rightarrow> 'q" where
  "runtime_DmpQueue Q = EnqueueWithOrigin Q MessageQueue RelayOrigin"

definition runtime_XcmpQueue :: "('q, 'n, 'acc, 'j) queue_api \<Rightarrow> 'q" where
  "runtime_XcmpQueue Q = TransformOrigin Q MessageQueue (ParaIdToSibling Q)"

locale queue_laws =
  fixes Q :: "('q, 'n, 'acc, 'j) queue_api"
  assumes with_origin: "queue_origin Q (EnqueueWithOrigin Q p a) sender = a"
    and transformed: "queue_origin Q (TransformOrigin Q p f) sender = f sender"
    and to_sibling: "ParaIdToSibling Q sender = AggSibling sender"
    and parent_location: "origin_location Q AggParent = RelayLocation"
    and sibling_location: "origin_location Q (AggSibling sender) = \<lparr>parents = 1, interior = [Parachain sender]\<rparr>"
begin

lemma dmp_location: "origin_location Q (queue_origin Q (runtime_DmpQueue Q) sender) = RelayLocation"
  by (simp add: runtime_DmpQueue_def with_origin RelayOrigin_def parent_location)

lemma xcmp_location:
  "origin_location Q (queue_origin Q (runtime_XcmpQueue Q) sender) = \<lparr>parents = 1, interior = [Parachain sender]\<rparr>"
  by (simp add: runtime_XcmpQueue_def transformed to_sibling sibling_location)

end

text \<open>
  The executor checks what the barrier does not: it accepts a \<open>UniversalOrigin\<close> only if its configuration lists the pair
  of the current origin and the junction among the universal aliases; otherwise the instruction fails, and with it the
  rest of the message. \<open>runs_beyond A l m\<close> says that an executor with the aliases \<open>A\<close> gets, with the origin \<open>l\<close>, beyond the
  leading instructions of \<open>m\<close> that alter the origin.
\<close>

primrec filter_accepts :: "xcm_filter \<Rightarrow> 'x \<Rightarrow> bool" where
  "filter_accepts Everything x = True"
| "filter_accepts Nothing x = False"

locale executor_laws = barrier_laws X strip leading computed has_credit pays unpaid reserves_to_relay denies
  for X :: "('b, 'd, 'n, 'acc, 'j, 'm) barrier_api" and strip leading computed has_credit pays unpaid reserves_to_relay denies +
  fixes runs_beyond :: "xcm_filter \<Rightarrow> ('n, 'acc, 'j) location \<Rightarrow> 'm \<Rightarrow> bool"
  assumes universal_alias: "runs_beyond A l m \<Longrightarrow> UniversalOrigin j \<in> set (leading m) \<Longrightarrow> \<exists>l' :: ('n, 'acc, 'j) location. filter_accepts A (l', j)"
begin

lemma universal_stops:
  assumes "claims_universal n (leading m)"
  shows "\<not> runs_beyond (xc_UniversalAliases XcmConfig) l m"
proof
  assume "runs_beyond (xc_UniversalAliases XcmConfig) l m"
  moreover obtain j where "UniversalOrigin j \<in> set (leading m)"
    using claims_universal_in [OF assms] by blast
  ultimately show False using universal_alias by (fastforce simp: XcmConfig_def)
qed

lemma sibling_pays:
  assumes "should_execute X (Barrier X para) \<lparr>parents = 1, interior = [Parachain sender]\<rparr> m"
    and "\<not> claims_universal 8 (leading m)"
  shows "has_credit (strip m) \<or>
    (\<exists>l' m'. computed (UniversalLocation para) 8 \<lparr>parents = 1, interior = [Parachain sender]\<rparr> (strip m) = Some (l', m') \<and> pays m')"
  using assms free_only_from_relay [of "UniversalLocation para" "\<lparr>parents = 1, interior = [Parachain sender]\<rparr>" m]
  by (auto simp: barrier_cases RelayLocation_def split: option.splits)

end

subsection \<open>Instances\<close>

definition pair_queues :: "(u32 \<Rightarrow> aggregate_origin, 'n, 'acc, 'j) queue_api" where
  "pair_queues =
     \<lparr>EnqueueWithOrigin = (\<lambda>p a _. a), TransformOrigin = (\<lambda>p f. f), ParaIdToSibling = AggSibling, queue_origin = (\<lambda>q. q),
      origin_location = (\<lambda>a. case a of AggHere \<Rightarrow> Here | AggParent \<Rightarrow> \<lparr>parents = 1, interior = []\<rparr>
        | AggSibling p \<Rightarrow> \<lparr>parents = 1, interior = [Parachain p]\<rparr>)\<rparr>"

interpretation pair_queue: queue_laws pair_queues
  by unfold_locales (simp_all add: pair_queues_def RelayLocation_def)

fun runs_beyond_steps :: "xcm_filter \<Rightarrow> ('n, 'acc, 'j) location \<Rightarrow> ('n, 'acc, 'j) xcm_instr list \<Rightarrow> bool" where
  "runs_beyond_steps A l (AlterOrigin (UniversalOrigin j) # m) =
     (filter_accepts A (l, j) \<and> runs_beyond_steps A \<lparr>parents = 1, interior = [j]\<rparr> m)"
| "runs_beyond_steps A l (AlterOrigin (DescendOrigin js) # m) =
     (length (interior l) + length js \<le> 8 \<and> runs_beyond_steps A (l\<lparr>interior := interior l @ js\<rparr>) m)"
| "runs_beyond_steps A l m = True"

lemma runs_beyond_steps_alias:
  fixes l :: "('n, 'acc, 'j) location"
  shows "runs_beyond_steps A l m \<Longrightarrow> UniversalOrigin j \<in> set (leading_steps m) \<Longrightarrow> \<exists>l' :: ('n, 'acc, 'j) location. filter_accepts A (l', j)"
  by (induction A l m rule: runs_beyond_steps.induct) auto

interpretation preds_executor: executor_laws pred_barriers strip_topic leading_steps "\<lambda>u n. compute_origin u (unat n)" "\<lambda>m. m = []"
  "starts_with is_buy" "starts_with is_unpaid" "\<lambda>l. list_ex is_reserve" "\<lambda>d. d" runs_beyond_steps
  by unfold_locales (rule runs_beyond_steps_alias)

subsection \<open>Properties\<close>

text \<open>
  C8: What another parachain can do here with a message. The message is executed as the location of that parachain. If it
  passes the barrier, it has credit or pays, or a \<open>UniversalOrigin\<close> among its first eight instructions claims an origin of free
  execution, and then the executor, which has no universal aliases, stops at that instruction: nothing of the message
  beyond the instructions that alter the origin is executed for free. Its calls, from the location of the sibling or one it
  has descended to, are dispatched as the origin of the sibling, as the account derived from its identifier, or as
  that XCM location, and as nobody else. Messages of the relay chain are executed as the relay chain's location.
\<close>

theorem sibling_messages_confined:
  assumes "queue_laws Q"
    and "executor_laws X strip leading computed has_credit pays unpaid reserves_to_relay denies runs_beyond"
    and "origin_laws L parent_account sibling_account K"
    and "l = origin_location Q (queue_origin Q (runtime_XcmpQueue Q) sender)"
    and "l' = l\<lparr>interior := interior l @ js\<rparr>"
  shows "origin_location Q (queue_origin Q (runtime_DmpQueue Q) sender) = RelayLocation \<and>
    (should_execute X (Barrier X para) l m \<longrightarrow>
      has_credit (strip m) \<or>
      (\<exists>l2 m2. computed (UniversalLocation para) 8 l (strip m) = Some (l2, m2) \<and> pays m2) \<or>
      claims_universal 8 (leading m) \<and> \<not> runs_beyond (xc_UniversalAliases XcmConfig) l m) \<and>
    (convert_origin K (XcmOriginToTransactDispatchOrigin L K) l' k = Some ori \<longrightarrow>
      ori = XcmLocation l' \<or> js = [] \<and> ori \<in> {CumulusSibling sender, RawSigned (sibling_account sender)})"
proof -
  have l: "l = \<lparr>parents = 1, interior = [Parachain sender]\<rparr>"
    by (simp add: assms(4) queue_laws.xcmp_location [OF assms(1)])
  have "convert_origin K (XcmOriginToTransactDispatchOrigin L K) l' k = Some ori \<Longrightarrow>
      ori = XcmLocation l' \<or> js = [] \<and> ori \<in> {CumulusSibling sender, RawSigned (sibling_account sender)}"
    by (cases k; cases js) (auto simp: l assms(5) origin_laws.dispatch_origin_cases [OF assms(3)]
        location_laws.to_account_cases [OF origin_laws.axioms(1) [OF assms(3)]] RelayLocation_def)
  then show ?thesis
    using executor_laws.sibling_pays [OF assms(2)] executor_laws.universal_stops [OF assms(2)]
      queue_laws.dmp_location [OF assms(1)] l by blast
qed

theorem sibling_messages_confined_witness:
  "let Q = pair_queues :: (u32 \<Rightarrow> aggregate_origin, nat, nat, nat) queue_api;
       l = origin_location Q (queue_origin Q (runtime_XcmpQueue Q) 2000) in
     \<not> should_execute pred_barriers (Barrier pred_barriers 1000) l [UnpaidExecution, OtherInstr] \<and>
     \<not> runs_beyond_steps (xc_UniversalAliases XcmConfig) l [AlterOrigin (UniversalOrigin (Plurality Executive Voice)), UnpaidExecution]"
proof -
  let ?Q = "pair_queues :: (u32 \<Rightarrow> aggregate_origin, nat, nat, nat) queue_api"
  let ?l = "origin_location ?Q (queue_origin ?Q (runtime_XcmpQueue ?Q) 2000)"
  let ?u = "[AlterOrigin (UniversalOrigin (Plurality Executive Voice)), UnpaidExecution] :: (nat, nat, nat) xcm_instr list"
  note confined = conjunct1 [OF conjunct2 [OF sibling_messages_confined [OF pair_queue.queue_laws_axioms preds_executor.executor_laws_axioms
      fun_ori.origin_laws_axioms [of "0 :: nat" "\<lambda>p. Suc (unat p)"] refl refl, where sender = 2000 and para = 1000]], rule_format]
  have l: "?l = \<lparr>parents = 1, interior = [Parachain 2000]\<rparr>" by (rule pair_queue.xcmp_location)
  have "should_execute pred_barriers (Barrier pred_barriers 1000) ?l ?u"
    unfolding preds.barrier_cases l
    by (simp add: strip_topic_def UniversalLocation_def ParentOrParentsExecutivePlurality_contains_def) (simp add: pred_barriers_def)
  with confined [of ?u] have "\<not> runs_beyond_steps (xc_UniversalAliases XcmConfig) ?l ?u"
    by (simp add: strip_topic_def)
  moreover have "\<not> should_execute pred_barriers (Barrier pred_barriers 1000) ?l [UnpaidExecution, OtherInstr]"
    using confined [of "[UnpaidExecution, OtherInstr]"] by (auto simp: strip_topic_def)
  ultimately show ?thesis by (simp add: Let_def)
qed

end
