(* ===== verification/Template_Mock.thy ===== *)
theory Template_Mock
  imports Template_Pallet
begin

text \<open>
  pallets/template/src/mock.rs: the runtime the pallet's tests run in. Its block numbers are those of the
  SDK's mock block (\<open>u64\<close>), its database weight is the SDK's constant for RocksDB, and the pallet's
  \<open>WeightInfo\<close> is the implementation for \<open>()\<close>. The lemmas run the tests of tests.rs in it.
\<close>

subsection \<open>Definitions\<close>

datatype test_pallet = TestSystem | TestTemplate

primrec test_pallet_index :: "test_pallet \<Rightarrow> u8" where
  "test_pallet_index TestSystem = 0"
| "test_pallet_index TestTemplate = 1"

record test_system_config =
  test_BlockHashCount :: u64
  test_DbWeight :: db_weight

definition Test_system_config :: "db_weight \<Rightarrow> test_system_config" where
  "Test_system_config RocksDb = \<lparr>test_BlockHashCount = 250, test_DbWeight = RocksDb\<rparr>"

definition Test_config ::
  "db_weight \<Rightarrow> ('o \<Rightarrow> 'acc option) \<Rightarrow> ('s, u64 composite_struct) storage_option \<Rightarrow>
     ((u64, 'acc) template_event \<Rightarrow> 's \<Rightarrow> 's) \<Rightarrow> ('s, 'o, 'acc, u64) template_config" where
  "Test_config RocksDb signed_check something deposit =
     \<lparr>tpl_ensure_signed = signed_check,
      Something = something,
      tpl_deposit_event = deposit,
      bn_from_u32 = (\<lambda>n. ucast n),
      bn_checked_add = checked_add,
      bn_one = 1,
      tpl_DbWeight = test_DbWeight (Test_system_config RocksDb),
      tpl_WeightInfo = UnitWeight\<rparr>"

text \<open>The storage of the default genesis; building it is unwrapped.\<close>

definition new_test_ext :: "string + 's \<Rightarrow> (string, 's) outcome" where
  "new_test_ext build_storage = (case build_storage of Inl e \<Rightarrow> Panicked | Inr s \<Rightarrow> Ok s)"

definition execute_with :: "(string, 's) outcome \<Rightarrow> ('s \<Rightarrow> bool) \<Rightarrow> bool" where
  "execute_with ext test = (case ext of Ok s \<Rightarrow> test s | _ \<Rightarrow> False)"

subsection \<open>Lemmas\<close>

definition mem_test ::
  "db_weight \<Rightarrow> ((64, 'acc, 'k, 'c, 'e) template_mem, 'acc raw_origin, 'acc, u64) template_config" where
  "mem_test RocksDb = Test_config RocksDb mem_ensure_signed mem_option_value (\<lambda>e. mem_deposit (Inr e))"

lemma mem_test_eq: "mem_test db = mem_template_config UnitWeight db"
  by (simp add: mem_test_def Test_config_def Test_system_config_def mem_template_config_def)

interpretation test_rt: template_frame "mem_test db" mem_template_events unat "2 ^ 64 - 1" for db
  unfolding mem_test_eq by (rule tpl64.template_frame_axioms)

text \<open>The tests pass in the mock runtime, given a default genesis that stores nothing.\<close>

lemma mock_tests_pass:
  assumes "template_frame T read_events bn_val bn_max" and "\<And>a. tpl_ensure_signed T (mk_signed a) = Some a"
    and "stored T s = None"
  shows "execute_with (new_test_ext (Inr s)) (it_works_for_default_value T mk_signed account_1)"
    and "execute_with (new_test_ext (Inr s)) (correct_error_for_none_value T mk_signed account_1)"
  using template_frame.tests_hold [OF assms(1,2)] assms(3) by (simp_all add: execute_with_def new_test_ext_def)

lemma mock_tests_pass_example:
  "execute_with (new_test_ext (Inr mem_empty)) (it_works_for_default_value (mem_test db) Signed 1)"
  by (rule mock_tests_pass(1) [OF test_rt.template_frame_axioms])
     (simp_all add: mem_test_eq mem_template_config_def stored_def mem_defs)

text \<open>In the mock runtime both implementations of \<open>WeightInfo\<close> give the same weights.\<close>

lemma mock_weight_infos_agree:
  "unit_weight_do_something W RocksDb = substrate_weight_do_something W (Test_config RocksDb c st d)"
  "unit_weight_cause_error W RocksDb = substrate_weight_cause_error W (Test_config RocksDb c st d)"
  by (simp_all add: unit_weight_do_something_def substrate_weight_do_something_def unit_weight_cause_error_def
      substrate_weight_cause_error_def Test_config_def Test_system_config_def)

end
