(* ===== verification/Spec2Isabelle.thy ===== *)
theory Spec2Isabelle
  imports Node_Cli Node_Wiring Block_Execution Event_Codec Runtime_Fees Runtime_Control Xcm_Queues Template_Mock
begin

text \<open>
  A verification library for the swarm robotics parachain: a Substrate runtime with a pallet that queues
  commands for robots, and the node that runs it.

  \<^bold>\<open>The program.\<close> The runtime (src/runtime) is the state machine of the chain. It is put together from
  pallets: those of the Polkadot SDK, the template pallet (src/pallets/template), and the swarm pallet
  (src/pallets/swarm-robot-pallet), in which signed accounts register robots, enqueue commands into one
  bounded queue and pull the next command for a registered robot. The runtime fixes the parameters of all
  pallets (src/runtime/src/configs), the weights and fees, and the genesis of its test networks. The node
  (src/node) reads the command line, chooses a chain specification that embeds the runtime, and either runs
  a subcommand or starts the parachain together with a relay chain node inside.

  \<^bold>\<open>The SDK\<close> is not part of the repository. What the code calls of it is an argument of the definitions, a
  record of functions; what the code relies on is a locale over that record, stating documented behaviour;
  and every locale is interpreted on a concrete instance, which the witnesses use. Theorems about code that
  depends on the SDK have the locale as their hypothesis and so hold for every lawful SDK.

  \<^bold>\<open>Theories.\<close>

  \<^item> \<open>Rust_Prelude\<close>: unsigned integers as words, checked and saturating arithmetic, results that may be a
    panic (\<open>outcome\<close>), runs of calls with their traces of the calls of one component, and the
    collections of rewrite rules.
  \<^item> \<open>Frame_Interface\<close>, \<open>Frame_Reference\<close>: storage items, bounded vectors, origins and the storage layer of
    the SDK; the contract \<open>dispatchable\<close> of a pallet's calls (unsigned origins are rejected, errors write
    nothing, nothing panics) and what follows from it for runs; a storage of memory cells as the instance.
  \<^item> \<open>Weight_Interface\<close>: \<open>Weight\<close>, \<open>RuntimeDbWeight\<close> and \<open>Perbill\<close>. \<open>Scale_Codec\<close>: binary codecs and their laws, with
    the encoding of \<open>u32\<close> as the instance.
  \<^item> \<open>Swarm_Pallet\<close> (swarm-robot-pallet/src/lib.rs): \<open>register_robot\<close>, \<open>enqueue_command\<close>, \<open>pull_next\<close> and their
    dispatch, on every branch. Runs of the pallet refine an abstract machine of a set of robots, a list of
    waiting commands and a log; from this follow delivery exactly once and in order, the bound of the queue,
    the registration of pullers, and that a registered robot can empty the queue.
  \<^item> \<open>Template_Pallet\<close> (template/src: lib.rs, weights.rs, benchmarking.rs, tests.rs): both calls, their declared
    and benchmarked weights, and the assertions of the benchmarks and tests as theorems for every storage.
    \<open>Template_Mock\<close> (mock.rs) runs the tests in the mock runtime.
  \<^item> \<open>Runtime_Weights\<close> (runtime/src/weights), \<open>Runtime_Core\<close> (runtime/src/lib.rs), \<open>Runtime_Config\<close>
    (runtime/src/configs/mod.rs): the weight constants and their sanity tests, units, fee polynomial, version,
    pallet table, block limits and pallet configurations, with the relations between the constants that the
    code means to hold, at the width of the source and without wrap-around.
  \<^item> \<open>Call_Codec\<close>, \<open>Runtime_Dispatch\<close> (module \<open>runtime\<close> of runtime/src/lib.rs and the derives of the pallets): the binary
    format of commands and calls, with round trips that rest on the pallet and call indices; the dispatch of
    a call to its pallet over one storage. In any run each of the two pallets is the abstract machine of its
    own calls, those of the run and those that calls of the SDK dispatch inside of them, so what is proved of the
    swarm pallet alone holds in the runtime. \<open>Event_Codec\<close>: the binary format of events, which decode in one way only, and the codes of errors, which identify the error.
  \<^item> \<open>Storage_Codec\<close>, \<open>Raw_Storage\<close> (the storage items of both pallets): the bounded queue as a type and its
    encoding; the keys of the items, which never coincide; and the pallets on a store of bytes. The laws the
    pallets need follow from those of codecs and hashes, the runtime on bytes refines the abstract machine, and
    the stored bytes always decode.
  \<^item> \<open>Block_Execution\<close>: the calls of runtime/src/apis.rs by which the node builds and imports blocks (\<open>execute_block\<close>,
    \<open>initialize_block\<close>, \<open>apply_extrinsic\<close>, \<open>finalize_block\<close>), as a step relation over all of their sequences, in
    which a call that panics changes nothing. Delivery exactly once and in order holds across blocks,
    although every block clears the events. A reference executive decodes extrinsics and runs on bytes.
  \<^item> \<open>Xcm_Config\<close>, \<open>Xcm_Origins\<close> (runtime/src/configs/xcm_config.rs): the locations with free execution and the
    barrier; the accounts and the origins of locations, routing, and the origin that updates the
    collators. No message is dispatched as root. The barrier bounds the origin it computes, which a
    \<open>UniversalOrigin\<close> can claim; the executor, which is given no universal aliases, refuses that instruction.
    \<open>Xcm_Assets\<close>: the assets messages move, their reserves, the location local accounts send as, and the weight of
    messages. \<open>Xcm_Queues\<close> (with configs/mod.rs): the queues of messages from the relay chain and from siblings, and
    what a sibling can do.
  \<^item> \<open>Runtime_Control\<close> (runtime/src/configs): the origins that control queues, XCM pallet and collators, what messages of
    other chains can do with the swarm pallet, and the sessions.
  \<^item> \<open>Runtime_Fees\<close> (runtime/src/lib.rs and configs): the fee of extrinsics with swarm calls, for the weight of the call
    and of the transaction extension, and the price of messages. \<open>Perbill::from_rational\<close> approximates the fraction of the
    fee polynomial by 7999999 parts in a billion.
  \<^item> \<open>Runtime_Apis\<close> (runtime/src/apis.rs, benchmarks.rs): the functions the node calls, as a table of the functions
    of the SDK they pass on to or written out, and the list of benchmarks.
  \<^item> \<open>Genesis_Presets\<close> (runtime/src/genesis_config_presets.rs): the genesis configurations served by name.
  \<^item> \<open>Effect_Plan\<close>: a function that is a sequence of fallible SDK calls, as the list of the calls it makes for
    a configuration; its execution against an environment that decides which calls fail.
  \<^item> \<open>Node_Chain_Spec\<close>, \<open>Node_Service\<close>, \<open>Node_Cli\<close> (node/src: chain_spec.rs, service.rs and rpc.rs, cli.rs and
    command.rs): the built-in specifications and \<open>load_spec\<close>, \<open>new_partial\<close>, \<open>start_consensus\<close> and
    \<open>start_parachain_node\<close>, \<open>create_full\<close>, the relay chain's command line and \<open>run\<close>. The theorems hold
    whichever calls fail: what a start requires, its order, who produces blocks, what a subcommand may do.
  \<^item> \<open>Node_Wiring\<close> (node/src/service.rs): the objects that the calls of a start make, at addresses, and which of them
    each call is given, with the registry of metrics and what closures capture. Erasing them gives the calls of
    \<open>Node_Service\<close>; all parts of a node share one client, one backend, one pool, and so on.
  \<^item> This theory: properties of node and runtime together.

  \<^bold>\<open>State and errors.\<close> The storage of the chain is a type variable accessed by the storage records; a call
  returns its result with the state after it. Errors are values: \<open>dispatch_error\<close> with the errors of a
  pallet, \<open>node_error\<close> in the node. A panic is the outcome \<open>Panicked\<close>; in the node, the process ended by
  clap on rejected arguments is modelled by the same outcome. All functions are total: no loop of the program
  needs a bound or fuel, and none
  needs a proof that it ends.

  \<^bold>\<open>What is assumed of the SDK's calls.\<close> Theorems about runs of the whole runtime assume that calls of the SDK's pallets
  change the items of a pallet of the repository only by dispatching its calls, as \<open>Sudo::sudo_as\<close> does, or, where
  the theorem says so, not at all. The calls \<open>System::set_storage\<close> and \<open>kill_storage\<close>, with which root can write any
  key, are outside of these theorems.

  \<^bold>\<open>Not modelled.\<close> The SDK and the code its macros generate, except for the format of calls, events and stored values,
  the storage keys and the dispatch, which follow from the source's names, indices and derives; the type aliases
  of runtime/src/lib.rs that only name types of the SDK (signatures, hashes, headers, blocks, the executive and their opaque
  forms), and the items of configurations that repeat types generated for the runtime; the values inside the node's
  objects, of which the code only passes references; the web client and the deployment files. Nothing else of the Rust sources is left: the
  remaining lines are imports, licences, documentation and declarations of modules.
\<close>

subsection \<open>The node and the runtime together\<close>

lemma run_node_plan:
  assumes "subcommand cli = None" and "config = runner_config N cli"
    and "extensions_try_get S (cfg_chain_spec config) = Some ext"
    and "RelayChainCli_new S (parse_run_cmd N) config (executable_name N # relay_chain_args cli) = Some rc"
  shows "\<exists>hwbench. run S E N cli = call (CreateRunner None) # snd (gather_hwbench N cli config) @
       Step (CreateRelayConfiguration rc) (relay_argument_error N) # Do (LogIsCollating (is_authority config)) #
       embed InService Service (start_parachain_node E config (relay_configuration N rc)
         (collator_options_of N (run_cmd cli)) (para_id ext) hwbench)"
  by (auto simp: run_def run_node_def with_relay_config_def split_beta Let_def assms(1) assms(3,4) [unfolded assms(2)]
      assms(2))

lemma gather_hwbench_passes: "list_all (passes fails) (snd (gather_hwbench N cli config))"
  by (simp add: gather_hwbench_def split: option.split)

text \<open>
  C38: The collator works at the pace the runtime expects: whenever the node starts Aura, its relay chain
  slot is the runtime's relay chain slot and the slot duration the runtime reports to Aura, and the time it may spend on a block
  is the computation time the runtime allows a block, and shorter than the slot.
\<close>

theorem collator_timing_matches_runtime:
  fixes fails :: "('f, 'w, 'co, 'hw, 'key) service_step \<Rightarrow> node_error option"
  assumes laws: "perbill_laws W P"
    and aura: "AuraRun p \<in> set (snd (exec_plan fails (start_parachain_node E config relay co para hwbench) []))"
  shows "unat (aura_relay_chain_slot_duration p) = unat RELAY_CHAIN_SLOT_DURATION_MILLIS \<and>
    AuraApi_slot_duration from_millis = from_millis (aura_relay_chain_slot_duration p) \<and>
    unat (authoring_duration p) * unat (WEIGHT_REF_TIME_PER_MILLIS W) = unat (ref_time W (MAXIMUM_BLOCK_WEIGHT W max_pov)) \<and>
    authoring_duration p < aura_relay_chain_slot_duration p"
proof -
  note p = start_parachain_node_aura [OF exec_plan_made [OF aura]]
  show ?thesis
    by (simp add: p relay_chain_slot_duration_def AuraApi_slot_duration_def impl_slot_duration_def RELAY_CHAIN_SLOT_DURATION_MILLIS_def SLOT_DURATION_def
        MILLI_SECS_PER_BLOCK_def perbill_laws.max_block_time [OF laws]
        weight_laws.per_millis [OF perbill_laws.axioms(1) [OF laws]])
qed

theorem collator_timing_matches_runtime_witness:
  "unat (2000 :: u64) * unat (WEIGHT_REF_TIME_PER_MILLIS pair_weights) =
     unat (ref_time pair_weights (MAXIMUM_BLOCK_WEIGHT pair_weights 5242880))"
proof -
  let ?plan = "start_parachain_node (demo_service (Some 7)) (demo_config True) (demo_config False) () 2000 None"
  let ?p = "\<lparr>aura_collator_key = 7, aura_para_id = 2000, aura_relay_chain_slot_duration = relay_chain_slot_duration,
    authoring_duration = 2000, reinitialize = False, max_pov_percentage = None\<rparr>"
  have "AuraRun ?p \<in> set (snd (exec_plan (\<lambda>_. None) ?plan []))"
    by (simp add: exec_start_parachain_node exec_start_authority start_consensus_def demo_service_def demo_config_def)
  from collator_timing_matches_runtime [OF pair.perbill_laws_axioms this, of "\<lambda>x. x" 5242880] show ?thesis by simp
qed

text \<open>
  C27: A node started without a subcommand on a chain specification built into it joins the network as
  the parachain of the runtime's genesis, with the relay chain of the specification as the default chain of
  the node inside, if no call fails, clap accepts the relay chain arguments and, where the node is an authority,
  the relay chain node gives it its collator key. A full node needs no key.
\<close>

theorem builtin_node_starts:
  fixes S :: "('k, 'acc, 'aura, 'f) spec_api" and E :: "('f, 'w, 'co, 'hw, 'key) service_api"
    and N :: "('a, 'r, 'b, 'f, 'w, 'co, 'hw) run_api"
  assumes spec: "load_spec S spec_id = Ok (BuiltIn c)"
    and cli: "subcommand cli = None" "cfg_chain_spec (runner_config N cli) = BuiltIn c"
    and rc: "RelayChainCli_new S (parse_run_cmd N) (runner_config N cli) (executable_name N # relay_chain_args cli) = Some rc"
    and key: "is_authority (prepare_node_config E (runner_config N cli)) \<Longrightarrow>
      built_collator_key E (relay_configuration N rc) (prepare_node_config E (runner_config N cli))
        (collator_options_of N (run_cmd cli)) \<noteq> None"
  shows "fst (exec_plan (\<lambda>_. None) (run S E N cli) []) = Ok () \<and>
    InService (BuildNetwork (prepare_node_config E (runner_config N cli))
        (gc_parachain_id (local_testnet_genesis (genesis S))) Resistant)
      \<in> set (snd (exec_plan (\<lambda>_. None) (run S E N cli) [])) \<and>
    CreateRelayConfiguration rc \<in> set (snd (exec_plan (\<lambda>_. None) (run S E N cli) [])) \<and>
    relay_chain_id rc = Some RELAY_CHAIN"
proof -
  let ?config = "runner_config N cli"
  have ext: "spec_extensions c = \<lparr>relay_chain = RELAY_CHAIN, para_id = PARACHAIN_ID\<rparr>"
    using load_spec_builtin [OF spec] by (auto simp: chain_spec_defs split: option.splits)
  have get: "extensions_try_get S (cfg_chain_spec ?config) = Some (spec_extensions c)" by (simp add: cli)
  have id: "gc_parachain_id (local_testnet_genesis (genesis S)) = PARACHAIN_ID"
    by (simp add: local_testnet_genesis_def testnet_genesis_def)
  obtain hwbench where plan: "run S E N cli = call (CreateRunner None) # snd (gather_hwbench N cli ?config) @
       Step (CreateRelayConfiguration rc) (relay_argument_error N) # Do (LogIsCollating (is_authority ?config)) #
       embed InService Service (start_parachain_node E ?config (relay_configuration N rc)
         (collator_options_of N (run_cmd cli)) (para_id (spec_extensions c)) hwbench)"
    using run_node_plan [OF cli(1) refl get rc] by blast
  have "list_all (passes (\<lambda>_. None)) (run S E N cli)"
    using start_parachain_node_all_pass [of E ?config "relay_configuration N rc" "collator_options_of N (run_cmd cli)"] key
    by (simp add: plan gather_hwbench_passes)
  then have "exec_plan (\<lambda>_. None) (run S E N cli) [] = (Ok (), steps_of (run S E N cli))"
    by (simp add: exec_plan_Ok_log)
  then show ?thesis
    by (simp add: plan ext id start_parachain_node_split start_services_def
        RelayChainCli_new_Some [OF rc] cli)
qed

theorem builtin_node_starts_witness:
  "\<exists>c. load_spec demo_spec_api ''dev'' = Ok (BuiltIn c) \<and>
     fst (exec_plan (\<lambda>_. None) (run demo_spec_api (demo_service (Some 7))
       (demo_run\<lparr>runner_config := \<lambda>_. (demo_config True)\<lparr>cfg_chain_spec := BuiltIn c\<rparr>\<rparr>) (demo_cli None)) []) = Ok () \<and>
     fst (exec_plan (\<lambda>_. None) (run demo_spec_api (demo_service None)
       (demo_run\<lparr>runner_config := \<lambda>_. (demo_config False)\<lparr>cfg_chain_spec := BuiltIn c\<rparr>\<rparr>) (demo_cli None)) []) = Ok ()"
proof -
  obtain c where c: "load_spec demo_spec_api ''dev'' = Ok (BuiltIn c)"
    by (simp add: demo_spec_api_def load_spec_def chain_spec_defs)
  let ?N = "\<lambda>authority. demo_run\<lparr>runner_config := \<lambda>_. (demo_config authority)\<lparr>cfg_chain_spec := BuiltIn c\<rparr>\<rparr>"
  have "fst (exec_plan (\<lambda>_. None) (run demo_spec_api (demo_service key) (?N authority) (demo_cli None)) []) = Ok ()"
    if "authority \<Longrightarrow> key \<noteq> None" for authority key
  proof -
    obtain rc where rc: "RelayChainCli_new demo_spec_api (parse_run_cmd (?N authority)) (runner_config (?N authority) (demo_cli None))
        (executable_name (?N authority) # relay_chain_args (demo_cli None)) = Some rc"
      by (simp add: RelayChainCli_new_def Let_def demo_run_def)
    have cli: "subcommand (demo_cli None) = None" "cfg_chain_spec (runner_config (?N authority) (demo_cli None)) = BuiltIn c"
      by (simp_all add: demo_cli_def)
    have "built_collator_key (demo_service key) (relay_configuration (?N authority) rc)
        (prepare_node_config (demo_service key) (runner_config (?N authority) (demo_cli None)))
        (collator_options_of (?N authority) (run_cmd (demo_cli None))) \<noteq> None"
      if "is_authority (prepare_node_config (demo_service key) (runner_config (?N authority) (demo_cli None)))"
      using that \<open>authority \<Longrightarrow> key \<noteq> None\<close> by (simp add: demo_service_def demo_config_def)
    from builtin_node_starts [OF c cli rc this] show ?thesis by blast
  qed
  from this [of True "Some 7"] this [of False None] c show ?thesis by (intro exI [of _ c]) simp
qed

end
